(* ===== verification/Go_Prelude.thy ===== *)
theory Go_Prelude
  imports
    Main
    "HOL-Library.Word"
    "HOL-Library.Finite_Map"
    "HOL-Library.Sublist"
    "HOL-Library.Multiset"
begin

text \<open>
  The shared vocabulary of the development: Go's byte slices, strings, fixed-width
  integers, durations and maps, the part of Go's \<^verbatim>\<open>strings\<close> package that the
  sources call, and the generic lemmas on lists, words and maps that the components use.

  \<^item> \<^verbatim>\<open>[]byte\<close> is \<open>bytes\<close> (a list of 8-bit words); \<^verbatim>\<open>nil\<close> and the empty slice are
    the same list unless a component says otherwise.
  \<^item> a Go \<^verbatim>\<open>string\<close> is a HOL \<open>string\<close>: a list of 8-bit characters, so \<open>length\<close> is
    Go's \<^verbatim>\<open>len\<close>.
  \<^item> \<^verbatim>\<open>[8]byte\<close> message identifiers are the 64-bit word with the same big-endian bytes.
  \<^item> a Go map is a finite map; the order in which \<^verbatim>\<open>range\<close> visits it is not fixed by the
    language, so every loop over a map takes the visited keys as an argument that
    \<open>enumerates\<close> the map.
  \<^item> \<^verbatim>\<open>time.Time\<close> is an integer count of nanoseconds, \<^verbatim>\<open>time.Duration\<close> a difference of
    two of them, saturated to 64 bits as \<^verbatim>\<open>Time.Sub\<close> does.
\<close>

unbundle bit_operations_syntax

section \<open>Types\<close>

type_synonym byte = "8 word"
type_synonym bytes = "byte list"
type_synonym uint16 = "16 word"
type_synonym uint64 = "64 word"
type_synonym msg_id = "64 word"
type_synonym time = int
type_synonym duration = int

named_theorems go_simps \<open>unfolding rules for the model of Go's standard library\<close>

section \<open>Byte and string conversions\<close>

definition byte_of_char :: "char \<Rightarrow> byte" where
  "byte_of_char c = word_of_nat (of_char c)"

definition char_of_byte :: "byte \<Rightarrow> char" where
  "char_of_byte b = char_of (unat b)"

definition bytes_of_string :: "string \<Rightarrow> bytes" where
  "bytes_of_string s = map byte_of_char s"

definition string_of_bytes :: "bytes \<Rightarrow> string" where
  "string_of_bytes bs = map char_of_byte bs"

lemma char_of_byte_of_char [simp]: "char_of_byte (byte_of_char c) = c"
proof -
  have "unat (word_of_nat (of_char c) :: byte) = of_char c"
    by (simp add: unat_of_nat)
  then show ?thesis by (simp add: char_of_byte_def byte_of_char_def)
qed

lemma byte_of_char_of_byte [simp]: "byte_of_char (char_of_byte b) = b"
proof -
  have "unat b < 256" using unsigned_less [of b, where ?'a = nat] by simp
  then have "(of_char (char_of (unat b)) :: nat) = unat b"
    by simp
  then show ?thesis by (simp add: char_of_byte_def byte_of_char_def)
qed

lemma string_of_bytes_of_string [simp]: "string_of_bytes (bytes_of_string s) = s"
  by (simp add: string_of_bytes_def bytes_of_string_def comp_def)

lemma bytes_of_string_of_bytes [simp]: "bytes_of_string (string_of_bytes bs) = bs"
  by (simp add: string_of_bytes_def bytes_of_string_def comp_def)

lemma length_bytes_of_string [simp]: "length (bytes_of_string s) = length s"
  by (simp add: bytes_of_string_def)

lemma length_string_of_bytes [simp]: "length (string_of_bytes bs) = length bs"
  by (simp add: string_of_bytes_def)

lemma bytes_of_string_append [simp]:
  "bytes_of_string (s @ t) = bytes_of_string s @ bytes_of_string t"
  by (simp add: bytes_of_string_def)

lemma bytes_of_string_inject [simp]: "bytes_of_string s = bytes_of_string t \<longleftrightarrow> s = t"
  by (metis string_of_bytes_of_string)

section \<open>The strings package\<close>

text \<open>\<^verbatim>\<open>strings.Split\<close> and \<^verbatim>\<open>strings.SplitN\<close> with a one-character separator.\<close>

fun strings_Split :: "char \<Rightarrow> string \<Rightarrow> string list" where
  "strings_Split c [] = [[]]"
| "strings_Split c (x # xs) =
     (if x = c then [] # strings_Split c xs
      else (case strings_Split c xs of [] \<Rightarrow> [[x]] | p # ps \<Rightarrow> (x # p) # ps))"

fun strings_SplitN :: "nat \<Rightarrow> char \<Rightarrow> string \<Rightarrow> string list" where
  "strings_SplitN 0 c s = []"
| "strings_SplitN (Suc 0) c s = [s]"
| "strings_SplitN (Suc (Suc n)) c s =
     (case dropWhile (\<lambda>x. x \<noteq> c) s of
        [] \<Rightarrow> [s]
      | _ # rest \<Rightarrow> takeWhile (\<lambda>x. x \<noteq> c) s # strings_SplitN (Suc n) c rest)"

fun strings_Join :: "string list \<Rightarrow> string \<Rightarrow> string" where
  "strings_Join [] sep = []"
| "strings_Join [x] sep = x"
| "strings_Join (x # y # ys) sep = x @ sep @ strings_Join (y # ys) sep"

definition strings_HasSuffix :: "string \<Rightarrow> string \<Rightarrow> bool" where
  "strings_HasSuffix s suf \<longleftrightarrow> length suf \<le> length s \<and> drop (length s - length suf) s = suf"

definition strings_TrimSuffix :: "string \<Rightarrow> string \<Rightarrow> string" where
  "strings_TrimSuffix s suf =
     (if strings_HasSuffix s suf then take (length s - length suf) s else s)"

definition strings_HasPrefix :: "string \<Rightarrow> string \<Rightarrow> bool" where
  "strings_HasPrefix s pre \<longleftrightarrow> take (length pre) s = pre"

definition strings_TrimPrefix :: "string \<Rightarrow> string \<Rightarrow> string" where
  "strings_TrimPrefix s pre = (if strings_HasPrefix s pre then drop (length pre) s else s)"

text \<open>
  \<^verbatim>\<open>strings.TrimSpace\<close>: the UTF-8 encodings of the code points that \<^verbatim>\<open>unicode.IsSpace\<close> accepts
  are dropped at both ends.
\<close>

definition space_seqs :: "string list" where
  "space_seqs =
    [[CHR 0x09], [CHR 0x0A], [CHR 0x0B], [CHR 0x0C], [CHR 0x0D], [CHR 0x20],
     [CHR 0xC2, CHR 0x85], [CHR 0xC2, CHR 0xA0], [CHR 0xE1, CHR 0x9A, CHR 0x80],
     [CHR 0xE2, CHR 0x80, CHR 0x80], [CHR 0xE2, CHR 0x80, CHR 0x81],
     [CHR 0xE2, CHR 0x80, CHR 0x82], [CHR 0xE2, CHR 0x80, CHR 0x83],
     [CHR 0xE2, CHR 0x80, CHR 0x84], [CHR 0xE2, CHR 0x80, CHR 0x85],
     [CHR 0xE2, CHR 0x80, CHR 0x86], [CHR 0xE2, CHR 0x80, CHR 0x87],
     [CHR 0xE2, CHR 0x80, CHR 0x88], [CHR 0xE2, CHR 0x80, CHR 0x89],
     [CHR 0xE2, CHR 0x80, CHR 0x8A], [CHR 0xE2, CHR 0x80, CHR 0xA8],
     [CHR 0xE2, CHR 0x80, CHR 0xA9], [CHR 0xE2, CHR 0x80, CHR 0xAF],
     [CHR 0xE2, CHR 0x81, CHR 0x9F], [CHR 0xE3, CHR 0x80, CHR 0x80]]"

fun trim_left :: "string list \<Rightarrow> nat \<Rightarrow> string \<Rightarrow> string" where
  "trim_left seqs 0 s = s"
| "trim_left seqs (Suc n) s =
     (case find (\<lambda>w. strings_HasPrefix s w) seqs of
        None \<Rightarrow> s
      | Some w \<Rightarrow> trim_left seqs n (drop (length w) s))"

definition strings_TrimSpace :: "string \<Rightarrow> string" where
  "strings_TrimSpace s =
     (let l = trim_left space_seqs (length s) s
      in rev (trim_left (map rev space_seqs) (length l) (rev l)))"

fun strings_Contains :: "string \<Rightarrow> string \<Rightarrow> bool" where
  "strings_Contains [] sub = (sub = [])"
| "strings_Contains (x # xs) sub = (strings_HasPrefix (x # xs) sub \<or> strings_Contains xs sub)"

lemma strings_Split_nonempty [simp]: "strings_Split c s \<noteq> []"
  by (induction s) (auto split: list.splits)

lemma strings_Split_no_sep: "c \<notin> set s \<Longrightarrow> strings_Split c s = [s]"
  by (induction s) auto

lemma strings_Split_append:
  "c \<notin> set p \<Longrightarrow> strings_Split c (p @ c # s) = p # strings_Split c s"
  by (induction p) auto

lemma strings_Split_Join:
  "xs \<noteq> [] \<Longrightarrow> (\<And>x. x \<in> set xs \<Longrightarrow> c \<notin> set x) \<Longrightarrow> strings_Split c (strings_Join xs [c]) = xs"
proof (induction xs "[c]" rule: strings_Join.induct)
  case (2 x)
  then show ?case by (simp add: strings_Split_no_sep)
next
  case (3 x y ys)
  then show ?case by (simp add: strings_Split_append)
qed simp

lemma strings_Join_Cons:
  "xs \<noteq> [] \<Longrightarrow> strings_Join (x # xs) sep = x @ sep @ strings_Join xs sep"
  by (cases xs) auto

lemma strings_Join_snoc:
  "xs \<noteq> [] \<Longrightarrow> strings_Join (xs @ [y]) sep = strings_Join xs sep @ sep @ y"
  by (induction xs sep rule: strings_Join.induct) (auto simp: strings_Join_Cons)

lemma strings_Split_snoc:
  "c \<notin> set p \<Longrightarrow> strings_Split c (s @ c # p) = strings_Split c s @ [p]"
  by (induction s) (auto simp: strings_Split_no_sep split: list.splits)

lemma strings_Join_Nil: "strings_Join xs [] = concat xs"
  by (induction xs "[] :: string" rule: strings_Join.induct) auto

lemma length_strings_Join:
  "xs \<noteq> [] \<Longrightarrow> length (strings_Join xs sep) = sum_list (map length xs) + (length xs - 1) * length sep"
  by (induction xs sep rule: strings_Join.induct) (auto simp: algebra_simps)

lemma strings_SplitN_cons:
  "c \<notin> set p \<Longrightarrow> strings_SplitN (Suc (Suc n)) c (p @ c # s) = p # strings_SplitN (Suc n) c s"
  by (simp add: dropWhile_append takeWhile_append)

lemma strings_SplitN_short: "c \<notin> set p \<Longrightarrow> strings_SplitN (Suc n) c p = [p]"
proof (cases n)
  case (Suc m)
  assume "c \<notin> set p"
  then have d: "dropWhile (\<lambda>x. x \<noteq> c) p = []" by auto
  show ?thesis by (simp only: Suc strings_SplitN.simps d list.case)
qed simp

text \<open>The last field of \<^verbatim>\<open>SplitN\<close> may contain the separator.\<close>

lemma strings_SplitN_Join:
  "(\<And>x. x \<in> set fs \<Longrightarrow> c \<notin> set x) \<Longrightarrow>
   strings_SplitN (Suc (length fs)) c (strings_Join (fs @ [l]) [c]) = fs @ [l]"
proof (induction fs)
  case (Cons f fs)
  have j: "strings_Join (f # fs @ [l]) [c] = f @ c # strings_Join (fs @ [l]) [c]"
    by (simp add: strings_Join_Cons)
  have "strings_SplitN (Suc (length fs)) c (strings_Join (fs @ [l]) [c]) = fs @ [l]"
    using Cons by simp
  moreover have "c \<notin> set f" using Cons.prems by simp
  ultimately show ?case
    by (simp only: append_Cons length_Cons j strings_SplitN_cons simp_thms)
qed simp

lemma trim_left_id:
  assumes "s \<noteq> []" "\<forall>w \<in> set seqs. w \<noteq> [] \<and> hd w \<noteq> hd s"
  shows "trim_left seqs n s = s"
proof (cases n)
  case (Suc m)
  have "\<not> strings_HasPrefix s w" if "w \<in> set seqs" for w
    using assms that by (cases s; cases w) (auto simp: strings_HasPrefix_def)
  then have "find (\<lambda>w. strings_HasPrefix s w) seqs = None" by (simp add: find_None_iff)
  then show ?thesis by (simp add: Suc)
qed simp

lemma strings_TrimSpace_id:
  assumes "s \<noteq> []" "hd s \<notin> hd ` set space_seqs" "last s \<notin> last ` set space_seqs"
  shows "strings_TrimSpace s = s"
proof -
  have ne: "w \<noteq> []" if "w \<in> set space_seqs" for w using that by (auto simp: space_seqs_def)
  have "trim_left space_seqs (length s) s = s"
    using assms(1,2) ne by (intro trim_left_id) (auto intro: rev_image_eqI)
  moreover have "trim_left (map rev space_seqs) (length s) (rev s) = rev s"
    using assms(1,3) ne by (intro trim_left_id) (auto simp: hd_rev intro: rev_image_eqI)
  ultimately show ?thesis by (simp add: strings_TrimSpace_def)
qed

lemma strings_HasSuffix_append [simp]: "strings_HasSuffix (s @ suf) suf"
  by (simp add: strings_HasSuffix_def)

lemma strings_TrimSuffix_append [simp]: "strings_TrimSuffix (s @ suf) suf = s"
  by (simp add: strings_TrimSuffix_def)

lemma strings_HasSuffixE:
  assumes "strings_HasSuffix s suf" obtains p where "s = p @ suf"
  using assms unfolding strings_HasSuffix_def by (metis append_take_drop_id)

lemma strings_TrimPrefix_append [simp]: "strings_TrimPrefix (p @ s) p = s"
  by (simp add: strings_TrimPrefix_def strings_HasPrefix_def)

section \<open>Splitting a list into groups\<close>

text \<open>\<open>groups k xs\<close> cuts a list into runs of \<open>k\<close> elements, the last one shorter.\<close>

function groups :: "nat \<Rightarrow> 'a list \<Rightarrow> 'a list list" where
  "groups k xs = (if k = 0 \<or> xs = [] then [] else take k xs # groups k (drop k xs))"
  by pat_completeness auto
termination
  by (relation "measure (\<lambda>(k, xs). length xs)") auto

declare groups.simps [simp del]

lemma groups_Nil [simp]: "groups k [] = []"
  by (subst groups.simps) simp

lemma groups_0 [simp]: "groups 0 xs = []"
  by (subst groups.simps) simp

lemma groups_step: "0 < k \<Longrightarrow> xs \<noteq> [] \<Longrightarrow> groups k xs = take k xs # groups k (drop k xs)"
  by (subst groups.simps) simp

lemma groups_full: "0 < k \<Longrightarrow> length xs = k \<Longrightarrow> groups k (xs @ ys) = xs # groups k ys"
  by (subst groups.simps) auto

lemma concat_groups [simp]: "0 < k \<Longrightarrow> concat (groups k xs) = xs"
  by (induction k xs rule: groups.induct) (subst groups.simps, auto)

lemma groups_lengths: "g \<in> set (groups k xs) \<Longrightarrow> 0 < length g \<and> length g \<le> k"
  by (induction k xs rule: groups.induct) (subst (asm) groups.simps, auto split: if_splits)

lemma ceil_div_step: "0 < (k::nat) \<Longrightarrow> 0 < n \<Longrightarrow> (n + k - 1) div k = Suc ((n - k + k - 1) div k)"
proof (cases "n \<le> k")
  case True
  assume "0 < k" "0 < n"
  then have "n - 1 < k" and e: "n + k - 1 = (n - 1) + k" using True by auto
  then have "(n + k - 1) div k = 1" using \<open>0 < k\<close> unfolding e by (simp only: div_add_self2) simp
  moreover have "(n - k + k - 1) div k = 0" using True \<open>0 < k\<close> by simp
  ultimately show ?thesis by simp
next
  case False
  assume "0 < k" "0 < n"
  have "n + k - 1 = (n - k + k - 1) + k" using False by simp
  then show ?thesis using \<open>0 < k\<close> by (simp only: div_add_self2)
qed

lemma length_groups: "0 < k \<Longrightarrow> length (groups k xs) = (length xs + k - 1) div k"
proof (induction k xs rule: groups.induct)
  case (1 k xs)
  show ?case
  proof (cases "xs = []")
    case False
    then have "length (groups k xs) = Suc ((length xs - k + k - 1) div k)"
      using 1 by (simp add: groups_step)
    also have "\<dots> = (length xs + k - 1) div k"
      using False 1 by (intro ceil_div_step [symmetric]) auto
    finally show ?thesis .
  qed (use 1 in simp)
qed

lemma nth_groups: "0 < k \<Longrightarrow> i < length (groups k xs) \<Longrightarrow> groups k xs ! i = take k (drop (i * k) xs)"
proof (induction k xs arbitrary: i rule: groups.induct)
  case (1 k xs)
  then have "xs \<noteq> []" by auto
  with 1 show ?case by (cases i) (auto simp: groups_step add.commute)
qed

lemma groups_concat_uniform:
  "0 < k \<Longrightarrow> (\<And>x. x \<in> set xss \<Longrightarrow> length x = k) \<Longrightarrow> groups k (concat xss @ ys) = xss @ groups k ys"
  by (induction xss) (auto simp: groups_full)

section \<open>Big-endian integers\<close>

text \<open>\<^verbatim>\<open>binary.BigEndian\<close>: \<open>be_bytes n\<close> writes the low \<open>n\<close> bytes of a word, most
  significant first; \<open>be_word\<close> reads them back.\<close>

definition be_bytes :: "nat \<Rightarrow> 'a::len word \<Rightarrow> bytes" where
  "be_bytes n w = map (\<lambda>i. ucast (drop_bit (8 * i) w)) (rev [0..<n])"

definition be_word :: "bytes \<Rightarrow> 'a::len word" where
  "be_word bs = foldl (\<lambda>acc b. push_bit 8 acc OR ucast b) 0 bs"

abbreviation be16 :: "uint16 \<Rightarrow> bytes" where "be16 \<equiv> be_bytes 2"
abbreviation be64 :: "uint64 \<Rightarrow> bytes" where "be64 \<equiv> be_bytes 8"

lemma length_be_bytes [simp]: "length (be_bytes n w) = n"
  by (simp add: be_bytes_def)

lemma be_bytes_eq_Nil [simp]: "be_bytes n w = [] \<longleftrightarrow> n = 0"
  using length_be_bytes [of n w] by (metis length_0_conv)

lemma be_word_snoc: "be_word (bs @ [b]) = push_bit 8 (be_word bs) OR ucast b"
  by (simp add: be_word_def)

lemma be_bytes_Suc:
  "be_bytes (Suc n) w = be_bytes n (drop_bit 8 w) @ [ucast w]"
proof -
  have "rev [0..<Suc n] = map Suc (rev [0..<n]) @ [0]"
    by (metis map_Suc_upt rev.simps(2) rev_map upt_conv_Cons zero_less_Suc)
  then show ?thesis by (simp add: be_bytes_def drop_bit_drop_bit add.commute)
qed

lemma be_word_be_bytes_take:
  "8 * n \<le> LENGTH('a::len) \<Longrightarrow> be_word (be_bytes n (w :: 'a word)) = take_bit (8 * n) w"
proof (induction n arbitrary: w)
  case (Suc n)
  then have "be_word (be_bytes n (drop_bit 8 w)) = take_bit (8 * n) (drop_bit 8 w)" by simp
  then show ?case
    by (auto simp: be_bytes_Suc be_word_snoc bit_simps intro!: bit_word_eqI)
qed (simp add: be_bytes_def be_word_def)

lemma be_word_be16 [simp]: "be_word (be16 w) = w"
  using take_bit_length_eq [of w] by (simp add: be_word_be_bytes_take)

lemma be_word_be64 [simp]: "be_word (be64 w) = w"
  using take_bit_length_eq [of w] by (simp add: be_word_be_bytes_take)

lemma be_word_bits:
  "bit (be_word bs :: 'a::len word) n \<Longrightarrow> n < 8 * length bs"
proof (induction bs arbitrary: n rule: rev_induct)
  case (snoc b bs)
  then consider "8 \<le> n" "bit (be_word bs :: 'a word) (n - 8)" | "bit b n"
    by (auto simp: be_word_snoc bit_simps)
  then show ?case
  proof cases
    case 1
    then show ?thesis using snoc.IH [of "n - 8"] by simp
  next
    case 2
    then have "n < 8" using bit_imp_le_length [of b n] by simp
    then show ?thesis by simp
  qed
qed (simp add: be_word_def)

lemma be_bytes_be_word:
  "8 * length bs \<le> LENGTH('a::len) \<Longrightarrow> be_bytes (length bs) (be_word bs :: 'a word) = bs"
proof (induction bs rule: rev_induct)
  case (snoc b bs)
  then have l: "8 * length bs + 8 \<le> LENGTH('a)" by simp
  have b8: "\<not> bit b (8 + n)" for n using bit_imp_le_length [of b "8 + n"] by auto
  have "drop_bit 8 (be_word (bs @ [b]) :: 'a word) = be_word bs"
  proof (rule bit_word_eqI)
    fix n assume "n < LENGTH('a)"
    then show "bit (drop_bit 8 (be_word (bs @ [b]) :: 'a word)) n = bit (be_word bs :: 'a word) n"
      using l be_word_bits [of bs n, where 'a = 'a] b8 [of n] by (auto simp: be_word_snoc bit_simps)
  qed
  moreover have "ucast (be_word (bs @ [b]) :: 'a word) = b"
    using l by (auto simp: be_word_snoc bit_simps intro!: bit_word_eqI)
  ultimately show ?case using snoc l by (simp add: be_bytes_Suc)
qed (simp add: be_bytes_def)

lemma be64_be_word [simp]: "length bs = 8 \<Longrightarrow> be64 (be_word bs) = bs"
  using be_bytes_be_word [of bs, where 'a = 64] by simp

lemma be16_be_word [simp]: "length bs = 2 \<Longrightarrow> be16 (be_word bs) = bs"
  using be_bytes_be_word [of bs, where 'a = 16] by simp

lemma be64_inject [simp]: "be64 a = be64 b \<longleftrightarrow> a = b"
  by (metis be_word_be64)

section \<open>Maps, iteration order and time\<close>

definition enumerates :: "'k list \<Rightarrow> ('k, 'v) fmap \<Rightarrow> bool" where
  "enumerates ks m \<longleftrightarrow> distinct ks \<and> set ks = fset (fmdom m)"

definition fmsize :: "('k, 'v) fmap \<Rightarrow> nat" where
  "fmsize m = fcard (fmdom m)"

definition map_get :: "('k, 'v) fmap \<Rightarrow> 'k \<Rightarrow> 'v \<Rightarrow> 'v" where
  "map_get m k zero = (case fmlookup m k of None \<Rightarrow> zero | Some v \<Rightarrow> v)"

lemma enumerates_in: "enumerates ks m \<Longrightarrow> k \<in> set ks \<longleftrightarrow> fmlookup m k \<noteq> None"
  by (auto simp: enumerates_def fmlookup_dom_iff)

lemma fmsize_empty [simp]: "fmsize fmempty = 0"
  by (simp add: fmsize_def)

lemma fmsize_upd:
  "fmsize (fmupd k v m) = (if k |\<in>| fmdom m then fmsize m else Suc (fmsize m))"
  by (simp add: fmsize_def fcard_finsert_if)

lemma fmsize_enumerates: "enumerates ks m \<Longrightarrow> length ks = fmsize m"
  by (metis distinct_card enumerates_def fcard.rep_eq fmsize_def)

lemma set_map_filter: "c \<in> set (List.map_filter f ks) \<longleftrightarrow> (\<exists>k \<in> set ks. f k = Some c)"
  by (induction ks) (auto split: option.splits)

lemma distinct_map_filter_inj:
  "distinct ks \<Longrightarrow> inj_on (\<lambda>k. the (f k)) (set ks) \<Longrightarrow> distinct (List.map_filter f ks)"
  by (auto simp: List.map_filter_def distinct_map comp_def intro: inj_on_subset)

text \<open>\<^verbatim>\<open>Time.Sub\<close> saturates at the bounds of a 64-bit duration.\<close>

definition time_Sub :: "time \<Rightarrow> time \<Rightarrow> duration" where
  "time_Sub t u = max (- (2 ^ 63)) (min (2 ^ 63 - 1) (t - u))"

definition time_UnixMilli :: "time \<Rightarrow> uint64" where
  "time_UnixMilli t = word_of_int (t div 1000000)"

lemma time_Sub_self [simp]: "time_Sub t t = 0"
  by (simp add: time_Sub_def)

lemma time_Sub_mono: "t \<le> t' \<Longrightarrow> time_Sub t u \<le> time_Sub t' u"
  by (simp add: time_Sub_def)

section \<open>Results\<close>

text \<open>A call that may fail returns \<open>Inl\<close> of its error or \<open>Inr\<close> of its value.\<close>

definition is_ok :: "'e + 'a \<Rightarrow> bool" where
  "is_ok r = (case r of Inl _ \<Rightarrow> False | Inr _ \<Rightarrow> True)"

lemma is_ok_simps [simp]: "is_ok (Inr x)" "\<not> is_ok (Inl e)"
  by (simp_all add: is_ok_def)

end
