(* ===== verification/Go_OS.thy ===== *)
theory Go_OS
  imports Go_Prelude
begin

text \<open>
  Files and randomness. A file system is a map from paths to contents; the outcome of a
  system call that may fail is an argument of the operation that makes it, so that the
  theorems hold for every pattern of failures. A failed write may leave any content
  behind, because \<^verbatim>\<open>os.WriteFile\<close> truncates first. Random bytes are drawn from a
  stream that is an argument too.
\<close>

type_synonym files = "(string, bytes) fmap"

datatype write_result = WriteOK | WriteFails string "bytes option"

definition os_WriteFile :: "write_result \<Rightarrow> string \<Rightarrow> bytes \<Rightarrow> files \<Rightarrow> string option \<times> files" where
  "os_WriteFile r path data fs =
     (case r of
        WriteOK \<Rightarrow> (None, fmupd path data fs)
      | WriteFails e left \<Rightarrow> (Some e, case left of None \<Rightarrow> fs | Some b \<Rightarrow> fmupd path b fs))"

definition os_ReadFile :: "string option \<Rightarrow> string \<Rightarrow> files \<Rightarrow> string + bytes" where
  "os_ReadFile fault path fs =
     (case fault of
        Some e \<Rightarrow> Inl e
      | None \<Rightarrow> (case fmlookup fs path of None \<Rightarrow> Inl ''no such file or directory'' | Some data \<Rightarrow> Inr data))"

type_synonym entropy = "string + (nat \<Rightarrow> byte)"

definition rand_Read :: "nat \<Rightarrow> entropy \<Rightarrow> string + bytes" where
  "rand_Read n r = map_sum (\<lambda>e. e) (\<lambda>f. map f [0..<n]) r"

text \<open>
  \<^verbatim>\<open>filepath.Join\<close> on Unix: the non-empty elements joined by slashes and cleaned. Cleaning drops empty
  elements and \<^verbatim>\<open>.\<close>, and lets \<^verbatim>\<open>..\<close> remove the element before it; the elements
  that are kept are on a stack.
\<close>

definition clean_step :: "bool \<Rightarrow> string list \<Rightarrow> string \<Rightarrow> string list" where
  "clean_step rooted out c =
     (if c = '''' \<or> c = ''.'' then out
      else if c = ''..'' then
        (if out \<noteq> [] \<and> hd out \<noteq> ''..'' then tl out else if rooted then out else c # out)
      else c # out)"

definition filepath_Clean :: "string \<Rightarrow> string" where
  "filepath_Clean p =
     (let rooted = (p \<noteq> [] \<and> hd p = CHR ''/'');
          s = strings_Join (rev (foldl (clean_step rooted) [] (strings_Split CHR ''/'' p))) ''/''
      in if rooted then CHR ''/'' # s else if s = [] then ''.'' else s)"

definition filepath_Join :: "string list \<Rightarrow> string" where
  "filepath_Join es =
     (let xs = filter (\<lambda>e. e \<noteq> []) es in if xs = [] then [] else filepath_Clean (strings_Join xs ''/''))"

text \<open>\<^verbatim>\<open>copy(dst, src)\<close> on slices.\<close>

definition go_copy :: "'a list \<Rightarrow> 'a list \<Rightarrow> 'a list" where
  "go_copy dst src = take (length dst) src @ drop (length src) dst"

lemma length_rand_Read: "rand_Read n r = Inr b \<Longrightarrow> length b = n"
  by (cases r) (auto simp: rand_Read_def)

lemma rand_Read_Inr [simp]: "rand_Read n (Inr f) = Inr (map f [0..<n])"
  by (simp add: rand_Read_def)

lemma go_copy_full [simp]: "length src = length dst \<Longrightarrow> go_copy dst src = src"
  by (simp add: go_copy_def)

lemma ReadFile_after_WriteFile [simp]:
  "os_ReadFile None path (snd (os_WriteFile WriteOK path data fs)) = Inr data"
  by (simp add: os_ReadFile_def os_WriteFile_def)

text \<open>The last element of a path; joining a directory and a plain name keeps the name.\<close>

definition path_base :: "string \<Rightarrow> string" where
  "path_base p = rev (takeWhile (\<lambda>c. c \<noteq> CHR ''/'') (rev p))"

lemma path_base_append:
  assumes "CHR ''/'' \<notin> set n"
  shows "path_base (p @ CHR ''/'' # n) = n"
proof -
  have "takeWhile (\<lambda>c. c \<noteq> CHR ''/'') (rev n @ CHR ''/'' # rev p) = rev n"
    using assms by (subst takeWhile_append2) auto
  then show ?thesis by (simp only: path_base_def rev_append rev.simps append_assoc append.simps rev_rev_ident)
qed

lemma path_base_plain:
  assumes "CHR ''/'' \<notin> set n"
  shows "path_base n = n"
proof -
  have "takeWhile (\<lambda>c. c \<noteq> CHR ''/'') (rev n) = rev n"
    using assms by (subst takeWhile_eq_all_conv) auto
  then show ?thesis by (simp only: path_base_def rev_append rev.simps append_assoc append.simps rev_rev_ident)
qed

lemma path_base_Join:
  assumes "CHR ''/'' \<notin> set n" "n \<notin> {'''', ''.'', ''..''}"
  shows "path_base (filepath_Join [dir, n]) = n"
proof -
  define p where "p = (if dir = [] then n else dir @ CHR ''/'' # n)"
  define rooted where "rooted = (p \<noteq> [] \<and> hd p = CHR ''/'')"
  have "strings_Split CHR ''/'' p = (if dir = [] then [] else strings_Split CHR ''/'' dir) @ [n]"
    using assms(1) by (simp add: p_def strings_Split_no_sep strings_Split_snoc)
  then obtain out where out: "rev (foldl (clean_step rooted) [] (strings_Split CHR ''/'' p)) = out @ [n]"
    using assms(2) by (simp add: clean_step_def)
  have "filepath_Join [dir, n] = filepath_Clean p"
    using assms(2) by (simp add: filepath_Join_def p_def)
  also have "\<dots> = (if rooted then CHR ''/'' # strings_Join (out @ [n]) ''/'' else strings_Join (out @ [n]) ''/'')"
    using assms(2) out by (cases out) (auto simp: filepath_Clean_def Let_def rooted_def strings_Join_Cons)
  finally show ?thesis
    using assms(1) path_base_append [OF assms(1), of "[]"] path_base_append [OF assms(1), of "CHR ''/'' # strings_Join out ''/''"]
      path_base_append [OF assms(1), of "strings_Join out ''/''"] path_base_plain [OF assms(1)]
    by (cases "out = []") (simp_all add: strings_Join_snoc)
qed

end
