(* ===== verification/Go_Codecs.thy ===== *)
theory Go_Codecs
  imports Go_Prelude
begin

text \<open>
  The text encodings of Go's standard library that the sources call: unpadded
  base32hex (\<^verbatim>\<open>base32.HexEncoding.WithPadding(base32.NoPadding)\<close>), padded standard
  base64 and hexadecimal. Each is a sequence of \<open>k\<close>-bit digits of the message's bits.
  The locale \<open>text_codec\<close> states what the components rely on: decoding an encoded
  message returns it, and the encoded text uses a fixed alphabet, so a separator outside
  the alphabet cuts a record of encoded fields where it was joined.
\<close>

section \<open>Bits and digits\<close>

definition byte_bits :: "byte \<Rightarrow> bool list" where
  "byte_bits b = map (bit b) (rev [0..<8])"

definition bits_nat :: "bool list \<Rightarrow> nat" where
  "bits_nat bs = foldl (\<lambda>a b. 2 * a + of_bool b) 0 bs"

definition nat_bits :: "nat \<Rightarrow> nat \<Rightarrow> bool list" where
  "nat_bits k n = map (bit n) (rev [0..<k])"

definition byte_of_bits :: "bool list \<Rightarrow> byte" where
  "byte_of_bits bs = word_of_nat (bits_nat bs)"

lemma bits_nat_snoc: "bits_nat (bs @ [b]) = 2 * bits_nat bs + of_bool b"
  by (simp add: bits_nat_def)

lemma length_byte_bits [simp]: "length (byte_bits b) = 8"
  by (simp add: byte_bits_def)

lemma length_nat_bits [simp]: "length (nat_bits k n) = k"
  by (simp add: nat_bits_def)

lemma nat_bits_Suc: "nat_bits (Suc k) n = nat_bits k (n div 2) @ [odd n]"
proof -
  have "rev [0..<Suc k] = map Suc (rev [0..<k]) @ [0]"
    by (metis map_Suc_upt rev.simps(2) rev_map upt_conv_Cons zero_less_Suc)
  then show ?thesis by (simp add: nat_bits_def bit_0 bit_Suc)
qed

lemma bits_nat_less: "bits_nat bs < 2 ^ length bs"
proof (induction bs rule: rev_induct)
  case (snoc b bs)
  then show ?case by (cases b) (auto simp: bits_nat_snoc)
qed (simp add: bits_nat_def)

lemma nat_bits_bits_nat [simp]: "nat_bits (length bs) (bits_nat bs) = bs"
proof (induction bs rule: rev_induct)
  case (snoc b bs)
  then show ?case by (cases b) (auto simp: bits_nat_snoc nat_bits_Suc)
qed (simp add: nat_bits_def)

lemma bits_nat_nat_bits: "n < 2 ^ k \<Longrightarrow> bits_nat (nat_bits k n) = n"
proof (induction k arbitrary: n)
  case (Suc k)
  then have "n div 2 < 2 ^ k" by auto
  then show ?case using Suc.IH [of "n div 2"] by (simp add: nat_bits_Suc bits_nat_snoc)
qed (simp add: nat_bits_def bits_nat_def)

lemma byte_of_bits_byte_bits [simp]: "byte_of_bits (byte_bits b) = b"
proof -
  have "byte_bits b = nat_bits 8 (unat b)"
    by (simp add: byte_bits_def nat_bits_def bit_unsigned_iff)
  moreover have "unat b < 2 ^ 8" using unsigned_less [of b, where ?'a = nat] by simp
  ultimately show ?thesis by (simp add: byte_of_bits_def bits_nat_nat_bits)
qed

definition digits_of :: "nat \<Rightarrow> bytes \<Rightarrow> nat list" where
  "digits_of k bs =
     map (\<lambda>g. bits_nat (g @ replicate (k - length g) False)) (groups k (concat (map byte_bits bs)))"

definition bytes_of_digits :: "nat \<Rightarrow> nat \<Rightarrow> nat list \<Rightarrow> bytes" where
  "bytes_of_digits k n ds = map byte_of_bits (take n (groups 8 (concat (map (nat_bits k) ds))))"

lemma length_concat_bits [simp]: "length (concat (map byte_bits bs)) = 8 * length bs"
  by (induction bs) auto

lemma length_digits_of: "0 < k \<Longrightarrow> length (digits_of k bs) = (8 * length bs + k - 1) div k"
  by (simp add: digits_of_def length_groups)

lemma digits_of_less: "0 < k \<Longrightarrow> d \<in> set (digits_of k bs) \<Longrightarrow> d < 2 ^ k"
proof -
  assume k: "0 < k" and "d \<in> set (digits_of k bs)"
  then obtain g where g: "g \<in> set (groups k (concat (map byte_bits bs)))"
    and d: "d = bits_nat (g @ replicate (k - length g) False)"
    by (auto simp: digits_of_def)
  from groups_lengths [OF g] bits_nat_less [of "g @ replicate (k - length g) False"] d
  show ?thesis by simp
qed

lemma concat_nat_bits_groups:
  assumes "0 < k"
  shows "\<exists>p. concat (map (nat_bits k)
      (map (\<lambda>g. bits_nat (g @ replicate (k - length g) False)) (groups k xs))) = xs @ p"
  using assms
proof (induction k xs rule: groups.induct)
  case (1 k xs)
  show ?case
  proof (cases "xs = []")
    case False
    let ?g = "take k xs @ replicate (k - length (take k xs)) False"
    have "length ?g = k" by simp
    then have g: "nat_bits k (bits_nat ?g) = ?g" by (metis nat_bits_bits_nat)
    obtain p where p: "concat (map (nat_bits k)
      (map (\<lambda>g. bits_nat (g @ replicate (k - length g) False)) (groups k (drop k xs)))) = drop k xs @ p"
      using 1 False by auto
    have split: "groups k xs = take k xs # groups k (drop k xs)"
      using 1 False by (simp add: groups_step)
    show ?thesis
    proof (cases "k \<le> length xs")
      case True
      then show ?thesis using p g by (simp add: split append_take_drop_id flip: append_assoc)
    next
      case False
      then show ?thesis using p g by (auto simp: split)
    qed
  qed simp
qed

lemma bytes_of_digits_of: "0 < k \<Longrightarrow> bytes_of_digits k (length bs) (digits_of k bs) = bs"
proof -
  assume "0 < k"
  then obtain p where "concat (map (nat_bits k) (digits_of k bs)) = concat (map byte_bits bs) @ p"
    using concat_nat_bits_groups [of k "concat (map byte_bits bs)"] by (auto simp: digits_of_def)
  moreover have "groups 8 (concat (map byte_bits bs) @ p) = map byte_bits bs @ groups 8 p"
    by (rule groups_concat_uniform) auto
  ultimately show ?thesis by (simp add: bytes_of_digits_def comp_def)
qed

lemma length_bytes_of_digits:
  "n * 8 \<le> k * length ds \<Longrightarrow> length (bytes_of_digits k n ds) = n"
proof -
  have "length (concat (map (nat_bits k) ds)) = k * length ds"
    by (induction ds) auto
  moreover assume "n * 8 \<le> k * length ds"
  ultimately show ?thesis
    by (simp add: bytes_of_digits_def length_groups min_def) linarith
qed

section \<open>Alphabets\<close>

fun index_of :: "string \<Rightarrow> char \<Rightarrow> nat option" where
  "index_of [] c = None"
| "index_of (x # xs) c = (if x = c then Some 0 else map_option Suc (index_of xs c))"

lemma index_of_nth: "distinct al \<Longrightarrow> d < length al \<Longrightarrow> index_of al (al ! d) = Some d"
proof (induction al arbitrary: d)
  case (Cons a al)
  then show ?case by (cases d) auto
qed simp

lemma index_of_Some: "index_of al c = Some d \<Longrightarrow> d < length al \<and> al ! d = c"
  by (induction al arbitrary: d) (auto split: if_splits)

lemma index_of_None: "index_of al c = None \<longleftrightarrow> c \<notin> set al"
  by (induction al) auto

definition read_digits :: "string \<Rightarrow> string \<Rightarrow> nat list option" where
  "read_digits al s = those (map (index_of al) s)"

lemma read_digits_Nil [simp]: "read_digits al [] = Some []"
  by (simp add: read_digits_def)

lemma read_digits_Cons:
  "read_digits al (c # s) =
     (case index_of al c of None \<Rightarrow> None | Some d \<Rightarrow> map_option ((#) d) (read_digits al s))"
  by (simp add: read_digits_def split: option.splits)

lemma read_digits_map:
  "distinct al \<Longrightarrow> (\<And>d. d \<in> set ds \<Longrightarrow> d < length al) \<Longrightarrow> read_digits al (map ((!) al) ds) = Some ds"
  by (induction ds) (auto simp: read_digits_Cons index_of_nth)

lemma length_read_digits: "read_digits al s = Some ds \<Longrightarrow> length ds = length s"
  by (induction s arbitrary: ds) (auto simp: read_digits_Cons split: option.splits)

lemma read_digits_alphabet: "read_digits al s = Some ds \<Longrightarrow> set s \<subseteq> set al"
  by (induction s arbitrary: ds)
    (auto simp: read_digits_Cons split: option.splits dest: index_of_Some intro: nth_mem)

text \<open>Go's decoders drop carriage returns and line feeds anywhere in the input.\<close>

definition strip_newlines :: "string \<Rightarrow> string" where
  "strip_newlines s = filter (\<lambda>c. c \<noteq> CHR 0x0D \<and> c \<noteq> CHR 0x0A) s"

lemma strip_newlines_id:
  "CHR 0x0D \<notin> set s \<Longrightarrow> CHR 0x0A \<notin> set s \<Longrightarrow> strip_newlines s = s"
  by (auto simp: strip_newlines_def filter_id_conv)

lemma strip_newlines_append [simp]:
  "strip_newlines (s @ t) = strip_newlines s @ strip_newlines t"
  by (simp add: strip_newlines_def)

section \<open>The codec interface\<close>

locale text_codec =
  fixes enc :: "bytes \<Rightarrow> string"
    and dec :: "string \<Rightarrow> bytes option"
    and alphabet :: "char set"
  assumes dec_enc: "dec (enc bs) = Some bs"
    and enc_alphabet: "set (enc bs) \<subseteq> alphabet"
begin

lemma enc_inject: "enc a = enc b \<longleftrightarrow> a = b"
  by (metis dec_enc option.inject)

lemma sep_notin: "c \<notin> alphabet \<Longrightarrow> c \<notin> set (enc bs)"
  using enc_alphabet by blast

lemma split_record:
  "c \<notin> alphabet \<Longrightarrow>
   strings_SplitN (Suc (length bss)) c (strings_Join (map enc bss @ [l]) [c]) = map enc bss @ [l]"
  using strings_SplitN_Join [of "map enc bss" c l] sep_notin by auto

lemma split_all:
  "c \<notin> alphabet \<Longrightarrow> bss \<noteq> [] \<Longrightarrow> strings_Split c (strings_Join (map enc bss) [c]) = map enc bss"
  using strings_Split_Join [of "map enc bss" c] sep_notin by auto

end

section \<open>Base32hex without padding\<close>

definition base32hex_alphabet :: string where
  "base32hex_alphabet = ''0123456789ABCDEFGHIJKLMNOPQRSTUV''"

definition base32hex_EncodeToString :: "bytes \<Rightarrow> string" where
  "base32hex_EncodeToString bs = map ((!) base32hex_alphabet) (digits_of 5 bs)"

text \<open>
  The number of bytes Go's decoder writes for \<open>n\<close> digits: five for each full group of
  eight; the final group writes bytes for 2, 4, 5 or 7 digits and nothing for 1, 3 or 6.
\<close>

definition base32_tail :: "nat \<Rightarrow> nat" where
  "base32_tail r = (if r = 2 then 1 else if r = 4 then 2 else if r = 5 then 3
                    else if r = 7 then 4 else 0)"

definition base32_DecodedLen :: "nat \<Rightarrow> nat" where
  "base32_DecodedLen n = n div 8 * 5 + base32_tail (n mod 8)"

definition base32hex_DecodeString :: "string \<Rightarrow> bytes option" where
  "base32hex_DecodeString s =
     (let t = strip_newlines s in
      case read_digits base32hex_alphabet t of
        None \<Rightarrow> None
      | Some ds \<Rightarrow> Some (bytes_of_digits 5 (base32_DecodedLen (length t)) ds))"

lemma length_base32hex_alphabet [simp]: "length base32hex_alphabet = 32"
  by (simp add: base32hex_alphabet_def)

lemma distinct_base32hex_alphabet [simp]: "distinct base32hex_alphabet"
  by (simp add: base32hex_alphabet_def)

lemma length_base32hex [simp]:
  "length (base32hex_EncodeToString bs) = (8 * length bs + 4) div 5"
  by (simp add: base32hex_EncodeToString_def length_digits_of)

lemma set_base32hex: "set (base32hex_EncodeToString bs) \<subseteq> set base32hex_alphabet"
  using digits_of_less [of 5] by (auto simp: base32hex_EncodeToString_def intro!: nth_mem)

lemma base32_DecodedLen_split: "c < 8 \<Longrightarrow> base32_DecodedLen (8 * q + c) = 5 * q + base32_tail c"
  by (simp add: base32_DecodedLen_def)

lemma base32_DecodedLen_encoded: "base32_DecodedLen ((8 * n + 4) div 5) = n"
proof -
  obtain q r where n: "n = 5 * q + r" and r: "r < 5"
    by (metis mod_less_divisor mult_div_mod_eq zero_less_numeral)
  then have e: "(8 * n + 4) div 5 = 8 * q + (8 * r + 4) div 5" by simp
  have "(8 * r + 4) div 5 < 8" using r by simp
  then have "base32_DecodedLen ((8 * n + 4) div 5) = 5 * q + base32_tail ((8 * r + 4) div 5)"
    unfolding e by (rule base32_DecodedLen_split)
  moreover from r consider "r = 0" | "r = 1" | "r = 2" | "r = 3" | "r = 4" by linarith
  then have "base32_tail ((8 * r + 4) div 5) = r" by cases (simp_all add: base32_tail_def)
  ultimately show ?thesis by (simp add: n)
qed

lemma base32hex_decode_encode:
  "base32hex_DecodeString (base32hex_EncodeToString bs) = Some bs"
proof -
  have "strip_newlines (base32hex_EncodeToString bs) = base32hex_EncodeToString bs"
    using set_base32hex [of bs]
    by (intro strip_newlines_id) (auto simp: base32hex_alphabet_def)
  moreover have "read_digits base32hex_alphabet (base32hex_EncodeToString bs) = Some (digits_of 5 bs)"
    unfolding base32hex_EncodeToString_def
    using digits_of_less [of 5 _ bs] by (intro read_digits_map) auto
  ultimately show ?thesis
    by (simp add: base32hex_DecodeString_def base32_DecodedLen_encoded bytes_of_digits_of)
qed

lemma base32_DecodedLen_le: "base32_DecodedLen n * 8 \<le> 5 * n"
proof -
  obtain q r where n: "n = 8 * q + r" and r: "r < 8"
    by (metis mod_less_divisor mult_div_mod_eq zero_less_numeral)
  have "base32_tail r * 8 \<le> 5 * r" by (simp add: base32_tail_def)
  then show ?thesis using base32_DecodedLen_split [OF r, of q] by (simp add: n)
qed

lemma length_base32hex_DecodeString:
  "base32hex_DecodeString s = Some bs \<Longrightarrow> length bs = base32_DecodedLen (length (strip_newlines s))"
  by (auto simp: base32hex_DecodeString_def Let_def length_bytes_of_digits base32_DecodedLen_le
      dest: length_read_digits split: option.splits)

interpretation b32: text_codec base32hex_EncodeToString base32hex_DecodeString "set base32hex_alphabet"
  by unfold_locales (auto simp: base32hex_decode_encode dest: set_base32hex [THEN subsetD])

section \<open>Standard base64\<close>

definition base64_alphabet :: string where
  "base64_alphabet = ''ABCDEFGHIJKLMNOPQRSTUVWXYZabcdefghijklmnopqrstuvwxyz0123456789+/''"

definition base64_EncodeToString :: "bytes \<Rightarrow> string" where
  "base64_EncodeToString bs =
     (let ds = digits_of 6 bs
      in map ((!) base64_alphabet) ds @ replicate ((4 - length ds mod 4) mod 4) CHR ''='')"

definition base64_body :: "string \<Rightarrow> string" where
  "base64_body s = strings_TrimSuffix (strings_TrimSuffix s ''='') ''=''"

definition base64_DecodeString :: "string \<Rightarrow> bytes option" where
  "base64_DecodeString s =
     (let t = strip_newlines s; b = base64_body t in
      if length t mod 4 \<noteq> 0 then None
      else case read_digits base64_alphabet b of
             None \<Rightarrow> None
           | Some ds \<Rightarrow> Some (bytes_of_digits 6 (6 * length ds div 8) ds))"

text \<open>
  What \<^verbatim>\<open>DecodeString\<close> returns beside an error: the bytes of the groups of four before the
  corrupt one, and those of a group that is padded when characters follow it.
\<close>

function base64_quanta :: "string \<Rightarrow> bytes" where
  "base64_quanta t =
     (let q = take 4 t; b = base64_body q in
      if length q < 4 then []
      else case read_digits base64_alphabet b of
             None \<Rightarrow> []
           | Some ds \<Rightarrow> if length b = 4 then bytes_of_digits 6 3 ds @ base64_quanta (drop 4 t)
                        else bytes_of_digits 6 (6 * length ds div 8) ds)"
  by pat_completeness auto
termination by (relation "measure length") auto

declare base64_quanta.simps [simp del]

definition base64_decoded :: "string \<Rightarrow> bytes" where
  "base64_decoded s = (case base64_DecodeString s of Some b \<Rightarrow> b | None \<Rightarrow> base64_quanta (strip_newlines s))"

lemma length_base64_alphabet [simp]: "length base64_alphabet = 64"
  by (simp add: base64_alphabet_def)

lemma distinct_base64_alphabet [simp]: "distinct base64_alphabet"
  by (simp add: base64_alphabet_def)

lemma set_base64:
  "set (base64_EncodeToString bs) \<subseteq> insert CHR ''='' (set base64_alphabet)"
  using digits_of_less [of 6] by (auto simp: base64_EncodeToString_def Let_def intro!: nth_mem)

lemma TrimSuffix_other: "s = [] \<or> last s \<noteq> c \<Longrightarrow> strings_TrimSuffix s [c] = s"
  by (cases s rule: rev_cases) (auto simp: strings_TrimSuffix_def strings_HasSuffix_def)

lemma base64_body_pad:
  assumes "CHR ''='' \<notin> set t" "n \<le> 2"
  shows "base64_body (t @ replicate n CHR ''='') = t"
proof -
  have t: "strings_TrimSuffix t ''='' = t"
    using assms(1) by (intro TrimSuffix_other) (metis last_in_set)
  from assms(2) consider "n = 0" | "n = 1" | "n = 2" by linarith
  then show ?thesis
  proof cases
    case 3
    have "t @ replicate n CHR ''='' = (t @ ''='') @ ''=''" by (simp add: 3 numeral_2_eq_2)
    then show ?thesis by (simp only: base64_body_def strings_TrimSuffix_append)
  qed (simp_all add: base64_body_def t)
qed

lemma base64_counts:
  fixes n :: nat
  defines "d \<equiv> (8 * n + 5) div 6"
  shows "6 * d div 8 = n" and "(d + (4 - d mod 4) mod 4) mod 4 = 0" and "(4 - d mod 4) mod 4 \<le> 2"
proof -
  obtain q r where n: "n = 3 * q + r" and r: "r < 3"
    by (metis mod_less_divisor mult_div_mod_eq zero_less_numeral)
  then have d: "d = 4 * q + (8 * r + 5) div 6" by (simp add: d_def)
  from r consider "r = 0" | "r = 1" | "r = 2" by linarith
  then have "6 * d div 8 = n \<and> (d + (4 - d mod 4) mod 4) mod 4 = 0 \<and> (4 - d mod 4) mod 4 \<le> 2"
  proof cases
    case 1
    then show ?thesis by (simp add: d n)
  next
    case 2
    then have "d = 4 * q + 2" by (simp add: d)
    moreover have "(4 * q + 2) mod 4 = 2" by presburger
    ultimately show ?thesis using 2 by (simp add: n)
  next
    case 3
    then have "d = 4 * q + 3" by (simp add: d)
    moreover have "(4 * q + 3) mod 4 = 3" by presburger
    ultimately show ?thesis using 3 by (simp add: n)
  qed
  then show "6 * d div 8 = n" and "(d + (4 - d mod 4) mod 4) mod 4 = 0" and "(4 - d mod 4) mod 4 \<le> 2"
    by blast+
qed

lemma base64_decode_encode:
  "base64_DecodeString (base64_EncodeToString bs) = Some bs"
proof -
  let ?ds = "digits_of 6 bs"
  let ?t = "map ((!) base64_alphabet) ?ds"
  let ?n = "(4 - length ?ds mod 4) mod 4"
  have len: "length ?ds = (8 * length bs + 5) div 6" by (simp add: length_digits_of)
  have sub: "set ?t \<subseteq> set base64_alphabet"
    using digits_of_less [of 6 _ bs] by (auto intro!: nth_mem)
  have strip: "strip_newlines (base64_EncodeToString bs) = base64_EncodeToString bs"
    using set_base64 [of bs] by (intro strip_newlines_id) (auto simp: base64_alphabet_def)
  have "CHR ''='' \<notin> set ?t" using sub by (auto simp: base64_alphabet_def)
  then have body: "base64_body (?t @ replicate ?n CHR ''='') = ?t"
    by (rule base64_body_pad) (simp only: len base64_counts)
  have rd: "read_digits base64_alphabet ?t = Some ?ds"
    using digits_of_less [of 6 _ bs] by (intro read_digits_map) auto
  have "length (?t @ replicate ?n CHR ''='') mod 4 = 0"
    by (simp only: length_append length_map length_replicate len base64_counts)
  moreover have "bytes_of_digits 6 (6 * length ?ds div 8) ?ds = bs"
    by (simp only: len base64_counts) (simp add: bytes_of_digits_of)
  ultimately show ?thesis
    unfolding base64_DecodeString_def strip Let_def
    unfolding base64_EncodeToString_def Let_def body rd by simp
qed

interpretation b64: text_codec base64_EncodeToString base64_DecodeString
  "insert CHR ''='' (set base64_alphabet)"
  using set_base64 by unfold_locales (auto simp: base64_decode_encode)

section \<open>Hexadecimal\<close>

definition hex_alphabet :: string where
  "hex_alphabet = ''0123456789abcdef''"

definition hex_lower :: "char \<Rightarrow> char" where
  "hex_lower c = (case index_of ''ABCDEF'' c of None \<Rightarrow> c | Some i \<Rightarrow> ''abcdef'' ! i)"

definition hex_EncodeToString :: "bytes \<Rightarrow> string" where
  "hex_EncodeToString bs = map ((!) hex_alphabet) (digits_of 4 bs)"

definition hex_DecodeString :: "string \<Rightarrow> bytes option" where
  "hex_DecodeString s =
     (if odd (length s) then None
      else case read_digits hex_alphabet (map hex_lower s) of
             None \<Rightarrow> None
           | Some ds \<Rightarrow> Some (bytes_of_digits 4 (length s div 2) ds))"

lemma length_hex [simp]: "length (hex_EncodeToString bs) = 2 * length bs"
  by (simp add: hex_EncodeToString_def length_digits_of)

lemma length_hex_alphabet [simp]: "length hex_alphabet = 16"
  by (simp add: hex_alphabet_def)

lemma distinct_hex_alphabet [simp]: "distinct hex_alphabet"
  by (simp add: hex_alphabet_def)

lemma set_hex: "set (hex_EncodeToString bs) \<subseteq> set hex_alphabet"
  using digits_of_less [of 4] by (auto simp: hex_EncodeToString_def intro!: nth_mem)

lemma hex_lower_alphabet: "c \<in> set hex_alphabet \<Longrightarrow> hex_lower c = c"
  by (auto simp: hex_alphabet_def hex_lower_def)

lemma hex_decode_encode: "hex_DecodeString (hex_EncodeToString bs) = Some bs"
proof -
  have low: "map hex_lower (hex_EncodeToString bs) = hex_EncodeToString bs"
    using set_hex [of bs] by (intro map_idI hex_lower_alphabet) auto
  have "read_digits hex_alphabet (hex_EncodeToString bs) = Some (digits_of 4 bs)"
    unfolding hex_EncodeToString_def
    using digits_of_less [of 4 _ bs] by (intro read_digits_map) auto
  then show ?thesis by (simp add: hex_DecodeString_def low bytes_of_digits_of)
qed

interpretation hx: text_codec hex_EncodeToString hex_DecodeString "set hex_alphabet"
  using set_hex by unfold_locales (auto simp: hex_decode_encode)

end
