(* ===== verification/Go_SHA256.thy ===== *)
theory Go_SHA256
  imports Go_Prelude
begin

text \<open>
  \<^verbatim>\<open>crypto/sha256\<close>: \<^verbatim>\<open>sha256.Sum256\<close> as FIPS 180-4 defines it. The sources use the digest of a
  recipient's public key as the mailbox name under which a relay files its messages, and
  the digest of an uploaded file as its identifier.
\<close>

type_synonym sha_word = "32 word"
type_synonym sha_state =
  "sha_word \<times> sha_word \<times> sha_word \<times> sha_word \<times> sha_word \<times> sha_word \<times> sha_word \<times> sha_word"

text \<open>
  FIPS 180-4 defines the constants by arithmetic: the round constants are the first 32 bits of
  the fractional parts of the cube roots of the first 64 primes, and the initial state
  those of the square roots of the first 8. They are computed here in that way, by a search
  for the integer root bit by bit.
\<close>

fun root_bits :: "nat \<Rightarrow> nat \<Rightarrow> nat \<Rightarrow> nat \<Rightarrow> nat" where
  "root_bits k n 0 r = r"
| "root_bits k n (Suc b) r = root_bits k n b (if (r + 2 ^ b) ^ k \<le> n then r + 2 ^ b else r)"

definition frac_root :: "nat \<Rightarrow> nat \<Rightarrow> sha_word" where
  "frac_root k p = of_nat (root_bits k (p * 2 ^ (32 * k)) 37 0)"

definition sha_primes :: "nat list" where
  "sha_primes = filter (\<lambda>p. \<forall>d \<in> set [2..<p]. p mod d \<noteq> 0) [2..<312]"

definition sha256_K :: "sha_word list" where
  "sha256_K = map (frac_root 3) sha_primes"

definition sha256_init :: sha_state where
  "sha256_init =
     (frac_root 2 2, frac_root 2 3, frac_root 2 5, frac_root 2 7,
      frac_root 2 11, frac_root 2 13, frac_root 2 17, frac_root 2 19)"

text \<open>The search finds the integer root: the largest number whose power is at most \<open>n\<close>.\<close>

lemma root_bits_correct:
  "r ^ k \<le> n \<Longrightarrow> n < (r + 2 ^ b) ^ k \<Longrightarrow>
   root_bits k n b r ^ k \<le> n \<and> n < (root_bits k n b r + 1) ^ k"
  by (induction b arbitrary: r) (auto simp: mult_2 add.assoc)

definition rotr32 :: "nat \<Rightarrow> sha_word \<Rightarrow> sha_word" where
  "rotr32 n w = drop_bit n w OR push_bit (32 - n) w"

definition sha256_pad :: "bytes \<Rightarrow> bytes" where
  "sha256_pad m =
     m @ [0x80] @ replicate ((64 - (length m + 9) mod 64) mod 64) 0 @ be64 (word_of_nat (8 * length m))"

definition small_sigma0 :: "sha_word \<Rightarrow> sha_word" where
  "small_sigma0 w = rotr32 7 w XOR rotr32 18 w XOR drop_bit 3 w"

definition small_sigma1 :: "sha_word \<Rightarrow> sha_word" where
  "small_sigma1 w = rotr32 17 w XOR rotr32 19 w XOR drop_bit 10 w"

text \<open>The message schedule is kept newest word first.\<close>

fun sha256_extend :: "nat \<Rightarrow> sha_word list \<Rightarrow> sha_word list" where
  "sha256_extend 0 ws = ws"
| "sha256_extend (Suc n) ws =
     sha256_extend n ((small_sigma1 (ws ! 1) + ws ! 6 + small_sigma0 (ws ! 14) + ws ! 15) # ws)"

definition sha256_schedule :: "bytes \<Rightarrow> sha_word list" where
  "sha256_schedule block = rev (sha256_extend 48 (rev (map be_word (groups 4 block))))"

fun sha256_round :: "sha_state \<Rightarrow> sha_word \<times> sha_word \<Rightarrow> sha_state" where
  "sha256_round (a, b, c, d, e, f, g, h) (k, w) =
     (let S1 = rotr32 6 e XOR rotr32 11 e XOR rotr32 25 e;
          ch = (e AND f) XOR (NOT e AND g);
          t1 = h + S1 + ch + k + w;
          S0 = rotr32 2 a XOR rotr32 13 a XOR rotr32 22 a;
          maj = (a AND b) XOR (a AND c) XOR (b AND c);
          t2 = S0 + maj
      in (t1 + t2, a, b, c, d + t1, e, f, g))"

fun sha_add :: "sha_state \<Rightarrow> sha_state \<Rightarrow> sha_state" where
  "sha_add (a, b, c, d, e, f, g, h) (a', b', c', d', e', f', g', h') =
     (a + a', b + b', c + c', d + d', e + e', f + f', g + g', h + h')"

definition sha256_block :: "sha_state \<Rightarrow> bytes \<Rightarrow> sha_state" where
  "sha256_block st block =
     sha_add st (foldl sha256_round st (zip sha256_K (sha256_schedule block)))"

fun sha_digest :: "sha_state \<Rightarrow> bytes" where
  "sha_digest (a, b, c, d, e, f, g, h) = concat (map (be_bytes 4) [a, b, c, d, e, f, g, h])"

definition sha256_Sum256 :: "bytes \<Rightarrow> bytes" where
  "sha256_Sum256 m = sha_digest (foldl sha256_block sha256_init (groups 64 (sha256_pad m)))"

lemma length_sha_digest: "length (sha_digest st) = 32"
  by (induction st rule: sha_digest.induct) simp

lemma length_sha256 [simp]: "length (sha256_Sum256 m) = 32"
  by (simp add: sha256_Sum256_def length_sha_digest)

end
