(* ===== verification/Go_SHA512.thy ===== *)
theory Go_SHA512
  imports Go_SHA256
begin

text \<open>
  \<^verbatim>\<open>crypto/sha512\<close>: \<^verbatim>\<open>sha512.Sum512\<close> as FIPS 180-4 defines it, with constants computed from the
  first 80 primes in the same way as those of \<open>Go_SHA256\<close>. The sources derive the seed of the
  signing key from the digest of the private key.
\<close>

type_synonym sha_word64 = "64 word"
type_synonym sha512_state =
  "sha_word64 \<times> sha_word64 \<times> sha_word64 \<times> sha_word64 \<times> sha_word64 \<times> sha_word64 \<times> sha_word64 \<times> sha_word64"

definition frac_root64 :: "nat \<Rightarrow> nat \<Rightarrow> sha_word64" where
  "frac_root64 k p = of_nat (root_bits k (p * 2 ^ (64 * k)) 69 0)"

definition sha512_primes :: "nat list" where
  "sha512_primes = filter (\<lambda>p. \<forall>d \<in> set [2..<p]. p mod d \<noteq> 0) [2..<410]"

definition sha512_K :: "sha_word64 list" where
  "sha512_K = map (frac_root64 3) sha512_primes"

definition sha512_init :: sha512_state where
  "sha512_init =
     (frac_root64 2 2, frac_root64 2 3, frac_root64 2 5, frac_root64 2 7,
      frac_root64 2 11, frac_root64 2 13, frac_root64 2 17, frac_root64 2 19)"

definition rotr64 :: "nat \<Rightarrow> sha_word64 \<Rightarrow> sha_word64" where
  "rotr64 n w = drop_bit n w OR push_bit (64 - n) w"

text \<open>The length of the message in bits takes the last 16 bytes of the padded message.\<close>

definition sha512_pad :: "bytes \<Rightarrow> bytes" where
  "sha512_pad m =
     m @ [0x80] @ replicate ((128 - (length m + 17) mod 128) mod 128) 0
       @ be_bytes 16 (word_of_nat (8 * length m) :: 128 word)"

fun sha512_extend :: "nat \<Rightarrow> sha_word64 list \<Rightarrow> sha_word64 list" where
  "sha512_extend 0 ws = ws"
| "sha512_extend (Suc n) ws =
     (let s1 = rotr64 19 (ws ! 1) XOR rotr64 61 (ws ! 1) XOR drop_bit 6 (ws ! 1);
          s0 = rotr64 1 (ws ! 14) XOR rotr64 8 (ws ! 14) XOR drop_bit 7 (ws ! 14)
      in sha512_extend n ((s1 + ws ! 6 + s0 + ws ! 15) # ws))"

definition sha512_schedule :: "bytes \<Rightarrow> sha_word64 list" where
  "sha512_schedule block = rev (sha512_extend 64 (rev (map be_word (groups 8 block))))"

fun sha512_round :: "sha512_state \<Rightarrow> sha_word64 \<times> sha_word64 \<Rightarrow> sha512_state" where
  "sha512_round (a, b, c, d, e, f, g, h) (k, w) =
     (let t1 = h + (rotr64 14 e XOR rotr64 18 e XOR rotr64 41 e) + ((e AND f) XOR (NOT e AND g)) + k + w;
          t2 = (rotr64 28 a XOR rotr64 34 a XOR rotr64 39 a) + ((a AND b) XOR (a AND c) XOR (b AND c))
      in (t1 + t2, a, b, c, d + t1, e, f, g))"

fun sha512_add :: "sha512_state \<Rightarrow> sha512_state \<Rightarrow> sha512_state" where
  "sha512_add (a, b, c, d, e, f, g, h) (a', b', c', d', e', f', g', h') =
     (a + a', b + b', c + c', d + d', e + e', f + f', g + g', h + h')"

definition sha512_block :: "sha512_state \<Rightarrow> bytes \<Rightarrow> sha512_state" where
  "sha512_block st block =
     sha512_add st (foldl sha512_round st (zip sha512_K (sha512_schedule block)))"

fun sha512_digest :: "sha512_state \<Rightarrow> bytes" where
  "sha512_digest (a, b, c, d, e, f, g, h) = concat (map be64 [a, b, c, d, e, f, g, h])"

definition sha512_Sum512 :: "bytes \<Rightarrow> bytes" where
  "sha512_Sum512 m = sha512_digest (foldl sha512_block sha512_init (groups 128 (sha512_pad m)))"

lemma length_sha512_digest: "length (sha512_digest st) = 64"
  by (induction st rule: sha512_digest.induct) simp

lemma length_sha512 [simp]: "length (sha512_Sum512 m) = 64"
  by (simp add: sha512_Sum512_def length_sha512_digest)

end
