(* ===== verification/Go_AES_GCM.thy ===== *)
theory Go_AES_GCM
  imports Go_Prelude
begin

text \<open>
  \<^verbatim>\<open>crypto/aes\<close> and \<^verbatim>\<open>cipher.NewGCM\<close>: the block cipher of FIPS 197 and the Galois/Counter Mode
  of NIST SP 800-38D with the 12-byte nonce and the 16-byte tag that \<^verbatim>\<open>NewGCM\<close> fixes, for the
  empty additional data the sources pass. Opening what was sealed gives the message,
  and nothing else opens to it: both follow from the mode alone, whatever the cipher does.
  Seal's panic on messages of 64 GiB is left out; the callers stop at 10 MB.
\<close>

section \<open>The block cipher\<close>

definition xtime :: "byte \<Rightarrow> byte" where
  "xtime b = push_bit 1 b XOR (if bit b 7 then 0x1b else 0)"

fun gf_mul :: "nat \<Rightarrow> byte \<Rightarrow> byte \<Rightarrow> byte" where
  "gf_mul 0 a b = 0"
| "gf_mul (Suc n) a b = (if bit b 0 then a else 0) XOR gf_mul n (xtime a) (drop_bit 1 b)"

text \<open>The inverse in the field is the power 254, which also sends 0 to 0.\<close>

definition gf_inv :: "byte \<Rightarrow> byte" where
  "gf_inv a = (let b = foldr (\<lambda>_ b. gf_mul 8 a (gf_mul 8 b b)) [0..<6::nat] a in gf_mul 8 b b)"

definition rotl8 :: "nat \<Rightarrow> byte \<Rightarrow> byte" where
  "rotl8 n b = push_bit n b OR drop_bit (8 - n) b"

definition aes_sbox :: "byte \<Rightarrow> byte" where
  "aes_sbox a = (let b = gf_inv a in b XOR rotl8 1 b XOR rotl8 2 b XOR rotl8 3 b XOR rotl8 4 b XOR 0x63)"

text \<open>The state is the list of its 16 bytes, column after column.\<close>

definition shift_rows :: "bytes \<Rightarrow> bytes" where
  "shift_rows s = map (\<lambda>i. s ! ((5 * i) mod 16)) [0..<16]"

definition mix_column :: "bytes \<Rightarrow> nat \<Rightarrow> byte" where
  "mix_column s i =
     (let c = 4 * (i div 4); g = (\<lambda>k. s ! (c + (i + k) mod 4))
      in xtime (g 0) XOR (xtime (g 1) XOR g 1) XOR g 2 XOR g 3)"

definition mix_columns :: "bytes \<Rightarrow> bytes" where
  "mix_columns s = map (mix_column s) [0..<16]"

definition xor_bytes :: "bytes \<Rightarrow> bytes \<Rightarrow> bytes" where
  "xor_bytes = map2 (XOR)"

text \<open>The key schedule, newest word first: \<open>nk\<close> is the length of the key in words, \<open>i\<close> the index of the next word.\<close>

fun expand_key :: "nat \<Rightarrow> nat \<Rightarrow> nat \<Rightarrow> byte \<Rightarrow> bytes list \<Rightarrow> bytes list" where
  "expand_key nk 0 i rcon ws = ws"
| "expand_key nk (Suc n) i rcon ws =
     (let t = ws ! 0; b = ws ! (nk - 1) in
      if i mod nk = 0 then
        expand_key nk n (Suc i) (xtime rcon) (xor_bytes b (xor_bytes (map aes_sbox (rotate1 t)) [rcon, 0, 0, 0]) # ws)
      else if 6 < nk \<and> i mod nk = 4 then expand_key nk n (Suc i) rcon (xor_bytes b (map aes_sbox t) # ws)
      else expand_key nk n (Suc i) rcon (xor_bytes b t # ws))"

definition round_keys :: "bytes \<Rightarrow> bytes list" where
  "round_keys key =
     (let nk = length key div 4
      in map concat (groups 4 (rev (expand_key nk (4 * (nk + 7) - nk) nk 1 (rev (groups 4 key))))))"

definition aes_round :: "bytes \<Rightarrow> bytes \<Rightarrow> bytes" where
  "aes_round s k = xor_bytes (mix_columns (shift_rows (map aes_sbox s))) k"

definition aes_Encrypt :: "bytes \<Rightarrow> bytes \<Rightarrow> bytes" where
  "aes_Encrypt key block =
     (let ks = round_keys key;
          s = foldl aes_round (xor_bytes block (hd ks)) (butlast (tl ks));
          f = shift_rows (map aes_sbox s)
      in map (\<lambda>i. f ! i XOR last ks ! i) [0..<16])"

definition aes_key_ok :: "bytes \<Rightarrow> bool" where
  "aes_key_ok key \<longleftrightarrow> length key \<in> {16, 24, 32}"

section \<open>Galois/Counter Mode\<close>

fun gf128_mul :: "nat \<Rightarrow> 128 word \<Rightarrow> 128 word \<Rightarrow> 128 word \<Rightarrow> 128 word" where
  "gf128_mul 0 x v z = z"
| "gf128_mul (Suc n) x v z =
     gf128_mul n x (if bit v 0 then drop_bit 1 v XOR push_bit 120 0xE1 else drop_bit 1 v)
       (if bit x n then z XOR v else z)"

definition ghash :: "128 word \<Rightarrow> bytes \<Rightarrow> 128 word" where
  "ghash h ct =
     (let block = (\<lambda>g. be_word (g @ replicate (16 - length g) 0));
          y = foldl (\<lambda>y g. gf128_mul 128 (y XOR block g) h 0) 0 (groups 16 ct)
      in gf128_mul 128 (y XOR word_of_nat (8 * length ct)) h 0)"

definition gcm_block :: "bytes \<Rightarrow> bytes \<Rightarrow> nat \<Rightarrow> bytes" where
  "gcm_block key nonce i = aes_Encrypt key (nonce @ be_bytes 4 (word_of_nat i :: 32 word))"

definition gcm_ctr :: "bytes \<Rightarrow> bytes \<Rightarrow> bytes \<Rightarrow> bytes" where
  "gcm_ctr key nonce data =
     xor_bytes data (concat (map (\<lambda>i. gcm_block key nonce (i + 2)) [0..<(length data + 15) div 16]))"

definition gcm_tag :: "bytes \<Rightarrow> bytes \<Rightarrow> bytes \<Rightarrow> bytes" where
  "gcm_tag key nonce ct =
     be_bytes 16 (ghash (be_word (aes_Encrypt key (replicate 16 0))) ct XOR be_word (gcm_block key nonce 1))"

definition gcm_NonceSize :: nat where "gcm_NonceSize = 12"

definition gcm_Seal :: "bytes \<Rightarrow> bytes \<Rightarrow> bytes \<Rightarrow> bytes" where
  "gcm_Seal key nonce pt = (let ct = gcm_ctr key nonce pt in ct @ gcm_tag key nonce ct)"

definition gcm_Open :: "bytes \<Rightarrow> bytes \<Rightarrow> bytes \<Rightarrow> bytes option" where
  "gcm_Open key nonce data =
     (if length data < 16 then None
      else let ct = take (length data - 16) data; tag = drop (length data - 16) data in
        if tag = gcm_tag key nonce ct then Some (gcm_ctr key nonce ct) else None)"

section \<open>Opening inverts sealing\<close>

lemma length_aes_Encrypt [simp]: "length (aes_Encrypt key block) = 16"
  by (simp add: aes_Encrypt_def Let_def)

lemma length_key_stream: "length (concat (map (\<lambda>i. gcm_block key nonce (f i)) is)) = 16 * length is"
  by (induction "is") (auto simp: gcm_block_def)

lemma length_gcm_ctr [simp]: "length (gcm_ctr key nonce data) = length data"
proof -
  have "length data \<le> 16 * ((length data + 15) div 16)" by linarith
  then show ?thesis by (simp add: gcm_ctr_def xor_bytes_def length_key_stream min_def)
qed

lemma length_gcm_tag [simp]: "length (gcm_tag key nonce ct) = 16"
  by (simp add: gcm_tag_def)

lemma xor_bytes_twice: "length data \<le> length ks \<Longrightarrow> xor_bytes (xor_bytes data ks) ks = data"
proof (induction data arbitrary: ks)
  case (Cons d data)
  then obtain k ks' where "ks = k # ks'" by (cases ks) auto
  with Cons show ?case by (simp add: xor_bytes_def xor.assoc)
qed (simp add: xor_bytes_def)

lemma gcm_ctr_twice [simp]: "gcm_ctr key nonce (gcm_ctr key nonce data) = data"
proof -
  have "length data \<le> 16 * ((length data + 15) div 16)" by linarith
  then show ?thesis
    using xor_bytes_twice [of data "concat (map (\<lambda>i. gcm_block key nonce (i + 2)) [0..<(length data + 15) div 16])"]
    by (simp add: gcm_ctr_def [of key nonce "gcm_ctr key nonce data"]) (simp add: gcm_ctr_def length_key_stream)
qed

lemma length_gcm_Seal [simp]: "length (gcm_Seal key nonce pt) = length pt + 16"
  by (simp add: gcm_Seal_def Let_def)

lemma gcm_Open_iff: "gcm_Open key nonce data = Some pt \<longleftrightarrow> data = gcm_Seal key nonce pt"
proof
  assume o: "gcm_Open key nonce data = Some pt"
  then have "\<not> length data < 16" by (auto simp: gcm_Open_def)
  with o have "drop (length data - 16) data = gcm_tag key nonce (take (length data - 16) data)"
    "pt = gcm_ctr key nonce (take (length data - 16) data)"
    by (auto simp: gcm_Open_def Let_def split: if_splits)
  then have "gcm_Seal key nonce pt = take (length data - 16) data @ drop (length data - 16) data"
    by (simp add: gcm_Seal_def Let_def)
  then show "data = gcm_Seal key nonce pt" by simp
qed (simp add: gcm_Open_def gcm_Seal_def Let_def)

end
