(* ===== verification/Crypto_Layer.thy ===== *)
theory Crypto_Layer
  imports Go_OS Go_Codecs Go_SHA512 Go_AES_GCM
begin

text \<open>
  \<^verbatim>\<open>internal/crypto\<close>: identities, shared secrets, message encryption, signed payloads, the
  identity file (\<^verbatim>\<open>crypto.go\<close>), group encryption (\<^verbatim>\<open>group.go\<close>) and invite codes (\<^verbatim>\<open>invite.go\<close>).
  The primitives of \<^verbatim>\<open>golang.org/x/crypto\<close> (X25519, XChaCha20-Poly1305, HKDF) and Ed25519 are the
  fields of a \<open>crypto_ops\<close>; \<open>crypto_doc\<close> is what their specifications promise of them and
  what the properties rely on. Random bytes are an argument.
\<close>

section \<open>Primitives\<close>

record crypto_ops =
  X25519 :: "bytes \<Rightarrow> bytes \<Rightarrow> string + bytes"
  Basepoint :: bytes
  ed25519_NewKeyFromSeed :: "bytes \<Rightarrow> bytes"
  ed25519_Sign :: "bytes \<Rightarrow> bytes \<Rightarrow> bytes"
  ed25519_Verify :: "bytes \<Rightarrow> bytes \<Rightarrow> bytes \<Rightarrow> bool"
  xchacha_Seal :: "bytes \<Rightarrow> bytes \<Rightarrow> bytes \<Rightarrow> bytes"
  xchacha_Open :: "bytes \<Rightarrow> bytes \<Rightarrow> bytes \<Rightarrow> bytes option"
  hkdf_Read :: "bytes \<Rightarrow> bytes \<Rightarrow> nat \<Rightarrow> bytes"

text \<open>
  Authenticated encryption as the three sealing formats of the program use it: a ciphertext
  opens to a message exactly when it is the message's sealing under that key and nonce.
  Both Galois/Counter Mode and XChaCha20-Poly1305 encrypt by XOR with a key stream and compare
  a tag that is a function of the ciphertext, which gives the law.
\<close>

locale aead =
  fixes seal :: "bytes \<Rightarrow> bytes \<Rightarrow> bytes \<Rightarrow> bytes"
    and unseal :: "bytes \<Rightarrow> bytes \<Rightarrow> bytes \<Rightarrow> bytes option"
    and fits :: "bytes \<Rightarrow> bytes \<Rightarrow> bool"
  assumes unseal_iff: "fits k n \<Longrightarrow> unseal k n c = Some p \<longleftrightarrow> c = seal k n p"
begin

lemma unseal_seal: "fits k n \<Longrightarrow> unseal k n (seal k n p) = Some p"
  by (simp add: unseal_iff)

text \<open>A box is the nonce followed by the sealed message.\<close>

lemma unbox_iff:
  assumes "fits k (take m d)"
  shows "unseal k (take m d) (drop m d) = Some p \<longleftrightarrow> d = take m d @ seal k (take m d) p"
  by (metis append_take_drop_id same_append_eq unseal_iff [OF assms])

lemma unbox_box: "fits k n \<Longrightarrow> unseal k (take (length n) (n @ seal k n p)) (drop (length n) (n @ seal k n p)) = Some p"
  by (simp add: unseal_seal)

end

interpretation gcm: aead gcm_Seal gcm_Open "\<lambda>k n. aes_key_ok k \<and> length n = gcm_NonceSize"
  by unfold_locales (rule gcm_Open_iff)

abbreviation xchacha_fits :: "bytes \<Rightarrow> bytes \<Rightarrow> bool" where
  "xchacha_fits k n \<equiv> length k = 32 \<and> length n = 24"

definition x25519_doc :: "crypto_ops \<Rightarrow> bool" where
  "x25519_doc ops \<longleftrightarrow>
     (\<forall>a. length a = 32 \<longrightarrow> (\<exists>A. X25519 ops a (Basepoint ops) = Inr A \<and> length A = 32))
   \<and> (\<forall>a b A B. length a = 32 \<longrightarrow> length b = 32 \<longrightarrow>
        X25519 ops a (Basepoint ops) = Inr A \<longrightarrow> X25519 ops b (Basepoint ops) = Inr B \<longrightarrow>
        (\<exists>s. X25519 ops a B = Inr s \<and> X25519 ops b A = Inr s \<and> length s = 32))"

definition ed25519_doc :: "crypto_ops \<Rightarrow> bool" where
  "ed25519_doc ops \<longleftrightarrow>
     (\<forall>seed. length seed = 32 \<longrightarrow>
        length (ed25519_NewKeyFromSeed ops seed) = 64 \<and> take 32 (ed25519_NewKeyFromSeed ops seed) = seed)
   \<and> (\<forall>k m. length k = 64 \<longrightarrow> length (ed25519_Sign ops k m) = 64)
   \<and> (\<forall>seed m. length seed = 32 \<longrightarrow>
        ed25519_Verify ops (drop 32 (ed25519_NewKeyFromSeed ops seed)) m
          (ed25519_Sign ops (ed25519_NewKeyFromSeed ops seed) m))"

definition crypto_doc :: "crypto_ops \<Rightarrow> bool" where
  "crypto_doc ops \<longleftrightarrow> x25519_doc ops \<and> ed25519_doc ops
     \<and> aead (xchacha_Seal ops) (xchacha_Open ops) xchacha_fits \<and> (\<forall>s i n. length (hkdf_Read ops s i n) = n)"

section \<open>Key pairs and messages\<close>

definition KeyLength :: nat where "KeyLength = 32"
definition NonceLength :: nat where "NonceLength = 24"
definition KeyFileMagicV1 :: string where "KeyFileMagicV1 = ''RELAYD IDENTITY KEY v1''"
definition KeyFileMagicV2 :: string where "KeyFileMagicV2 = ''RELAYD IDENTITY KEY v2''"
definition SignatureLen :: nat where "SignatureLen = 64"
definition Ed25519SeedLen :: nat where "Ed25519SeedLen = 32"

lemmas crypto_lengths = KeyLength_def NonceLength_def SignatureLen_def Ed25519SeedLen_def

abbreviation newline :: char where "newline \<equiv> CHR 0x0A"

record KeyPair =
  PublicKey :: bytes
  PrivateKey :: bytes
  Ed25519PublicKey :: bytes
  Ed25519PrivateKey :: bytes

datatype crypto_error =
    RandFailed string
  | DeriveFailed string
  | PrivateKeyLen nat
  | PublicKeyLen nat
  | CipherFailed
  | NonceLen nat
  | DecryptionFailed
  | InvalidPayload
  | ReadFailed string
  | SaveFailed string
  | InvalidIdentity
  | InvalidPublicKey
  | InvalidPrivateKey
  | UnknownIdentity
  | CiphertextTooShort
  | InvalidInvite

definition deriveEd25519 :: "crypto_ops \<Rightarrow> KeyPair \<Rightarrow> KeyPair" where
  "deriveEd25519 ops kp =
     (let seed = sha512_Sum512 (PrivateKey kp);
          edPriv = ed25519_NewKeyFromSeed ops (take Ed25519SeedLen seed)
      in kp\<lparr>Ed25519PrivateKey := edPriv, Ed25519PublicKey := go_copy (replicate 32 0) (drop 32 edPriv)\<rparr>)"

definition clamp :: "bytes \<Rightarrow> bytes" where
  "clamp k =
     (let k = k[0 := k ! 0 AND 248]; k = k[31 := k ! 31 AND 127]
      in k[31 := k ! 31 OR 64])"

definition GenerateKeyPair :: "crypto_ops \<Rightarrow> entropy \<Rightarrow> crypto_error + KeyPair" where
  "GenerateKeyPair ops rnd =
     (case rand_Read KeyLength rnd of
        Inl e \<Rightarrow> Inl (RandFailed e)
      | Inr k \<Rightarrow>
          (let privateKey = clamp k in
           case X25519 ops privateKey (Basepoint ops) of
             Inl e \<Rightarrow> Inl (DeriveFailed e)
           | Inr publicKey \<Rightarrow>
               Inr (deriveEd25519 ops \<lparr>PublicKey = publicKey, PrivateKey = privateKey,
                      Ed25519PublicKey = [], Ed25519PrivateKey = []\<rparr>)))"

definition SharedSecret :: "crypto_ops \<Rightarrow> bytes \<Rightarrow> bytes \<Rightarrow> crypto_error + bytes" where
  "SharedSecret ops privateKey peerPublicKey =
     (if length privateKey \<noteq> KeyLength then Inl (PrivateKeyLen (length privateKey))
      else if length peerPublicKey \<noteq> KeyLength then Inl (PublicKeyLen (length peerPublicKey))
      else map_sum DeriveFailed (\<lambda>s. s) (X25519 ops privateKey peerPublicKey))"

text \<open>\<^verbatim>\<open>chacha20poly1305.NewX\<close> fails exactly on keys that are not 32 bytes long.\<close>

definition EncryptMessage :: "crypto_ops \<Rightarrow> entropy \<Rightarrow> bytes \<Rightarrow> bytes \<Rightarrow> crypto_error + bytes \<times> bytes" where
  "EncryptMessage ops rnd sharedSecret plaintext =
     (if length sharedSecret \<noteq> 32 then Inl CipherFailed
      else case rand_Read NonceLength rnd of
             Inl e \<Rightarrow> Inl (RandFailed e)
           | Inr nonce \<Rightarrow> Inr (xchacha_Seal ops sharedSecret nonce plaintext, nonce))"

definition DecryptMessage :: "crypto_ops \<Rightarrow> bytes \<Rightarrow> bytes \<Rightarrow> bytes \<Rightarrow> crypto_error + bytes" where
  "DecryptMessage ops sharedSecret nonce ciphertext =
     (if length sharedSecret \<noteq> 32 then Inl CipherFailed
      else if length nonce \<noteq> NonceLength then Inl (NonceLen (length nonce))
      else case xchacha_Open ops sharedSecret nonce ciphertext of
             None \<Rightarrow> Inl DecryptionFailed
           | Some plaintext \<Rightarrow> Inr plaintext)"

section \<open>Signed payloads\<close>

text \<open>\<^verbatim>\<open>ed25519.Sign\<close> panics on a private key of a length other than 64: \<open>None\<close>.\<close>

definition SignMessage :: "crypto_ops \<Rightarrow> KeyPair \<Rightarrow> bytes \<Rightarrow> bytes option" where
  "SignMessage ops kp message =
     (if length (Ed25519PrivateKey kp) = 0 then Some []
      else if length (Ed25519PrivateKey kp) \<noteq> 64 then None
      else Some (ed25519_Sign ops (Ed25519PrivateKey kp) message))"

definition VerifySignature :: "crypto_ops \<Rightarrow> bytes \<Rightarrow> bytes \<Rightarrow> bytes \<Rightarrow> bool" where
  "VerifySignature ops publicKey message signature =
     (if length publicKey \<noteq> 32 \<or> length signature \<noteq> SignatureLen then False
      else ed25519_Verify ops publicKey message signature)"

definition BuildSignedPayload :: "crypto_ops \<Rightarrow> KeyPair \<Rightarrow> bytes \<Rightarrow> bytes option" where
  "BuildSignedPayload ops kp plaintext =
     (let senderX25519 = base64_EncodeToString (PublicKey kp);
          senderEd25519 = base64_EncodeToString (Ed25519PublicKey kp);
          sigData = bytes_of_string (senderEd25519 @ [newline]) @ plaintext
      in map_option (\<lambda>sig. bytes_of_string (senderX25519 @ [newline] @ senderEd25519 @ [newline]
            @ base64_EncodeToString sig @ [newline] @ string_of_bytes plaintext))
          (SignMessage ops kp sigData))"

text \<open>The result is the sender, its signing key (empty for \<^verbatim>\<open>nil\<close>), the text and whether the signature was valid.\<close>

definition ParseSignedPayload :: "crypto_ops \<Rightarrow> bytes \<Rightarrow> crypto_error + string \<times> bytes \<times> bytes \<times> bool" where
  "ParseSignedPayload ops payload =
     (let parts = strings_SplitN 4 newline (string_of_bytes payload) in
      if length parts = 2 then Inr (parts ! 0, [], bytes_of_string (parts ! 1), False)
      else if length parts < 4 then Inl InvalidPayload
      else let sender = parts ! 0; plaintext = bytes_of_string (parts ! 3) in
        case base64_DecodeString (parts ! 1) of
          None \<Rightarrow> Inr (sender, [], plaintext, False)
        | Some ed25519Pub \<Rightarrow>
            if length ed25519Pub \<noteq> 32 then Inr (sender, [], plaintext, False)
            else (case base64_DecodeString (parts ! 2) of
                    None \<Rightarrow> Inr (sender, ed25519Pub, plaintext, False)
                  | Some sig \<Rightarrow>
                      if length sig \<noteq> SignatureLen then Inr (sender, ed25519Pub, plaintext, False)
                      else Inr (sender, ed25519Pub, plaintext,
                        VerifySignature ops ed25519Pub (bytes_of_string (parts ! 1 @ [newline]) @ plaintext) sig)))"

section \<open>The identity file\<close>

text \<open>Slicing the seed off a signing key that is too short panics: \<open>None\<close>.\<close>

definition identity_data :: "KeyPair \<Rightarrow> string option" where
  "identity_data kp =
     (if length (Ed25519PrivateKey kp) < Ed25519SeedLen then None
      else Some (KeyFileMagicV2 @ [newline] @ ''pub:'' @ base64_EncodeToString (PublicKey kp) @ [newline]
        @ ''priv:'' @ base64_EncodeToString (PrivateKey kp) @ [newline]
        @ ''ed25519:'' @ base64_EncodeToString (take Ed25519SeedLen (Ed25519PrivateKey kp)) @ [newline]))"

definition SaveIdentity ::
  "write_result \<Rightarrow> string \<Rightarrow> KeyPair \<Rightarrow> files \<Rightarrow> ((crypto_error + unit) \<times> files) option" where
  "SaveIdentity w path kp fs =
     map_option (\<lambda>data. case os_WriteFile w path (bytes_of_string data) fs of
         (None, fs') \<Rightarrow> (Inr (), fs')
       | (Some e, fs') \<Rightarrow> (Inl (SaveFailed e), fs')) (identity_data kp)"

definition read_keys :: "string list \<Rightarrow> crypto_error + bytes \<times> bytes" where
  "read_keys lines =
     (case base64_DecodeString (strings_TrimPrefix (lines ! 1) ''pub:'') of
        None \<Rightarrow> Inl InvalidPublicKey
      | Some pub \<Rightarrow>
          (case base64_DecodeString (strings_TrimPrefix (lines ! 2) ''priv:'') of
             None \<Rightarrow> Inl InvalidPrivateKey
           | Some priv \<Rightarrow> Inr (pub, priv)))"

definition LoadIdentity :: "crypto_ops \<Rightarrow> string option \<Rightarrow> string \<Rightarrow> files \<Rightarrow> crypto_error + KeyPair" where
  "LoadIdentity ops fault path fs =
     (case os_ReadFile fault path fs of
        Inl e \<Rightarrow> Inl (ReadFailed e)
      | Inr data \<Rightarrow>
          (let lines = strings_Split newline (strings_TrimSpace (string_of_bytes data));
               kp = (\<lambda>(pub, priv). \<lparr>PublicKey = pub, PrivateKey = priv, Ed25519PublicKey = [], Ed25519PrivateKey = []\<rparr>)
           in
           if length lines < 3 then Inl InvalidIdentity
           else if lines ! 0 = KeyFileMagicV1 then
             map_sum (\<lambda>e. e) (\<lambda>ks. deriveEd25519 ops (kp ks)) (read_keys lines)
           else if lines ! 0 = KeyFileMagicV2 then
             (if length lines < 4 then Inl InvalidIdentity
              else map_sum (\<lambda>e. e) (\<lambda>ks.
                case base64_DecodeString (strings_TrimPrefix (lines ! 3) ''ed25519:'') of
                  None \<Rightarrow> deriveEd25519 ops (kp ks)
                | Some edSeed \<Rightarrow>
                    if length edSeed \<noteq> Ed25519SeedLen then deriveEd25519 ops (kp ks)
                    else let edPriv = ed25519_NewKeyFromSeed ops edSeed
                         in (kp ks)\<lparr>Ed25519PrivateKey := edPriv,
                              Ed25519PublicKey := go_copy (replicate 32 0) (drop 32 edPriv)\<rparr>) (read_keys lines))
           else Inl UnknownIdentity))"

section \<open>Groups and invites\<close>

definition GenerateGroupKey :: "entropy \<Rightarrow> crypto_error + bytes" where
  "GenerateGroupKey rnd = map_sum RandFailed (\<lambda>k. k) (rand_Read 32 rnd)"

definition EncryptGroupMessage :: "crypto_ops \<Rightarrow> entropy \<Rightarrow> bytes \<Rightarrow> bytes \<Rightarrow> crypto_error + bytes" where
  "EncryptGroupMessage ops rnd groupKey plaintext =
     (if length groupKey \<noteq> 32 then Inl CipherFailed
      else case rand_Read 24 rnd of
             Inl e \<Rightarrow> Inl (RandFailed e)
           | Inr nonce \<Rightarrow> Inr (nonce @ xchacha_Seal ops groupKey nonce plaintext))"

definition DecryptGroupMessage :: "crypto_ops \<Rightarrow> bytes \<Rightarrow> bytes \<Rightarrow> crypto_error + bytes" where
  "DecryptGroupMessage ops groupKey data =
     (if length groupKey \<noteq> 32 then Inl CipherFailed
      else if length data < 24 then Inl CiphertextTooShort
      else case xchacha_Open ops groupKey (take 24 data) (drop 24 data) of
             None \<Rightarrow> Inl DecryptionFailed
           | Some p \<Rightarrow> Inr p)"

definition RotateGroupKey :: "bytes \<Rightarrow> bytes" where
  "RotateGroupKey oldKey = sha256_Sum256 (oldKey @ bytes_of_string ''group-rotation-v1'')"

definition GenerateInviteCode :: "entropy \<Rightarrow> bytes \<Rightarrow> string \<Rightarrow> crypto_error + string \<times> bytes" where
  "GenerateInviteCode rnd pubkey nickname =
     (if length pubkey \<noteq> 32 then Inl (PublicKeyLen (length pubkey))
      else case rand_Read 8 rnd of
             Inl e \<Rightarrow> Inl (RandFailed e)
           | Inr nonce \<Rightarrow> Inr (''v1:'' @ base32hex_EncodeToString pubkey @ '':''
               @ base32hex_EncodeToString nonce @ '':''
               @ base32hex_EncodeToString (bytes_of_string nickname), nonce))"

definition ParseInviteCode :: "string \<Rightarrow> crypto_error + bytes \<times> bytes \<times> string" where
  "ParseInviteCode code =
     (let parts = strings_SplitN 4 CHR '':'' code in
      if length parts \<noteq> 4 \<or> parts ! 0 \<noteq> ''v1'' then Inl InvalidInvite
      else case base32hex_DecodeString (parts ! 1) of
             None \<Rightarrow> Inl InvalidInvite
           | Some pubkey \<Rightarrow>
               if length pubkey \<noteq> 32 then Inl InvalidInvite
               else (case base32hex_DecodeString (parts ! 2) of
                       None \<Rightarrow> Inl InvalidInvite
                     | Some nonce \<Rightarrow>
                         if length nonce \<noteq> 8 then Inl InvalidInvite
                         else (case base32hex_DecodeString (parts ! 3) of
                                 None \<Rightarrow> Inl InvalidInvite
                               | Some nick \<Rightarrow> Inr (pubkey, nonce, string_of_bytes nick))))"

definition DeriveHelloKey :: "crypto_ops \<Rightarrow> bytes \<Rightarrow> bytes" where
  "DeriveHelloKey ops nonce = hkdf_Read ops nonce (bytes_of_string ''vrgram-hello-v1'') 32"

definition EncryptHello :: "crypto_ops \<Rightarrow> entropy \<Rightarrow> bytes \<Rightarrow> bytes \<Rightarrow> crypto_error + bytes" where
  "EncryptHello ops rnd helloKey payload =
     (if length helloKey \<noteq> 32 then Inl CipherFailed
      else case rand_Read 24 rnd of
             Inl e \<Rightarrow> Inl (RandFailed e)
           | Inr nonce \<Rightarrow> Inr (nonce @ xchacha_Seal ops helloKey nonce payload))"

definition DecryptHello :: "crypto_ops \<Rightarrow> bytes \<Rightarrow> bytes \<Rightarrow> crypto_error + bytes" where
  "DecryptHello ops helloKey data =
     (if length helloKey \<noteq> 32 then Inl CipherFailed
      else if length data < 24 then Inl CiphertextTooShort
      else case xchacha_Open ops helloKey (take 24 data) (drop 24 data) of
             None \<Rightarrow> Inl DecryptionFailed
           | Some p \<Rightarrow> Inr p)"

section \<open>Lemmas\<close>

text \<open>What a key pair of this program is: its parts belong together.\<close>

definition keypair_ok :: "crypto_ops \<Rightarrow> KeyPair \<Rightarrow> bool" where
  "keypair_ok ops kp \<longleftrightarrow> length (PrivateKey kp) = 32 \<and> length (PublicKey kp) = 32
     \<and> X25519 ops (PrivateKey kp) (Basepoint ops) = Inr (PublicKey kp)
     \<and> (\<exists>seed. length seed = 32 \<and> Ed25519PrivateKey kp = ed25519_NewKeyFromSeed ops seed)
     \<and> Ed25519PublicKey kp = drop 32 (Ed25519PrivateKey kp)"

lemma length_clamp [simp]: "length (clamp k) = length k"
  by (simp add: clamp_def Let_def)

lemma crypto_docD:
  assumes "crypto_doc ops"
  shows "length seed = 32 \<Longrightarrow> length (ed25519_NewKeyFromSeed ops seed) = 64"
    and "length seed = 32 \<Longrightarrow> take 32 (ed25519_NewKeyFromSeed ops seed) = seed"
    and "length k = 64 \<Longrightarrow> length (ed25519_Sign ops k m) = 64"
    and "length seed = 32 \<Longrightarrow> ed25519_Verify ops (drop 32 (ed25519_NewKeyFromSeed ops seed)) m
          (ed25519_Sign ops (ed25519_NewKeyFromSeed ops seed) m)"
    and "length (hkdf_Read ops s i n) = n"
    and "aead (xchacha_Seal ops) (xchacha_Open ops) xchacha_fits"
    and "length a = 32 \<Longrightarrow> \<exists>A. X25519 ops a (Basepoint ops) = Inr A \<and> length A = 32"
  using assms by (auto simp: crypto_doc_def ed25519_doc_def x25519_doc_def)

lemma deriveEd25519_ok:
  assumes "crypto_doc ops" "length (PrivateKey kp) = 32" "length (PublicKey kp) = 32"
    "X25519 ops (PrivateKey kp) (Basepoint ops) = Inr (PublicKey kp)"
  shows "keypair_ok ops (deriveEd25519 ops kp)"
proof -
  let ?s = "take 32 (sha512_Sum512 (PrivateKey kp))"
  have "length (ed25519_NewKeyFromSeed ops ?s) = 64" by (rule crypto_docD(1) [OF assms(1)]) simp
  then show ?thesis
    using assms(2-4) by (auto simp: keypair_ok_def deriveEd25519_def Let_def crypto_lengths intro!: exI [of _ ?s])
qed

lemma GenerateKeyPair_ok:
  assumes "crypto_doc ops" "GenerateKeyPair ops rnd = Inr kp"
  shows "keypair_ok ops kp"
proof -
  obtain k pub where k: "rand_Read 32 rnd = Inr k" "X25519 ops (clamp k) (Basepoint ops) = Inr pub"
    "kp = deriveEd25519 ops \<lparr>PublicKey = pub, PrivateKey = clamp k, Ed25519PublicKey = [], Ed25519PrivateKey = []\<rparr>"
    using assms(2) by (auto simp: GenerateKeyPair_def crypto_lengths Let_def split: sum.splits)
  have l: "length (clamp k) = 32" using length_rand_Read [OF k(1)] by simp
  then have "length pub = 32" using crypto_docD(7) [OF assms(1) l] k(2) by auto
  with l k show ?thesis using deriveEd25519_ok [OF assms(1)] by simp
qed

lemma GenerateKeyPair_total:
  assumes "crypto_doc ops"
  shows "\<exists>kp. GenerateKeyPair ops (Inr f) = Inr kp"
  using crypto_docD(7) [OF assms, of "clamp (map f [0..<32])"]
  by (auto simp: GenerateKeyPair_def crypto_lengths Let_def)

lemma SharedSecret_agree:
  assumes "crypto_doc ops" "keypair_ok ops a" "keypair_ok ops b"
  shows "\<exists>s. SharedSecret ops (PrivateKey a) (PublicKey b) = Inr s
    \<and> SharedSecret ops (PrivateKey b) (PublicKey a) = Inr s \<and> length s = 32"
proof -
  have "\<exists>s. X25519 ops (PrivateKey a) (PublicKey b) = Inr s
    \<and> X25519 ops (PrivateKey b) (PublicKey a) = Inr s \<and> length s = 32"
    using assms unfolding crypto_doc_def x25519_doc_def keypair_ok_def by blast
  then show ?thesis using assms(2,3) by (auto simp: SharedSecret_def keypair_ok_def crypto_lengths)
qed

lemma newline_notin_base64: "newline \<notin> set (base64_EncodeToString bs)"
  by (rule b64.sep_notin) (simp add: base64_alphabet_def)

lemma colon_notin_base32: "CHR '':'' \<notin> set (base32hex_EncodeToString bs)"
  by (rule b32.sep_notin) (simp add: base32hex_alphabet_def)

lemma SplitN_four:
  assumes "c \<notin> set p" "c \<notin> set q" "c \<notin> set r"
  shows "strings_SplitN 4 c (p @ c # q @ c # r @ c # l) = [p, q, r, l]"
  using strings_SplitN_Join [of "[p, q, r]" c l] assms by (auto simp: numeral_eq_Suc)

lemma ParseSignedPayload_fields:
  assumes "newline \<notin> set x" "newline \<notin> set e" "newline \<notin> set g"
  shows "ParseSignedPayload ops (bytes_of_string (x @ newline # e @ newline # g @ newline # string_of_bytes pt)) =
    (case base64_DecodeString e of
       None \<Rightarrow> Inr (x, [], pt, False)
     | Some ed \<Rightarrow> if length ed \<noteq> 32 then Inr (x, [], pt, False)
         else (case base64_DecodeString g of
                 None \<Rightarrow> Inr (x, ed, pt, False)
               | Some sig \<Rightarrow> if length sig \<noteq> 64 then Inr (x, ed, pt, False)
                   else Inr (x, ed, pt, VerifySignature ops ed (bytes_of_string (e @ [newline]) @ pt) sig)))"
  unfolding ParseSignedPayload_def string_of_bytes_of_string SplitN_four [OF assms]
  by (simp add: Let_def crypto_lengths numeral_eq_Suc split: option.split)

text \<open>A payload built with a key pair is accepted as signed under every sender line.\<close>

lemma signed_payload_any_sender:
  assumes "crypto_doc ops" "keypair_ok ops kp" "newline \<notin> set x"
  shows "\<exists>sig. SignMessage ops kp (bytes_of_string (base64_EncodeToString (Ed25519PublicKey kp) @ [newline]) @ pt) = Some sig
    \<and> ParseSignedPayload ops (bytes_of_string (x @ newline # base64_EncodeToString (Ed25519PublicKey kp) @ newline #
        base64_EncodeToString sig @ newline # string_of_bytes pt)) = Inr (x, Ed25519PublicKey kp, pt, True)"
proof -
  obtain seed where seed: "length seed = 32" "Ed25519PrivateKey kp = ed25519_NewKeyFromSeed ops seed"
    "Ed25519PublicKey kp = drop 32 (Ed25519PrivateKey kp)"
    using assms(2) by (auto simp: keypair_ok_def)
  let ?m = "bytes_of_string (base64_EncodeToString (Ed25519PublicKey kp) @ [newline]) @ pt"
  let ?sig = "ed25519_Sign ops (Ed25519PrivateKey kp) ?m"
  have l: "length (Ed25519PrivateKey kp) = 64" "length ?sig = 64"
    using crypto_docD(1) [OF assms(1) seed(1)] crypto_docD(3) [OF assms(1)] seed(2) by simp_all
  have sm: "SignMessage ops kp ?m = Some ?sig" using l(1) by (auto simp: SignMessage_def)
  have v: "VerifySignature ops (Ed25519PublicKey kp) ?m ?sig"
    using l crypto_docD(4) [OF assms(1) seed(1)] seed(2,3) by (simp add: VerifySignature_def crypto_lengths)
  have "length (Ed25519PublicKey kp) = 32" using l(1) seed(3) by simp
  then show ?thesis
    unfolding sm ParseSignedPayload_fields [OF assms(3) newline_notin_base64 newline_notin_base64] b64.dec_enc
    using l(2) v sm by (simp add: ParseSignedPayload_fields assms(3) newline_notin_base64 b64.dec_enc del: bytes_of_string_append)
qed

lemma TrimSpace_newline:
  assumes "s \<noteq> []" "hd s \<notin> hd ` set space_seqs" "last s \<notin> last ` set space_seqs"
  shows "strings_TrimSpace (s @ [newline]) = s"
proof -
  have ne: "w \<noteq> []" if "w \<in> set space_seqs" for w using that by (auto simp: space_seqs_def)
  have "trim_left space_seqs (length (s @ [newline])) (s @ [newline]) = s @ [newline]"
    using assms(1,2) ne by (intro trim_left_id) (auto intro: rev_image_eqI)
  moreover have "find (\<lambda>w. strings_HasPrefix (newline # rev s) w) (map rev space_seqs) = Some [newline]"
    by (simp add: space_seqs_def strings_HasPrefix_def)
  moreover have "trim_left (map rev space_seqs) (length s) (rev s) = rev s"
    using assms(1,3) ne by (intro trim_left_id) (auto simp: hd_rev intro: rev_image_eqI)
  ultimately show ?thesis by (simp add: strings_TrimSpace_def Let_def)
qed

lemma base64_last:
  assumes "bs \<noteq> []"
  shows "base64_EncodeToString bs \<noteq> []" "last (base64_EncodeToString bs) \<notin> last ` set space_seqs"
proof -
  show ne: "base64_EncodeToString bs \<noteq> []"
    using b64.enc_inject [of bs "[]"] assms by (auto simp: base64_EncodeToString_def digits_of_def)
  have "insert CHR ''='' (set base64_alphabet) \<inter> last ` set space_seqs = {}"
    by (simp add: base64_alphabet_def space_seqs_def)
  then show "last (base64_EncodeToString bs) \<notin> last ` set space_seqs"
    using last_in_set [OF ne] b64.enc_alphabet [of bs] by blast
qed

text \<open>The lines that loading reads are those that saving wrote.\<close>

lemma identity_lines:
  assumes "identity_data kp = Some data"
  shows "strings_Split newline (strings_TrimSpace data) =
    [KeyFileMagicV2, ''pub:'' @ base64_EncodeToString (PublicKey kp),
     ''priv:'' @ base64_EncodeToString (PrivateKey kp),
     ''ed25519:'' @ base64_EncodeToString (take 32 (Ed25519PrivateKey kp))]" (is "_ = ?ls")
proof -
  have l: "32 \<le> length (Ed25519PrivateKey kp)"
    and d: "data = strings_Join ?ls [newline] @ [newline]"
    using assms by (auto simp: identity_data_def crypto_lengths split: if_splits)
  let ?b = "take 32 (Ed25519PrivateKey kp)"
  have b: "?b \<noteq> []" using l by auto
  have "last (strings_Join ?ls [newline]) = last (base64_EncodeToString ?b)"
    using base64_last(1) [OF b] by simp
  moreover have "hd (strings_Join ?ls [newline]) = CHR ''R''" by (simp add: KeyFileMagicV2_def)
  ultimately have "strings_TrimSpace data = strings_Join ?ls [newline]"
    unfolding d using base64_last(2) [OF b]
    by (intro TrimSpace_newline) (simp_all add: KeyFileMagicV2_def space_seqs_def)
  moreover have "newline \<notin> set x" if "x \<in> set ?ls" for x
    using that newline_notin_base64 by (auto simp: KeyFileMagicV2_def)
  ultimately show ?thesis using strings_Split_Join [of ?ls newline] by simp
qed

lemma LoadIdentity_saved:
  assumes "crypto_doc ops" "keypair_ok ops kp" "identity_data kp = Some data"
    "fmlookup fs path = Some (bytes_of_string data)"
  shows "LoadIdentity ops None path fs = Inr kp"
proof -
  obtain seed where seed: "length seed = 32" "Ed25519PrivateKey kp = ed25519_NewKeyFromSeed ops seed"
    "Ed25519PublicKey kp = drop 32 (Ed25519PrivateKey kp)"
    using assms(2) by (auto simp: keypair_ok_def)
  have t: "take 32 (Ed25519PrivateKey kp) = seed" "length (Ed25519PrivateKey kp) = 64"
    using crypto_docD(1,2) [OF assms(1) seed(1)] seed(2) by simp_all
  have rd: "os_ReadFile None path fs = Inr (bytes_of_string data)" using assms(4) by (simp add: os_ReadFile_def)
  have m: "KeyFileMagicV2 \<noteq> KeyFileMagicV1" by (simp add: KeyFileMagicV1_def KeyFileMagicV2_def)
  show ?thesis
    unfolding LoadIdentity_def rd sum.case string_of_bytes_of_string identity_lines [OF assms(3)] t(1)
    using m t(2) seed
    by (simp add: Let_def read_keys_def b64.dec_enc crypto_lengths strings_TrimPrefix_append
        del: append.simps)
qed

lemma DecryptMessage_iff:
  assumes "crypto_doc ops"
  shows "DecryptMessage ops s n c = Inr p \<longleftrightarrow>
    length s = 32 \<and> length n = 24 \<and> c = xchacha_Seal ops s n p"
  using aead.unseal_iff [OF crypto_docD(6) [OF assms], of s n c p]
  by (auto simp: DecryptMessage_def crypto_lengths split: option.splits)

lemma DecryptGroupMessage_iff:
  assumes "crypto_doc ops"
  shows "DecryptGroupMessage ops k d = Inr p \<longleftrightarrow>
    length k = 32 \<and> 24 \<le> length d \<and> d = take 24 d @ xchacha_Seal ops k (take 24 d) p"
  using aead.unbox_iff [OF crypto_docD(6) [OF assms], of k 24 d p]
  by (auto simp: DecryptGroupMessage_def split: option.splits)

lemma DecryptHello_group: "DecryptHello = DecryptGroupMessage"
  by (simp add: fun_eq_iff DecryptHello_def DecryptGroupMessage_def)

lemma EncryptHello_group: "EncryptHello = EncryptGroupMessage"
  by (simp add: fun_eq_iff EncryptHello_def EncryptGroupMessage_def)

lemma DecryptGroup_Encrypt:
  assumes "crypto_doc ops" "EncryptGroupMessage ops rnd k p = Inr d"
  shows "DecryptGroupMessage ops k d = Inr p"
proof -
  obtain n where n: "length k = 32" "rand_Read 24 rnd = Inr n" "d = n @ xchacha_Seal ops k n p"
    using assms(2) by (auto simp: EncryptGroupMessage_def split: if_splits sum.splits)
  then show ?thesis using length_rand_Read [OF n(2)] by (simp add: DecryptGroupMessage_iff [OF assms(1)])
qed

text \<open>An implementation of the primitives without any security, to instantiate the contract.\<close>

definition plain_crypto :: crypto_ops where
  "plain_crypto = \<lparr>
     X25519 = (\<lambda>a p. Inr (map2 (+) a p)),
     Basepoint = replicate 32 9,
     ed25519_NewKeyFromSeed = (\<lambda>s. s @ s),
     ed25519_Sign = (\<lambda>k m. k),
     ed25519_Verify = (\<lambda>p m s. drop 32 s = p),
     xchacha_Seal = (\<lambda>k n p. p),
     xchacha_Open = (\<lambda>k n c. Some c),
     hkdf_Read = (\<lambda>s i n. replicate n 0)\<rparr>"

lemma map2_add_commute:
  "length a = length b \<Longrightarrow> length b = length c \<Longrightarrow> map2 (+) a (map2 (+) b c) = map2 (+) b (map2 (+) a (c :: bytes))"
proof (induction a arbitrary: b c)
  case (Cons x a)
  then obtain y b' z c' where "b = y # b'" "c = z # c'" by (metis length_Suc_conv)
  with Cons show ?case by simp
qed simp

lemma crypto_doc_plain: "crypto_doc plain_crypto"
  by (auto simp: crypto_doc_def x25519_doc_def ed25519_doc_def plain_crypto_def map2_add_commute
      aead_def)

section \<open>Properties\<close>

text \<open>
  (C19) Two users understand each other: for any two generated identities, a message that one
  signs and encrypts for the other is decrypted with the other's private key to the same
  payload, which names the sender, carries the text unchanged and has a valid signature.
\<close>

theorem sealed_payload_roundtrip:
  assumes "crypto_doc ops" "GenerateKeyPair ops ra = Inr a" "GenerateKeyPair ops rb = Inr b"
  shows "\<exists>s payload c n. SharedSecret ops (PrivateKey a) (PublicKey b) = Inr s
    \<and> BuildSignedPayload ops a text = Some payload \<and> EncryptMessage ops (Inr f) s payload = Inr (c, n)
    \<and> (\<exists>s'. SharedSecret ops (PrivateKey b) (PublicKey a) = Inr s' \<and> DecryptMessage ops s' n c = Inr payload)
    \<and> ParseSignedPayload ops payload = Inr (base64_EncodeToString (PublicKey a), Ed25519PublicKey a, text, True)"
proof -
  have ok: "keypair_ok ops a" "keypair_ok ops b" using assms GenerateKeyPair_ok by blast+
  obtain s where s: "SharedSecret ops (PrivateKey a) (PublicKey b) = Inr s"
    "SharedSecret ops (PrivateKey b) (PublicKey a) = Inr s" "length s = 32"
    using SharedSecret_agree [OF assms(1) ok] by blast
  let ?x = "base64_EncodeToString (PublicKey a)" and ?e = "base64_EncodeToString (Ed25519PublicKey a)"
  obtain sig where sig: "SignMessage ops a (bytes_of_string (?e @ [newline]) @ text) = Some sig"
    "ParseSignedPayload ops (bytes_of_string (?x @ newline # ?e @ newline #
        base64_EncodeToString sig @ newline # string_of_bytes text)) = Inr (?x, Ed25519PublicKey a, text, True)"
    using signed_payload_any_sender [OF assms(1) ok(1) newline_notin_base64] by blast
  let ?p = "bytes_of_string (?x @ newline # ?e @ newline # base64_EncodeToString sig @ newline # string_of_bytes text)"
  have "BuildSignedPayload ops a text = Some ?p"
    using sig(1) by (simp add: BuildSignedPayload_def)
  moreover have "EncryptMessage ops (Inr f) s ?p = Inr (xchacha_Seal ops s (map f [0..<24]) ?p, map f [0..<24])"
    using s(3) by (simp add: EncryptMessage_def crypto_lengths)
  moreover have "DecryptMessage ops s (map f [0..<24]) (xchacha_Seal ops s (map f [0..<24]) ?p) = Inr ?p"
    using s(3) by (simp add: DecryptMessage_iff [OF assms(1)])
  ultimately show ?thesis using s sig(2) by blast
qed

theorem sealed_payload_roundtrip_witness:
  "\<exists>a b s payload c n. GenerateKeyPair plain_crypto (Inr (\<lambda>_. 1)) = Inr a \<and> GenerateKeyPair plain_crypto (Inr (\<lambda>_. 2)) = Inr b
    \<and> SharedSecret plain_crypto (PrivateKey a) (PublicKey b) = Inr s
    \<and> BuildSignedPayload plain_crypto a [104, 105] = Some payload
    \<and> EncryptMessage plain_crypto (Inr (\<lambda>_. 0)) s payload = Inr (c, n)
    \<and> ParseSignedPayload plain_crypto payload = Inr (base64_EncodeToString (PublicKey a), Ed25519PublicKey a, [104, 105], True)"
proof -
  obtain a b where ab: "GenerateKeyPair plain_crypto (Inr (\<lambda>_. 1)) = Inr a" "GenerateKeyPair plain_crypto (Inr (\<lambda>_. 2)) = Inr b"
    using GenerateKeyPair_total [OF crypto_doc_plain] by meson
  then show ?thesis
    using sealed_payload_roundtrip [OF crypto_doc_plain ab, of "[104, 105]" "\<lambda>_. 0"] by blast
qed

text \<open>
  An identity survives a restart: saving a generated key pair never panics, and when the
  write succeeds, loading the file gives back exactly the same keys.
\<close>

theorem identity_file_roundtrip:
  assumes "crypto_doc ops" "GenerateKeyPair ops rnd = Inr kp"
  shows "\<exists>fs'. SaveIdentity WriteOK path kp fs = Some (Inr (), fs') \<and> LoadIdentity ops None path fs' = Inr kp"
proof -
  have ok: "keypair_ok ops kp" by (rule GenerateKeyPair_ok [OF assms])
  then obtain data where data: "identity_data kp = Some data"
    using crypto_docD(1) [OF assms(1)] by (auto simp: identity_data_def keypair_ok_def crypto_lengths)
  then have "SaveIdentity WriteOK path kp fs = Some (Inr (), fmupd path (bytes_of_string data) fs)"
    by (simp add: SaveIdentity_def os_WriteFile_def)
  moreover have "LoadIdentity ops None path (fmupd path (bytes_of_string data) fs) = Inr kp"
    by (rule LoadIdentity_saved [OF assms(1) ok data]) simp
  ultimately show ?thesis by blast
qed

theorem identity_file_roundtrip_witness:
  "\<exists>kp fs'. GenerateKeyPair plain_crypto (Inr (\<lambda>_. 1)) = Inr kp
    \<and> SaveIdentity WriteOK ''identity.key'' kp fmempty = Some (Inr (), fs')
    \<and> LoadIdentity plain_crypto None ''identity.key'' fs' = Inr kp"
  using GenerateKeyPair_total [OF crypto_doc_plain, of "\<lambda>_. 1"]
    identity_file_roundtrip [OF crypto_doc_plain] by blast



text \<open>
  An invite code is read as it was written: the code that one generates parses to their public key,
  the nonce and the nickname, whatever the nickname contains, and a greeting that the other
  encrypts under the key derived from the parsed nonce is decrypted under the key that
  the inviter derives from the nonce it kept.
\<close>

theorem invite_roundtrip:
  assumes "crypto_doc ops" "GenerateInviteCode rnd pubkey nickname = Inr (code, nonce)"
  shows "ParseInviteCode code = Inr (pubkey, nonce, nickname)
    \<and> (\<exists>box. EncryptHello ops (Inr f) (DeriveHelloKey ops nonce) payload = Inr box
        \<and> DecryptHello ops (DeriveHelloKey ops nonce) box = Inr payload)"
proof
  have l: "length pubkey = 32" "length nonce = 8"
    and code: "code = ''v1'' @ CHR '':'' # base32hex_EncodeToString pubkey @ CHR '':'' #
      base32hex_EncodeToString nonce @ CHR '':'' # base32hex_EncodeToString (bytes_of_string nickname)"
    using assms(2) length_rand_Read [of 8 rnd] by (auto simp: GenerateInviteCode_def split: if_splits sum.splits)
  have sp: "strings_SplitN 4 CHR '':'' code = [''v1'', base32hex_EncodeToString pubkey,
      base32hex_EncodeToString nonce, base32hex_EncodeToString (bytes_of_string nickname)]"
    unfolding code by (rule SplitN_four) (simp_all add: colon_notin_base32)
  show "ParseInviteCode code = Inr (pubkey, nonce, nickname)"
    unfolding ParseInviteCode_def sp by (simp add: Let_def b32.dec_enc l numeral_eq_Suc)
  have "length (DeriveHelloKey ops nonce) = 32"
    using crypto_docD(5) [OF assms(1)] by (simp add: DeriveHelloKey_def)
  then obtain box where box: "EncryptHello ops (Inr f) (DeriveHelloKey ops nonce) payload = Inr box"
    by (simp add: EncryptHello_def)
  then show "\<exists>box. EncryptHello ops (Inr f) (DeriveHelloKey ops nonce) payload = Inr box
        \<and> DecryptHello ops (DeriveHelloKey ops nonce) box = Inr payload"
    using DecryptGroup_Encrypt [OF assms(1)] by (auto simp: DecryptHello_group EncryptHello_group)
qed

theorem invite_roundtrip_witness:
  "\<exists>code nonce. GenerateInviteCode (Inr (\<lambda>_. 3)) (replicate 32 1) ''a:b'' = Inr (code, nonce)
    \<and> ParseInviteCode code = Inr (replicate 32 1, nonce, ''a:b'')"
proof -
  obtain code nonce where g: "GenerateInviteCode (Inr (\<lambda>_. 3)) (replicate 32 1) ''a:b'' = Inr (code, nonce)"
    by (simp add: GenerateInviteCode_def)
  then show ?thesis using invite_roundtrip [OF crypto_doc_plain g] by blast
qed

end
