(* ===== verification/Go_Net.thy ===== *)
theory Go_Net
  imports Go_Prelude
begin

text \<open>
  The part of Go's \<^verbatim>\<open>net\<close> package that the client uses on addresses: \<^verbatim>\<open>SplitHostPort\<close>,
  \<^verbatim>\<open>JoinHostPort\<close> and \<^verbatim>\<open>ParseIP\<close>.
\<close>

section \<open>Host and port\<close>

datatype addr_error = MissingPort | TooManyColons | MissingBracket | UnexpectedOpen | UnexpectedClose

definition last_index :: "char \<Rightarrow> string \<Rightarrow> nat option" where
  "last_index c s =
     (if c \<in> set s then Some (length s - 1 - length (takeWhile (\<lambda>d. d \<noteq> c) (rev s))) else None)"

definition first_index :: "char \<Rightarrow> string \<Rightarrow> nat option" where
  "first_index c s = (if c \<in> set s then Some (length (takeWhile (\<lambda>d. d \<noteq> c) s)) else None)"

definition split_tail :: "string \<Rightarrow> nat \<Rightarrow> string \<Rightarrow> nat \<Rightarrow> nat \<Rightarrow> addr_error + string \<times> string" where
  "split_tail hostport i host j k =
     (if CHR ''['' \<in> set (drop j hostport) then Inl UnexpectedOpen
      else if CHR '']'' \<in> set (drop k hostport) then Inl UnexpectedClose
      else Inr (host, drop (i + 1) hostport))"

definition net_SplitHostPort :: "string \<Rightarrow> addr_error + string \<times> string" where
  "net_SplitHostPort hostport =
     (case last_index (CHR '':'') hostport of
        None \<Rightarrow> Inl MissingPort
      | Some i \<Rightarrow>
          if hd hostport = CHR ''['' then
            (case first_index (CHR '']'') hostport of
               None \<Rightarrow> Inl MissingBracket
             | Some e \<Rightarrow>
                 if e + 1 = length hostport then Inl MissingPort
                 else if e + 1 = i then split_tail hostport i (drop 1 (take e hostport)) 1 (e + 1)
                 else if hostport ! (e + 1) = CHR '':'' then Inl TooManyColons
                 else Inl MissingPort)
          else
            (let host = take i hostport in
             if CHR '':'' \<in> set host then Inl TooManyColons
             else split_tail hostport i host 0 0))"

definition net_JoinHostPort :: "string \<Rightarrow> string \<Rightarrow> string" where
  "net_JoinHostPort host port =
     (if CHR '':'' \<in> set host then ''['' @ host @ '']:'' @ port else host @ '':'' @ port)"

section \<open>IP addresses\<close>

definition is_digit :: "char \<Rightarrow> bool" where
  "is_digit c \<longleftrightarrow> 48 \<le> (of_char c :: nat) \<and> (of_char c :: nat) \<le> 57"

definition is_hex_digit :: "char \<Rightarrow> bool" where
  "is_hex_digit c \<longleftrightarrow> is_digit c \<or> (65 \<le> (of_char c :: nat) \<and> (of_char c :: nat) \<le> 70)
     \<or> (97 \<le> (of_char c :: nat) \<and> (of_char c :: nat) \<le> 102)"

definition dec_value :: "string \<Rightarrow> nat" where
  "dec_value s = foldl (\<lambda>n c. 10 * n + (of_char c - 48)) 0 s"

text \<open>Four decimal fields of at most 255 without leading zeros.\<close>

definition parse_ipv4 :: "string \<Rightarrow> bool" where
  "parse_ipv4 s =
     (let fs = strings_Split (CHR ''.'') s in
      length fs = 4 \<and>
      list_all (\<lambda>f. f \<noteq> [] \<and> list_all is_digit f \<and> length f \<le> 3 \<and> dec_value f \<le> 255
                  \<and> (length f > 1 \<longrightarrow> hd f \<noteq> CHR ''0'')) fs)"

text \<open>
  The number of 16-bit fields of a colon-separated sequence; the last one may be an IPv4
  address, which stands for two.
\<close>

fun ipv6_fields :: "bool \<Rightarrow> string list \<Rightarrow> nat option" where
  "ipv6_fields v4 [] = Some 0"
| "ipv6_fields v4 (f # fs) =
     (if f \<noteq> [] \<and> length f \<le> 4 \<and> list_all is_hex_digit f
      then map_option Suc (ipv6_fields v4 fs)
      else if v4 \<and> fs = [] \<and> parse_ipv4 f then Some 2 else None)"

definition fields_of :: "bool \<Rightarrow> string \<Rightarrow> nat option" where
  "fields_of v4 s = (if s = [] then Some 0 else ipv6_fields v4 (strings_Split (CHR '':'') s))"

fun cut_ellipsis :: "string \<Rightarrow> (string \<times> string) option" where
  "cut_ellipsis (a # b # s) =
     (if a = CHR '':'' \<and> b = CHR '':'' then Some ([], s)
      else map_option (\<lambda>(l, r). (a # l, r)) (cut_ellipsis (b # s)))"
| "cut_ellipsis _ = None"

definition parse_ipv6 :: "string \<Rightarrow> bool" where
  "parse_ipv6 s =
     (case cut_ellipsis s of
        None \<Rightarrow> fields_of True s = Some 8
      | Some (l, r) \<Rightarrow>
          (case (fields_of False l, fields_of True r) of
             (Some m, Some n) \<Rightarrow> m + n \<le> 7
           | _ \<Rightarrow> False))"

text \<open>Whether \<^verbatim>\<open>ParseIP\<close> returns an address: the first dot or colon decides the family.\<close>

definition net_ParseIP :: "string \<Rightarrow> bool" where
  "net_ParseIP s =
     (case find (\<lambda>c. c = CHR ''.'' \<or> c = CHR '':'') s of
        None \<Rightarrow> False
      | Some c \<Rightarrow> if c = CHR ''.'' then parse_ipv4 s else parse_ipv6 s)"

section \<open>Lemmas\<close>

lemma last_index_append:
  "c \<notin> set p \<Longrightarrow> last_index c (h @ c # p) = Some (length h)"
proof -
  assume "c \<notin> set p"
  then have "takeWhile (\<lambda>d. d \<noteq> c) (rev p @ c # rev h) = rev p"
    by (subst takeWhile_append2) auto
  then show ?thesis by (simp add: last_index_def)
qed

text \<open>Splitting undoes joining, for hosts without brackets and ports without separators.\<close>

lemma split_join_host_port:
  assumes "CHR ''['' \<notin> set host" "CHR '']'' \<notin> set host"
    and "CHR '':'' \<notin> set port" "CHR ''['' \<notin> set port" "CHR '']'' \<notin> set port"
  shows "net_SplitHostPort (net_JoinHostPort host port) = Inr (host, port)"
proof (cases "CHR '':'' \<in> set host")
  case False
  then have "last_index (CHR '':'') (host @ CHR '':'' # port) = Some (length host)"
    using assms(3) by (simp add: last_index_append)
  moreover have "hd (host @ CHR '':'' # port) \<noteq> CHR ''[''" using assms(1) by (cases host) auto
  ultimately show ?thesis using assms False
    by (simp add: net_JoinHostPort_def net_SplitHostPort_def split_tail_def)
next
  case True
  let ?s = "''['' @ host @ '']:'' @ port"
  have s: "?s = (''['' @ host @ '']'') @ CHR '':'' # port" by simp
  have l: "last_index (CHR '':'') ?s = Some (length host + 2)"
    unfolding s using assms(3) by (subst last_index_append) auto
  have "takeWhile (\<lambda>d. d \<noteq> CHR '']'') ?s = CHR ''['' # host"
    using assms(2) by (simp, subst takeWhile_append2) auto
  then have f: "first_index (CHR '']'') ?s = Some (length host + 1)"
    by (simp add: first_index_def)
  show ?thesis using True assms l f
    by (simp add: net_JoinHostPort_def net_SplitHostPort_def split_tail_def)
qed

end
