(* ===== verification/Go_JSON.thy ===== *)
theory Go_JSON
  imports Go_Net
begin

text \<open>
  \<^verbatim>\<open>encoding/json\<close> as the daemon uses it. Reading: the grammar of RFC 8259 with Go's limit on
  nesting, the unquoting of strings with invalid UTF-8 and lone surrogates replaced, and
  the decoding of an object into the fields of a struct, where keys match up to the case of
  letters, a later key overrides an earlier one, \<^verbatim>\<open>null\<close> leaves a field as it is and a value of
  the wrong type makes \<^verbatim>\<open>Unmarshal\<close> fail. Writing: Go's escaping, and the compact and the indented
  layout. Reading what was written gives the value back if its strings are valid UTF-8.
\<close>

section \<open>UTF-8\<close>

abbreviation code :: "char \<Rightarrow> nat" where "code \<equiv> of_char"

text \<open>The length of the code point at the start of a string, 0 when the encoding is invalid.\<close>

definition cont_byte :: "char \<Rightarrow> bool" where
  "cont_byte c \<longleftrightarrow> 128 \<le> code c \<and> code c < 192"

definition utf8_len :: "string \<Rightarrow> nat" where
  "utf8_len s =
     (case s of
        [] \<Rightarrow> 0
      | a # r \<Rightarrow>
          if code a < 128 then 1
          else if 194 \<le> code a \<and> code a < 224 then
            (case r of b # _ \<Rightarrow> if cont_byte b then 2 else 0 | _ \<Rightarrow> 0)
          else if 224 \<le> code a \<and> code a < 240 then
            (case r of
               b # c # _ \<Rightarrow>
                 if cont_byte b \<and> cont_byte c \<and> (code a = 224 \<longrightarrow> 160 \<le> code b) \<and> (code a = 237 \<longrightarrow> code b < 160)
                 then 3 else 0
             | _ \<Rightarrow> 0)
          else if 240 \<le> code a \<and> code a < 245 then
            (case r of
               b # c # d # _ \<Rightarrow>
                 if cont_byte b \<and> cont_byte c \<and> cont_byte d \<and> (code a = 240 \<longrightarrow> 144 \<le> code b)
                    \<and> (code a = 244 \<longrightarrow> code b < 144) then 4 else 0
             | _ \<Rightarrow> 0)
          else 0)"

function utf8_valid :: "string \<Rightarrow> bool" where
  "utf8_valid s =
     (if s = [] then True else if utf8_len s = 0 then False else utf8_valid (drop (utf8_len s) s))"
  by pat_completeness auto
termination by (relation "measure length") auto

declare utf8_valid.simps [simp del]

definition utf8_encode :: "nat \<Rightarrow> string" where
  "utf8_encode u =
     map char_of (if u < 0x80 then [u]
      else if u < 0x800 then [0xC0 + u div 64, 0x80 + u mod 64]
      else if u < 0x10000 then [0xE0 + u div 4096, 0x80 + u div 64 mod 64, 0x80 + u mod 64]
      else [0xF0 + u div 262144, 0x80 + u div 4096 mod 64, 0x80 + u div 64 mod 64, 0x80 + u mod 64])"

definition rune_error :: string where "rune_error = utf8_encode 0xFFFD"

section \<open>Strings\<close>

abbreviation quote :: char where "quote \<equiv> CHR 0x22"
abbreviation backslash :: char where "backslash \<equiv> CHR 0x5C"

definition hex_digit_value :: "char \<Rightarrow> nat" where
  "hex_digit_value c =
     (if code c \<le> 57 then code c - 48 else if code c \<le> 70 then code c - 55 else code c - 87)"

definition hex_value :: "string \<Rightarrow> nat" where
  "hex_value s = foldl (\<lambda>n c. 16 * n + hex_digit_value c) 0 s"

definition four_hex :: "string \<Rightarrow> bool" where
  "four_hex s \<longleftrightarrow> 4 \<le> length s \<and> list_all is_hex_digit (take 4 s)"

text \<open>The text of a string up to its closing quote, escapes checked but not replaced.\<close>

function json_raw :: "string \<Rightarrow> (string \<times> string) option" where
  "json_raw [] = None"
| "json_raw (c # r) =
     (if c = quote then Some ([], r)
      else if code c < 32 then None
      else if c \<noteq> backslash then map_option (\<lambda>(a, b). (c # a, b)) (json_raw r)
      else if r \<noteq> [] \<and> hd r \<in> set [quote, backslash, CHR ''/'', CHR ''b'', CHR ''f'', CHR ''n'', CHR ''r'', CHR ''t'']
           then map_option (\<lambda>(a, b). (c # hd r # a, b)) (json_raw (drop 1 r))
      else if r \<noteq> [] \<and> hd r = CHR ''u'' \<and> four_hex (drop 1 r)
           then map_option (\<lambda>(a, b). (c # take 5 r @ a, b)) (json_raw (drop 5 r))
      else None)"
  by pat_completeness auto
termination by (relation "measure length") auto

definition unescape_char :: "char \<Rightarrow> char" where
  "unescape_char c =
     (if c = CHR ''b'' then CHR 0x08 else if c = CHR ''f'' then CHR 0x0C else if c = CHR ''n'' then CHR 0x0A
      else if c = CHR ''r'' then CHR 0x0D else if c = CHR ''t'' then CHR 0x09 else c)"

text \<open>\<^verbatim>\<open>utf16.DecodeRune\<close> on two escapes, when the second is one.\<close>

definition surrogate_pair :: "nat \<Rightarrow> string \<Rightarrow> nat option" where
  "surrogate_pair u r =
     (if 0xD800 \<le> u \<and> u < 0xDC00 \<and> take 2 r = [backslash, CHR ''u''] \<and> four_hex (drop 2 r)
        \<and> 0xDC00 \<le> hex_value (take 4 (drop 2 r)) \<and> hex_value (take 4 (drop 2 r)) < 0xE000
      then Some ((u - 0xD800) * 1024 + (hex_value (take 4 (drop 2 r)) - 0xDC00) + 0x10000) else None)"

function json_unquote :: "string \<Rightarrow> string" where
  "json_unquote [] = []"
| "json_unquote (c # r) =
     (if c = backslash then
        (if r = [] then []
         else if hd r = CHR ''u'' then
           (let u = hex_value (take 4 (drop 1 r)) in
            if 0xD800 \<le> u \<and> u < 0xE000 then
              (case surrogate_pair u (drop 5 r) of
                 Some p \<Rightarrow> utf8_encode p @ json_unquote (drop 11 r)
               | None \<Rightarrow> rune_error @ json_unquote (drop 5 r))
            else utf8_encode u @ json_unquote (drop 5 r))
         else unescape_char (hd r) # json_unquote (drop 1 r))
      else if code c < 128 then c # json_unquote r
      else let n = utf8_len (c # r) in
           if n = 0 then rune_error @ json_unquote r
           else take n (c # r) @ json_unquote (drop (n - 1) r))"
  by pat_completeness auto
termination by (relation "measure length") auto

definition json_string :: "string \<Rightarrow> (string \<times> string) option" where
  "json_string s = map_option (\<lambda>(raw, rest). (json_unquote raw, rest)) (json_raw s)"

definition hex_digit :: "nat \<Rightarrow> char" where
  "hex_digit n = char_of (if n < 10 then 48 + n else 87 + n)"

definition short_escape :: "char \<Rightarrow> char option" where
  "short_escape c =
     (if c = quote \<or> c = backslash then Some c
      else if c = CHR 0x08 then Some CHR ''b'' else if c = CHR 0x0C then Some CHR ''f''
      else if c = CHR 0x0A then Some CHR ''n'' else if c = CHR 0x0D then Some CHR ''r''
      else if c = CHR 0x09 then Some CHR ''t'' else None)"

definition escape_ascii :: "char \<Rightarrow> string" where
  "escape_ascii c =
     (case short_escape c of
        Some e \<Rightarrow> [backslash, e]
      | None \<Rightarrow>
          if code c < 32 \<or> c \<in> {CHR ''<'', CHR ''>'', CHR ''&''}
          then backslash # ''u00'' @ [hex_digit (code c div 16), hex_digit (code c mod 16)]
          else [c])"

text \<open>The line separators U+2028 and U+2029 are escaped, and invalid bytes become the replacement character.\<close>

definition escape_rune :: "string \<Rightarrow> string" where
  "escape_rune w =
     (if w = [CHR 0xE2, CHR 0x80, CHR 0xA8] then backslash # ''u2028''
      else if w = [CHR 0xE2, CHR 0x80, CHR 0xA9] then backslash # ''u2029'' else w)"

function json_escape :: "string \<Rightarrow> string" where
  "json_escape [] = []"
| "json_escape (c # r) =
     (if code c < 128 then escape_ascii c @ json_escape r
      else let n = utf8_len (c # r) in
           if n = 0 then backslash # ''ufffd'' @ json_escape r
           else escape_rune (take n (c # r)) @ json_escape (drop (n - 1) r))"
  by pat_completeness auto
termination by (relation "measure length") auto

declare json_raw.simps(2) [simp del] json_unquote.simps(2) [simp del] json_escape.simps(2) [simp del]

section \<open>Values\<close>

datatype json =
    JNull
  | JBool bool
  | JNum string
  | JStr string
  | JArr "json list"
  | JObj "(string \<times> json) list"

definition is_ws :: "char \<Rightarrow> bool" where
  "is_ws c \<longleftrightarrow> c = CHR 0x20 \<or> c = CHR 0x09 \<or> c = CHR 0x0A \<or> c = CHR 0x0D"

definition skip_ws :: "string \<Rightarrow> string" where
  "skip_ws = dropWhile is_ws"

definition json_digits :: "string \<Rightarrow> (string \<times> string) option" where
  "json_digits s = (let ds = takeWhile is_digit s in if ds = [] then None else Some (ds, dropWhile is_digit s))"

definition json_integer :: "string \<Rightarrow> (string \<times> string) option" where
  "json_integer s = (if s \<noteq> [] \<and> hd s = CHR ''0'' then Some (''0'', tl s) else json_digits s)"

definition json_fraction :: "string \<Rightarrow> (string \<times> string) option" where
  "json_fraction s =
     (if s \<noteq> [] \<and> hd s = CHR ''.'' then map_option (\<lambda>(d, r). (CHR ''.'' # d, r)) (json_digits (tl s)) else Some ([], s))"

definition json_exponent :: "string \<Rightarrow> (string \<times> string) option" where
  "json_exponent s =
     (if s \<noteq> [] \<and> (hd s = CHR ''e'' \<or> hd s = CHR ''E'') then
        (let r = tl s; sg = (if r \<noteq> [] \<and> (hd r = CHR ''+'' \<or> hd r = CHR ''-'') then [hd r] else [])
         in map_option (\<lambda>(d, r'). (hd s # sg @ d, r')) (json_digits (drop (length sg) r)))
      else Some ([], s))"

definition json_number :: "string \<Rightarrow> (string \<times> string) option" where
  "json_number s =
     (let sg = (if s \<noteq> [] \<and> hd s = CHR ''-'' then ''-'' else []) in
      case json_integer (drop (length sg) s) of
        None \<Rightarrow> None
      | Some (i, r1) \<Rightarrow>
          (case json_fraction r1 of
             None \<Rightarrow> None
           | Some (f, r2) \<Rightarrow> map_option (\<lambda>(e, r3). (sg @ i @ f @ e, r3)) (json_exponent r2)))"

definition json_literal :: "string \<Rightarrow> (json \<times> string) option" where
  "json_literal s =
     (if strings_HasPrefix s ''null'' then Some (JNull, drop 4 s)
      else if strings_HasPrefix s ''true'' then Some (JBool True, drop 4 s)
      else if strings_HasPrefix s ''false'' then Some (JBool False, drop 5 s)
      else map_option (\<lambda>(n, r). (JNum n, r)) (json_number s))"

text \<open>
  \<open>d\<close> is the nesting that is still allowed. The fuel \<open>n\<close> counts the recursive calls. Twice the
  length of the input suffices (\<open>json_fuel_enough\<close>): no more than two calls are made between
  two characters that are consumed.
\<close>

fun json_value :: "nat \<Rightarrow> nat \<Rightarrow> string \<Rightarrow> (json \<times> string) option"
  and json_elems :: "nat \<Rightarrow> nat \<Rightarrow> string \<Rightarrow> (json list \<times> string) option"
  and json_members :: "nat \<Rightarrow> nat \<Rightarrow> string \<Rightarrow> ((string \<times> json) list \<times> string) option" where
  "json_value 0 d s = None"
| "json_value (Suc n) d s =
     (case skip_ws s of
        [] \<Rightarrow> None
      | c # r \<Rightarrow>
          if c = CHR ''{'' then
            (if d = 0 then None
             else if skip_ws r \<noteq> [] \<and> hd (skip_ws r) = CHR ''}'' then Some (JObj [], tl (skip_ws r))
             else map_option (\<lambda>(ms, r'). (JObj ms, r')) (json_members n (d - 1) r))
          else if c = CHR ''['' then
            (if d = 0 then None
             else if skip_ws r \<noteq> [] \<and> hd (skip_ws r) = CHR '']'' then Some (JArr [], tl (skip_ws r))
             else map_option (\<lambda>(vs, r'). (JArr vs, r')) (json_elems n (d - 1) r))
          else if c = quote then map_option (\<lambda>(t, r'). (JStr t, r')) (json_string r)
          else json_literal (c # r))"
| "json_elems 0 d s = None"
| "json_elems (Suc n) d s =
     (case json_value n d s of
        None \<Rightarrow> None
      | Some (v, r) \<Rightarrow>
          (case skip_ws r of
             [] \<Rightarrow> None
           | c # r' \<Rightarrow>
               if c = CHR '','' then map_option (\<lambda>(vs, t). (v # vs, t)) (json_elems n d r')
               else if c = CHR '']'' then Some ([v], r') else None))"
| "json_members 0 d s = None"
| "json_members (Suc n) d s =
     (case skip_ws s of
        [] \<Rightarrow> None
      | q # r \<Rightarrow>
          if q \<noteq> quote then None
          else (case json_string r of
                  None \<Rightarrow> None
                | Some (k, r1) \<Rightarrow>
                    (case skip_ws r1 of
                       [] \<Rightarrow> None
                     | c # r2 \<Rightarrow>
                         if c \<noteq> CHR '':'' then None
                         else (case json_value n d r2 of
                                 None \<Rightarrow> None
                               | Some (v, r3) \<Rightarrow>
                                   (case skip_ws r3 of
                                      [] \<Rightarrow> None
                                    | e # r4 \<Rightarrow>
                                        if e = CHR '','' then map_option (\<lambda>(ms, t). ((k, v) # ms, t)) (json_members n d r4)
                                        else if e = CHR ''}'' then Some ([(k, v)], r4) else None)))))"

definition json_parse :: "string \<Rightarrow> json option" where
  "json_parse s =
     (case json_value (Suc (2 * length s)) 10000 s of
        Some (v, r) \<Rightarrow> if skip_ws r = [] then Some v else None
      | None \<Rightarrow> None)"

section \<open>Decoding into structs\<close>

text \<open>
  Keys match a field name up to case; Go folds the Kelvin sign and the long s to the ASCII
  letters, all other letters beyond ASCII differ from those of the field names.
\<close>

definition upper_char :: "char \<Rightarrow> char" where
  "upper_char c = (if 97 \<le> code c \<and> code c \<le> 122 then char_of (code c - 32) else c)"

fun fold_key :: "string \<Rightarrow> string" where
  "fold_key (a # b # c # r) =
     (if a = CHR 0xE2 \<and> b = CHR 0x84 \<and> c = CHR 0xAA then CHR ''K'' # fold_key r
      else if a = CHR 0xC5 \<and> b = CHR 0xBF then CHR ''S'' # fold_key (c # r)
      else upper_char a # fold_key (b # c # r))"
| "fold_key (a # b # []) =
     (if a = CHR 0xC5 \<and> b = CHR 0xBF then ''S'' else [upper_char a, upper_char b])"
| "fold_key s = map upper_char s"

definition key_matches :: "string \<Rightarrow> string \<Rightarrow> bool" where
  "key_matches field key \<longleftrightarrow> fold_key key = map upper_char field"

text \<open>The value of a field: the last one given, starting from the zero value, or \<open>None\<close> on a value of another type.\<close>

fun field_string :: "string \<Rightarrow> (string \<times> json) list \<Rightarrow> string \<Rightarrow> string option" where
  "field_string f [] z = Some z"
| "field_string f ((k, v) # ms) z =
     (if key_matches f k then
        (case v of JStr s \<Rightarrow> field_string f ms s | JNull \<Rightarrow> field_string f ms z | _ \<Rightarrow> None)
      else field_string f ms z)"

text \<open>\<^verbatim>\<open>strconv.ParseUint(s, 10, 64)\<close> on the text of a number.\<close>

definition parse_uint64 :: "string \<Rightarrow> uint64 option" where
  "parse_uint64 s =
     (if s \<noteq> [] \<and> list_all is_digit s \<and> dec_value s < 2 ^ 64 then Some (word_of_nat (dec_value s)) else None)"

fun field_uint64 :: "string \<Rightarrow> (string \<times> json) list \<Rightarrow> uint64 \<Rightarrow> uint64 option" where
  "field_uint64 f [] z = Some z"
| "field_uint64 f ((k, v) # ms) z =
     (if key_matches f k then
        (case v of
           JNum s \<Rightarrow> (case parse_uint64 s of None \<Rightarrow> None | Some w \<Rightarrow> field_uint64 f ms w)
         | JNull \<Rightarrow> field_uint64 f ms z | _ \<Rightarrow> None)
      else field_uint64 f ms z)"

text \<open>The members that a struct is decoded from: \<^verbatim>\<open>null\<close> decodes to the zero struct.\<close>

definition struct_members :: "string \<Rightarrow> (string \<times> json) list option" where
  "struct_members s =
     (case json_parse s of Some JNull \<Rightarrow> Some [] | Some (JObj ms) \<Rightarrow> Some ms | _ \<Rightarrow> None)"

section \<open>Writing\<close>

function nat_string :: "nat \<Rightarrow> string" where
  "nat_string n = (if n < 10 then [char_of (48 + n)] else nat_string (n div 10) @ [char_of (48 + n mod 10)])"
  by pat_completeness auto
termination by (relation "measure id") auto

declare nat_string.simps [simp del]

definition json_quoted :: "string \<Rightarrow> string" where
  "json_quoted s = quote # json_escape s @ [quote]"

text \<open>
  \<open>nl d\<close> is what the layout writes before an element or a closing bracket at depth \<open>d\<close>, \<open>sp\<close> what
  it writes after a colon: nothing for \<^verbatim>\<open>Marshal\<close>, a line break with two spaces per level and
  one space for \<^verbatim>\<open>MarshalIndent(v, "", "  ")\<close>.
\<close>

fun json_print :: "(nat \<Rightarrow> string) \<Rightarrow> string \<Rightarrow> nat \<Rightarrow> json \<Rightarrow> string"
  and print_elems :: "(nat \<Rightarrow> string) \<Rightarrow> string \<Rightarrow> nat \<Rightarrow> json list \<Rightarrow> string"
  and print_members :: "(nat \<Rightarrow> string) \<Rightarrow> string \<Rightarrow> nat \<Rightarrow> (string \<times> json) list \<Rightarrow> string" where
  "json_print nl sp d JNull = ''null''"
| "json_print nl sp d (JBool b) = (if b then ''true'' else ''false'')"
| "json_print nl sp d (JNum s) = s"
| "json_print nl sp d (JStr s) = json_quoted s"
| "json_print nl sp d (JArr vs) = (if vs = [] then ''[]'' else ''['' @ print_elems nl sp (Suc d) vs @ nl d @ '']'')"
| "json_print nl sp d (JObj ms) = (if ms = [] then ''{}'' else ''{'' @ print_members nl sp (Suc d) ms @ nl d @ ''}'')"
| "print_elems nl sp d [] = []"
| "print_elems nl sp d (v # vs) =
     nl d @ json_print nl sp d v @ (if vs = [] then [] else '','' @ print_elems nl sp d vs)"
| "print_members nl sp d [] = []"
| "print_members nl sp d ((k, v) # ms) =
     nl d @ json_quoted k @ '':'' @ sp @ json_print nl sp d v
       @ (if ms = [] then [] else '','' @ print_members nl sp d ms)"

definition json_Marshal :: "json \<Rightarrow> string" where
  "json_Marshal v = json_print (\<lambda>_. []) [] 0 v"

definition json_MarshalIndent :: "json \<Rightarrow> string" where
  "json_MarshalIndent v = json_print (\<lambda>d. CHR 0x0A # replicate (2 * d) CHR '' '') '' '' 0 v"

section \<open>Reading strings that were written\<close>

lemma utf8_len_cases:
  assumes "utf8_len s = n" "0 < n"
  obtains a r where "s = a # r" "code a < 128" "n = 1"
  | a b r where "s = a # b # r" "\<not> code a < 128" "194 \<le> code a \<and> code a < 224" "cont_byte b" "n = 2"
  | a b c r where "s = a # b # c # r" "\<not> code a < 128" "\<not> (194 \<le> code a \<and> code a < 224)"
      "224 \<le> code a \<and> code a < 240"
      "cont_byte b \<and> cont_byte c \<and> (code a = 224 \<longrightarrow> 160 \<le> code b) \<and> (code a = 237 \<longrightarrow> code b < 160)" "n = 3"
  | a b c d r where "s = a # b # c # d # r" "\<not> code a < 128" "\<not> (194 \<le> code a \<and> code a < 224)"
      "\<not> (224 \<le> code a \<and> code a < 240)" "240 \<le> code a \<and> code a < 245"
      "cont_byte b \<and> cont_byte c \<and> cont_byte d \<and> (code a = 240 \<longrightarrow> 144 \<le> code b) \<and> (code a = 244 \<longrightarrow> code b < 144)" "n = 4"
  using assms that unfolding utf8_len_def by (simp split: list.splits if_splits)

lemma utf8_len_take:
  assumes "utf8_len s = n" "0 < n"
  shows "n \<le> length s" "utf8_len (take n s @ t) = n"
    and "1 < n \<Longrightarrow> c \<in> set (take n s) \<Longrightarrow> 128 \<le> code c"
    and "1 < n \<longleftrightarrow> 128 \<le> code (hd s)"
proof -
  show "n \<le> length s" by (cases rule: utf8_len_cases [OF assms]) auto
  show "utf8_len (take n s @ t) = n" by (cases rule: utf8_len_cases [OF assms]) (simp_all add: utf8_len_def)
  show "1 < n \<longleftrightarrow> 128 \<le> code (hd s)" by (cases rule: utf8_len_cases [OF assms]) simp_all
  show "128 \<le> code c" if "1 < n" "c \<in> set (take n s)"
    using that by (cases rule: utf8_len_cases [OF assms]) (auto simp: cont_byte_def)
qed

lemma hex_digit_ok:
  assumes "n < 16"
  shows "is_hex_digit (hex_digit n)" "hex_digit_value (hex_digit n) = n"
proof -
  have "n \<in> set [0..<16]" using assms by simp
  then show "is_hex_digit (hex_digit n)" "hex_digit_value (hex_digit n) = n"
    by (auto simp: upt_rec hex_digit_def hex_digit_value_def is_hex_digit_def is_digit_def)
qed

lemma json_raw_plain:
  "(\<And>c. c \<in> set xs \<Longrightarrow> c \<noteq> quote \<and> c \<noteq> backslash \<and> 32 \<le> code c) \<Longrightarrow>
   json_raw (xs @ t) = map_option (\<lambda>(a, b). (xs @ a, b)) (json_raw t)"
proof (induction xs)
  case Nil
  show ?case by (cases "json_raw t") auto
next
  case (Cons x xs)
  then show ?case
    by (simp add: json_raw.simps(2) leD option.map_comp comp_def case_prod_unfold)
qed

lemma json_raw_u4:
  "length h = 4 \<Longrightarrow> list_all is_hex_digit h \<Longrightarrow>
   json_raw (backslash # CHR ''u'' # h @ t) = map_option (\<lambda>(a, b). (backslash # CHR ''u'' # h @ a, b)) (json_raw t)"
  by (simp add: json_raw.simps(2) four_hex_def)

lemma json_unquote_u4:
  "length h = 4 \<Longrightarrow> \<not> (0xD800 \<le> hex_value h \<and> hex_value h < 0xE000) \<Longrightarrow>
   json_unquote (backslash # CHR ''u'' # h @ t) = utf8_encode (hex_value h) @ json_unquote t"
  by (auto simp: json_unquote.simps(2) Let_def)

lemma short_escape_Some:
  "short_escape c = Some e \<Longrightarrow> unescape_char e = c
     \<and> e \<in> set [quote, backslash, CHR ''/'', CHR ''b'', CHR ''f'', CHR ''n'', CHR ''r'', CHR ''t'']"
  by (auto simp: short_escape_def unescape_char_def split: if_splits)

lemma short_escape_None: "short_escape c = None \<Longrightarrow> c \<noteq> quote \<and> c \<noteq> backslash"
  by (auto simp: short_escape_def split: if_splits)

lemma escape_ascii_cases:
  assumes "code c < 128"
  obtains (esc) e where "escape_ascii c = [backslash, e]" "unescape_char e = c"
      "e \<in> set [quote, backslash, CHR ''/'', CHR ''b'', CHR ''f'', CHR ''n'', CHR ''r'', CHR ''t'']"
  | (u4) h where "escape_ascii c = backslash # CHR ''u'' # h" "length h = 4" "list_all is_hex_digit h" "hex_value h = code c"
  | (same) "escape_ascii c = [c]" "c \<noteq> quote" "c \<noteq> backslash" "32 \<le> code c"
proof (cases "short_escape c")
  case None
  let ?h = "[CHR ''0'', CHR ''0'', hex_digit (code c div 16), hex_digit (code c mod 16)]"
  have d: "code c div 16 < 16" "code c mod 16 < 16" using assms by auto
  have h: "length ?h = 4" "list_all is_hex_digit ?h" "hex_value ?h = code c"
    using hex_digit_ok [OF d(1)] hex_digit_ok [OF d(2)]
    by (simp_all add: hex_value_def is_hex_digit_def is_digit_def hex_digit_value_def [of "CHR ''0''"])
  show ?thesis
  proof (cases "code c < 32 \<or> c \<in> {CHR ''<'', CHR ''>'', CHR ''&''}")
    case True
    then have "escape_ascii c = backslash # CHR ''u'' # ?h" by (simp add: escape_ascii_def None)
    then show ?thesis using h by (rule u4)
  next
    case False
    then have "escape_ascii c = [c]" "32 \<le> code c" by (auto simp: escape_ascii_def None)
    then show ?thesis using short_escape_None [OF None] same by blast
  qed
next
  case (Some e)
  then have "escape_ascii c = [backslash, e]" by (simp add: escape_ascii_def)
  then show ?thesis using short_escape_Some [OF Some] esc by blast
qed

lemma json_raw_escape_ascii:
  assumes "code c < 128"
  shows "json_raw (escape_ascii c @ t) = map_option (\<lambda>(a, b). (escape_ascii c @ a, b)) (json_raw t)"
  using assms
proof (cases rule: escape_ascii_cases)
  case (esc e)
  then show ?thesis by (auto simp: json_raw.simps(2))
next
  case (u4 h)
  then show ?thesis by (simp add: json_raw_u4)
next
  case same
  then show ?thesis using json_raw_plain [of "[c]" t] by simp
qed

lemma json_unquote_escape_ascii:
  assumes "code c < 128"
  shows "json_unquote (escape_ascii c @ t) = c # json_unquote t"
  using assms
proof (cases rule: escape_ascii_cases)
  case (esc e)
  then show ?thesis by (auto simp: json_unquote.simps(2))
next
  case (u4 h)
  then show ?thesis using assms by (simp add: json_unquote_u4 utf8_encode_def)
next
  case same
  then show ?thesis using assms by (simp add: json_unquote.simps(2))
qed

lemma json_raw_escape_rune:
  assumes "\<And>c. c \<in> set w \<Longrightarrow> 128 \<le> code c"
  shows "json_raw (escape_rune w @ t) = map_option (\<lambda>(a, b). (escape_rune w @ a, b)) (json_raw t)"
proof -
  have "c \<noteq> quote \<and> c \<noteq> backslash \<and> 32 \<le> code c" if "c \<in> set w" for c
    using assms [OF that] by auto
  then show ?thesis
    using json_raw_u4 [of "''2028''" t] json_raw_u4 [of "''2029''" t] json_raw_plain [of w t]
    by (simp add: escape_rune_def is_hex_digit_def is_digit_def)
qed

lemma utf8_encode_separators:
  "utf8_encode 0x2028 = [CHR 0xE2, CHR 0x80, CHR 0xA8]" "utf8_encode 0x2029 = [CHR 0xE2, CHR 0x80, CHR 0xA9]"
  by (simp_all add: utf8_encode_def char_of_def bit_0)

lemma json_unquote_escape_rune:
  assumes "utf8_len s = n" "1 < n"
  shows "json_unquote (escape_rune (take n s) @ t) = take n s @ json_unquote t"
proof -
  let ?w = "take n s"
  have l: "length ?w = n" and u: "utf8_len (?w @ t) = n"
    using utf8_len_take(1,2) [OF assms(1)] assms(2) by auto
  obtain c r where w: "?w = c # r" using l assms(2) by (cases ?w) auto
  have r: "length r = n - 1" using l w by simp
  have c: "\<not> code c < 128" using utf8_len_take(3) [OF assms(1) _ assms(2), of c] assms(2) w by simp
  have "c \<noteq> backslash" using c by auto
  then have "json_unquote (?w @ t) = take n (c # r @ t) @ json_unquote (drop (n - 1) (r @ t))"
    using u c assms(2) unfolding w append_Cons by (simp add: json_unquote.simps(2) Let_def)
  then have "json_unquote (?w @ t) = ?w @ json_unquote t"
    using r w assms(2) by (simp add: take_Cons')
  then show ?thesis
    using json_unquote_u4 [of "''2028''" t] json_unquote_u4 [of "''2029''" t]
    by (auto simp: escape_rune_def hex_value_def hex_digit_value_def utf8_encode_separators)
qed

lemma json_raw_escape: "json_raw (json_escape s @ quote # t) = Some (json_escape s, t)"
proof (induction s rule: json_escape.induct)
  case 1
  show ?case by (simp add: json_raw.simps(2))
next
  case (2 c r)
  let ?n = "utf8_len (c # r)"
  consider "code c < 128" | "128 \<le> code c" "?n = 0" | "128 \<le> code c" "0 < ?n" by linarith
  then show ?case
  proof cases
    case 1
    then show ?thesis using 2(1) json_raw_escape_ascii [OF 1] by (simp add: json_escape.simps(2))
  next
    case 2
    then show ?thesis
      using "2.IH"(2) json_raw_u4 [of "''fffd''"]
      by (simp add: json_escape.simps(2) is_hex_digit_def is_digit_def)
  next
    case 3
    have n1: "1 < ?n" using utf8_len_take(4) [OF refl 3(2)] 3(1) by simp
    have ih: "json_raw (json_escape (drop (?n - 1) r) @ quote # t) = Some (json_escape (drop (?n - 1) r), t)"
      using 3 "2.IH"(3) by auto
    have "json_escape (c # r) = escape_rune (take ?n (c # r)) @ json_escape (drop (?n - 1) r)"
      using 3 by (simp add: json_escape.simps(2) Let_def)
    then show ?thesis
      using ih json_raw_escape_rune [OF utf8_len_take(3) [OF refl 3(2) n1]] by (simp del: take_Suc_Cons)
  qed
qed

lemma json_unquote_escape: "utf8_valid s \<Longrightarrow> json_unquote (json_escape s) = s"
proof (induction s rule: json_escape.induct)
  case (2 c r)
  let ?n = "utf8_len (c # r)"
  have v: "0 < ?n" "utf8_valid (drop ?n (c # r))"
    using "2.prems" utf8_valid.simps [of "c # r"] by (auto split: if_splits)
  show ?case
  proof (cases "code c < 128")
    case True
    then have "?n = 1" by (simp add: utf8_len_def)
    then show ?thesis
      using v(2) True "2.IH"(1) by (simp add: json_escape.simps(2) json_unquote_escape_ascii)
  next
    case False
    have n1: "1 < ?n" using utf8_len_take(4) [OF refl v(1)] False by simp
    have dr: "drop ?n (c # r) = drop (?n - 1) r" using v(1) by (cases ?n) auto
    then have ih: "json_unquote (json_escape (drop (?n - 1) r)) = drop (?n - 1) r"
      using False v "2.IH"(3) by auto
    have "json_escape (c # r) = escape_rune (take ?n (c # r)) @ json_escape (drop (?n - 1) r)"
      using False v(1) by (simp add: json_escape.simps(2) Let_def)
    then have "json_unquote (json_escape (c # r)) = take ?n (c # r) @ drop ?n (c # r)"
      using json_unquote_escape_rune [OF refl n1] ih dr by (simp del: append_take_drop_id take_Suc_Cons)
    then show ?thesis by simp
  qed
qed simp

lemma json_string_escape: "utf8_valid s \<Longrightarrow> json_string (json_escape s @ quote # t) = Some (s, t)"
  by (simp add: json_string_def json_raw_escape json_unquote_escape)

section \<open>Reading values that were written\<close>

definition nat_ok :: "string \<Rightarrow> bool" where
  "nat_ok s \<longleftrightarrow> s \<noteq> [] \<and> list_all is_digit s \<and> (hd s = CHR ''0'' \<longrightarrow> s = ''0'')"

definition num_ok :: "string \<Rightarrow> bool" where
  "num_ok s \<longleftrightarrow> nat_ok s \<or> (s \<noteq> [] \<and> hd s = CHR ''-'' \<and> nat_ok (tl s))"

fun json_wf :: "nat \<Rightarrow> json \<Rightarrow> bool" where
  "json_wf d (JNum s) = num_ok s"
| "json_wf d (JStr s) = utf8_valid s"
| "json_wf d (JArr vs) = (0 < d \<and> list_all (json_wf (d - 1)) vs)"
| "json_wf d (JObj ms) = (0 < d \<and> list_all (\<lambda>(k, v). utf8_valid k \<and> json_wf (d - 1) v) ms)"
| "json_wf d v = True"

text \<open>What may follow a value.\<close>

definition follows :: "string \<Rightarrow> bool" where
  "follows t \<longleftrightarrow> t = [] \<or> hd t \<in> {CHR '','', CHR '']'', CHR ''}''} \<or> is_ws (hd t)"

lemma skip_ws_append: "list_all is_ws w \<Longrightarrow> skip_ws (w @ s) = skip_ws s"
  by (induction w) (auto simp: skip_ws_def)

lemma skip_ws_Cons: "\<not> is_ws c \<Longrightarrow> skip_ws (c # s) = c # s"
  by (simp add: skip_ws_def)

lemma not_ws [simp]:
  "\<not> is_ws CHR ''{''" "\<not> is_ws CHR ''['' " "\<not> is_ws CHR ''}''" "\<not> is_ws CHR '']''" "\<not> is_ws quote"
  "\<not> is_ws CHR '':''" "\<not> is_ws CHR '',''" "\<not> is_ws CHR ''n''" "\<not> is_ws CHR ''t''" "\<not> is_ws CHR ''f''"
  by (simp_all add: is_ws_def)

lemma digit_not: "is_digit c \<Longrightarrow> \<not> is_ws c \<and> c \<notin> set (quote # ''{[-ntf'')"
  by (auto simp: is_digit_def is_ws_def)

lemma follows_not_number:
  assumes "follows t"
  shows "t = [] \<or> \<not> is_digit (hd t)" "t = [] \<or> hd t \<notin> {CHR ''.'', CHR ''e'', CHR ''E''}"
  using assms by (auto simp: follows_def is_ws_def is_digit_def)

lemma json_number_append:
  assumes "num_ok s" "follows t"
  shows "json_number (s @ t) = Some (s, t)"
proof -
  have int: "json_integer (n @ t) = Some (n, t)" if n: "nat_ok n" for n
  proof -
    have "takeWhile is_digit (n @ t) = n" "dropWhile is_digit (n @ t) = t"
      using n follows_not_number(1) [OF assms(2)]
      by (auto simp: nat_ok_def list_all_iff takeWhile_append dropWhile_append takeWhile_eq_Nil_iff dropWhile_eq_self_iff)
    then show ?thesis using n by (cases n) (auto simp: json_integer_def json_digits_def Let_def nat_ok_def)
  qed
  have rest: "json_fraction t = Some ([], t)" "json_exponent t = Some ([], t)"
    using follows_not_number(2) [OF assms(2)] by (auto simp: json_fraction_def json_exponent_def)
  consider (nat) "nat_ok s" | (neg) r where "s = CHR ''-'' # r" "nat_ok r"
    using assms(1) by (cases s) (auto simp: num_ok_def)
  then show ?thesis
  proof cases
    case nat
    then have "s \<noteq> []" "hd (s @ t) \<noteq> CHR ''-''" using digit_not [of "hd s"] by (cases s; auto simp: nat_ok_def)+
    then show ?thesis using int [OF nat] rest by (simp add: json_number_def)
  next
    case neg
    then show ?thesis using int [OF neg(2)] rest by (simp add: json_number_def)
  qed
qed

lemma num_ok_hd:
  assumes "num_ok s"
  obtains c r where "s = c # r" "\<not> is_ws c" "c \<notin> set (quote # ''{[ntf'')"
proof (cases s)
  case (Cons c r)
  have "is_digit c \<or> c = CHR ''-''" using assms Cons by (auto simp: num_ok_def nat_ok_def)
  then have "\<not> is_ws c \<and> c \<notin> set (quote # ''{[ntf'')"
  proof
    assume "is_digit c"
    from digit_not [OF this] show ?thesis by simp
  qed (simp add: is_ws_def)
  then show ?thesis using Cons that by blast
qed (use assms in \<open>simp add: num_ok_def nat_ok_def\<close>)

lemma json_literal_number:
  assumes "num_ok s" "follows t"
  shows "json_literal (s @ t) = Some (JNum s, t)"
proof -
  obtain c r where s: "s = c # r" and c: "c \<notin> set (quote # ''{[ntf'')" by (rule num_ok_hd [OF assms(1)])
  show ?thesis
    using json_number_append [OF assms] c
    by (auto simp: json_literal_def strings_HasPrefix_def s)
qed

text \<open>The fuel that reading a value takes, at most the length of its text.\<close>

fun json_fuel :: "json \<Rightarrow> nat" and elems_fuel :: "json list \<Rightarrow> nat" and members_fuel :: "(string \<times> json) list \<Rightarrow> nat" where
  "json_fuel (JArr vs) = Suc (elems_fuel vs)"
| "json_fuel (JObj ms) = Suc (members_fuel ms)"
| "json_fuel v = 1"
| "elems_fuel [] = 0"
| "elems_fuel (v # vs) = Suc (max (json_fuel v) (elems_fuel vs))"
| "members_fuel [] = 0"
| "members_fuel ((k, v) # ms) = Suc (max (json_fuel v) (members_fuel ms))"

lemma json_fuel_length:
  "json_wf D v \<Longrightarrow> json_fuel v \<le> length (json_print nl sp d v)"
  "list_all (json_wf D) vs \<Longrightarrow> elems_fuel vs \<le> Suc (length (print_elems nl sp d vs))"
  "list_all (\<lambda>(k, v). utf8_valid k \<and> json_wf D v) ms \<Longrightarrow> members_fuel ms \<le> length (print_members nl sp d ms)"
proof (induction nl sp d v and nl sp d vs and nl sp d ms arbitrary: D and D and D
    rule: json_print_print_elems_print_members.induct)
  case (3 nl sp d s)
  then show ?case by (cases s) (auto simp: num_ok_def nat_ok_def)
next
  case (5 nl sp d vs)
  then show ?case by (cases "vs = []") fastforce+
next
  case (6 nl sp d ms)
  then show ?case by (cases "ms = []") fastforce+
next
  case (8 nl sp d v vs)
  then have "json_fuel v \<le> length (json_print nl sp d v)" by auto
  moreover have "elems_fuel vs \<le> Suc (length (print_elems nl sp d vs))" if "vs \<noteq> []" using 8 that by auto
  ultimately show ?case by (cases "vs = []") auto
next
  case (10 nl sp d k v ms)
  then have "json_fuel v \<le> length (json_print nl sp d v)" by auto
  moreover have "members_fuel ms \<le> length (print_members nl sp d ms)" if "ms \<noteq> []" using 10 that by auto
  ultimately show ?case by (cases "ms = []") (auto simp: json_quoted_def)
qed (auto simp: json_quoted_def)

lemma json_read_print:
  assumes "\<And>d. list_all is_ws (nl d)" "list_all is_ws sp"
  shows "json_wf D v \<Longrightarrow> json_fuel v \<le> n \<Longrightarrow> follows t \<Longrightarrow> list_all is_ws w \<Longrightarrow>
      json_value n D (w @ json_print nl sp d v @ t) = Some (v, t)"
    and "vs \<noteq> [] \<Longrightarrow> list_all (json_wf D) vs \<Longrightarrow> elems_fuel vs \<le> n \<Longrightarrow> list_all is_ws w \<Longrightarrow>
      json_elems n D (print_elems nl sp d vs @ w @ CHR '']'' # t) = Some (vs, t)"
    and "ms \<noteq> [] \<Longrightarrow> list_all (\<lambda>(k, v). utf8_valid k \<and> json_wf D v) ms \<Longrightarrow> members_fuel ms \<le> n \<Longrightarrow> list_all is_ws w \<Longrightarrow>
      json_members n D (print_members nl sp d ms @ w @ CHR ''}'' # t) = Some (ms, t)"
  using assms
proof (induction nl sp d v and nl sp d vs and nl sp d ms
    arbitrary: D n t w and D n t w and D n t w rule: json_print_print_elems_print_members.induct)
  case (1 nl sp d)
  then obtain m where "n = Suc m" by (cases n) auto
  with 1 show ?case by (simp add: skip_ws_append skip_ws_Cons json_literal_def strings_HasPrefix_def)
next
  case (2 nl sp d b)
  then obtain m where "n = Suc m" by (cases n) auto
  with 2 show ?case by (simp add: skip_ws_append skip_ws_Cons json_literal_def strings_HasPrefix_def)
next
  case (3 nl sp d s)
  then obtain m where n: "n = Suc m" by (cases n) auto
  obtain c r where s: "s = c # r" "\<not> is_ws c" "c \<notin> set (quote # ''{[ntf'')" using 3 by (auto elim: num_ok_hd)
  show ?case
    using json_literal_number [of s t] 3 s(2,3)
    by (auto simp: n s(1) skip_ws_append skip_ws_Cons)
next
  case (4 nl sp d s)
  then obtain m where "n = Suc m" by (cases n) auto
  with 4 show ?case by (simp add: skip_ws_append skip_ws_Cons json_quoted_def json_string_escape)
next
  case (5 nl sp d vs)
  then obtain m where n: "n = Suc m" by (cases n) auto
  show ?case
  proof (cases "vs = []")
    case True
    with 5 show ?thesis by (simp add: n skip_ws_append skip_ws_Cons)
  next
    case False
    have e: "json_elems m (D - 1) (print_elems nl sp (Suc d) vs @ nl d @ CHR '']'' # t) = Some (vs, t)"
      using 5 False by (auto simp: n)
    obtain v vs' where vs: "vs = v # vs'" using False by (cases vs) auto
    have "hd (skip_ws (print_elems nl sp (Suc d) vs @ nl d @ CHR '']'' # t)) \<noteq> CHR '']''"
    proof -
      obtain m' where "m = Suc m'" using 5 False by (cases m; cases vs) (auto simp: n)
      with e have "json_value m' (D - 1) (print_elems nl sp (Suc d) vs @ nl d @ CHR '']'' # t) \<noteq> None"
        by (auto split: option.splits)
      then show ?thesis
        by (cases m') (auto simp: json_literal_def json_number_def json_integer_def json_digits_def Let_def
            strings_HasPrefix_def is_digit_def split: list.splits)
    qed
    with 5 False e show ?thesis by (auto simp: n skip_ws_append skip_ws_Cons)
  qed
next
  case (6 nl sp d ms)
  then obtain m where n: "n = Suc m" by (cases n) auto
  show ?case
  proof (cases "ms = []")
    case True
    with 6 show ?thesis by (simp add: n skip_ws_append skip_ws_Cons)
  next
    case False
    have e: "json_members m (D - 1) (print_members nl sp (Suc d) ms @ nl d @ CHR ''}'' # t) = Some (ms, t)"
      using 6 False by (auto simp: n)
    obtain k v ms' where ms: "ms = (k, v) # ms'" using False by (cases ms) auto
    have "hd (skip_ws (print_members nl sp (Suc d) ms @ nl d @ CHR ''}'' # t)) = quote"
      using 6 by (simp add: ms skip_ws_append skip_ws_Cons json_quoted_def)
    with 6 False e show ?thesis by (auto simp: n skip_ws_append skip_ws_Cons)
  qed
next
  case (8 nl sp d v vs)
  then obtain m where n: "n = Suc m" by (cases n) auto
  let ?t = "(if vs = [] then [] else '','' @ print_elems nl sp d vs) @ w @ CHR '']'' # t"
  have f: "follows ?t" using 8 by (cases w) (auto simp: follows_def)
  have "json_value m D (nl d @ json_print nl sp d v @ ?t) = Some (v, ?t)"
    using 8 f by (auto simp: n)
  moreover have "json_elems m D (print_elems nl sp d vs @ w @ CHR '']'' # t) = Some (vs, t)" if "vs \<noteq> []"
    using 8 that by (auto simp: n)
  ultimately show ?case using 8 by (auto simp: n skip_ws_append skip_ws_Cons)
next
  case (10 nl sp d k v ms)
  then obtain m where n: "n = Suc m" by (cases n) auto
  let ?t = "(if ms = [] then [] else '','' @ print_members nl sp d ms) @ w @ CHR ''}'' # t"
  have f: "follows ?t" using 10 by (cases w) (auto simp: follows_def)
  have "json_value m D (sp @ json_print nl sp d v @ ?t) = Some (v, ?t)"
    using 10 f by (auto simp: n)
  moreover have "json_members m D (print_members nl sp d ms @ w @ CHR ''}'' # t) = Some (ms, t)" if "ms \<noteq> []"
    using 10 that by (auto simp: n)
  ultimately show ?case
    using 10 by (auto simp: n skip_ws_append skip_ws_Cons json_quoted_def json_string_escape)
qed (auto simp: follows_def)

lemma json_parse_print:
  assumes "\<And>d. list_all is_ws (nl d)" "list_all is_ws sp" "json_wf 10000 v"
  shows "json_parse (json_print nl sp d v) = Some v"
proof -
  have "json_fuel v \<le> Suc (2 * length (json_print nl sp d v))"
    using json_fuel_length(1) [OF assms(3), of nl sp d] by simp
  then have "json_value (Suc (2 * length (json_print nl sp d v))) 10000 (json_print nl sp d v) = Some (v, [])"
    using json_read_print(1) [OF assms(1,2,3), where t = "[]" and w = "[]" and d = d] by (simp add: follows_def del: json_value.simps)
  then show ?thesis by (simp add: json_parse_def skip_ws_def del: json_value.simps)
qed

lemma json_parse_Marshal: "json_wf 10000 v \<Longrightarrow> json_parse (json_Marshal v) = Some v"
  unfolding json_Marshal_def by (rule json_parse_print) simp_all

lemma json_parse_MarshalIndent: "json_wf 10000 v \<Longrightarrow> json_parse (json_MarshalIndent v) = Some v"
  unfolding json_MarshalIndent_def by (rule json_parse_print) (simp_all add: is_ws_def list_all_iff)

lemma digit_char: "n < 10 \<Longrightarrow> is_digit (char_of (48 + n)) \<and> code (char_of (48 + n)) = 48 + n"
  by (simp add: is_digit_def)

lemma nat_string_digits: "list_all is_digit (nat_string n)" "nat_string n \<noteq> []" "dec_value (nat_string n) = n"
proof (induction n rule: nat_string.induct)
  case (1 n)
  have "n < 10 \<or> \<not> n < 10" by blast
  then show "list_all is_digit (nat_string n)" "nat_string n \<noteq> []" "dec_value (nat_string n) = n"
    using 1 digit_char [of n] digit_char [of "n mod 10"]
    by (auto simp: nat_string.simps [of n] dec_value_def)
qed

lemma nat_string_hd: "0 < n \<Longrightarrow> hd (nat_string n) \<noteq> CHR ''0''"
proof (induction n rule: nat_string.induct)
  case (1 n)
  show ?case
  proof (cases "n < 10")
    case True
    have "code (CHR ''0'') = 48" by simp
    then have "char_of (48 + n) \<noteq> CHR ''0''"
      using digit_char [OF True] "1.prems" by (metis add_cancel_right_right less_irrefl)
    then show ?thesis using True by (simp add: nat_string.simps [of n])
  next
    case False
    then show ?thesis using 1 nat_string_digits(2) [of "n div 10"] by (simp add: nat_string.simps [of n])
  qed
qed

lemma nat_ok_nat_string: "nat_ok (nat_string n)"
proof (cases "n = 0")
  case True
  have "char_of (48 :: nat) = CHR ''0''" by (simp add: char_of_def bit_0)
  then show ?thesis by (simp add: True nat_ok_def nat_string.simps [of 0] is_digit_def)
next
  case False
  then show ?thesis using nat_string_digits nat_string_hd [of n] by (auto simp: nat_ok_def)
qed

lemma num_ok_nat_string: "num_ok (nat_string n)" "num_ok (CHR ''-'' # nat_string n)"
  using nat_ok_nat_string by (simp_all add: num_ok_def)

lemma parse_uint64_string: "parse_uint64 (nat_string (unat w)) = Some w"
  using nat_string_digits [of "unat w"] unsigned_less [of w, where ?'a = nat]
  by (simp add: parse_uint64_def)

section \<open>The fuel suffices\<close>

lemma length_skip_ws: "length (skip_ws s) \<le> length s"
  by (simp add: skip_ws_def length_dropWhile_le)

lemma skip_ws_shorter: "skip_ws s = c # r \<Longrightarrow> length r < length s"
  using length_skip_ws [of s] by simp

lemma json_raw_shorter: "json_raw s = Some (a, r) \<Longrightarrow> length r < length s"
proof (induction s arbitrary: a rule: json_raw.induct)
  case (2 c s)
  then show ?case
    by (fastforce simp: json_raw.simps(2) [of c s] dest: less_imp_le_nat split: if_splits)
qed simp

lemma json_string_shorter: "json_string s = Some (a, r) \<Longrightarrow> length r < length s"
  by (auto simp: json_string_def dest: json_raw_shorter)

lemma json_digits_shorter: "json_digits s = Some (a, r) \<Longrightarrow> length r < length s"
proof -
  assume a: "json_digits s = Some (a, r)"
  then have "a \<noteq> []" "a @ r = s" by (auto simp: json_digits_def Let_def split: if_splits)
  then show ?thesis by auto
qed

lemma json_integer_shorter: "json_integer s = Some (a, r) \<Longrightarrow> length r < length s"
  by (cases s) (auto simp: json_integer_def split: if_splits dest: json_digits_shorter)

lemma json_fraction_le: "json_fraction s = Some (a, r) \<Longrightarrow> length r \<le> length s"
  by (cases s) (auto simp: json_fraction_def split: if_splits dest!: json_digits_shorter)

lemma json_exponent_le:
  assumes "json_exponent s = Some (a, r)"
  shows "length r \<le> length s"
proof (cases "s \<noteq> [] \<and> (hd s = CHR ''e'' \<or> hd s = CHR ''E'')")
  case True
  then obtain k x where "json_digits (drop k (tl s)) = Some (x, r)"
    using assms unfolding json_exponent_def Let_def if_P [OF True] by (auto split: prod.splits)
  from json_digits_shorter [OF this] show ?thesis by simp
qed (use assms in \<open>auto simp: json_exponent_def\<close>)

lemma json_number_shorter:
  assumes "json_number s = Some (a, r)"
  shows "length r < length s"
proof -
  obtain k i r1 f r2 e where n: "json_integer (drop k s) = Some (i, r1)"
    "json_fraction r1 = Some (f, r2)" "json_exponent r2 = Some (e, r)"
    using assms unfolding json_number_def Let_def by (auto split: option.splits prod.splits)
  from json_integer_shorter [OF n(1)] json_fraction_le [OF n(2)] json_exponent_le [OF n(3)]
  show ?thesis by simp
qed

lemma json_literal_shorter: "json_literal s = Some (v, r) \<Longrightarrow> length r < length s"
  by (cases s) (auto simp: json_literal_def strings_HasPrefix_def split: if_splits dest: json_number_shorter)

text \<open>The successful branches of the three readers.\<close>

lemma json_valueE:
  assumes "json_value (Suc n) d s = Some (v, r)"
  obtains c t where "skip_ws s = c # t"
    "r = tl (skip_ws t) \<or> (\<exists>ms. json_members n (d - 1) t = Some (ms, r)) \<or> (\<exists>vs. json_elems n (d - 1) t = Some (vs, r))
     \<or> (\<exists>x. json_string t = Some (x, r)) \<or> json_literal (c # t) = Some (v, r)"
proof (cases "skip_ws s")
  case (Cons c t)
  with assms that show ?thesis by (auto split: if_splits)
qed (use assms in simp)

lemma json_elemsE:
  assumes "json_elems (Suc n) d s = Some (vs, r)"
  obtains v t c t' where "json_value n d s = Some (v, t)" "skip_ws t = c # t'"
    "r = t' \<or> (\<exists>vs'. json_elems n d t' = Some (vs', r))"
  using assms that by (auto split: option.splits list.splits if_splits)

lemma json_membersE:
  assumes "json_members (Suc n) d s = Some (ms, r)"
  obtains t k t1 t2 v t3 e t4 where "skip_ws s = quote # t" "json_string t = Some (k, t1)" "skip_ws t1 = CHR '':'' # t2"
    "json_value n d t2 = Some (v, t3)" "skip_ws t3 = e # t4" "r = t4 \<or> (\<exists>ms'. json_members n d t4 = Some (ms', r))"
  using assms that by (auto split: option.splits list.splits if_splits)

lemma json_shorter:
  "json_value n d s = Some (v, r) \<Longrightarrow> length r < length s"
  "json_elems n d s = Some (vs, r) \<Longrightarrow> length r < length s"
  "json_members n d s = Some (ms, r) \<Longrightarrow> length r < length s"
proof (induction n arbitrary: d s v r vs ms)
  case (Suc n)
  {
    case 1
    then obtain c t where sk: "skip_ws s = c # t" and r: "r = tl (skip_ws t) \<or> (\<exists>ms. json_members n (d - 1) t = Some (ms, r))
        \<or> (\<exists>vs. json_elems n (d - 1) t = Some (vs, r)) \<or> (\<exists>x. json_string t = Some (x, r)) \<or> json_literal (c # t) = Some (v, r)"
      by (rule json_valueE)
    have "length (tl (skip_ws t)) \<le> length t" using length_skip_ws [of t] by simp
    then have "length r \<le> length t"
      using r Suc(2) [of "d - 1" t] Suc(3) [of "d - 1" t] json_string_shorter [of t] json_literal_shorter [of "c # t"]
      by (auto dest: less_imp_le)
    then show ?case using skip_ws_shorter [OF sk] by simp
  next
    case 2
    then obtain v t c t' where "json_value n d s = Some (v, t)" "skip_ws t = c # t'"
      "r = t' \<or> (\<exists>vs'. json_elems n d t' = Some (vs', r))" by (rule json_elemsE)
    with Suc(1) [of d s v t] skip_ws_shorter [of t] Suc(2) [of d t'] show ?case by fastforce
  next
    case 3
    then obtain t k t1 t2 v t3 e t4 where *: "skip_ws s = quote # t" "json_string t = Some (k, t1)" "skip_ws t1 = CHR '':'' # t2"
      "json_value n d t2 = Some (v, t3)" "skip_ws t3 = e # t4" "r = t4 \<or> (\<exists>ms'. json_members n d t4 = Some (ms', r))"
      by (rule json_membersE)
    have "length t4 < length s"
      using skip_ws_shorter [OF *(1)] json_string_shorter [OF *(2)] skip_ws_shorter [OF *(3)] Suc(1) [OF *(4)]
        skip_ws_shorter [OF *(5)] by simp
    with *(6) Suc(3) [of d t4] show ?case by fastforce
  }
qed simp_all

lemma json_fuel_step:
  "2 * length s < n \<Longrightarrow> json_value (Suc n) d s = json_value n d s"
  "2 * length s + 1 < n \<Longrightarrow> json_elems (Suc n) d s = json_elems n d s"
  "2 * length s < n \<Longrightarrow> json_members (Suc n) d s = json_members n d s"
proof (induction n arbitrary: d s)
  case (Suc n)
  {
    case 1
    show ?case
    proof (cases "skip_ws s")
      case (Cons c r)
      have "length r < length s" by (rule skip_ws_shorter [OF Cons])
      then have "json_elems (Suc n) (d - 1) r = json_elems n (d - 1) r" "json_members (Suc n) (d - 1) r = json_members n (d - 1) r"
        using Suc(2,3) 1 by simp_all
      then show ?thesis
        by (simp only: json_value.simps(2) [of "Suc n" d s] json_value.simps(2) [of n d s] Cons list.case)
    qed simp
  next
    case 2
    have v: "json_value (Suc n) d s = json_value n d s" using Suc(1) [of s d] 2 by simp
    have e: "json_elems (Suc n) d r' = json_elems n d r'"
      if "json_value n d s = Some (u, r)" "skip_ws r = c # r'" for u r c r'
      using Suc(2) [of r' d] json_shorter(1) [OF that(1)] skip_ws_shorter [OF that(2)] 2 by simp
    show ?case
      unfolding json_elems.simps(2) [of "Suc n" d s] json_elems.simps(2) [of n d s] v
      using e by (auto split: option.split list.split)
  next
    case 3
    have v: "json_value (Suc n) d r2 = json_value n d r2"
      if "skip_ws s = q # r" "json_string r = Some (k, r1)" "skip_ws r1 = c # r2" for q r k r1 c r2
      using Suc(1) [of r2 d] skip_ws_shorter [OF that(1)] json_string_shorter [OF that(2)] skip_ws_shorter [OF that(3)] 3
      by simp
    have m: "json_members (Suc n) d r4 = json_members n d r4"
      if "skip_ws s = q # r" "json_string r = Some (k, r1)" "skip_ws r1 = c # r2"
        "json_value n d r2 = Some (u, r3)" "skip_ws r3 = e # r4" for q r k r1 c r2 u r3 e r4
      using Suc(3) [of r4 d] skip_ws_shorter [OF that(1)] json_string_shorter [OF that(2)] skip_ws_shorter [OF that(3)]
        json_shorter(1) [OF that(4)] skip_ws_shorter [OF that(5)] 3 by simp
    show ?case
      unfolding json_members.simps(2) [of "Suc n" d s] json_members.simps(2) [of n d s]
      using v m by (auto split: option.split list.split)
  }
qed simp_all

lemma json_fuel_enough: "2 * length s < n \<Longrightarrow> json_value n d s = json_value (Suc (2 * length s)) d s"
proof (induction n)
  case (Suc n)
  then show ?case using json_fuel_step(1) [of s n d] by (cases "2 * length s < n") (auto simp: less_Suc_eq)
qed simp

section \<open>What is written has no control characters\<close>

definition visible :: "string \<Rightarrow> bool" where
  "visible s \<longleftrightarrow> (\<forall>c \<in> set s. 32 \<le> code c)"

lemma visible_simps [simp]:
  "visible []" "visible (c # s) \<longleftrightarrow> 32 \<le> code c \<and> visible s" "visible (s @ t) \<longleftrightarrow> visible s \<and> visible t"
  by (auto simp: visible_def)

lemma visible_no_newline: "visible s \<Longrightarrow> CHR 0x0A \<notin> set s"
  by (auto simp: visible_def)

lemma visible_escape_ascii: "visible (escape_ascii c)"
proof -
  have hex: "32 \<le> code (hex_digit n)" if "n < 16" for n
    using hex_digit_ok(1) [OF that] by (auto simp: is_hex_digit_def is_digit_def)
  have "code c div 16 < 16" "code c mod 16 < 16" by (simp_all add: less_mult_imp_div_less)
  with hex show ?thesis
    by (auto simp: escape_ascii_def short_escape_def split: option.splits if_splits)
qed

lemma visible_escape: "visible (json_escape s)"
proof (induction s rule: json_escape.induct)
  case (2 c r)
  let ?n = "utf8_len (c # r)"
  have "visible (escape_rune (take ?n (c # r)))" if "\<not> code c < 128" "?n \<noteq> 0"
  proof -
    have "128 \<le> code x" if "x \<in> set (take ?n (c # r))" for x
      using utf8_len_take(3,4) [of "c # r" ?n] that \<open>\<not> code c < 128\<close> \<open>?n \<noteq> 0\<close> by auto
    then have "visible (take ?n (c # r))" unfolding visible_def by (meson le_trans numeral_le_iff semiring_norm)
    then show ?thesis by (simp add: escape_rune_def)
  qed
  with 2 show ?case by (simp add: json_escape.simps(2) visible_escape_ascii Let_def)
qed simp

lemma visible_num: "num_ok s \<Longrightarrow> visible s"
  by (cases s) (auto simp: num_ok_def nat_ok_def visible_def list_all_iff is_digit_def)

lemma visible_print:
  "json_wf D v \<Longrightarrow> visible (json_print (\<lambda>_. []) [] d v)"
  "list_all (json_wf D) vs \<Longrightarrow> visible (print_elems (\<lambda>_. []) [] d vs)"
  "list_all (\<lambda>(k, v). utf8_valid k \<and> json_wf D v) ms \<Longrightarrow> visible (print_members (\<lambda>_. []) [] d ms)"
  by (induction "\<lambda>_ :: nat. [] :: string" "[] :: string" d v and "\<lambda>_ :: nat. [] :: string" "[] :: string" d vs
      and "\<lambda>_ :: nat. [] :: string" "[] :: string" d ms arbitrary: D and D and D
      rule: json_print_print_elems_print_members.induct)
    (auto simp: visible_num json_quoted_def visible_escape)

lemma visible_Marshal: "json_wf D v \<Longrightarrow> visible (json_Marshal v)"
  unfolding json_Marshal_def by (rule visible_print)

lemma hd_Marshal_object: "json_Marshal (JObj ms) = CHR ''{'' # tl (json_Marshal (JObj ms))"
  by (simp add: json_Marshal_def)

lemma struct_members_Marshal: "json_wf 10000 (JObj ms) \<Longrightarrow> struct_members (json_Marshal (JObj ms)) = Some ms"
  by (simp add: struct_members_def json_parse_Marshal del: json_wf.simps)

lemma field_string_append:
  "field_string f (xs @ ys) z = (case field_string f xs z of None \<Rightarrow> None | Some z' \<Rightarrow> field_string f ys z')"
  by (induction f xs z rule: field_string.induct) (auto split: json.splits)

end
