(* ===== verification/Chunk_Encoding.thy ===== *)
theory Chunk_Encoding
  imports Go_Codecs Go_SHA256
begin

text \<open>
  \<^verbatim>\<open>internal/encoding/encoding.go\<close>: messages are cut into numbered, checksummed chunks, and
  each chunk travels as the labels of a DNS name. The theory models chunking, reassembly,
  the label codec and the CRC, and shows the round trips, the label bounds that DNS
  imposes, and which corruptions the checksum detects.
\<close>

section \<open>Data\<close>

record Chunk =
  MsgID :: msg_id
  ChunkIdx :: uint16
  TotalChunks :: uint16
  Checksum :: uint16
  Payload :: bytes
  RecipientHash :: bytes

datatype enc_error =
    NoChunks
  | CountMismatch nat nat
  | IndexOutOfRange uint16
  | DuplicateIndex uint16
  | MissingIndex
  | ChecksumMismatch uint16 uint16 uint16
  | TooFewLabels
  | TooFewLabelsAfterHash
  | ZoneMismatch string string
  | InvalidField string
  | FieldLength string nat

section \<open>The checksum\<close>

definition crc16_shift :: "uint16 \<Rightarrow> uint16" where
  "crc16_shift crc =
     (if crc AND 0x8000 \<noteq> 0 then push_bit 1 crc XOR 0x1021 else push_bit 1 crc)"

definition crc16_byte :: "uint16 \<Rightarrow> byte \<Rightarrow> uint16" where
  "crc16_byte crc b = (crc16_shift ^^ 8) (crc XOR push_bit 8 (ucast b))"

definition crc16 :: "bytes \<Rightarrow> uint16" where
  "crc16 data = foldl crc16_byte 0xFFFF data XOR 0xFFFF"

section \<open>Chunking and reassembly\<close>

definition NewChunk :: "msg_id \<Rightarrow> uint16 \<Rightarrow> uint16 \<Rightarrow> bytes \<Rightarrow> Chunk" where
  "NewChunk msgID idx tot payload =
     \<lparr>MsgID = msgID, ChunkIdx = idx, TotalChunks = tot, Checksum = crc16 payload,
      Payload = payload, RecipientHash = []\<rparr>"

definition chunk_size :: "int \<Rightarrow> nat" where
  "chunk_size maxChunkSize = nat (if maxChunkSize \<le> 0 then 220 else maxChunkSize)"

definition ChunkMessage :: "msg_id \<Rightarrow> bytes \<Rightarrow> int \<Rightarrow> string \<Rightarrow> Chunk list" where
  "ChunkMessage msgID plaintext maxChunkSize recipientPubkey =
     (let size = chunk_size maxChunkSize;
          recipientHash = (if recipientPubkey \<noteq> [] then sha256_Sum256 (bytes_of_string recipientPubkey) else []);
          tot = (length plaintext + size - 1) div size
      in map (\<lambda>i. let start = i * size;
                      end = (if start + size > length plaintext then length plaintext else start + size)
                  in (NewChunk msgID (word_of_nat i) (word_of_nat tot)
                       (take (end - start) (drop start plaintext)))\<lparr>RecipientHash := recipientHash\<rparr>)
           [0..<tot])"

text \<open>The first loop of \<^verbatim>\<open>ReassembleMessage\<close> files each chunk under its index.\<close>

fun place_chunks :: "nat \<Rightarrow> Chunk list \<Rightarrow> Chunk option list \<Rightarrow> enc_error + Chunk option list" where
  "place_chunks tot [] arr = Inr arr"
| "place_chunks tot (c # cs) arr =
     (if unat (ChunkIdx c) \<ge> tot then Inl (IndexOutOfRange (ChunkIdx c))
      else if arr ! unat (ChunkIdx c) \<noteq> None then Inl (DuplicateIndex (ChunkIdx c))
      else place_chunks tot cs (arr[unat (ChunkIdx c) := Some c]))"

text \<open>The second loop checks and appends the payloads in index order.\<close>

fun join_chunks :: "Chunk option list \<Rightarrow> bytes \<Rightarrow> enc_error + bytes" where
  "join_chunks [] result = Inr result"
| "join_chunks (None # cs) result = Inl MissingIndex"
| "join_chunks (Some c # cs) result =
     (if Checksum c \<noteq> crc16 (Payload c)
      then Inl (ChecksumMismatch (ChunkIdx c) (Checksum c) (crc16 (Payload c)))
      else join_chunks cs (result @ Payload c))"

definition ReassembleMessage :: "Chunk list \<Rightarrow> enc_error + bytes" where
  "ReassembleMessage chunks =
     (if chunks = [] then Inl NoChunks
      else let tot = unat (TotalChunks (hd chunks)) in
        if length chunks \<noteq> tot then Inl (CountMismatch tot (length chunks))
        else case place_chunks tot chunks (replicate tot None) of
               Inl e \<Rightarrow> Inl e
             | Inr arr \<Rightarrow> join_chunks arr [])"

section \<open>Labels\<close>

definition EncodePayload :: "bytes \<Rightarrow> string list" where
  "EncodePayload payload = groups 63 (base32hex_EncodeToString payload)"

definition DecodePayload :: "string list \<Rightarrow> bytes option" where
  "DecodePayload labels = base32hex_DecodeString (strings_Join labels [])"

definition EncodeToLabels :: "Chunk \<Rightarrow> string \<Rightarrow> string list" where
  "EncodeToLabels c zone =
     (if length (RecipientHash c) > 0 then [base32hex_EncodeToString (RecipientHash c)] else [])
     @ [base32hex_EncodeToString (be64 (MsgID c)),
        base32hex_EncodeToString (be16 (ChunkIdx c)),
        base32hex_EncodeToString (be16 (TotalChunks c)),
        base32hex_EncodeToString (be16 (Checksum c))]
     @ EncodePayload (Payload c) @ [zone]"

definition decode_field :: "string \<Rightarrow> nat \<Rightarrow> string \<Rightarrow> enc_error + bytes" where
  "decode_field what n label =
     (case base32hex_DecodeString label of
        None \<Rightarrow> Inl (InvalidField what)
      | Some bs \<Rightarrow> if length bs \<noteq> n then Inl (FieldLength what (length bs)) else Inr bs)"

text \<open>The labels after the optional recipient hash.\<close>

definition decode_body :: "bytes \<Rightarrow> string list \<Rightarrow> enc_error + Chunk" where
  "decode_body recipientHash body =
     (if length body < 4 then Inl TooFewLabelsAfterHash
      else case decode_field ''msgID'' 8 (body ! 0) of Inl e \<Rightarrow> Inl e | Inr msgID \<Rightarrow>
        (case decode_field ''chunkIdx'' 2 (body ! 1) of Inl e \<Rightarrow> Inl e | Inr idxBytes \<Rightarrow>
        (case decode_field ''totalChunks'' 2 (body ! 2) of Inl e \<Rightarrow> Inl e | Inr totalBytes \<Rightarrow>
        (case decode_field ''checksum'' 2 (body ! 3) of Inl e \<Rightarrow> Inl e | Inr cksumBytes \<Rightarrow>
        (case DecodePayload (drop 4 body) of None \<Rightarrow> Inl (InvalidField ''payload'') | Some payload \<Rightarrow>
           Inr \<lparr>MsgID = be_word msgID, ChunkIdx = be_word idxBytes, TotalChunks = be_word totalBytes,
                Checksum = be_word cksumBytes, Payload = payload, RecipientHash = recipientHash\<rparr>)))))"

definition DecodeChunkFromLabels :: "string list \<Rightarrow> string \<Rightarrow> enc_error + Chunk" where
  "DecodeChunkFromLabels labels zone =
     (if length labels < 2 then Inl TooFewLabels
      else if last labels \<noteq> zone then Inl (ZoneMismatch (last labels) zone)
      else let body = butlast labels in
        if length body < 4 then Inl TooFewLabels
        else if length (body ! 0) = 52
        then (case decode_field ''recipientHash'' 32 (body ! 0) of
                Inl e \<Rightarrow> Inl e
              | Inr recipientHash \<Rightarrow> decode_body recipientHash (tl body))
        else decode_body [] body)"

text \<open>A list of chunks in index order.\<close>

definition indexed :: "Chunk list \<Rightarrow> bool" where
  "indexed cs \<longleftrightarrow> (\<forall>i < length cs. unat (ChunkIdx (cs ! i)) = i)"

text \<open>What DNS requires of a label.\<close>

definition legal_label :: "string \<Rightarrow> bool" where
  "legal_label l \<longleftrightarrow> 0 < length l \<and> length l \<le> 63 \<and> set l \<subseteq> set base32hex_alphabet"

section \<open>Lemmas on the checksum\<close>

lemma bit15_iff: "(crc :: uint16) AND 0x8000 \<noteq> 0 \<longleftrightarrow> bit crc 15"
  using bit_iff_and_push_bit_not_eq_0 [of crc 15] by simp

lemma xor_eq_0_iff: "(a :: 'a::len word) XOR b = 0 \<longleftrightarrow> a = b"
proof
  assume z: "a XOR b = 0"
  show "a = b"
  proof (rule bit_word_eqI)
    fix n
    have "bit (a XOR b) n = False" by (simp add: z)
    then show "bit a n = bit b n" by (auto simp: bit_xor_iff)
  qed
qed simp

lemma xor_cancel_right: "(a :: 'a::len word) XOR c = b XOR c \<longleftrightarrow> a = b"
  by (metis xor.assoc xor.right_neutral xor_self_eq)

lemma crc16_shift_xor: "crc16_shift (a XOR b) = crc16_shift a XOR crc16_shift b"
  by (cases "bit a 15"; cases "bit b 15")
    (simp_all add: crc16_shift_def bit15_iff bit_xor_iff push_bit_xor ac_simps del: push_bit_eq_mult)

lemma crc16_shift_eq_0: "crc16_shift a = 0 \<Longrightarrow> a = 0"
proof -
  assume z: "crc16_shift a = 0"
  have "\<not> bit (crc16_shift a) 0" by (simp add: z)
  then have n15: "\<not> bit a 15"
    by (auto simp: crc16_shift_def bit15_iff bit_0 even_xor_iff split: if_splits)
  then have p: "push_bit 1 a = 0" using z by (simp add: crc16_shift_def bit15_iff)
  show "a = 0"
  proof (rule bit_word_eqI)
    fix n assume "n < LENGTH(16)"
    then have n: "n < 15 \<or> n = 15" by auto
    have "\<not> bit (push_bit 1 a) (Suc n)" unfolding p by simp
    then show "bit a n = bit 0 n" using n n15 unfolding bit_push_bit_iff by auto
  qed
qed

lemma crc16_shift_inject: "crc16_shift a = crc16_shift b \<longleftrightarrow> a = b"
  by (metis crc16_shift_eq_0 crc16_shift_xor xor_eq_0_iff)

lemma crc16_iter_xor: "(crc16_shift ^^ n) (a XOR b) = (crc16_shift ^^ n) a XOR (crc16_shift ^^ n) b"
  by (induction n) (auto simp: crc16_shift_xor)

lemma crc16_iter_inject: "(crc16_shift ^^ n) a = (crc16_shift ^^ n) b \<longleftrightarrow> a = b"
  by (induction n) (auto simp: crc16_shift_inject)

lemma crc16_iter_byte: "k \<le> 8 \<Longrightarrow> (crc16_shift ^^ k) (ucast (b :: byte)) = push_bit k (ucast b)"
proof (induction k)
  case (Suc k)
  have "\<not> bit (push_bit k (ucast b) :: uint16) 15"
    using Suc.prems bit_imp_le_length [of b "15 - k"] by (auto simp: bit_push_bit_iff bit_ucast_iff)
  then show ?case using Suc by (simp add: crc16_shift_def bit15_iff push_bit_push_bit)
qed simp

lemma crc16_two_bytes:
  "crc16_byte (crc16_byte c a) b = (crc16_shift ^^ 16) (c XOR push_bit 8 (ucast a) XOR ucast b)"
proof -
  have "push_bit 8 (ucast b) = (crc16_shift ^^ 8) (ucast b)" by (simp add: crc16_iter_byte)
  then have "crc16_byte (crc16_byte c a) b
      = (crc16_shift ^^ 8) ((crc16_shift ^^ 8) (c XOR push_bit 8 (ucast a) XOR ucast b))"
    unfolding crc16_byte_def by (simp only: crc16_iter_xor xor.assoc)
  then show ?thesis by (simp only: funpow_add [symmetric, THEN fun_cong, unfolded comp_def] numeral_Bit0)
qed

lemma push_ucast_xor_inject:
  "push_bit 8 (ucast (a :: byte)) XOR ucast (b :: byte) = (push_bit 8 (ucast a') XOR ucast b' :: uint16)
   \<longleftrightarrow> a = a' \<and> b = b'" (is "?l = ?r \<longleftrightarrow> _")
proof
  assume eq: "?l = ?r"
  have hi: "\<not> bit x n" if "8 \<le> n" for x :: byte and n
    using that bit_imp_le_length [of x n] by auto
  have "b = b'"
  proof (rule bit_word_eqI)
    fix n assume n: "n < LENGTH(8)"
    have "bit ?l n = bit ?r n" by (simp only: eq)
    then show "bit b n = bit b' n" using n by (auto simp: bit_xor_iff bit_push_bit_iff bit_ucast_iff)
  qed
  moreover have "a = a'"
  proof (rule bit_word_eqI)
    fix n assume n: "n < LENGTH(8)"
    have "bit ?l (n + 8) = bit ?r (n + 8)" by (simp only: eq)
    then show "bit a n = bit a' n"
      using n hi [of "n + 8"] by (auto simp: bit_xor_iff bit_push_bit_iff bit_ucast_iff)
  qed
  ultimately show "a = a' \<and> b = b'" by simp
qed simp

lemma crc16_byte_inject_state: "crc16_byte c b = crc16_byte c' b \<longleftrightarrow> c = c'"
  by (simp add: crc16_byte_def crc16_iter_inject xor_cancel_right)

lemma crc16_foldl_inject: "foldl crc16_byte c bs = foldl crc16_byte c' bs \<longleftrightarrow> c = c'"
  by (induction bs arbitrary: c c') (auto simp: crc16_byte_inject_state)

lemma xor_cancel_left: "(c :: 'a::len word) XOR a = c XOR b \<longleftrightarrow> a = b"
  by (metis xor.commute xor_cancel_right)

lemma crc16_two_bytes_inject:
  "crc16_byte (crc16_byte c a) b = crc16_byte (crc16_byte c a') b' \<longleftrightarrow> a = a' \<and> b = b'"
  by (simp only: crc16_two_bytes crc16_iter_inject xor.assoc xor_cancel_left push_ucast_xor_inject)

lemma crc16_one_byte_inject: "crc16_byte c a = crc16_byte c a' \<longleftrightarrow> a = a'"
  by (metis crc16_two_bytes_inject)

text \<open>A corruption confined to one byte or two adjacent bytes always changes the checksum.\<close>

lemma crc16_burst:
  assumes "length u = length v" "length u \<le> 2"
  shows "crc16 (p @ u @ s) = crc16 (p @ v @ s) \<longleftrightarrow> u = v"
proof -
  let ?c = "foldl crc16_byte 0xFFFF p"
  have "crc16 (p @ u @ s) = crc16 (p @ v @ s) \<longleftrightarrow> foldl crc16_byte ?c u = foldl crc16_byte ?c v"
    by (simp add: crc16_def xor_cancel_right crc16_foldl_inject)
  also have "\<dots> \<longleftrightarrow> u = v"
  proof -
    from assms consider "u = []" "v = []" | a a' where "u = [a]" "v = [a']"
      | a b a' b' where "u = [a, b]" "v = [a', b']"
      by (cases u; cases v; cases "tl u"; cases "tl v") auto
    then show ?thesis
      by cases (auto simp: crc16_one_byte_inject crc16_two_bytes_inject)
  qed
  finally show ?thesis .
qed

section \<open>Lemmas on reassembly\<close>

lemma place_chunks_length: "place_chunks n cs arr = Inr arr' \<Longrightarrow> length arr' = length arr"
  by (induction n cs arr rule: place_chunks.induct) (auto split: if_splits)

lemma place_chunks_ok:
  "length arr = n \<Longrightarrow> (\<And>c. c \<in> set cs \<Longrightarrow> unat (ChunkIdx c) < n) \<Longrightarrow>
   distinct (map ChunkIdx cs) \<Longrightarrow> (\<And>c. c \<in> set cs \<Longrightarrow> arr ! unat (ChunkIdx c) = None) \<Longrightarrow>
   \<exists>arr'. place_chunks n cs arr = Inr arr'"
proof (induction cs arbitrary: arr)
  case (Cons c cs)
  have "\<exists>arr'. place_chunks n cs (arr[unat (ChunkIdx c) := Some c]) = Inr arr'"
  proof (rule Cons.IH)
    fix d assume d: "d \<in> set cs"
    then have "ChunkIdx d \<noteq> ChunkIdx c" using Cons.prems(3) by (force simp: image_iff)
    then show "arr[unat (ChunkIdx c) := Some c] ! unat (ChunkIdx d) = None"
      using d Cons.prems(4) [of d] by (simp add: nth_list_update_neq word_unat_eq_iff)
  qed (use Cons.prems in auto)
  then show ?case using Cons.prems(2,4) [of c] by simp
qed simp

lemma place_chunks_spec:
  assumes "place_chunks n cs arr = Inr arr'" "length arr = n"
  shows "(\<forall>c \<in> set cs. unat (ChunkIdx c) < n \<and> arr' ! unat (ChunkIdx c) = Some c)
    \<and> distinct (map ChunkIdx cs)
    \<and> (\<forall>c \<in> set cs. arr ! unat (ChunkIdx c) = None)
    \<and> (\<forall>i < n. i \<notin> unat ` ChunkIdx ` set cs \<longrightarrow> arr' ! i = arr ! i)"
  using assms
proof (induction cs arbitrary: arr)
  case (Cons c cs)
  let ?i = "unat (ChunkIdx c)"
  from Cons.prems have i: "?i < n" "arr ! ?i = None"
    and rec: "place_chunks n cs (arr[?i := Some c]) = Inr arr'" by (auto split: if_splits)
  note IH = Cons.IH [OF rec, simplified, OF Cons.prems(2)]
  have notin: "ChunkIdx c \<notin> ChunkIdx ` set cs"
  proof
    assume "ChunkIdx c \<in> ChunkIdx ` set cs"
    then obtain d where "d \<in> set cs" "ChunkIdx d = ChunkIdx c" by auto
    then have "arr[?i := Some c] ! ?i = None" using IH by metis
    then show False using i Cons.prems(2) by simp
  qed
  then have "?i \<notin> unat ` ChunkIdx ` set cs" by (force simp: image_iff word_unat_eq_iff)
  moreover have "arr ! unat (ChunkIdx d) = None" if "d \<in> set cs" for d
    using IH that notin i Cons.prems(2) by (metis image_eqI nth_list_update_neq word_unat_eq_iff)
  ultimately show ?case using IH i notin Cons.prems(2) by (auto simp: nth_list_update)
qed simp


lemma join_chunks_ok:
  "(\<And>c. c \<in> set cs \<Longrightarrow> Checksum c = crc16 (Payload c)) \<Longrightarrow>
   join_chunks (map Some cs) acc = Inr (acc @ concat (map Payload cs))"
  by (induction cs arbitrary: acc) auto

lemma join_chunks_InrD:
  "join_chunks arr acc = Inr m \<Longrightarrow>
   \<exists>cs. arr = map Some cs \<and> (\<forall>c \<in> set cs. Checksum c = crc16 (Payload c))
     \<and> m = acc @ concat (map Payload cs)"
proof (induction arr acc arbitrary: m rule: join_chunks.induct)
  case (3 c cs acc)
  then obtain ds where "cs = map Some ds" "\<forall>c \<in> set ds. Checksum c = crc16 (Payload c)"
    "m = (acc @ Payload c) @ concat (map Payload ds)" "Checksum c = crc16 (Payload c)"
    by (auto split: if_splits)
  then show ?case by (intro exI [of _ "c # ds"]) auto
qed auto

lemma indexed_distinct: "indexed cs \<Longrightarrow> distinct (map ChunkIdx cs)"
  unfolding indexed_def distinct_conv_nth by (metis length_map nth_map)

lemma place_chunks_indexed:
  assumes "indexed ds" "mset cs = mset ds"
  shows "place_chunks (length ds) cs (replicate (length ds) None) = Inr (map Some ds)"
proof -
  have len: "length cs = length ds" and sets: "set cs = set ds"
    using assms(2) by (metis size_mset, metis set_mset_mset)
  have lt: "unat (ChunkIdx c) < length ds \<and> ds ! unat (ChunkIdx c) = c" if "c \<in> set cs" for c
    using that assms(1) sets by (metis in_set_conv_nth indexed_def)
  have "mset (map ChunkIdx cs) = mset (map ChunkIdx ds)" using assms(2) by simp
  then have dist: "distinct (map ChunkIdx cs)"
    using indexed_distinct [OF assms(1)] by (metis mset_eq_imp_distinct_iff)
  have none: "replicate (length ds) None ! unat (ChunkIdx c) = None" if "c \<in> set cs" for c
    using lt [OF that] by simp
  obtain arr where arr: "place_chunks (length ds) cs (replicate (length ds) None) = Inr arr"
    using place_chunks_ok [of "replicate (length ds) None" "length ds" cs] lt dist none by auto
  have "arr = map Some ds"
  proof (rule nth_equalityI)
    show "length arr = length (map Some ds)" using place_chunks_length [OF arr] by simp
    fix i assume "i < length arr"
    then have i: "i < length ds" using place_chunks_length [OF arr] by simp
    then have "unat (ChunkIdx (ds ! i)) = i" using assms(1) by (simp add: indexed_def)
    moreover have "ds ! i \<in> set cs" using i sets by simp
    ultimately show "arr ! i = map Some ds ! i"
      using place_chunks_spec [OF arr] i by (metis length_replicate nth_map)
  qed
  then show ?thesis by (simp add: arr)
qed

lemma place_chunks_complete:
  assumes "place_chunks n cs (replicate n None) = Inr (map Some ds)" "length cs = n"
  shows "indexed ds \<and> mset cs = mset ds"
proof -
  have lds: "length ds = n" using place_chunks_length [OF assms(1)] by simp
  have spec: "\<And>c. c \<in> set cs \<Longrightarrow> unat (ChunkIdx c) < n \<and> ds ! unat (ChunkIdx c) = c"
    and dist: "distinct (map ChunkIdx cs)"
    using place_chunks_spec [OF assms(1)] lds by auto
  have inj: "inj_on (\<lambda>c. unat (ChunkIdx c)) (set cs)"
    using dist by (auto simp: inj_on_def distinct_map word_unat_eq_iff)
  have "distinct cs" using dist by (simp add: distinct_map)
  then have card: "card ((\<lambda>c. unat (ChunkIdx c)) ` set cs) = n"
    using assms(2) card_image [OF inj] distinct_card by metis
  moreover have "(\<lambda>c. unat (ChunkIdx c)) ` set cs \<subseteq> {..<n}" using spec by auto
  ultimately have img: "(\<lambda>c. unat (ChunkIdx c)) ` set cs = {..<n}"
    by (metis card_lessThan card_subset_eq finite_lessThan)
  have idx: "ds ! i \<in> set cs \<and> unat (ChunkIdx (ds ! i)) = i" if "i < n" for i
  proof -
    have "i \<in> (\<lambda>c. unat (ChunkIdx c)) ` set cs" using that img by simp
    then obtain c where c: "c \<in> set cs" "unat (ChunkIdx c) = i" by auto
    then show ?thesis using spec [OF c(1)] by simp
  qed
  then have ind: "indexed ds" by (simp add: indexed_def lds)
  have "set ds = set cs"
  proof
    show "set ds \<subseteq> set cs" using idx lds by (auto simp: in_set_conv_nth)
    show "set cs \<subseteq> set ds" using spec lds by (metis nth_mem subsetI)
  qed
  moreover have "distinct ds" using indexed_distinct [OF ind] by (simp add: distinct_map)
  ultimately have "mset cs = mset ds" using \<open>distinct cs\<close> by (metis set_eq_iff_mset_eq_distinct)
  with ind show ?thesis by simp
qed

lemma ReassembleMessage_complete:
  assumes "indexed ds" "mset cs = mset ds" "ds \<noteq> []"
    and "\<And>c. c \<in> set ds \<Longrightarrow> unat (TotalChunks c) = length ds"
    and "\<And>c. c \<in> set ds \<Longrightarrow> Checksum c = crc16 (Payload c)"
  shows "ReassembleMessage cs = Inr (concat (map Payload ds))"
proof -
  have len: "length cs = length ds" and sets: "set cs = set ds"
    using assms(2) by (metis size_mset, metis set_mset_mset)
  then have ne: "cs \<noteq> []" using assms(3) by auto
  then have "hd cs \<in> set ds" using sets by (metis list.set_sel(1))
  then have "unat (TotalChunks (hd cs)) = length ds" by (rule assms(4))
  then show ?thesis
    using ne len place_chunks_indexed [OF assms(1,2)] join_chunks_ok [of ds "[]"] assms(5)
    by (simp add: ReassembleMessage_def)
qed

lemma ReassembleMessage_sound:
  assumes "ReassembleMessage cs = Inr m"
  shows "\<exists>ds. mset ds = mset cs \<and> indexed ds \<and> length cs = unat (TotalChunks (hd cs))
    \<and> (\<forall>c \<in> set cs. Checksum c = crc16 (Payload c)) \<and> m = concat (map Payload ds)"
proof -
  let ?n = "unat (TotalChunks (hd cs))"
  from assms obtain arr where len: "length cs = ?n"
    and pl: "place_chunks ?n cs (replicate ?n None) = Inr arr" and jn: "join_chunks arr [] = Inr m"
    by (auto simp: ReassembleMessage_def Let_def split: if_splits sum.splits)
  from join_chunks_InrD [OF jn] obtain ds where ds: "arr = map Some ds"
    "\<forall>c \<in> set ds. Checksum c = crc16 (Payload c)" "m = concat (map Payload ds)" by auto
  with place_chunks_complete [OF pl [unfolded ds(1)] len] len show ?thesis
    by (intro exI [of _ ds]) (metis set_mset_mset)
qed


lemma chunk_size_pos [simp]: "0 < chunk_size n"
  by (simp add: chunk_size_def)

lemma length_ChunkMessage:
  "length (ChunkMessage mid p n r) = (length p + chunk_size n - 1) div chunk_size n"
  by (simp add: ChunkMessage_def Let_def)

lemma nth_ChunkMessage:
  assumes "i < length (ChunkMessage mid p n r)"
  shows "ChunkMessage mid p n r ! i =
    \<lparr>MsgID = mid, ChunkIdx = word_of_nat i, TotalChunks = word_of_nat (length (ChunkMessage mid p n r)),
     Checksum = crc16 (groups (chunk_size n) p ! i), Payload = groups (chunk_size n) p ! i,
     RecipientHash = (if r \<noteq> [] then sha256_Sum256 (bytes_of_string r) else [])\<rparr>"
proof -
  let ?k = "chunk_size n"
  have i: "i < length (groups ?k p)"
    using assms chunk_size_pos [of n] by (simp add: length_ChunkMessage length_groups)
  have nth: "groups ?k p ! i = take ?k (drop (i * ?k) p)" by (rule nth_groups [OF chunk_size_pos i])
  show ?thesis
    using assms unfolding nth length_ChunkMessage
    by (simp add: ChunkMessage_def Let_def NewChunk_def)
qed

lemma ChunkMessage_Payloads: "map Payload (ChunkMessage mid p n r) = groups (chunk_size n) p"
proof (rule nth_equalityI)
  show "length (map Payload (ChunkMessage mid p n r)) = length (groups (chunk_size n) p)"
    using chunk_size_pos [of n] by (simp add: length_ChunkMessage length_groups)
qed (simp add: nth_ChunkMessage)

lemma ChunkMessage_indexed:
  "length (ChunkMessage mid p n r) \<le> 65536 \<Longrightarrow> indexed (ChunkMessage mid p n r)"
  unfolding indexed_def by (auto simp: nth_ChunkMessage unat_of_nat)

lemma ChunkMessage_fields:
  "c \<in> set (ChunkMessage mid p n r) \<Longrightarrow>
   MsgID c = mid \<and> TotalChunks c = word_of_nat (length (ChunkMessage mid p n r))
   \<and> Checksum c = crc16 (Payload c)
   \<and> RecipientHash c = (if r \<noteq> [] then sha256_Sum256 (bytes_of_string r) else [])
   \<and> length (Payload c) \<le> chunk_size n \<and> 0 < length (Payload c)"
proof -
  assume "c \<in> set (ChunkMessage mid p n r)"
  then obtain i where i: "i < length (ChunkMessage mid p n r)" "c = ChunkMessage mid p n r ! i"
    by (metis in_set_conv_nth)
  then have "i < length (groups (chunk_size n) p)"
    using chunk_size_pos [of n] by (simp add: length_ChunkMessage length_groups)
  then have "0 < length (groups (chunk_size n) p ! i) \<and> length (groups (chunk_size n) p ! i) \<le> chunk_size n"
    by (metis groups_lengths nth_mem)
  then show ?thesis using i by (simp add: nth_ChunkMessage)
qed

lemma ChunkMessage_empty_iff: "ChunkMessage mid p n r = [] \<longleftrightarrow> p = []"
proof -
  have "ChunkMessage mid p n r = [] \<longleftrightarrow> groups (chunk_size n) p = []"
    using ChunkMessage_Payloads [of mid p n r] by (metis map_is_Nil_conv)
  then show ?thesis using chunk_size_pos [of n] by (cases "p = []") (auto simp: groups_step)
qed

lemma ReassembleMessage_ChunkMessage:
  assumes "p \<noteq> []" "length (ChunkMessage mid p n r) \<le> 65535" "mset cs = mset (ChunkMessage mid p n r)"
  shows "ReassembleMessage cs = Inr p"
proof -
  let ?ds = "ChunkMessage mid p n r"
  have "ReassembleMessage cs = Inr (concat (map Payload ?ds))"
  proof (rule ReassembleMessage_complete)
    show "indexed ?ds" using assms(2) by (intro ChunkMessage_indexed) simp
    fix c assume c: "c \<in> set ?ds"
    show "unat (TotalChunks c) = length ?ds"
      using ChunkMessage_fields [OF c] assms(2) by (simp add: unat_of_nat)
    show "Checksum c = crc16 (Payload c)" using ChunkMessage_fields [OF c] by simp
  qed (use assms ChunkMessage_empty_iff in auto)
  then show ?thesis using chunk_size_pos [of n] by (simp add: ChunkMessage_Payloads)
qed

lemma ReassembleMessage_too_many:
  assumes "65535 < length (ChunkMessage mid p n r)"
  shows "\<not> is_ok (ReassembleMessage (ChunkMessage mid p n r))"
proof -
  let ?ds = "ChunkMessage mid p n r"
  have ne: "?ds \<noteq> []" using assms by auto
  have "unat (TotalChunks (hd ?ds)) = length ?ds mod 65536"
    using ChunkMessage_fields [of "hd ?ds" mid p n r] ne by (simp add: unat_of_nat)
  also have "\<dots> < 65536" by simp
  finally have "unat (TotalChunks (hd ?ds)) \<noteq> length ?ds" using assms by simp
  then show ?thesis using ne by (auto simp: ReassembleMessage_def Let_def)
qed


section \<open>Lemmas on labels\<close>

lemma EncodePayload_label:
  "l \<in> set (EncodePayload bs) \<Longrightarrow>
   0 < length l \<and> length l \<le> 63 \<and> set l \<subseteq> set base32hex_alphabet"
proof -
  assume l: "l \<in> set (EncodePayload bs)"
  then have "0 < length l \<and> length l \<le> 63" by (auto simp: EncodePayload_def dest: groups_lengths)
  moreover have "set l \<subseteq> set (concat (EncodePayload bs))" using l by auto
  then have "set l \<subseteq> set base32hex_alphabet"
    using set_base32hex [of bs] by (auto simp: EncodePayload_def)
  ultimately show ?thesis by simp
qed

lemma DecodePayload_EncodePayload: "DecodePayload (EncodePayload bs) = Some bs"
  by (simp add: DecodePayload_def EncodePayload_def strings_Join_Nil base32hex_decode_encode)

lemma decode_field_encode: "length bs = n \<Longrightarrow> decode_field what n (base32hex_EncodeToString bs) = Inr bs"
  by (simp add: decode_field_def base32hex_decode_encode)

lemma decode_body_encode:
  "decode_body rh ([base32hex_EncodeToString (be64 m), base32hex_EncodeToString (be16 i),
      base32hex_EncodeToString (be16 t), base32hex_EncodeToString (be16 k)] @ EncodePayload p)
   = Inr \<lparr>MsgID = m, ChunkIdx = i, TotalChunks = t, Checksum = k, Payload = p, RecipientHash = rh\<rparr>"
  by (simp add: decode_body_def decode_field_encode DecodePayload_EncodePayload)

lemma DecodeChunkFromLabels_EncodeToLabels:
  assumes "length (RecipientHash c) \<in> {0, 32}"
  shows "DecodeChunkFromLabels (EncodeToLabels c zone) zone = Inr c"
proof (cases "RecipientHash c = []")
  case True
  then show ?thesis
    by (simp add: DecodeChunkFromLabels_def EncodeToLabels_def butlast_append
        decode_body_encode [simplified])
next
  case False
  then have "length (RecipientHash c) = 32" using assms by simp
  then show ?thesis
    by (simp add: DecodeChunkFromLabels_def EncodeToLabels_def butlast_append
        decode_field_encode decode_body_encode [simplified])
qed

lemma decode_body_hash: "decode_body rh body = Inr c \<Longrightarrow> RecipientHash c = rh"
  by (auto simp: decode_body_def split: if_splits sum.splits option.splits)

lemma decode_field_length: "decode_field what n l = Inr bs \<Longrightarrow> length bs = n"
  by (auto simp: decode_field_def split: option.splits if_splits)

lemma DecodeChunkFromLabels_hash:
  "DecodeChunkFromLabels labels zone = Inr c \<Longrightarrow> length (RecipientHash c) \<in> {0, 32}"
  by (auto simp: DecodeChunkFromLabels_def Let_def dest: decode_body_hash decode_field_length
      split: if_splits sum.splits)

lemma legal_label_encode:
  "0 < length bs \<Longrightarrow> length bs \<le> 32 \<Longrightarrow> legal_label (base32hex_EncodeToString bs)"
proof -
  assume bs: "0 < length bs" "length bs \<le> 32"
  then have "5 \<le> 8 * length bs + 4" by linarith
  then have "0 < (8 * length bs + 4) div 5" by (simp only: div_greater_zero_iff) simp
  then show ?thesis using bs(2) set_base32hex [of bs] by (simp add: legal_label_def)
qed

lemma EncodeToLabels_label:
  assumes "length (RecipientHash c) \<in> {0, 32}"
  shows "\<forall>l \<in> set (butlast (EncodeToLabels c zone)). legal_label l"
proof -
  have "legal_label l" if "l \<in> set (EncodePayload (Payload c))" for l
    using EncodePayload_label [OF that] by (simp add: legal_label_def)
  then show ?thesis
    using assms by (auto simp: EncodeToLabels_def butlast_append intro!: legal_label_encode)
qed

lemma dot_not_base32hex: "CHR ''.'' \<notin> set base32hex_alphabet"
  by (simp add: base32hex_alphabet_def)

lemma colon_not_base32hex: "CHR '':'' \<notin> set base32hex_alphabet"
  by (simp add: base32hex_alphabet_def)

lemma sum_length_groups: "0 < k \<Longrightarrow> sum_list (map length (groups k xs)) = length xs"
  by (metis concat_groups length_concat)

text \<open>The length of the dotted name a chunk travels under.\<close>

lemma length_chunk_name:
  "length (strings_Join (EncodeToLabels c zone) ''.'') =
     (if RecipientHash c = [] then 0 else (8 * length (RecipientHash c) + 4) div 5 + 1)
     + 29 + (8 * length (Payload c) + 4) div 5
     + ((8 * length (Payload c) + 4) div 5 + 62) div 63 + length zone"
proof -
  have "EncodeToLabels c zone \<noteq> []" by (simp add: EncodeToLabels_def)
  from length_strings_Join [OF this, of "''.''"] show ?thesis
    by (simp add: EncodeToLabels_def EncodePayload_def sum_length_groups length_groups)
qed

section \<open>Properties\<close>

text \<open>
  (C9) A chunk written as DNS labels and parsed back is the same chunk exactly when its
  recipient hash is absent or 32 bytes long, whatever the zone, the payload and the header
  fields: the optional 52-character hash label is never confused with the 13-character
  message identifier.
\<close>

theorem chunk_labels_roundtrip:
  "DecodeChunkFromLabels (EncodeToLabels c zone) zone = Inr c
   \<longleftrightarrow> length (RecipientHash c) = 0 \<or> length (RecipientHash c) = 32"
  using DecodeChunkFromLabels_EncodeToLabels [of c zone]
    DecodeChunkFromLabels_hash [of "EncodeToLabels c zone" zone c] by auto

text \<open>
  (C10) A message that is cut into chunks reassembles to itself exactly when it is not empty
  and needs at most 65535 chunks; an empty message has no chunks to reassemble, and with
  more chunks the 16-bit total wraps and reassembly fails.
\<close>

theorem reassemble_chunked_iff:
  "ReassembleMessage (ChunkMessage mid p n r) = Inr p
   \<longleftrightarrow> p \<noteq> [] \<and> length (ChunkMessage mid p n r) \<le> 65535"
proof
  assume r: "ReassembleMessage (ChunkMessage mid p n r) = Inr p"
  then have "ChunkMessage mid p n r \<noteq> []" by (auto simp: ReassembleMessage_def)
  moreover have "\<not> 65535 < length (ChunkMessage mid p n r)"
    using ReassembleMessage_too_many [of mid p n r] r by auto
  ultimately show "p \<noteq> [] \<and> length (ChunkMessage mid p n r) \<le> 65535"
    by (simp add: ChunkMessage_empty_iff)
qed (blast intro: ReassembleMessage_ChunkMessage)

text \<open>
  The order in which the chunks of a message arrive does not matter: every permutation
  of them reassembles to the message.
\<close>

theorem reassemble_any_order:
  assumes "p \<noteq> []" "length (ChunkMessage mid p n r) \<le> 65535"
    and "mset cs = mset (ChunkMessage mid p n r)"
  shows "ReassembleMessage cs = Inr p"
  using assms by (rule ReassembleMessage_ChunkMessage)

theorem reassemble_any_order_witness:
  "ReassembleMessage (rev (ChunkMessage 7 [1, 2, 3, 4, 5] 2 [])) = Inr [1, 2, 3, 4, 5]"
  by (rule reassemble_any_order [of _ 7 2 "[]"]) (simp_all add: length_ChunkMessage chunk_size_def)

text \<open>
  (C29) Whatever is reassembled was delivered: if reassembly succeeds, the chunks are exactly
  as many as the first one announces, their indices are \<open>0, 1, \<dots>\<close> without gap or
  duplicate, every payload matches its checksum, and the result is the payloads in index
  order.
\<close>

theorem reassemble_sound:
  assumes "ReassembleMessage cs = Inr m"
  shows "\<exists>ds. mset ds = mset cs \<and> indexed ds \<and> length cs = unat (TotalChunks (hd cs))
    \<and> (\<forall>c \<in> set cs. Checksum c = crc16 (Payload c)) \<and> m = concat (map Payload ds)"
  using assms by (rule ReassembleMessage_sound)

theorem reassemble_sound_witness:
  "\<exists>ds. mset ds = mset (ChunkMessage 7 [1, 2, 3] 2 []) \<and> indexed ds \<and> [1, 2, 3] = concat (map Payload ds)"
  using reassemble_sound [OF ReassembleMessage_ChunkMessage [of "[1, 2, 3]" 7 2 "[]", OF _ _ refl]]
  by (auto simp: length_ChunkMessage chunk_size_def)

text \<open>
  (C30) The checksum detects every corruption of a payload that is confined to one byte or to
  two adjacent bytes: no set of chunks that contains a chunk corrupted in this way
  reassembles.
\<close>

theorem corrupted_chunk_rejected:
  assumes "u \<noteq> v" "length u = length v" "length u \<le> 2"
    and "Checksum c = crc16 (p @ u @ s)" "Payload c = p @ v @ s" "c \<in> set cs"
  shows "\<not> is_ok (ReassembleMessage cs)"
proof
  assume "is_ok (ReassembleMessage cs)"
  then obtain m where "ReassembleMessage cs = Inr m"
    by (auto simp: is_ok_def split: sum.splits)
  then have "Checksum c = crc16 (Payload c)"
    using ReassembleMessage_sound assms(6) by blast
  then show False using crc16_burst [OF assms(2,3), of p s] assms(1,4,5) by simp
qed

theorem corrupted_chunk_rejected_witness:
  "\<not> is_ok (ReassembleMessage [(NewChunk 7 0 1 [1, 2, 3])\<lparr>Payload := [1, 9, 3]\<rparr>])"
  by (rule corrupted_chunk_rejected [of "[2]" "[9]" _ "[1]" "[3]"]) (simp_all add: NewChunk_def)

text \<open>
  (C31) Every label of a chunk's name other than the zone is a legal DNS label: between 1 and
  63 characters, all from the base32hex alphabet (so no label contains a dot).
\<close>

theorem chunk_labels_legal:
  assumes "length (RecipientHash c) = 0 \<or> length (RecipientHash c) = 32"
    and "l \<in> set (butlast (EncodeToLabels c zone))"
  shows "legal_label l"
  using EncodeToLabels_label [of c zone] assms by auto

theorem chunk_labels_legal_witness: "legal_label (base32hex_EncodeToString (be64 7))"
  using chunk_labels_legal [of "NewChunk 7 0 1 [1]" "base32hex_EncodeToString (be64 7)" "''z''"]
  by (simp add: NewChunk_def EncodeToLabels_def)

text \<open>
  A chunk of at most 75 bytes (the default chunk size) fits the 253 characters of a DNS
  name in every zone of at most 49 characters, with or without a recipient hash.
\<close>

theorem default_chunk_name_fits:
  assumes "length (RecipientHash c) = 0 \<or> length (RecipientHash c) = 32"
    and "length (Payload c) \<le> 75" "length zone \<le> 49"
  shows "length (strings_Join (EncodeToLabels c zone) ''.'') \<le> 253"
proof -
  let ?e = "(8 * length (Payload c) + 4) div 5"
  have e: "?e \<le> 120" using assms(2) by linarith
  then have "(?e + 62) div 63 \<le> 2" by linarith
  with e show ?thesis using assms(1,3) by (auto simp: length_chunk_name)
qed

theorem default_chunk_name_fits_witness:
  "length (strings_Join (EncodeToLabels (NewChunk 7 0 1 [1, 2]) ''msg.local-domain'') ''.'') \<le> 253"
  by (rule default_chunk_name_fits) (simp_all add: NewChunk_def)

end
