(* ===== verification/Sequence_Counter.thy ===== *)
theory Sequence_Counter
  imports Go_Prelude
begin

text \<open>
  \<^verbatim>\<open>internal/store/sequence.go\<close>: monotonic sequence numbers per recipient, kept in a bbolt
  bucket. bbolt itself is a parameter: a bucket is a state with a read and a
  read-write transaction, and \<open>bolt_bucket\<close> states what its documentation promises.
  Every counter over such a bucket satisfies the interface \<open>sequence\<close> that the chunk
  store relies on.
\<close>

section \<open>The bucket\<close>

text \<open>
  \<open>bolt_get\<close> is \<^verbatim>\<open>Bucket.Get\<close> in a transaction on the committed state; \<open>bolt_put\<close> is a
  \<^verbatim>\<open>DB.Update\<close> whose function ends with one \<^verbatim>\<open>Bucket.Put\<close>: the new state, or an error.
\<close>

record 'd bolt_ops =
  bolt_get :: "'d \<Rightarrow> bytes \<Rightarrow> bytes option"
  bolt_put :: "'d \<Rightarrow> bytes \<Rightarrow> bytes \<Rightarrow> string + 'd"

locale bolt_bucket =
  fixes ops :: "'d bolt_ops"
  assumes get_put_same: "bolt_put ops d k v = Inr d' \<Longrightarrow> bolt_get ops d' k = Some v"
    and get_put_other: "bolt_put ops d k v = Inr d' \<Longrightarrow> k' \<noteq> k \<Longrightarrow> bolt_get ops d' k' = bolt_get ops d k'"

text \<open>A bucket in memory, which refuses the empty key as bbolt does.\<close>

definition mem_bolt :: "(bytes, bytes) fmap bolt_ops" where
  "mem_bolt =
     \<lparr>bolt_get = fmlookup,
      bolt_put = (\<lambda>d k v. if k = [] then Inl ''key required'' else Inr (fmupd k v d))\<rparr>"

section \<open>The counter\<close>

datatype seq_error = BoltError string | OpenError string | BucketError string | IndexPanic

definition NewSequenceCounter :: "string + 'd \<Rightarrow> ('d \<Rightarrow> string + 'd) \<Rightarrow> seq_error + 'd" where
  "NewSequenceCounter opened create_bucket =
     (case opened of
        Inl e \<Rightarrow> Inl (OpenError e)
      | Inr db \<Rightarrow>
          (case create_bucket db of Inl e \<Rightarrow> Inl (BucketError e) | Inr db' \<Rightarrow> Inr db'))"

text \<open>\<^verbatim>\<open>BigEndian.Uint64\<close> reads the first eight bytes and panics on a shorter slice.\<close>

definition read_seq :: "bytes option \<Rightarrow> seq_error + uint64" where
  "read_seq current =
     (case current of
        None \<Rightarrow> Inr 0
      | Some v \<Rightarrow> if length v < 8 then Inl IndexPanic else Inr (be_word (take 8 v)))"

definition SequenceCounter_Next ::
  "'d bolt_ops \<Rightarrow> string \<Rightarrow> 'd \<Rightarrow> (seq_error + uint64) \<times> 'd" where
  "SequenceCounter_Next ops peerID db =
     (let key = bytes_of_string peerID in
      case read_seq (bolt_get ops db key) of
        Inl e \<Rightarrow> (Inl e, db)
      | Inr seq \<Rightarrow>
          (case bolt_put ops db key (be64 (seq + 1)) of
             Inl e \<Rightarrow> (Inl (BoltError e), db)
           | Inr db' \<Rightarrow> (Inr (seq + 1), db')))"

definition SequenceCounter_GetLast :: "'d bolt_ops \<Rightarrow> string \<Rightarrow> 'd \<Rightarrow> seq_error + uint64" where
  "SequenceCounter_GetLast ops peerID db = read_seq (bolt_get ops db (bytes_of_string peerID))"

definition PeerIDFromPubkey :: "string \<Rightarrow> string" where
  "PeerIDFromPubkey pubkey = (if length pubkey > 8 then take 8 pubkey else pubkey)"

text \<open>Every stored value is an eight-byte number.\<close>

definition counter_ok :: "'d bolt_ops \<Rightarrow> 'd \<Rightarrow> bool" where
  "counter_ok ops db \<longleftrightarrow> (\<forall>k v. bolt_get ops db k = Some v \<longrightarrow> length v = 8)"

text \<open>The last number given to a peer, 0 before the first.\<close>

definition last_seq :: "'d bolt_ops \<Rightarrow> 'd \<Rightarrow> string \<Rightarrow> uint64" where
  "last_seq ops db p = (case SequenceCounter_GetLast ops p db of Inl _ \<Rightarrow> 0 | Inr n \<Rightarrow> n)"

text \<open>A run of calls, and the numbers a peer got from it, in order.\<close>

fun run_next :: "(string \<Rightarrow> 'd \<Rightarrow> ('e + uint64) \<times> 'd) \<Rightarrow> string list \<Rightarrow> 'd \<Rightarrow> ('e + uint64) list" where
  "run_next nxt [] d = []"
| "run_next nxt (p # ps) d = fst (nxt p d) # run_next nxt ps (snd (nxt p d))"

fun numbers_of :: "string \<Rightarrow> string list \<Rightarrow> ('e + uint64) list \<Rightarrow> uint64 list" where
  "numbers_of p (q # qs) (Inr n # rs) = (if q = p then n # numbers_of p qs rs else numbers_of p qs rs)"
| "numbers_of p (q # qs) (Inl e # rs) = numbers_of p qs rs"
| "numbers_of p _ _ = []"

section \<open>The interface of the counter\<close>

text \<open>
  What a user of the counter may rely on: a successful \<open>nxt\<close> returns one more than the last
  number of the peer and leaves the other peers alone, a failed one changes nothing.
\<close>

locale sequence =
  fixes nxt :: "string \<Rightarrow> 'd \<Rightarrow> ('e + uint64) \<times> 'd"
    and lst :: "'d \<Rightarrow> string \<Rightarrow> uint64"
    and inv :: "'d \<Rightarrow> bool"
  assumes nxt_ok: "inv d \<Longrightarrow> nxt p d = (Inr n, d') \<Longrightarrow> n = lst d p + 1 \<and> lst d' p = n"
    and nxt_other: "inv d \<Longrightarrow> p' \<noteq> p \<Longrightarrow> lst (snd (nxt p d)) p' = lst d p'"
    and nxt_error: "nxt p d = (Inl e, d') \<Longrightarrow> d' = d"
    and nxt_inv: "inv d \<Longrightarrow> inv (snd (nxt p d))"
begin

lemma lst_step:
  assumes "inv d"
  shows "lst (snd (nxt p d)) q \<in> {lst d q, lst d q + 1}"
proof (cases "nxt p d")
  case (Pair r d')
  then show ?thesis
    using nxt_ok [OF assms] nxt_error [of p d] nxt_other [OF assms, of q p] by (cases r; cases "q = p") auto
qed

lemma lst_grows:
  assumes "inv d" "unat (lst d q) + 1 < 2 ^ 64"
  shows "unat (lst d q) \<le> unat (lst (snd (nxt p d)) q)"
    "unat (lst (snd (nxt p d)) q) \<le> unat (lst d q) + 1"
proof -
  have "unat (lst d q + 1) = unat (lst d q) + 1"
    using assms(2) by (simp add: unat_word_ariths)
  then show "unat (lst d q) \<le> unat (lst (snd (nxt p d)) q)"
    "unat (lst (snd (nxt p d)) q) \<le> unat (lst d q) + 1"
    using lst_step [OF assms(1), of p q] by auto
qed

text \<open>Any run of calls numbers each peer consecutively from where it stood.\<close>

lemma numbers_consecutive:
  "inv d \<Longrightarrow> numbers_of p ps (run_next nxt ps d)
    = map (\<lambda>i. lst d p + word_of_nat (Suc i)) [0..<length (numbers_of p ps (run_next nxt ps d))]"
proof (induction ps arbitrary: d)
  case (Cons q ps)
  obtain r d' where r: "nxt q d = (r, d')" by fastforce
  have inv: "inv d'" using nxt_inv [OF Cons.prems, of q] r by simp
  show ?case
  proof (cases "\<exists>n. r = Inr n \<and> q = p")
    case True
    then obtain n where n: "r = Inr n" "q = p" by blast
    then have l: "n = lst d p + 1" "lst d' p = lst d p + 1"
      using nxt_ok [OF Cons.prems, of p n d'] r by auto
    have "map (\<lambda>i. lst d p + word_of_nat (Suc i)) [0..<Suc m]
        = n # map (\<lambda>i. lst d' p + word_of_nat (Suc i)) [0..<m]" for m
      by (simp add: l upt_conv_Cons flip: map_Suc_upt del: upt_Suc)
    then show ?thesis using Cons.IH [OF inv] n r by simp
  next
    case False
    then have "lst d' p = lst d p"
      using nxt_other [OF Cons.prems, of p q] nxt_error [of q d] r by (cases r; cases "q = p") auto
    moreover have "numbers_of p (q # ps) (r # rs) = numbers_of p ps rs" for rs
      using False by (cases r) auto
    ultimately show ?thesis using Cons.IH [OF inv] r by simp
  qed
qed simp

end

section \<open>Every counter over a bucket implements the interface\<close>

interpretation mem: bolt_bucket mem_bolt
  by unfold_locales (auto simp: mem_bolt_def split: if_splits)

lemma read_seq_ok: "counter_ok ops db \<Longrightarrow> \<exists>n. read_seq (bolt_get ops db k) = Inr n"
  by (auto simp: read_seq_def counter_ok_def split: option.split)

sublocale bolt_bucket \<subseteq> sequence "SequenceCounter_Next ops" "last_seq ops" "counter_ok ops"
proof unfold_locales
  fix d d' :: 'd and p p' :: string and n
  show "n = last_seq ops d p + 1 \<and> last_seq ops d' p = n"
    if "counter_ok ops d" "SequenceCounter_Next ops p d = (Inr n, d')"
  proof -
    from that obtain m where "read_seq (bolt_get ops d (bytes_of_string p)) = Inr m"
      "bolt_put ops d (bytes_of_string p) (be64 (m + 1)) = Inr d'" "n = m + 1"
      by (auto simp: SequenceCounter_Next_def Let_def split: sum.splits)
    then show ?thesis using get_put_same [of d "bytes_of_string p"]
      by (simp add: last_seq_def SequenceCounter_GetLast_def) (simp add: read_seq_def)
  qed
  show "last_seq ops (snd (SequenceCounter_Next ops p d)) p' = last_seq ops d p'"
    if "counter_ok ops d" "p' \<noteq> p"
    using that get_put_other [of d "bytes_of_string p"]
    by (auto simp: SequenceCounter_Next_def last_seq_def SequenceCounter_GetLast_def Let_def
        split: sum.splits)
  show "counter_ok ops (snd (SequenceCounter_Next ops p d))" if "counter_ok ops d"
  proof -
    have "length v = 8"
      if ok: "bolt_put ops d (bytes_of_string p) (be64 m) = Inr d2" and v: "bolt_get ops d2 k = Some v"
      for d2 m k v
      using get_put_same [OF ok] get_put_other [OF ok, of k] v \<open>counter_ok ops d\<close>
      by (cases "k = bytes_of_string p") (auto simp: counter_ok_def)
    then show ?thesis using that
      by (auto simp: SequenceCounter_Next_def Let_def counter_ok_def split: sum.splits)
  qed
qed (auto simp: SequenceCounter_Next_def Let_def split: sum.splits)

context bolt_bucket
begin

lemma is_sequence: "sequence (SequenceCounter_Next ops) (last_seq ops) (counter_ok ops)"
  by (rule sequence_axioms)

end

section \<open>Properties\<close>

text \<open>
  (C21) The numbers a recipient gets are consecutive, over any run of calls for any mix of
  recipients and whichever of them fail, and across restarts: they continue from the
  number stored last, so no number is given twice and none is skipped.
\<close>

theorem sequence_consecutive:
  assumes "bolt_bucket ops" "counter_ok ops db"
  shows "numbers_of p ps (run_next (SequenceCounter_Next ops) ps db)
    = map (\<lambda>i. last_seq ops db p + word_of_nat (Suc i))
        [0..<length (numbers_of p ps (run_next (SequenceCounter_Next ops) ps db))]"
  using sequence.numbers_consecutive [OF bolt_bucket.is_sequence [OF assms(1)] assms(2)] .

theorem sequence_consecutive_witness:
  "numbers_of ''a'' [''a'', ''b'', ''a''] (run_next (SequenceCounter_Next mem_bolt) [''a'', ''b'', ''a''] fmempty)
    = map (\<lambda>i. last_seq mem_bolt fmempty ''a'' + word_of_nat (Suc i))
        [0..<length (numbers_of ''a'' [''a'', ''b'', ''a'']
           (run_next (SequenceCounter_Next mem_bolt) [''a'', ''b'', ''a''] fmempty))]"
  by (rule sequence_consecutive [OF mem.bolt_bucket_axioms]) (simp add: counter_ok_def mem_bolt_def)

end
