(* ===== verification/Chunk_Store.thy ===== *)
theory Chunk_Store
  imports Chunk_Encoding Sequence_Counter
begin

text \<open>
  \<^verbatim>\<open>internal/store/store.go\<close>: the relay's store of message chunks, with the owner of each
  message, the count of messages per owner, the time-to-live collection and the sequence
  stamp. The theory gives every operation, the invariant that they keep, the effect
  of the collector for every iteration order of Go's maps, and what a reader of the store
  gets back.
\<close>

section \<open>State\<close>

record messageBuf =
  chunks :: "(uint16, Chunk) fmap"
  buf_total :: uint16
  createdAt :: time
  serverTimestamp :: uint64
  sequenceNumber :: uint64

text \<open>
  \<open>stopped\<close> tells whether the channel \<^verbatim>\<open>done\<close> is closed, \<open>gc_started\<close> whether
  \<^verbatim>\<open>NewChunkStore\<close> started the collector. The sequence counter, when there is one, is the
  state of its bucket.
\<close>

record 'd ChunkStore =
  messages :: "(msg_id, messageBuf) fmap"
  gcInterval :: duration
  ttl :: duration
  stopped :: bool
  gc_started :: bool
  peerMessages :: "(string, int) fmap"
  messageOwner :: "(msg_id, string) fmap"
  maxPerPeer :: int
  sequenceCounter :: "'d option"

section \<open>Operations\<close>

definition DefaultTTL :: duration where
  "DefaultTTL = 7 * 24 * 3600 * 1000000000"

definition DefaultGCInterval :: duration where
  "DefaultGCInterval = 60 * 1000000000"

definition NewChunkStore :: "duration \<Rightarrow> duration \<Rightarrow> 'd ChunkStore" where
  "NewChunkStore interval time_to_live =
     \<lparr>messages = fmempty, gcInterval = interval, ttl = time_to_live, stopped = False,
      gc_started = (interval > 0), peerMessages = fmempty, messageOwner = fmempty,
      maxPerPeer = 100, sequenceCounter = None\<rparr>"

definition SetMaxPerPeer :: "int \<Rightarrow> 'd ChunkStore \<Rightarrow> 'd ChunkStore" where
  "SetMaxPerPeer lim s = s\<lparr>maxPerPeer := lim\<rparr>"

definition SetSequenceCounter :: "'d option \<Rightarrow> 'd ChunkStore \<Rightarrow> 'd ChunkStore" where
  "SetSequenceCounter sc s = s\<lparr>sequenceCounter := sc\<rparr>"

definition SetMessageOwner :: "msg_id \<Rightarrow> string \<Rightarrow> 'd ChunkStore \<Rightarrow> 'd ChunkStore" where
  "SetMessageOwner mid peerID s =
     (case fmlookup (messageOwner s) mid of
        Some _ \<Rightarrow> s
      | None \<Rightarrow> s\<lparr>messageOwner := fmupd mid peerID (messageOwner s),
                 peerMessages := fmupd peerID (map_get (peerMessages s) peerID 0 + 1) (peerMessages s)\<rparr>)"

definition PeerMessageCount :: "string \<Rightarrow> 'd ChunkStore \<Rightarrow> int" where
  "PeerMessageCount peerID s = map_get (peerMessages s) peerID 0"

definition TotalPeers :: "'d ChunkStore \<Rightarrow> nat" where
  "TotalPeers s = fmsize (peerMessages s)"

definition ListPeerMessages :: "msg_id list \<Rightarrow> string \<Rightarrow> 'd ChunkStore \<Rightarrow> msg_id list" where
  "ListPeerMessages ks peerID s = filter (\<lambda>mid. fmlookup (messageOwner s) mid = Some peerID) ks"

text \<open>
  The buffer for the first chunk of a message, stamped with the time and, if possible, with
  the recipient's next sequence number. A failing counter leaves the number 0; \<open>None\<close> is
  the panic of \<^verbatim>\<open>Uint64\<close> on a bucket value that is too short.
\<close>

definition empty_buf :: "time \<Rightarrow> Chunk \<Rightarrow> messageBuf" where
  "empty_buf now c =
     \<lparr>chunks = fmempty, buf_total = TotalChunks c, createdAt = now,
      serverTimestamp = time_UnixMilli now, sequenceNumber = 0\<rparr>"

definition new_buf ::
  "'d bolt_ops \<Rightarrow> time \<Rightarrow> Chunk \<Rightarrow> 'd option \<Rightarrow> (messageBuf \<times> 'd option) option" where
  "new_buf ops now c sc =
     (case sc of
        Some db \<Rightarrow>
          if RecipientHash c \<noteq> [] then
            (case SequenceCounter_Next ops (PeerIDFromPubkey (string_of_bytes (RecipientHash c))) db of
               (Inr seq, db') \<Rightarrow> Some ((empty_buf now c)\<lparr>sequenceNumber := seq\<rparr>, Some db')
             | (Inl IndexPanic, db') \<Rightarrow> None
             | (Inl _, db') \<Rightarrow> Some (empty_buf now c, Some db'))
          else Some (empty_buf now c, sc)
      | None \<Rightarrow> Some (empty_buf now c, sc))"

definition ChunkStore_Store ::
  "'d bolt_ops \<Rightarrow> time \<Rightarrow> Chunk \<Rightarrow> 'd ChunkStore \<Rightarrow> (bool \<times> 'd ChunkStore) option" where
  "ChunkStore_Store ops now c s =
     (case (case fmlookup (messages s) (MsgID c) of
              Some buf \<Rightarrow> Some (buf, sequenceCounter s)
            | None \<Rightarrow> new_buf ops now c (sequenceCounter s)) of
        None \<Rightarrow> None
      | Some (buf, sc) \<Rightarrow>
          (let buf' = buf\<lparr>chunks := fmupd (ChunkIdx c) c (chunks buf)\<rparr>
           in Some (fmsize (chunks buf') = unat (buf_total buf'),
                    s\<lparr>messages := fmupd (MsgID c) buf' (messages s), sequenceCounter := sc\<rparr>)))"

definition GetMessageMeta :: "msg_id \<Rightarrow> 'd ChunkStore \<Rightarrow> uint64 \<times> uint64 \<times> bool" where
  "GetMessageMeta mid s =
     (case fmlookup (messages s) mid of
        None \<Rightarrow> (0, 0, False)
      | Some buf \<Rightarrow> (serverTimestamp buf, sequenceNumber buf, True))"

definition GetChunk :: "msg_id \<Rightarrow> uint16 \<Rightarrow> 'd ChunkStore \<Rightarrow> Chunk option" where
  "GetChunk mid idx s =
     (case fmlookup (messages s) mid of None \<Rightarrow> None | Some buf \<Rightarrow> fmlookup (chunks buf) idx)"

text \<open>\<open>ks\<close> is the order in which \<^verbatim>\<open>range buf.chunks\<close> visits the chunks.\<close>

definition GetCompleteMessage ::
  "uint16 list \<Rightarrow> msg_id \<Rightarrow> 'd ChunkStore \<Rightarrow> enc_error + bytes option" where
  "GetCompleteMessage ks mid s =
     (case fmlookup (messages s) mid of
        None \<Rightarrow> Inr None
      | Some buf \<Rightarrow>
          (case ReassembleMessage (List.map_filter (fmlookup (chunks buf)) ks) of
             Inl e \<Rightarrow> Inl e
           | Inr m \<Rightarrow> Inr (Some m)))"

definition PendingCount :: "'d ChunkStore \<Rightarrow> nat" where
  "PendingCount s = fmsize (messages s)"

text \<open>Closing the channel a second time panics.\<close>

definition ChunkStore_Stop :: "'d ChunkStore \<Rightarrow> 'd ChunkStore option" where
  "ChunkStore_Stop s = (if stopped s then None else Some (s\<lparr>stopped := True\<rparr>))"

section \<open>The collector\<close>

definition release_owner :: "msg_id \<Rightarrow> 'd ChunkStore \<Rightarrow> 'd ChunkStore" where
  "release_owner mid s =
     (case fmlookup (messageOwner s) mid of
        None \<Rightarrow> s
      | Some peerID \<Rightarrow>
          (let n = map_get (peerMessages s) peerID 0 - 1;
               counts = fmupd peerID n (peerMessages s)
           in s\<lparr>peerMessages := (if n \<le> 0 then fmdrop peerID counts else counts),
                messageOwner := fmdrop mid (messageOwner s)\<rparr>))"

definition expired :: "time \<Rightarrow> 'd ChunkStore \<Rightarrow> msg_id \<Rightarrow> bool" where
  "expired now s mid =
     (case fmlookup (messages s) mid of
        None \<Rightarrow> False
      | Some buf \<Rightarrow> time_Sub now (createdAt buf) > ttl s)"

definition gc_visit :: "time \<Rightarrow> msg_id \<Rightarrow> 'd ChunkStore \<Rightarrow> 'd ChunkStore" where
  "gc_visit now mid s =
     (if expired now s mid
      then release_owner mid (s\<lparr>messages := fmdrop mid (messages s)\<rparr>)
      else s)"

text \<open>\<open>ks\<close> is the order in which \<^verbatim>\<open>range s.messages\<close> visits the messages.\<close>

definition ChunkStore_gc :: "time \<Rightarrow> msg_id list \<Rightarrow> 'd ChunkStore \<Rightarrow> 'd ChunkStore" where
  "ChunkStore_gc now ks s = fold (gc_visit now) ks s"

text \<open>The collector's loop: ticks until the channel is closed.\<close>

datatype gc_event = GCTick time "msg_id list" | GCDone

fun gcLoop :: "gc_event list \<Rightarrow> 'd ChunkStore \<Rightarrow> 'd ChunkStore" where
  "gcLoop [] s = s"
| "gcLoop (GCTick now ks # es) s = gcLoop es (ChunkStore_gc now ks s)"
| "gcLoop (GCDone # es) s = s"

section \<open>Invariant\<close>

definition owned :: "'d ChunkStore \<Rightarrow> string \<Rightarrow> msg_id set" where
  "owned s p = {mid. fmlookup (messageOwner s) mid = Some p}"

text \<open>The counter of an owner is the number of its messages, and only owners have one.\<close>

definition counts_ok :: "'d ChunkStore \<Rightarrow> bool" where
  "counts_ok s \<longleftrightarrow>
     (\<forall>p. fmlookup (peerMessages s) p =
        (if owned s p = {} then None else Some (int (card (owned s p)))))"

definition buf_ok :: "msg_id \<Rightarrow> messageBuf \<Rightarrow> bool" where
  "buf_ok mid buf \<longleftrightarrow> chunks buf \<noteq> fmempty \<and>
     (\<forall>i c. fmlookup (chunks buf) i = Some c \<longrightarrow> ChunkIdx c = i \<and> MsgID c = mid)"

definition store_ok :: "'d bolt_ops \<Rightarrow> 'd ChunkStore \<Rightarrow> bool" where
  "store_ok ops s \<longleftrightarrow> counts_ok s
     \<and> (\<forall>mid buf. fmlookup (messages s) mid = Some buf \<longrightarrow> buf_ok mid buf)
     \<and> (\<forall>db. sequenceCounter s = Some db \<longrightarrow> counter_ok ops db)"

section \<open>Steps of the store\<close>

text \<open>The state-changing operations as one step relation, for properties of whole histories.\<close>

datatype store_event =
    EvStore time Chunk
  | EvOwner msg_id string
  | EvGC time "msg_id list"

inductive store_step :: "'d bolt_ops \<Rightarrow> store_event \<Rightarrow> 'd ChunkStore \<Rightarrow> 'd ChunkStore \<Rightarrow> bool"
  for ops :: "'d bolt_ops" where
  step_store: "ChunkStore_Store ops now c s = Some (b, s') \<Longrightarrow> store_step ops (EvStore now c) s s'"
| step_owner: "store_step ops (EvOwner mid p) s (SetMessageOwner mid p s)"
| step_gc: "enumerates ks (messages s) \<Longrightarrow> store_step ops (EvGC now ks) s (ChunkStore_gc now ks s)"

inductive store_run :: "'d bolt_ops \<Rightarrow> store_event list \<Rightarrow> 'd ChunkStore \<Rightarrow> 'd ChunkStore \<Rightarrow> bool"
  for ops :: "'d bolt_ops" where
  run_nil: "store_run ops [] s s"
| run_cons: "store_step ops e s s' \<Longrightarrow> store_run ops es s' s'' \<Longrightarrow> store_run ops (e # es) s s''"

inductive_cases store_stepE: "store_step ops e s s'"
inductive_simps store_run_Nil [simp]: "store_run ops [] s s'"
inductive_simps store_run_Cons [simp]: "store_run ops (e # es) s s'"

text \<open>The buffer that a stored chunk goes to.\<close>

definition target_buf :: "time \<Rightarrow> Chunk \<Rightarrow> 'd ChunkStore \<Rightarrow> uint64 \<Rightarrow> messageBuf" where
  "target_buf now c s n =
     (case fmlookup (messages s) (MsgID c) of
        Some buf \<Rightarrow> buf
      | None \<Rightarrow> (empty_buf now c)\<lparr>sequenceNumber := n\<rparr>)"

text \<open>The last number of a recipient, and the counter key that a chunk uses.\<close>

definition seq_of :: "'d bolt_ops \<Rightarrow> 'd option \<Rightarrow> string \<Rightarrow> uint64" where
  "seq_of ops sc p = (case sc of None \<Rightarrow> 0 | Some db \<Rightarrow> last_seq ops db p)"

definition recipient_key :: "Chunk \<Rightarrow> string" where
  "recipient_key c = PeerIDFromPubkey (string_of_bytes (RecipientHash c))"

text \<open>The chunks of a message that a store holds, and those that a history stores.\<close>

definition held :: "msg_id \<Rightarrow> 'd ChunkStore \<Rightarrow> Chunk set" where
  "held mid s = {c. GetChunk mid (ChunkIdx c) s = Some c}"

definition stored_in :: "msg_id \<Rightarrow> store_event list \<Rightarrow> Chunk set" where
  "stored_in mid es = {c. MsgID c = mid \<and> (\<exists>t. EvStore t c \<in> set es)}"

text \<open>No collection of a history comes later than the time-to-live after a store of the message.\<close>

definition in_time :: "duration \<Rightarrow> msg_id \<Rightarrow> store_event list \<Rightarrow> bool" where
  "in_time d mid es \<longleftrightarrow>
     (\<forall>t ks u c. EvGC t ks \<in> set es \<longrightarrow> EvStore u c \<in> set es \<longrightarrow> MsgID c = mid \<longrightarrow>
        time_Sub t u \<le> d)"

text \<open>No collection of a history finds the message, as it is stored now, too old.\<close>

definition fresh :: "msg_id \<Rightarrow> store_event list \<Rightarrow> 'd ChunkStore \<Rightarrow> bool" where
  "fresh mid es s \<longleftrightarrow>
     (\<forall>t ks buf. EvGC t ks \<in> set es \<longrightarrow> fmlookup (messages s) mid = Some buf \<longrightarrow>
        time_Sub t (createdAt buf) \<le> ttl s)"

section \<open>Owners and their counts\<close>

lemma finite_owned [simp]: "finite (owned s p)"
proof -
  have "owned s p \<subseteq> fset (fmdom (messageOwner s))"
    by (auto simp: owned_def fmlookup_dom_iff)
  then show ?thesis by (rule finite_subset) simp
qed

lemma counts_ok_get: "counts_ok s \<Longrightarrow> map_get (peerMessages s) p 0 = int (card (owned s p))"
  by (auto simp: counts_ok_def map_get_def)

lemma SetMessageOwner_frame [simp]:
  "messages (SetMessageOwner mid p s) = messages s"
  "sequenceCounter (SetMessageOwner mid p s) = sequenceCounter s"
  "ttl (SetMessageOwner mid p s) = ttl s"
  by (simp_all add: SetMessageOwner_def split: option.split)

lemma release_owner_frame [simp]:
  "messages (release_owner mid s) = messages s"
  "sequenceCounter (release_owner mid s) = sequenceCounter s"
  "ttl (release_owner mid s) = ttl s"
  "messageOwner (release_owner mid s) = fmdrop mid (messageOwner s)"
  by (auto simp: release_owner_def Let_def fmdrop_idle fmlookup_dom_iff split: option.split)

lemma owned_SetMessageOwner:
  "owned (SetMessageOwner mid p s) q =
     (if q = p \<and> fmlookup (messageOwner s) mid = None then insert mid (owned s q) else owned s q)"
  by (auto simp: owned_def SetMessageOwner_def split: option.split)

lemma owned_release: "owned (release_owner mid s) q = owned s q - {mid}"
  by (auto simp: owned_def)

lemma counts_ok_SetMessageOwner:
  assumes "counts_ok s"
  shows "counts_ok (SetMessageOwner mid p s)"
proof (cases "fmlookup (messageOwner s) mid")
  case None
  then have "mid \<notin> owned s p" by (simp add: owned_def)
  then have "card (insert mid (owned s p)) = Suc (card (owned s p))" by simp
  moreover have "peerMessages (SetMessageOwner mid p s)
      = fmupd p (int (card (owned s p)) + 1) (peerMessages s)"
    using None counts_ok_get [OF assms] by (simp add: SetMessageOwner_def)
  ultimately show ?thesis
    using assms None unfolding counts_ok_def by (simp add: owned_SetMessageOwner)
qed (use assms in \<open>simp add: SetMessageOwner_def\<close>)

lemma counts_ok_release_owner:
  assumes "counts_ok s"
  shows "counts_ok (release_owner mid s)"
proof (cases "fmlookup (messageOwner s) mid")
  case (Some p)
  then have mid: "mid \<in> owned s p" by (simp add: owned_def)
  then have n: "map_get (peerMessages s) p 0 - 1 = int (card (owned s p - {mid}))"
    using counts_ok_get [OF assms, of p] card_gt_0_iff [of "owned s p"]
    by (auto simp: card_Diff_singleton of_nat_diff)
  have other: "mid \<notin> owned s q" if "q \<noteq> p" for q using that Some by (auto simp: owned_def)
  have "peerMessages (release_owner mid s)
      = (if owned s p - {mid} = {} then fmdrop p (peerMessages s)
         else fmupd p (int (card (owned s p - {mid}))) (peerMessages s))"
    unfolding release_owner_def Some option.case Let_def n
    by (auto intro!: fmap_ext)
  then have "fmlookup (peerMessages (release_owner mid s)) q
      = (if owned s q - {mid} = {} then None else Some (int (card (owned s q - {mid}))))" for q
    using assms other [of q] by (cases "q = p") (simp_all add: counts_ok_def)
  then show ?thesis unfolding counts_ok_def owned_release by blast
qed (use assms in \<open>simp add: release_owner_def\<close>)

section \<open>Storing\<close>

lemma empty_buf_unstamped [simp]: "(empty_buf now c)\<lparr>sequenceNumber := 0\<rparr> = empty_buf now c"
  by (simp add: empty_buf_def)

lemma new_buf_ok:
  assumes "\<And>db. sc = Some db \<Longrightarrow> counter_ok ops db"
  shows "\<exists>n sc'. new_buf ops now c sc = Some ((empty_buf now c)\<lparr>sequenceNumber := n\<rparr>, sc')"
proof (cases sc)
  case (Some db)
  let ?p = "PeerIDFromPubkey (string_of_bytes (RecipientHash c))"
  obtain m where m: "read_seq (bolt_get ops db (bytes_of_string ?p)) = Inr m"
    using read_seq_ok [OF assms [OF Some], of "bytes_of_string ?p"] by blast
  obtain r db' where r: "SequenceCounter_Next ops ?p db = (r, db')" by fastforce
  then have panic: "r \<noteq> Inl IndexPanic"
    using m by (auto simp: SequenceCounter_Next_def Let_def split: sum.splits)
  show ?thesis
  proof (cases r)
    case (Inl e)
    then show ?thesis using r panic Some
      by (intro exI [of _ 0]) (cases e, simp_all add: new_buf_def)
  next
    case (Inr n)
    then show ?thesis using r Some
      by (intro exI [of _ "if RecipientHash c = [] then 0 else n"]) (simp add: new_buf_def)
  qed
next
  case None
  show ?thesis by (rule exI [of _ 0]) (simp add: None new_buf_def)
qed

lemma ChunkStore_Store_frame:
  "ChunkStore_Store ops now c s = Some (b, s') \<Longrightarrow>
   messageOwner s' = messageOwner s \<and> peerMessages s' = peerMessages s \<and> ttl s' = ttl s"
  by (auto simp: ChunkStore_Store_def Let_def split: option.splits)

lemma counts_ok_cong:
  "messageOwner s' = messageOwner s \<Longrightarrow> peerMessages s' = peerMessages s \<Longrightarrow> counts_ok s' = counts_ok s"
  by (simp add: counts_ok_def owned_def)

lemma ChunkStore_Store_total:
  assumes "store_ok ops s"
  shows "\<exists>n sc'. ChunkStore_Store ops now c s =
    (let buf = target_buf now c s n; buf' = buf\<lparr>chunks := fmupd (ChunkIdx c) c (chunks buf)\<rparr>
     in Some (fmsize (chunks buf') = unat (buf_total buf'),
              s\<lparr>messages := fmupd (MsgID c) buf' (messages s), sequenceCounter := sc'\<rparr>))"
proof (cases "fmlookup (messages s) (MsgID c)")
  case None
  then show ?thesis
    using new_buf_ok [of "sequenceCounter s" ops now c] assms
    by (fastforce simp: ChunkStore_Store_def target_buf_def store_ok_def Let_def)
next
  case (Some buf)
  then show ?thesis
    by (intro exI [of _ 0] exI [of _ "sequenceCounter s"])
      (cases s, simp add: ChunkStore_Store_def target_buf_def Let_def)
qed

lemma buf_ok_target:
  assumes "store_ok ops s"
  shows "buf_ok (MsgID c)
    ((target_buf now c s n)\<lparr>chunks := fmupd (ChunkIdx c) c (chunks (target_buf now c s n))\<rparr>)"
  using assms
  by (auto simp: store_ok_def buf_ok_def target_buf_def empty_buf_def split: option.split if_split_asm)

text \<open>What the stamp does to the counter, for any bucket that keeps its promises.\<close>

context bolt_bucket
begin

lemma new_buf_counter:
  assumes "new_buf ops now c sc = Some (buf, sc')" "\<And>db. sc = Some db \<Longrightarrow> counter_ok ops db"
  shows "(sc' = sc \<and> sequenceNumber buf = 0)
    \<or> (\<exists>db db'. sc = Some db \<and> sc' = Some db' \<and> RecipientHash c \<noteq> []
         \<and> SequenceCounter_Next ops (recipient_key c) db = (Inr (sequenceNumber buf), db'))"
proof (cases "\<exists>db. sc = Some db \<and> RecipientHash c \<noteq> []")
  case True
  then obtain db where db: "sc = Some db" "RecipientHash c \<noteq> []" by blast
  obtain r db' where r: "SequenceCounter_Next ops (recipient_key c) db = (r, db')" by fastforce
  show ?thesis
  proof (cases r)
    case (Inl e)
    then have "db' = db" using nxt_error [of "recipient_key c" db e db'] r by simp
    then show ?thesis using assms(1) db r Inl
      by (cases e) (auto simp: new_buf_def recipient_key_def empty_buf_def)
  next
    case (Inr n)
    then show ?thesis using assms(1) db r by (auto simp: new_buf_def recipient_key_def)
  qed
next
  case False
  then have "new_buf ops now c sc = Some (empty_buf now c, sc)"
    by (auto simp: new_buf_def split: option.split)
  then show ?thesis using assms(1) by (auto simp: empty_buf_def)
qed

lemma Store_counter:
  assumes "ChunkStore_Store ops now c s = Some (b, s')" "store_ok ops s"
  shows "sequenceCounter s' = sequenceCounter s
    \<or> (\<exists>db p. sequenceCounter s = Some db
         \<and> sequenceCounter s' = Some (snd (SequenceCounter_Next ops p db)))"
proof (cases "fmlookup (messages s) (MsgID c)")
  case None
  then obtain buf sc' where nb: "new_buf ops now c (sequenceCounter s) = Some (buf, sc')"
    and sc': "sequenceCounter s' = sc'"
    using assms(1) by (auto simp: ChunkStore_Store_def Let_def split: option.splits)
  have "\<And>db. sequenceCounter s = Some db \<Longrightarrow> counter_ok ops db"
    using assms(2) by (simp add: store_ok_def)
  from new_buf_counter [OF nb this] show ?thesis
    unfolding sc' by (metis snd_conv)
qed (use assms(1) in \<open>auto simp: ChunkStore_Store_def Let_def\<close>)

lemma store_ok_Store:
  assumes "ChunkStore_Store ops now c s = Some (b, s')" "store_ok ops s"
  shows "store_ok ops s'"
proof -
  obtain n sc' where st: "s' = s\<lparr>messages := fmupd (MsgID c)
      ((target_buf now c s n)\<lparr>chunks := fmupd (ChunkIdx c) c (chunks (target_buf now c s n))\<rparr>) (messages s),
      sequenceCounter := sc'\<rparr>"
    using ChunkStore_Store_total [OF assms(2), of now c] assms(1) by (auto simp: Let_def)
  have "counter_ok ops db" if "sequenceCounter s' = Some db" for db
    using Store_counter [OF assms] nxt_inv assms(2) that by (auto simp: store_ok_def)
  moreover have "counts_ok s'"
    using counts_ok_cong [of s' s] ChunkStore_Store_frame [OF assms(1)] assms(2)
    by (simp add: store_ok_def)
  ultimately show ?thesis
    using buf_ok_target [OF assms(2), of c now n] assms(2) by (auto simp: store_ok_def st)
qed

end

section \<open>Collecting\<close>

lemma gc_visit_messages:
  "fmlookup (messages (gc_visit now m s)) k =
     (if k = m \<and> expired now s m then None else fmlookup (messages s) k)"
  by (simp add: gc_visit_def)

lemma gc_visit_owner:
  "fmlookup (messageOwner (gc_visit now m s)) k =
     (if k = m \<and> expired now s m then None else fmlookup (messageOwner s) k)"
  by (simp add: gc_visit_def)

lemma gc_visit_frame [simp]:
  "sequenceCounter (gc_visit now m s) = sequenceCounter s" "ttl (gc_visit now m s) = ttl s"
  by (simp_all add: gc_visit_def)

lemma gc_visit_expired: "expired now (gc_visit now m s) k \<longleftrightarrow> k \<noteq> m \<and> expired now s k"
  by (cases "expired now s m"; cases "k = m") (auto simp: expired_def gc_visit_messages split: option.split)

lemma gc_messages:
  "fmlookup (messages (ChunkStore_gc now ks s)) k =
     (if k \<in> set ks \<and> expired now s k then None else fmlookup (messages s) k)"
  unfolding ChunkStore_gc_def
  by (induction ks arbitrary: s) (auto simp: gc_visit_expired gc_visit_messages)

lemma gc_owner:
  "fmlookup (messageOwner (ChunkStore_gc now ks s)) k =
     (if k \<in> set ks \<and> expired now s k then None else fmlookup (messageOwner s) k)"
  unfolding ChunkStore_gc_def
  by (induction ks arbitrary: s) (auto simp: gc_visit_expired gc_visit_owner)

lemma gc_frame [simp]:
  "sequenceCounter (ChunkStore_gc now ks s) = sequenceCounter s"
  "ttl (ChunkStore_gc now ks s) = ttl s"
  unfolding ChunkStore_gc_def by (induction ks arbitrary: s) simp_all

lemma counts_ok_gc: "counts_ok s \<Longrightarrow> counts_ok (ChunkStore_gc now ks s)"
proof -
  have "counts_ok (gc_visit now m s)" if "counts_ok s" for m and s :: "'a ChunkStore"
    using that counts_ok_release_owner [of "s\<lparr>messages := fmdrop m (messages s)\<rparr>" m]
      counts_ok_cong [of "s\<lparr>messages := fmdrop m (messages s)\<rparr>" s]
    by (simp add: gc_visit_def)
  then show "counts_ok s \<Longrightarrow> counts_ok (ChunkStore_gc now ks s)"
    unfolding ChunkStore_gc_def by (induction ks arbitrary: s) simp_all
qed

lemma store_ok_gc: "store_ok ops s \<Longrightarrow> store_ok ops (ChunkStore_gc now ks s)"
  by (auto simp: store_ok_def counts_ok_gc gc_messages)

lemma store_ok_SetMessageOwner: "store_ok ops s \<Longrightarrow> store_ok ops (SetMessageOwner mid p s)"
  by (simp add: store_ok_def counts_ok_SetMessageOwner)

lemma store_ok_New: "store_ok ops (NewChunkStore i d)"
  by (simp add: store_ok_def NewChunkStore_def counts_ok_def owned_def)

lemma gc_owned:
  assumes "enumerates ks (messages s)"
  shows "owned (ChunkStore_gc now ks s) p = {mid \<in> owned s p. \<not> expired now s mid}"
proof -
  have "expired now s mid \<Longrightarrow> mid \<in> set ks" for mid
    using enumerates_in [OF assms] by (auto simp: expired_def split: option.splits)
  then show ?thesis by (auto simp: owned_def gc_owner)
qed

section \<open>Histories\<close>

lemma GetChunk_Store:
  assumes "ChunkStore_Store ops now c s = Some (b, s')"
  shows "GetChunk mid i s' = (if mid = MsgID c \<and> i = ChunkIdx c then Some c else GetChunk mid i s)"
proof (cases "fmlookup (messages s) (MsgID c)")
  case None
  then obtain buf sc' where nb: "new_buf ops now c (sequenceCounter s) = Some (buf, sc')"
    and s': "messages s' = fmupd (MsgID c) (buf\<lparr>chunks := fmupd (ChunkIdx c) c (chunks buf)\<rparr>) (messages s)"
    using assms by (auto simp: ChunkStore_Store_def Let_def split: option.splits)
  have "chunks buf = fmempty"
    using nb by (auto simp: new_buf_def empty_buf_def split: option.splits if_splits prod.splits
        sum.splits seq_error.splits)
  then show ?thesis using None by (auto simp: GetChunk_def s')
qed (use assms in \<open>auto simp: ChunkStore_Store_def GetChunk_def Let_def\<close>)

lemma held_Store:
  assumes "ChunkStore_Store ops now c s = Some (b, s')"
  shows "held mid s' =
    (if MsgID c = mid then insert c {d \<in> held mid s. ChunkIdx d \<noteq> ChunkIdx c} else held mid s)"
  by (auto simp: held_def GetChunk_Store [OF assms])

lemma created_Store:
  assumes "ChunkStore_Store ops now c s = Some (b, s')" "fmlookup (messages s') mid = Some buf'"
  shows "(\<exists>buf. fmlookup (messages s) mid = Some buf \<and> createdAt buf' = createdAt buf)
    \<or> (mid = MsgID c \<and> createdAt buf' = now)"
proof (cases "mid = MsgID c \<and> fmlookup (messages s) mid = None")
  case True
  then obtain buf sc' where nb: "new_buf ops now c (sequenceCounter s) = Some (buf, sc')"
    and "createdAt buf' = createdAt buf"
    using assms by (auto simp: ChunkStore_Store_def Let_def split: option.splits)
  moreover have "createdAt buf = now"
    using nb by (auto simp: new_buf_def empty_buf_def split: option.splits if_splits prod.splits
        sum.splits seq_error.splits)
  ultimately show ?thesis using True by simp
qed (use assms in \<open>auto simp: ChunkStore_Store_def Let_def split: option.splits if_splits\<close>)

lemma held_step:
  assumes "store_step ops e s s'" "fresh mid [e] s"
  shows "held mid s' =
    (case e of
       EvStore t c \<Rightarrow>
         if MsgID c = mid then insert c {d \<in> held mid s. ChunkIdx d \<noteq> ChunkIdx c} else held mid s
     | _ \<Rightarrow> held mid s)"
  using assms
proof (cases rule: store_step.cases)
  case (step_gc ks now)
  then have "fmlookup (messages s') mid = fmlookup (messages s) mid"
    using assms(2) by (auto simp: gc_messages expired_def fresh_def split: option.splits)
  then show ?thesis by (simp add: step_gc held_def GetChunk_def)
qed (auto simp: held_Store, simp_all add: held_def GetChunk_def)

lemma ttl_step: "store_step ops e s s' \<Longrightarrow> ttl s' = ttl s"
  by (auto elim!: store_stepE dest: ChunkStore_Store_frame)

lemma fresh_step:
  assumes "store_step ops e s s'" "fresh mid (e # es) s" "in_time (ttl s) mid (e # es)"
  shows "fresh mid es s'"
  using assms
proof (cases rule: store_step.cases)
  case (step_store now c b)
  have "time_Sub t (createdAt buf') \<le> ttl s"
    if "EvGC t ks \<in> set es" "fmlookup (messages s') mid = Some buf'" for t ks buf'
    using created_Store [OF step_store(2) that(2)] that(1) assms(2,3) step_store(1)
    unfolding fresh_def in_time_def by fastforce
  then show ?thesis using ttl_step [OF assms(1)] by (simp add: fresh_def)
qed (auto simp: fresh_def gc_messages split: if_splits)

lemma held_run:
  "store_run ops es s s' \<Longrightarrow> fresh mid es s \<Longrightarrow> in_time (ttl s) mid es \<Longrightarrow>
   inj_on ChunkIdx (held mid s \<union> stored_in mid es) \<Longrightarrow> held mid s' = held mid s \<union> stored_in mid es"
proof (induction rule: store_run.induct)
  case (run_nil s)
  then show ?case by (simp add: stored_in_def)
next
  case (run_cons e s s' es s'')
  have f: "fresh mid [e] s" using run_cons.prems(1) by (auto simp: fresh_def)
  have cs: "held mid s \<union> stored_in mid (e # es) = held mid s' \<union> stored_in mid es"
    and sub: "held mid s' \<subseteq> held mid s \<union> stored_in mid (e # es)"
  proof -
    have st: "stored_in mid (e # es) = stored_in mid [e] \<union> stored_in mid es"
      by (auto simp: stored_in_def)
    have "held mid s' = held mid s \<union> stored_in mid [e]"
    proof (cases "\<exists>t c. e = EvStore t c \<and> MsgID c = mid")
      case True
      then obtain t c where e: "e = EvStore t c" "MsgID c = mid" by blast
      then have one: "stored_in mid [e] = {c}" by (auto simp: stored_in_def)
      have "d = c" if "d \<in> held mid s" "ChunkIdx d = ChunkIdx c" for d
        using inj_onD [OF run_cons.prems(3), of d c] that one st by auto
      then show ?thesis using held_step [OF run_cons.hyps(1) f] e one by auto
    next
      case False
      then have "stored_in mid [e] = {}" by (auto simp: stored_in_def)
      then show ?thesis using False held_step [OF run_cons.hyps(1) f]
        by (auto split: store_event.splits)
    qed
    then show "held mid s \<union> stored_in mid (e # es) = held mid s' \<union> stored_in mid es"
      "held mid s' \<subseteq> held mid s \<union> stored_in mid (e # es)" using st by auto
  qed
  have "in_time (ttl s') mid es"
    using run_cons.prems(2) ttl_step [OF run_cons.hyps(1)] by (auto simp: in_time_def)
  then show ?case
    using run_cons.IH fresh_step [OF run_cons.hyps(1) run_cons.prems(1,2)] run_cons.prems(3) cs by simp
qed

lemma store_ok_step:
  assumes "bolt_bucket ops" "store_step ops e s s'" "store_ok ops s"
  shows "store_ok ops s'"
  using assms(2,3)
  by (auto elim!: store_stepE intro: store_ok_SetMessageOwner store_ok_gc
      bolt_bucket.store_ok_Store [OF assms(1)])

lemma store_ok_run:
  assumes "bolt_bucket ops"
  shows "store_run ops es s s' \<Longrightarrow> store_ok ops s \<Longrightarrow> store_ok ops s'"
  by (induction rule: store_run.induct) (auto intro: store_ok_step [OF assms])

text \<open>What a reader gets from a buffer that holds exactly the chunks of a message.\<close>

lemma GetCompleteMessage_held:
  assumes "fmlookup (messages s) mid = Some buf" "buf_ok mid buf"
    and "held mid s = set (ChunkMessage mid p n r)"
    and "p \<noteq> []" "length (ChunkMessage mid p n r) \<le> 65535" "enumerates ks (chunks buf)"
  shows "GetCompleteMessage ks mid s = Inr (Some p)"
proof -
  let ?cs = "List.map_filter (fmlookup (chunks buf)) ks"
  have inj: "inj_on (\<lambda>k. the (fmlookup (chunks buf) k)) (set ks)"
  proof (rule inj_onI)
    fix i j assume "i \<in> set ks" "j \<in> set ks" and eq: "the (fmlookup (chunks buf) i) = the (fmlookup (chunks buf) j)"
    then obtain c d where "fmlookup (chunks buf) i = Some c" "fmlookup (chunks buf) j = Some d"
      using enumerates_in [OF assms(6)] by auto
    then show "i = j" using assms(2) eq by (auto simp: buf_ok_def)
  qed
  have "distinct ?cs"
    using assms(6) inj by (simp add: distinct_map_filter_inj enumerates_def)
  moreover have "set ?cs = held mid s"
  proof -
    have "c \<in> set ?cs \<longleftrightarrow> fmlookup (chunks buf) (ChunkIdx c) = Some c" for c
    proof -
      have "ChunkIdx c = i" if "fmlookup (chunks buf) i = Some c" for i
        using assms(2) that by (simp add: buf_ok_def)
      moreover have "i \<in> set ks" if "fmlookup (chunks buf) i = Some c" for i
        using enumerates_in [OF assms(6)] that by simp
      ultimately show ?thesis unfolding set_map_filter by blast
    qed
    then show ?thesis using assms(1) by (auto simp: held_def GetChunk_def)
  qed
  moreover have "distinct (ChunkMessage mid p n r)"
    using ChunkMessage_indexed [of mid p n r] indexed_distinct [of "ChunkMessage mid p n r"] assms(5)
    by (simp add: distinct_map)
  ultimately have "mset ?cs = mset (ChunkMessage mid p n r)"
    using assms(3) by (simp flip: set_eq_iff_mset_eq_distinct)
  then show ?thesis
    using ReassembleMessage_ChunkMessage [OF assms(4,5)] assms(1) by (simp add: GetCompleteMessage_def)
qed

lemma ChunkMessage_inj:
  "length (ChunkMessage mid p n r) \<le> 65535 \<Longrightarrow> inj_on ChunkIdx (set (ChunkMessage mid p n r))"
  using ChunkMessage_indexed [of mid p n r] indexed_distinct [of "ChunkMessage mid p n r"]
  by (simp add: distinct_map)

section \<open>Sequence numbers along a history\<close>

lemma seq_of_grows:
  assumes "bolt_bucket ops" "store_step ops e s s'" "store_ok ops s"
    and "unat (seq_of ops (sequenceCounter s) p) + 1 < 2 ^ 64"
  shows "unat (seq_of ops (sequenceCounter s) p) \<le> unat (seq_of ops (sequenceCounter s') p)"
    "unat (seq_of ops (sequenceCounter s') p) \<le> unat (seq_of ops (sequenceCounter s) p) + 1"
proof -
  have "sequenceCounter s' = sequenceCounter s
    \<or> (\<exists>db q. sequenceCounter s = Some db \<and> counter_ok ops db
         \<and> sequenceCounter s' = Some (snd (SequenceCounter_Next ops q db)))"
    using assms(2)
  proof (cases rule: store_step.cases)
    case (step_store now c b)
    have "counter_ok ops db" if "sequenceCounter s = Some db" for db
      using assms(3) that by (simp add: store_ok_def)
    then show ?thesis using bolt_bucket.Store_counter [OF assms(1) step_store(2) assms(3)] by metis
  qed simp_all
  then show "unat (seq_of ops (sequenceCounter s) p) \<le> unat (seq_of ops (sequenceCounter s') p)"
    "unat (seq_of ops (sequenceCounter s') p) \<le> unat (seq_of ops (sequenceCounter s) p) + 1"
    using sequence.lst_grows [OF bolt_bucket.is_sequence [OF assms(1)], of _ p] assms(4)
    by (auto simp: seq_of_def)
qed

lemma seq_of_run:
  assumes "bolt_bucket ops"
  shows "store_run ops es s s' \<Longrightarrow> store_ok ops s \<Longrightarrow>
   unat (seq_of ops (sequenceCounter s) p) + length es < 2 ^ 64 \<Longrightarrow>
   unat (seq_of ops (sequenceCounter s) p) \<le> unat (seq_of ops (sequenceCounter s') p)
   \<and> unat (seq_of ops (sequenceCounter s') p) \<le> unat (seq_of ops (sequenceCounter s) p) + length es"
proof (induction rule: store_run.induct)
  case (run_cons e s s' es s'')
  have "store_ok ops s'" using store_ok_step [OF assms run_cons.hyps(1) run_cons.prems(1)] .
  then show ?case
    using run_cons.IH seq_of_grows [OF assms run_cons.hyps(1) run_cons.prems(1), of p] run_cons.prems(2)
    by simp
qed simp

lemma Store_new_number:
  assumes "bolt_bucket ops" "store_ok ops s" "ChunkStore_Store ops now c s = Some (b, s')"
    and "GetMessageMeta (MsgID c) s = (t0, n0, False)" "GetMessageMeta (MsgID c) s' = (t, n, ok)" "n \<noteq> 0"
  shows "n = seq_of ops (sequenceCounter s) (recipient_key c) + 1
    \<and> n = seq_of ops (sequenceCounter s') (recipient_key c)"
proof -
  have "fmlookup (messages s) (MsgID c) = None"
    using assms(4) by (auto simp: GetMessageMeta_def split: option.splits)
  then obtain buf where nb: "new_buf ops now c (sequenceCounter s) = Some (buf, sequenceCounter s')"
    and "n = sequenceNumber buf"
    using assms(3,5) by (auto simp: ChunkStore_Store_def GetMessageMeta_def Let_def split: option.splits)
  moreover have "\<And>db. sequenceCounter s = Some db \<Longrightarrow> counter_ok ops db"
    using assms(2) by (simp add: store_ok_def)
  ultimately obtain db db' where "sequenceCounter s = Some db" "sequenceCounter s' = Some db'"
    "SequenceCounter_Next ops (recipient_key c) db = (Inr n, db')" "counter_ok ops db"
    using bolt_bucket.new_buf_counter [OF assms(1) nb] assms(6) by metis
  then show ?thesis
    using sequence.nxt_ok [OF bolt_bucket.is_sequence [OF assms(1)], of db "recipient_key c" n db']
    by (auto simp: seq_of_def)
qed

section \<open>Properties\<close>

lemma run_holds_message:
  assumes "bolt_bucket ops" "store_ok ops s" "fmlookup (messages s) mid = None" "store_run ops es s s'"
    and "stored_in mid es = set (ChunkMessage mid p n r)" "in_time (ttl s) mid es"
    and "p \<noteq> []" "length (ChunkMessage mid p n r) \<le> 65535"
  obtains buf where "fmlookup (messages s') mid = Some buf" "buf_ok mid buf"
    "held mid s' = set (ChunkMessage mid p n r)"
proof -
  have "held mid s = {}" using assms(3) by (simp add: held_def GetChunk_def)
  then have h: "held mid s' = set (ChunkMessage mid p n r)"
    using held_run [OF assms(4), of mid] assms(3,5,6) ChunkMessage_inj [OF assms(8)]
    by (simp add: fresh_def)
  have "set (ChunkMessage mid p n r) \<noteq> {}" using assms(7) by (simp add: ChunkMessage_empty_iff)
  then obtain c where "c \<in> held mid s'" using h by (metis equals0I)
  then obtain buf where "fmlookup (messages s') mid = Some buf"
    by (auto simp: held_def GetChunk_def split: option.splits)
  moreover have "buf_ok mid buf"
    using store_ok_run [OF assms(1,4,2)] calculation by (auto simp: store_ok_def)
  ultimately show ?thesis using that h by blast
qed

lemma TotalPeers_owned:
  assumes "counts_ok s"
  shows "TotalPeers s = card {p. owned s p \<noteq> {}}"
proof -
  have "fset (fmdom (peerMessages s)) = {p. owned s p \<noteq> {}}"
    using assms by (auto simp: counts_ok_def fmlookup_dom_iff split: if_splits)
  then show ?thesis by (simp add: TotalPeers_def fmsize_def fcard.rep_eq)
qed

text \<open>
  (C8) A message survives in the store: once all its chunks have been stored, in any order,
  repeated, mixed with the traffic of other messages and with collections that come within
  the time-to-live, reading it gives the message, in whatever order the reader's loop
  visits the chunk map.
\<close>

theorem stored_message_read_back:
  assumes "bolt_bucket ops" "store_ok ops s" "fmlookup (messages s) mid = None" "store_run ops es s s'"
    and "stored_in mid es = set (ChunkMessage mid p n r)" "in_time (ttl s) mid es"
    and "p \<noteq> []" "length (ChunkMessage mid p n r) \<le> 65535"
  shows "\<exists>buf. fmlookup (messages s') mid = Some buf
    \<and> (\<forall>ks. enumerates ks (chunks buf) \<longrightarrow> GetCompleteMessage ks mid s' = Inr (Some p))"
  using run_holds_message [OF assms] GetCompleteMessage_held assms(7,8) by metis

theorem stored_message_read_back_witness:
  "\<exists>s' buf. store_run mem_bolt [EvStore 0 (NewChunk 1 0 1 [5])] (NewChunkStore 0 9) s'
    \<and> fmlookup (messages s') 1 = Some buf
    \<and> (\<forall>ks. enumerates ks (chunks buf) \<longrightarrow> GetCompleteMessage ks 1 s' = Inr (Some [5]))"
proof -
  let ?c = "NewChunk 1 0 1 [5]" and ?s = "NewChunkStore 0 9 :: (bytes, bytes) fmap ChunkStore"
  have cs: "ChunkMessage 1 [5] 10 [] = [?c]"
    by (simp add: ChunkMessage_def NewChunk_def chunk_size_def)
  obtain b s' where "ChunkStore_Store mem_bolt 0 ?c ?s = Some (b, s')"
    by (simp add: ChunkStore_Store_def NewChunkStore_def new_buf_def Let_def)
  then have run: "store_run mem_bolt [EvStore 0 ?c] ?s s'" by (auto intro: step_store)
  have "stored_in 1 [EvStore 0 ?c] = set (ChunkMessage 1 [5] 10 [])"
    unfolding cs by (auto simp: stored_in_def NewChunk_def)
  then show ?thesis
    using stored_message_read_back [OF mem.bolt_bucket_axioms store_ok_New _ run, of 1 "[5]" 10 "[]"] run cs
    by (auto simp: in_time_def NewChunkStore_def)
qed

text \<open>
  (C16) A collection removes exactly the messages that are older than the time-to-live, with
  their ownership, and leaves every owner's count exact, for every order in which Go may
  visit the map while entries are deleted.
\<close>

theorem gc_exact:
  assumes "store_ok ops s" "enumerates ks (messages s)"
  shows "messages (ChunkStore_gc now ks s) = fmfilter (\<lambda>mid. \<not> expired now s mid) (messages s)
    \<and> messageOwner (ChunkStore_gc now ks s) = fmfilter (\<lambda>mid. \<not> expired now s mid) (messageOwner s)
    \<and> PeerMessageCount p (ChunkStore_gc now ks s) = int (card {mid \<in> owned s p. \<not> expired now s mid})"
proof -
  have ex: "expired now s mid \<Longrightarrow> mid \<in> set ks" for mid
    using enumerates_in [OF assms(2)] by (auto simp: expired_def split: option.splits)
  have "counts_ok (ChunkStore_gc now ks s)" using store_ok_gc [OF assms(1)] by (simp add: store_ok_def)
  then have "PeerMessageCount p (ChunkStore_gc now ks s) = int (card {mid \<in> owned s p. \<not> expired now s mid})"
    using counts_ok_get [of "ChunkStore_gc now ks s" p] gc_owned [OF assms(2), of now p]
    by (simp add: PeerMessageCount_def)
  then show ?thesis by (auto intro!: fmap_ext simp: gc_messages gc_owner ex)
qed

theorem gc_exact_witness:
  "PeerMessageCount ''p'' (ChunkStore_gc 10 [] (NewChunkStore 0 5 :: (bytes, bytes) fmap ChunkStore))
    = int (card {mid \<in> owned (NewChunkStore 0 5 :: (bytes, bytes) fmap ChunkStore) ''p''.
             \<not> expired 10 (NewChunkStore 0 5 :: (bytes, bytes) fmap ChunkStore) mid})"
  using gc_exact [OF store_ok_New [of mem_bolt 0 5], of "[]" 10 "''p''"]
  by (simp add: enumerates_def NewChunkStore_def)



text \<open>
  (C22) Sequence numbers order the messages of a recipient: if a message was new and got a
  number, then every message that is stored later for the same recipient key gets a larger
  number or, when the counter fails, none (0), until the 64-bit counter is exhausted.
\<close>

theorem sequence_orders_messages:
  assumes "bolt_bucket ops" "store_ok ops s0" "recipient_key c1 = recipient_key c2"
    and "ChunkStore_Store ops t1 c1 s0 = Some (b1, s1)" "GetMessageMeta (MsgID c1) s0 = (0, 0, False)"
    and "GetMessageMeta (MsgID c1) s1 = (ts1, n1, True)" "n1 \<noteq> 0"
    and "store_run ops es s1 s2"
    and "ChunkStore_Store ops t2 c2 s2 = Some (b2, s3)" "GetMessageMeta (MsgID c2) s2 = (0, 0, False)"
    and "GetMessageMeta (MsgID c2) s3 = (ts2, n2, True)"
    and "unat n1 + length es + 1 < 2 ^ 64"
  shows "n2 = 0 \<or> n1 < n2"
proof (cases "n2 = 0")
  case False
  have s1: "store_ok ops s1" using bolt_bucket.store_ok_Store [OF assms(1,4,2)] .
  have n1: "n1 = seq_of ops (sequenceCounter s1) (recipient_key c2)"
    using Store_new_number [OF assms(1,2,4,5,6,7)] assms(3) by metis
  have n2: "n2 = seq_of ops (sequenceCounter s2) (recipient_key c2) + 1"
    using Store_new_number [OF assms(1) _ assms(9,10,11) False] store_ok_run [OF assms(1,8) s1] by simp
  have "unat n1 \<le> unat (n2 - 1)" "unat (n2 - 1) + 1 < 2 ^ 64"
    using seq_of_run [OF assms(1,8) s1, of "recipient_key c2"] assms(12) n1 n2 by auto
  moreover have "unat n2 = unat (n2 - 1) + 1"
    using False by (metis Suc_eq_plus1 Suc_pred' unat_gt_0 unat_minus_one)
  ultimately show ?thesis by (simp add: word_less_nat_alt)
qed simp

theorem sequence_orders_messages_witness:
  "\<exists>s1 s3 n1 n2.
     ChunkStore_Store mem_bolt 0 ((NewChunk 1 0 1 [])\<lparr>RecipientHash := [9]\<rparr>)
       (SetSequenceCounter (Some fmempty) (NewChunkStore 0 9)) = Some (True, s1)
   \<and> ChunkStore_Store mem_bolt 0 ((NewChunk 2 0 1 [])\<lparr>RecipientHash := [9]\<rparr>) s1 = Some (True, s3)
   \<and> GetMessageMeta 1 s1 = (0, n1, True) \<and> GetMessageMeta 2 s3 = (0, n2, True)
   \<and> n1 \<noteq> 0 \<and> (n2 = 0 \<or> n1 < n2)"
proof -
  let ?c1 = "(NewChunk 1 0 1 [])\<lparr>RecipientHash := [9]\<rparr>"
  let ?c2 = "(NewChunk 2 0 1 [])\<lparr>RecipientHash := [9]\<rparr>"
  let ?s0 = "SetSequenceCounter (Some fmempty) (NewChunkStore 0 9)"
  note defs = ChunkStore_Store_def new_buf_def empty_buf_def SequenceCounter_Next_def mem_bolt_def
    read_seq_def PeerIDFromPubkey_def NewChunk_def NewChunkStore_def SetSequenceCounter_def
    GetMessageMeta_def Let_def time_UnixMilli_def fmsize_upd
  obtain s1 where s1: "ChunkStore_Store mem_bolt 0 ?c1 ?s0 = Some (True, s1)"
    and g1: "GetMessageMeta 1 s1 = (0, 1, True)" "GetMessageMeta 2 s1 = (0, 0, False)"
    and db: "sequenceCounter s1 = Some (fmupd [9] (be64 1) fmempty)"
    by (simp add: defs)
  then obtain s3 n2 where s3: "ChunkStore_Store mem_bolt 0 ?c2 s1 = Some (True, s3)"
    and g2: "GetMessageMeta 2 s3 = (0, n2, True)"
    by (auto simp: defs split: option.splits)
  have "store_ok mem_bolt ?s0"
    using store_ok_New [of mem_bolt 0 9]
    by (simp add: store_ok_def counts_ok_def owned_def SetSequenceCounter_def counter_ok_def mem_bolt_def)
  then have "n2 = 0 \<or> 1 < n2"
    using sequence_orders_messages [OF mem.bolt_bucket_axioms _ _ s1 _ _ _ run_nil s3, of 0 1 0 n2] g1 g2
    by (simp add: NewChunk_def recipient_key_def defs)
  then show ?thesis using s1 s3 g1 g2 by force
qed

end
