(* ===== verification/Rate_Limit.thy ===== *)
theory Rate_Limit
  imports Go_Prelude
begin

text \<open>
  \<^verbatim>\<open>internal/ratelimit/ratelimit.go\<close>: the token bucket and the per-address limiter in front of a
  relay. \<^verbatim>\<open>float64\<close> token counts are rational numbers here, so rounding is not modelled; the
  clock readings of \<^verbatim>\<open>time.Now()\<close> are arguments. The theory bounds what a limiter lets
  through in any time span and shows that addresses do not influence each other.
\<close>

section \<open>The token bucket\<close>

record TokenBucket =
  rate :: rat
  burst :: int
  tokens :: rat
  lastCheck :: time

definition seconds :: "duration \<Rightarrow> rat" where
  "seconds d = of_int d / 10 ^ 9"

definition NewTokenBucket :: "time \<Rightarrow> int \<Rightarrow> int \<Rightarrow> TokenBucket" where
  "NewTokenBucket now r b = \<lparr>rate = of_int r, burst = b, tokens = of_int b, lastCheck = now\<rparr>"

definition TokenBucket_AllowN :: "time \<Rightarrow> int \<Rightarrow> TokenBucket \<Rightarrow> bool \<times> TokenBucket" where
  "TokenBucket_AllowN now n tb =
     (let elapsed = seconds (time_Sub now (lastCheck tb));
          filled = tokens tb + elapsed * rate tb;
          capped = (if filled > of_int (burst tb) then of_int (burst tb) else filled);
          tb' = tb\<lparr>lastCheck := now, tokens := capped\<rparr>
      in if capped \<ge> of_int n then (True, tb'\<lparr>tokens := capped - of_int n\<rparr>) else (False, tb'))"

definition TokenBucket_Allow :: "time \<Rightarrow> TokenBucket \<Rightarrow> bool \<times> TokenBucket" where
  "TokenBucket_Allow now tb = TokenBucket_AllowN now 1 tb"

section \<open>The limiter per address\<close>

record IPRateLimiter =
  rl_limit :: int
  rl_burst :: int
  buckets :: "(string, TokenBucket) fmap"

definition NewIPRateLimiter :: "int \<Rightarrow> int \<Rightarrow> IPRateLimiter" where
  "NewIPRateLimiter l b = \<lparr>rl_limit = l, rl_burst = b, buckets = fmempty\<rparr>"

text \<open>\<^verbatim>\<open>created\<close> is the clock reading of \<^verbatim>\<open>NewTokenBucket\<close>, \<^verbatim>\<open>now\<close> the one of \<^verbatim>\<open>AllowN\<close>.\<close>

definition IPRateLimiter_Allow ::
  "time \<Rightarrow> time \<Rightarrow> string \<Rightarrow> IPRateLimiter \<Rightarrow> bool \<times> IPRateLimiter" where
  "IPRateLimiter_Allow created now ip rl =
     (let tb = (case fmlookup (buckets rl) ip of
                  None \<Rightarrow> NewTokenBucket created (rl_limit rl) (rl_burst rl)
                | Some tb \<Rightarrow> tb);
          (ok, tb') = TokenBucket_Allow now tb
      in (ok, rl\<lparr>buckets := fmupd ip tb' (buckets rl)\<rparr>))"

section \<open>Runs of calls\<close>

fun run_calls :: "(time \<Rightarrow> 's \<Rightarrow> bool \<times> 's) \<Rightarrow> time list \<Rightarrow> 's \<Rightarrow> bool list" where
  "run_calls f [] s = []"
| "run_calls f (t # ts) s = fst (f t s) # run_calls f ts (snd (f t s))"

fun run_keyed :: "(time \<Rightarrow> 'k \<Rightarrow> 's \<Rightarrow> bool \<times> 's) \<Rightarrow> (time \<times> 'k) list \<Rightarrow> 's \<Rightarrow> bool list" where
  "run_keyed f [] s = []"
| "run_keyed f ((t, k) # es) s = fst (f t k s) # run_keyed f es (snd (f t k s))"

text \<open>The decisions and the times of the calls that a key made.\<close>

fun decisions_of :: "'k \<Rightarrow> (time \<times> 'k) list \<Rightarrow> bool list \<Rightarrow> bool list" where
  "decisions_of k ((t, k') # es) (d # ds) =
     (if k' = k then d # decisions_of k es ds else decisions_of k es ds)"
| "decisions_of k _ _ = []"

definition times_of :: "'k \<Rightarrow> (time \<times> 'k) list \<Rightarrow> time list" where
  "times_of k es = map fst (filter (\<lambda>e. snd e = k) es)"

definition admitted :: "bool list \<Rightarrow> nat" where
  "admitted ds = length (filter (\<lambda>d. d) ds)"

text \<open>A bucket between calls: never in debt, never above its burst.\<close>

definition bucket_ok :: "TokenBucket \<Rightarrow> bool" where
  "bucket_ok tb \<longleftrightarrow> 0 \<le> rate tb \<and> 0 \<le> tokens tb \<and> tokens tb \<le> of_int (burst tb)"

definition limiter_ok :: "time \<Rightarrow> IPRateLimiter \<Rightarrow> bool" where
  "limiter_ok t rl \<longleftrightarrow> 0 \<le> rl_limit rl \<and> 0 \<le> rl_burst rl \<and>
     (\<forall>ip tb. fmlookup (buckets rl) ip = Some tb \<longrightarrow>
        bucket_ok tb \<and> rate tb = of_int (rl_limit rl) \<and> burst tb = rl_burst rl \<and> lastCheck tb \<le> t)"

text \<open>What a call does to the bucket of its address, created on the first call.\<close>

definition bucket_call :: "int \<Rightarrow> int \<Rightarrow> time \<Rightarrow> TokenBucket option \<Rightarrow> bool \<times> TokenBucket option" where
  "bucket_call l b t v =
     map_prod (\<lambda>ok. ok) Some
       (TokenBucket_Allow t (case v of None \<Rightarrow> NewTokenBucket t l b | Some tb \<Rightarrow> tb))"

definition spaced :: "int \<Rightarrow> time list \<Rightarrow> bool" where
  "spaced l ts \<longleftrightarrow>
     successively (\<lambda>t u. t \<le> u \<and> 1 \<le> of_int l * seconds (time_Sub u t)) ts"

section \<open>A limiter that serves several keys\<close>

text \<open>
  The contract under which keys are independent: the limiter's state has a view per key,
  a call for a key acts on that view alone.
\<close>

locale keyed_limiter =
  fixes allow :: "time \<Rightarrow> 'k \<Rightarrow> 's \<Rightarrow> bool \<times> 's"
    and view :: "'s \<Rightarrow> 'k \<Rightarrow> 'v"
    and stp :: "time \<Rightarrow> 'v \<Rightarrow> bool \<times> 'v"
    and inv :: "'s \<Rightarrow> bool"
  assumes allow_decision: "inv s \<Longrightarrow> fst (allow t k s) = fst (stp t (view s k))"
    and allow_own: "inv s \<Longrightarrow> view (snd (allow t k s)) k = snd (stp t (view s k))"
    and allow_other: "inv s \<Longrightarrow> k' \<noteq> k \<Longrightarrow> view (snd (allow t k s)) k' = view s k'"
    and allow_inv: "inv s \<Longrightarrow> inv (snd (allow t k s))"
begin

lemma decisions_local:
  "inv s \<Longrightarrow>
   decisions_of k es (run_keyed allow es s) = run_calls stp (times_of k es) (view s k)"
proof (induction es arbitrary: s)
  case (Cons e es)
  obtain t k' where e: "e = (t, k')" by fastforce
  have "inv (snd (allow t k' s))" using Cons.prems by (rule allow_inv)
  then show ?case using Cons.IH [of "snd (allow t k' s)"] Cons.prems
    by (auto simp: e times_of_def allow_decision allow_own allow_other)
qed (simp add: times_of_def)

lemma decisions_independent:
  "inv s \<Longrightarrow> inv s' \<Longrightarrow> view s k = view s' k \<Longrightarrow> times_of k es = times_of k es' \<Longrightarrow>
   decisions_of k es (run_keyed allow es s) = decisions_of k es' (run_keyed allow es' s')"
  by (simp add: decisions_local)

end

section \<open>Lemmas on one bucket\<close>

lemma seconds_mono: "a \<le> b \<Longrightarrow> seconds a \<le> seconds b"
  by (simp add: seconds_def divide_right_mono)

lemma seconds_add: "seconds (a + b) = seconds a + seconds b"
  by (simp add: seconds_def add_divide_distrib)

lemma seconds_nonneg: "0 \<le> a \<Longrightarrow> 0 \<le> seconds a"
  by (simp add: seconds_def)

lemma seconds_0 [simp]: "seconds 0 = 0"
  by (simp add: seconds_def)

lemma time_Sub_le: "u \<le> t \<Longrightarrow> 0 \<le> time_Sub t u \<and> time_Sub t u \<le> t - u"
  by (auto simp: time_Sub_def)

lemma AllowN_cases:
  obtains (yes) "fst (TokenBucket_AllowN now n tb)"
      "tokens (snd (TokenBucket_AllowN now n tb)) =
         min (of_int (burst tb)) (tokens tb + seconds (time_Sub now (lastCheck tb)) * rate tb) - of_int n"
      "of_int n \<le> min (of_int (burst tb)) (tokens tb + seconds (time_Sub now (lastCheck tb)) * rate tb)"
  | (no) "\<not> fst (TokenBucket_AllowN now n tb)"
      "tokens (snd (TokenBucket_AllowN now n tb)) =
         min (of_int (burst tb)) (tokens tb + seconds (time_Sub now (lastCheck tb)) * rate tb)"
      "min (of_int (burst tb)) (tokens tb + seconds (time_Sub now (lastCheck tb)) * rate tb) < of_int n"
  by (fastforce simp: TokenBucket_AllowN_def Let_def min_def split: if_splits)

lemma AllowN_frame [simp]:
  "rate (snd (TokenBucket_AllowN now n tb)) = rate tb"
  "burst (snd (TokenBucket_AllowN now n tb)) = burst tb"
  "lastCheck (snd (TokenBucket_AllowN now n tb)) = now"
  by (simp_all add: TokenBucket_AllowN_def Let_def)

lemma refill_nonneg:
  "bucket_ok tb \<Longrightarrow> lastCheck tb \<le> now \<Longrightarrow>
   0 \<le> seconds (time_Sub now (lastCheck tb)) * rate tb"
  using time_Sub_le [of "lastCheck tb" now] by (simp add: bucket_ok_def seconds_nonneg)

lemma AllowN_ok:
  "bucket_ok tb \<Longrightarrow> lastCheck tb \<le> now \<Longrightarrow> 0 \<le> n \<Longrightarrow>
   bucket_ok (snd (TokenBucket_AllowN now n tb))"
  using refill_nonneg [of tb now]
  by (cases rule: AllowN_cases [of now n tb]) (auto simp: bucket_ok_def min_def)

lemma Allow_charge:
  assumes "bucket_ok tb" "lastCheck tb \<le> now"
  shows "of_nat (of_bool (fst (TokenBucket_Allow now tb))) + tokens (snd (TokenBucket_Allow now tb))
    \<le> tokens tb + rate tb * seconds (now - lastCheck tb)"
proof -
  have "seconds (time_Sub now (lastCheck tb)) * rate tb \<le> seconds (now - lastCheck tb) * rate tb"
    using assms time_Sub_le [of "lastCheck tb" now]
    by (intro mult_right_mono seconds_mono) (auto simp: bucket_ok_def)
  then show ?thesis unfolding TokenBucket_Allow_def
    by (cases rule: AllowN_cases [of now 1 tb]) (auto simp: mult.commute)
qed

lemma admitted_Cons [simp]: "admitted (d # ds) = of_bool d + admitted ds"
  by (simp add: admitted_def)

lemma admitted_Nil [simp]: "admitted [] = 0"
  by (simp add: admitted_def)

lemma bucket_run_bound:
  "bucket_ok tb \<Longrightarrow> sorted (lastCheck tb # ts) \<Longrightarrow> \<forall>t \<in> set (lastCheck tb # ts). t \<le> T \<Longrightarrow>
   of_nat (admitted (run_calls TokenBucket_Allow ts tb))
     \<le> tokens tb + rate tb * seconds (T - lastCheck tb)"
proof (induction ts arbitrary: tb)
  case Nil
  then show ?case by (simp add: bucket_ok_def seconds_nonneg)
next
  case (Cons t ts)
  let ?tb = "snd (TokenBucket_Allow t tb)"
  have tb': "bucket_ok ?tb" "rate ?tb = rate tb" "lastCheck ?tb = t"
    using Cons.prems AllowN_ok [of tb t 1] by (simp_all add: TokenBucket_Allow_def)
  have "of_nat (admitted (run_calls TokenBucket_Allow ts ?tb)) \<le> tokens ?tb + rate tb * seconds (T - t)"
    using Cons.IH [of ?tb] Cons.prems tb' by simp
  moreover have "of_nat (of_bool (fst (TokenBucket_Allow t tb))) + tokens ?tb
      \<le> tokens tb + rate tb * seconds (t - lastCheck tb)"
    using Allow_charge [of tb t] Cons.prems by simp
  moreover have "seconds (T - lastCheck tb) = seconds (T - t) + seconds (t - lastCheck tb)"
    by (simp flip: seconds_add)
  ultimately show ?case by (simp add: distrib_left)
qed

text \<open>The cap bounds a window that starts with a call, whatever the bucket saved up before.\<close>

lemma Allow_capped:
  "of_nat (of_bool (fst (TokenBucket_Allow now tb))) + tokens (snd (TokenBucket_Allow now tb))
    \<le> of_int (burst tb)"
  unfolding TokenBucket_Allow_def by (cases rule: AllowN_cases [of now 1 tb]) auto

lemma bucket_window_bound:
  assumes "bucket_ok tb" "sorted (lastCheck tb # t # ts)" "\<forall>u \<in> set (t # ts). u \<le> T"
  shows "of_nat (admitted (run_calls TokenBucket_Allow (t # ts) tb))
    \<le> of_int (burst tb) + rate tb * seconds (T - t)"
proof -
  let ?tb = "snd (TokenBucket_Allow t tb)"
  have "bucket_ok ?tb" "rate ?tb = rate tb" "lastCheck ?tb = t"
    using assms AllowN_ok [of tb t 1] by (simp_all add: TokenBucket_Allow_def)
  then have "of_nat (admitted (run_calls TokenBucket_Allow ts ?tb)) \<le> tokens ?tb + rate tb * seconds (T - t)"
    using bucket_run_bound [of ?tb ts T] assms by simp
  with Allow_capped [of t tb] show ?thesis by simp
qed

text \<open>A caller that waits for one token's worth of time between calls is never refused.\<close>

lemma AllowN_refilled:
  assumes "bucket_ok tb" "1 \<le> burst tb" "1 \<le> rate tb * seconds (time_Sub now (lastCheck tb))"
  shows "fst (TokenBucket_Allow now tb)"
proof -
  have "1 \<le> tokens tb + seconds (time_Sub now (lastCheck tb)) * rate tb"
    using assms by (simp add: bucket_ok_def mult.commute add_increasing)
  moreover have "1 \<le> (of_int (burst tb) :: rat)" using assms(2) by simp
  ultimately show ?thesis unfolding TokenBucket_Allow_def
    by (cases rule: AllowN_cases [of now 1 tb]) (auto simp: min_def split: if_splits)
qed

section \<open>The address limiter implements the contract\<close>

lemma IPRateLimiter_Allow_frame [simp]:
  "rl_limit (snd (IPRateLimiter_Allow c t ip rl)) = rl_limit rl"
  "rl_burst (snd (IPRateLimiter_Allow c t ip rl)) = rl_burst rl"
  by (simp_all add: IPRateLimiter_Allow_def Let_def split_beta)

interpretation ipl: keyed_limiter "\<lambda>t. IPRateLimiter_Allow t t"
  "\<lambda>rl ip. fmlookup (buckets rl) ip" "bucket_call l b" "\<lambda>rl. rl_limit rl = l \<and> rl_burst rl = b"
  for l b
  by unfold_locales
    (auto simp: IPRateLimiter_Allow_def bucket_call_def Let_def split_beta)

text \<open>The creation time of a bucket is immaterial: a new bucket is full, and stays capped.\<close>

lemma IPRateLimiter_Allow_created:
  assumes "created \<le> now" "0 \<le> rl_limit rl"
  shows "IPRateLimiter_Allow created now ip rl = IPRateLimiter_Allow now now ip rl"
proof -
  have "0 \<le> seconds (time_Sub now created) * of_int (rl_limit rl)"
    using assms time_Sub_le [of created now] by (simp add: seconds_nonneg)
  then have "TokenBucket_Allow now (NewTokenBucket created (rl_limit rl) (rl_burst rl))
      = TokenBucket_Allow now (NewTokenBucket now (rl_limit rl) (rl_burst rl))"
    by (auto simp: TokenBucket_Allow_def TokenBucket_AllowN_def NewTokenBucket_def Let_def)
  then show ?thesis by (simp add: IPRateLimiter_Allow_def split: option.split)
qed

lemma NewTokenBucket_ok: "0 \<le> l \<Longrightarrow> 0 \<le> b \<Longrightarrow> bucket_ok (NewTokenBucket t l b)"
  by (simp add: bucket_ok_def NewTokenBucket_def)

lemma run_bucket_call_Some:
  "run_calls (bucket_call l b) ts (Some tb) = run_calls TokenBucket_Allow ts tb"
  by (induction ts arbitrary: tb) (simp_all add: bucket_call_def)

lemma run_bucket_call_None:
  "run_calls (bucket_call l b) (t # ts) None
    = run_calls TokenBucket_Allow (t # ts) (NewTokenBucket t l b)"
  by (simp add: bucket_call_def run_bucket_call_Some)

lemma limiter_ok_Allow:
  assumes "limiter_ok t rl" "t \<le> now"
  shows "limiter_ok now (snd (IPRateLimiter_Allow now now ip rl))"
proof -
  let ?tb = "case fmlookup (buckets rl) ip of
      None \<Rightarrow> NewTokenBucket now (rl_limit rl) (rl_burst rl) | Some tb \<Rightarrow> tb"
  have "bucket_ok ?tb \<and> rate ?tb = of_int (rl_limit rl) \<and> burst ?tb = rl_burst rl \<and> lastCheck ?tb \<le> now"
  proof (cases "fmlookup (buckets rl) ip")
    case None
    then show ?thesis using assms NewTokenBucket_ok [of "rl_limit rl" "rl_burst rl" now]
      by (simp add: limiter_ok_def) (simp add: NewTokenBucket_def)
  qed (use assms in \<open>fastforce simp: limiter_ok_def\<close>)
  then show ?thesis using assms AllowN_ok [of ?tb now 1]
    by (fastforce simp: limiter_ok_def IPRateLimiter_Allow_def TokenBucket_Allow_def Let_def split_beta)
qed

text \<open>The bucket that serves the next call of an address, old or new.\<close>

lemma limiter_bucket:
  assumes "limiter_ok t0 rl" "t0 \<le> t"
  obtains tb where "run_calls (bucket_call (rl_limit rl) (rl_burst rl)) (t # ts) (fmlookup (buckets rl) ip)
      = run_calls TokenBucket_Allow (t # ts) tb"
    "bucket_ok tb" "rate tb = of_int (rl_limit rl)" "burst tb = rl_burst rl" "lastCheck tb \<le> t"
proof (cases "fmlookup (buckets rl) ip")
  case None
  then show ?thesis
    using that [of "NewTokenBucket t (rl_limit rl) (rl_burst rl)"] assms
      NewTokenBucket_ok [of "rl_limit rl" "rl_burst rl" t]
    by (simp only: run_bucket_call_None) (auto simp: limiter_ok_def NewTokenBucket_def)
next
  case (Some tb)
  then show ?thesis using that [of tb] assms
    by (simp only: run_bucket_call_Some) (fastforce simp: limiter_ok_def)
qed

lemma limiter_run_bound:
  assumes "limiter_ok t0 rl" "sorted (t0 # ts)" "\<forall>t \<in> set (t0 # ts). t \<le> T"
  shows "of_nat (admitted (run_calls (bucket_call (rl_limit rl) (rl_burst rl)) ts (fmlookup (buckets rl) ip)))
    \<le> of_int (rl_burst rl) + of_int (rl_limit rl) * seconds (T - t0)"
proof -
  have lim: "0 \<le> rl_limit rl" "0 \<le> rl_burst rl" using assms by (auto simp: limiter_ok_def)
  have slack: "of_int (rl_limit rl) * seconds (T - u) \<le> of_int (rl_limit rl) * seconds (T - t0)"
    if "t0 \<le> u" for u using that lim by (intro mult_left_mono seconds_mono) auto
  show ?thesis
  proof (cases ts)
    case Nil
    then show ?thesis using lim assms by (simp add: seconds_nonneg)
  next
    case (Cons t us)
    obtain tb where "run_calls (bucket_call (rl_limit rl) (rl_burst rl)) ts (fmlookup (buckets rl) ip)
        = run_calls TokenBucket_Allow ts tb"
      and "bucket_ok tb" "rate tb = of_int (rl_limit rl)" "burst tb = rl_burst rl" "lastCheck tb \<le> t"
      using limiter_bucket [OF assms(1), of t us ip] assms(2) Cons by auto
    moreover have "of_nat (admitted (run_calls TokenBucket_Allow ts tb))
        \<le> of_int (burst tb) + rate tb * seconds (T - t)"
      unfolding Cons using assms Cons calculation by (intro bucket_window_bound) auto
    ultimately show ?thesis using slack [of t] assms Cons by simp
  qed
qed

lemma spaced_admitted:
  "bucket_ok tb \<Longrightarrow> 1 \<le> burst tb \<Longrightarrow> rate tb = of_int l \<Longrightarrow> spaced l (lastCheck tb # ts) \<Longrightarrow>
   list_all (\<lambda>d. d) (run_calls TokenBucket_Allow ts tb)"
proof (induction ts arbitrary: tb)
  case (Cons t ts)
  let ?tb = "snd (TokenBucket_Allow t tb)"
  have t: "lastCheck tb \<le> t" "1 \<le> rate tb * seconds (time_Sub t (lastCheck tb))" "spaced l (t # ts)"
    using Cons.prems by (simp_all add: spaced_def)
  have "bucket_ok ?tb" "burst ?tb = burst tb" "rate ?tb = rate tb" "lastCheck ?tb = t"
    using Cons.prems t AllowN_ok [of tb t 1] by (simp_all add: TokenBucket_Allow_def)
  then show ?case using Cons t AllowN_refilled [of tb t] by simp
qed simp

lemma spaced_admitted_new:
  assumes "0 \<le> l" "1 \<le> b" "spaced l ts"
  shows "list_all (\<lambda>d. d) (run_calls (bucket_call l b) ts None)"
proof (cases ts)
  case (Cons t us)
  let ?tb = "snd (TokenBucket_Allow t (NewTokenBucket t l b))"
  have "bucket_ok ?tb" "lastCheck ?tb = t" "rate ?tb = of_int l" "burst ?tb = b"
    using AllowN_ok [of "NewTokenBucket t l b" t 1] NewTokenBucket_ok [of l b t] assms
    by (simp_all add: TokenBucket_Allow_def) (simp_all add: NewTokenBucket_def)
  moreover have "fst (TokenBucket_Allow t (NewTokenBucket t l b))"
    using assms by (simp add: TokenBucket_Allow_def TokenBucket_AllowN_def NewTokenBucket_def Let_def)
  ultimately show ?thesis using spaced_admitted [of ?tb l us] assms Cons
    by (simp only: run_bucket_call_None) simp
qed simp

section \<open>Properties\<close>

text \<open>
  (C23) Whatever the other addresses do, one address gets at most \<open>burst + limit * span\<close>
  requests through in any span of time, from any state a limiter can be in.
\<close>

theorem ip_admission_bound:
  assumes "limiter_ok t0 rl" "sorted (t0 # times_of ip es)" "\<forall>t \<in> set (t0 # times_of ip es). t \<le> T"
  shows "of_nat (admitted (decisions_of ip es (run_keyed (\<lambda>t. IPRateLimiter_Allow t t) es rl)))
    \<le> of_int (rl_burst rl) + of_int (rl_limit rl) * seconds (T - t0)"
  using limiter_run_bound [OF assms, of ip] ipl.decisions_local [of rl "rl_limit rl" "rl_burst rl" ip es]
  by simp

theorem ip_admission_bound_witness:
  "of_nat (admitted (decisions_of ''a'' [(5, ''a''), (6, ''b''), (7, ''a'')]
     (run_keyed (\<lambda>t. IPRateLimiter_Allow t t) [(5, ''a''), (6, ''b''), (7, ''a'')] (NewIPRateLimiter 1 1))))
   \<le> (1 + 1 * seconds 2 :: rat)"
  using ip_admission_bound [of 5 "NewIPRateLimiter 1 1" "''a''" "[(5, ''a''), (6, ''b''), (7, ''a'')]" 7]
  by (simp add: NewIPRateLimiter_def limiter_ok_def times_of_def)

text \<open>
  (C24) An address cannot use up the budget of another one: the decisions for an address are
  the same in any two runs in which it calls at the same times and starts with the same
  bucket, whoever else calls, and however often.
\<close>

theorem ip_independence:
  assumes "rl_limit rl = rl_limit rl'" "rl_burst rl = rl_burst rl'"
    and "fmlookup (buckets rl) ip = fmlookup (buckets rl') ip"
    and "times_of ip es = times_of ip es'"
  shows "decisions_of ip es (run_keyed (\<lambda>t. IPRateLimiter_Allow t t) es rl)
    = decisions_of ip es' (run_keyed (\<lambda>t. IPRateLimiter_Allow t t) es' rl')"
  by (rule ipl.decisions_independent [of rl "rl_limit rl'" "rl_burst rl'" rl' ip es es'])
    (use assms in auto)

theorem ip_independence_witness:
  "decisions_of ''a'' [(6, ''b''), (7, ''a'')]
     (run_keyed (\<lambda>t. IPRateLimiter_Allow t t) [(6, ''b''), (7, ''a'')] (NewIPRateLimiter 1 1))
   = decisions_of ''a'' [(7, ''a'')]
     (run_keyed (\<lambda>t. IPRateLimiter_Allow t t) [(7, ''a'')] (NewIPRateLimiter 1 1))"
  using ip_independence [of "NewIPRateLimiter 1 1" "NewIPRateLimiter 1 1" "''a''"
      "[(6, ''b''), (7, ''a'')]" "[(7, ''a'')]"]
  by (simp add: times_of_def)

text \<open>
  (C25) A new address that keeps the pace, waiting at least \<open>1 / limit\<close> seconds between calls,
  is never refused, however busy the relay is.
\<close>

theorem paced_address_never_refused:
  assumes "0 \<le> rl_limit rl" "1 \<le> rl_burst rl" "fmlookup (buckets rl) ip = None"
    and "spaced (rl_limit rl) (times_of ip es)"
  shows "list_all (\<lambda>d. d) (decisions_of ip es (run_keyed (\<lambda>t. IPRateLimiter_Allow t t) es rl))"
  using spaced_admitted_new [OF assms(1,2,4)] assms(3)
    ipl.decisions_local [of rl "rl_limit rl" "rl_burst rl" ip es] by simp

theorem paced_address_never_refused_witness:
  "list_all (\<lambda>d. d) (decisions_of ''a'' [(5, ''a''), (6, ''b''), (2000000000, ''a'')]
     (run_keyed (\<lambda>t. IPRateLimiter_Allow t t) [(5, ''a''), (6, ''b''), (2000000000, ''a'')]
       (NewIPRateLimiter 1 1)))"
  using paced_address_never_refused [of "NewIPRateLimiter 1 1" "''a''"
      "[(5, ''a''), (6, ''b''), (2000000000, ''a'')]"]
  by (simp add: NewIPRateLimiter_def times_of_def spaced_def seconds_def time_Sub_def)

end
