(* ===== verification/DNS_Wire.thy ===== *)
theory DNS_Wire
  imports Chunk_Encoding
begin

text \<open>
  \<^verbatim>\<open>internal/dns/dns.go\<close>: chunks as DNS queries and answers. The client side sends a chunk,
  or asks for one, over TCP, over UDP or with the fallback between the two; the server
  side turns a query back into a chunk for its handler. \<^verbatim>\<open>miekg/dns\<close> is a parameter: its
  \<^verbatim>\<open>Fqdn\<close>, and the exchange of a message with an address, which acts on an abstract
  world so that a sequence of exchanges can change the far side.
\<close>

section \<open>Messages\<close>

datatype net = TCP | UDP

datatype qtype = TypeA | TypeTXT

record dns_query =
  Question :: "string list"
  Qtype :: qtype
  RecursionDesired :: bool
  Edns0 :: "(nat \<times> bool) option"

datatype rr = TXT string nat "string list" | ARec string | OtherRR

record dns_resp =
  Rcode :: nat
  Authoritative :: bool
  Answer :: "rr list"

definition RcodeSuccess :: nat where "RcodeSuccess = 0"
definition RcodeFormatError :: nat where "RcodeFormatError = 1"
definition RcodeServerFailure :: nat where "RcodeServerFailure = 2"
definition RcodeNameError :: nat where "RcodeNameError = 3"
definition RcodeRefused :: nat where "RcodeRefused = 5"

lemmas rcode_defs = RcodeSuccess_def RcodeFormatError_def RcodeServerFailure_def
  RcodeNameError_def RcodeRefused_def

text \<open>
  What the documentation of \<^verbatim>\<open>Fqdn\<close> says for names without escapes: it is the identity on
  a fully qualified name and appends the final dot otherwise.
\<close>

definition fqdn_doc :: "(string \<Rightarrow> string) \<Rightarrow> bool" where
  "fqdn_doc fqdn \<longleftrightarrow>
     (\<forall>s. CHR 0x5C \<notin> set s \<longrightarrow> fqdn s = (if strings_HasSuffix s ''.'' then s else s @ ''.''))"

definition plain_fqdn :: "string \<Rightarrow> string" where
  "plain_fqdn s = (if strings_HasSuffix s ''.'' then s else s @ ''.'')"

type_synonym 'w exchange = "net \<Rightarrow> dns_query \<Rightarrow> string \<Rightarrow> 'w \<Rightarrow> (string + dns_resp) \<times> 'w"

section \<open>The transport mode\<close>

datatype TransportMode = TransportAuto | TransportTCP | TransportUDP

text \<open>
  \<^verbatim>\<open>strings.ToLower\<close> on ASCII letters. The letters outside ASCII that it maps into ASCII
  (the Kelvin sign and the dotted capital I) do not occur in the words compared here.
\<close>

definition lower_char :: "char \<Rightarrow> char" where
  "lower_char c = (if 65 \<le> (of_char c :: nat) \<and> (of_char c :: nat) \<le> 90
                   then char_of (of_char c + 32 :: nat) else c)"

definition strings_ToLower :: "string \<Rightarrow> string" where
  "strings_ToLower s = map lower_char s"

definition TransportModeFromString :: "string \<Rightarrow> TransportMode" where
  "TransportModeFromString s =
     (let t = strings_TrimSpace (strings_ToLower s) in
      if t = ''tcp'' then TransportTCP else if t = ''udp'' then TransportUDP else TransportAuto)"

definition TransportMode_String :: "TransportMode \<Rightarrow> string" where
  "TransportMode_String m =
     (case m of TransportTCP \<Rightarrow> ''tcp'' | TransportUDP \<Rightarrow> ''udp'' | TransportAuto \<Rightarrow> ''auto'')"

section \<open>The client side\<close>

datatype dns_error =
    TcpFailed string
  | UdpFailed string
  | ExchangeFailed string
  | ResponseCode nat
  | NoAnswer
  | NotTXT
  | BadChunk enc_error

definition resp_ok :: "string + dns_resp \<Rightarrow> bool" where
  "resp_ok r = (case r of Inl _ \<Rightarrow> False | Inr m \<Rightarrow> Rcode m = RcodeSuccess)"

definition check_rcode :: "(string \<Rightarrow> dns_error) \<Rightarrow> (string + dns_resp) \<Rightarrow> dns_error + unit" where
  "check_rcode err r =
     (case r of
        Inl e \<Rightarrow> Inl (err e)
      | Inr m \<Rightarrow> if Rcode m \<noteq> RcodeSuccess then Inl (ResponseCode (Rcode m)) else Inr ())"

definition chunk_query :: "(string \<Rightarrow> string) \<Rightarrow> Chunk \<Rightarrow> string \<Rightarrow> (nat \<times> bool) option \<Rightarrow> dns_query" where
  "chunk_query fqdn c zone e =
     \<lparr>Question = [fqdn (strings_Join (EncodeToLabels c zone) ''.'')], Qtype = TypeTXT,
      RecursionDesired = False, Edns0 = e\<rparr>"

definition SendChunk ::
  "(string \<Rightarrow> string) \<Rightarrow> 'w exchange \<Rightarrow> string \<Rightarrow> string \<Rightarrow> Chunk \<Rightarrow> TransportMode \<Rightarrow> 'w
   \<Rightarrow> (dns_error + unit) \<times> 'w" where
  "SendChunk fqdn exch addr zone c mode w =
     (let m = chunk_query fqdn c zone (Some (4096, True)) in
      case mode of
        TransportTCP \<Rightarrow> map_prod (check_rcode TcpFailed) (\<lambda>w. w) (exch TCP m addr w)
      | TransportUDP \<Rightarrow> map_prod (check_rcode UdpFailed) (\<lambda>w. w) (exch UDP m addr w)
      | TransportAuto \<Rightarrow>
          (let (r1, w1) = exch TCP m addr w in
           if resp_ok r1 then (Inr (), w1)
           else let (r2, w2) = exch UDP m addr w1 in
             if resp_ok r2 then (Inr (), w2)
             else case r2 of
                 Inl _ \<Rightarrow> map_prod (check_rcode ExchangeFailed) (\<lambda>w. w) (exch TCP m addr w2)
               | Inr resp \<Rightarrow> (Inl (ResponseCode (Rcode resp)), w2)))"

definition decode_answer :: "string \<Rightarrow> string list \<Rightarrow> dns_error + Chunk" where
  "decode_answer zone txt =
     (case DecodeChunkFromLabels (txt @ [zone]) zone of Inl e \<Rightarrow> Inl (BadChunk e) | Inr c \<Rightarrow> Inr c)"

text \<open>One exchange in TCP or UDP mode: every defect of the answer is an error.\<close>

definition query_once ::
  "(string \<Rightarrow> dns_error) \<Rightarrow> string \<Rightarrow> (string + dns_resp) \<Rightarrow> dns_error + Chunk" where
  "query_once err zone r =
     (case r of
        Inl e \<Rightarrow> Inl (err e)
      | Inr resp \<Rightarrow>
          if Rcode resp \<noteq> RcodeSuccess \<or> Answer resp = [] then Inl (ResponseCode (Rcode resp))
          else case hd (Answer resp) of
              TXT _ _ txt \<Rightarrow> decode_answer zone txt
            | _ \<Rightarrow> Inl NotTXT)"

text \<open>In the fallback mode an answer counts only if it carries a TXT record.\<close>

definition txt_answer :: "(string + dns_resp) \<Rightarrow> string list option" where
  "txt_answer r =
     (case r of
        Inl _ \<Rightarrow> None
      | Inr resp \<Rightarrow>
          if Rcode resp = RcodeSuccess \<and> Answer resp \<noteq> []
          then (case hd (Answer resp) of TXT _ _ txt \<Rightarrow> Some txt | _ \<Rightarrow> None)
          else None)"

definition query_final :: "string \<Rightarrow> (string + dns_resp) \<Rightarrow> dns_error + Chunk" where
  "query_final zone r =
     (case r of
        Inl e \<Rightarrow> Inl (ExchangeFailed e)
      | Inr resp \<Rightarrow>
          if Rcode resp \<noteq> RcodeSuccess then Inl (ResponseCode (Rcode resp))
          else if Answer resp = [] then Inl NoAnswer
          else case hd (Answer resp) of
              TXT _ _ txt \<Rightarrow> decode_answer zone txt
            | _ \<Rightarrow> Inl NotTXT)"

definition QueryChunk ::
  "(string \<Rightarrow> string) \<Rightarrow> 'w exchange \<Rightarrow> string \<Rightarrow> string \<Rightarrow> msg_id \<Rightarrow> uint16 \<Rightarrow> TransportMode \<Rightarrow> 'w
   \<Rightarrow> (dns_error + Chunk) \<times> 'w" where
  "QueryChunk fqdn exch addr zone mid idx mode w =
     (let m = chunk_query fqdn (NewChunk mid idx 0 []) zone None in
      case mode of
        TransportTCP \<Rightarrow> map_prod (query_once TcpFailed zone) (\<lambda>w. w) (exch TCP m addr w)
      | TransportUDP \<Rightarrow> map_prod (query_once UdpFailed zone) (\<lambda>w. w) (exch UDP m addr w)
      | TransportAuto \<Rightarrow>
          (let (r1, w1) = exch TCP m addr w in
           case txt_answer r1 of
             Some txt \<Rightarrow> (decode_answer zone txt, w1)
           | None \<Rightarrow>
               (let (r2, w2) = exch UDP m addr w1 in
                case txt_answer r2 of
                  Some txt \<Rightarrow> (decode_answer zone txt, w2)
                | None \<Rightarrow> map_prod (query_final zone) (\<lambda>w. w) (exch TCP m addr w2))))"

section \<open>The server side\<close>

definition reply :: "nat \<Rightarrow> rr list \<Rightarrow> dns_resp" where
  "reply code rrs = \<lparr>Rcode = code, Authoritative = True, Answer = rrs\<rparr>"

text \<open>The labels in front of the zone; \<open>None\<close> for a name outside the zone.\<close>

definition query_labels :: "(string \<Rightarrow> string) \<Rightarrow> string \<Rightarrow> string \<Rightarrow> string list option" where
  "query_labels fqdn zoneClean qname =
     (let name = strings_TrimSuffix (fqdn qname) ''.'' in
      if \<not> strings_HasSuffix name zoneClean then None
      else Some (strings_Split (CHR ''.'') (strings_TrimSuffix name (''.'' @ zoneClean))))"

text \<open>
  The handler that \<^verbatim>\<open>ListenAndServe\<close> installs. \<^verbatim>\<open>HandleChunk\<close> returns an error or nothing,
  \<^verbatim>\<open>QueryChunk\<close> an error, no chunk, or the chunk.
\<close>

definition dns_handler ::
  "(string \<Rightarrow> string) \<Rightarrow> string \<Rightarrow> (Chunk \<Rightarrow> 's \<Rightarrow> string option \<times> 's) \<Rightarrow>
   (msg_id \<Rightarrow> uint16 \<Rightarrow> 's \<Rightarrow> string + Chunk option) \<Rightarrow> dns_query \<Rightarrow> 's \<Rightarrow> dns_resp \<times> 's" where
  "dns_handler fqdn zone HandleChunk QryChunk r s =
     (case Question r of
        [] \<Rightarrow> (reply RcodeFormatError [], s)
      | qname # _ \<Rightarrow>
          (let zoneClean = strings_TrimSuffix zone ''.'' in
           case query_labels fqdn zoneClean qname of
             None \<Rightarrow> (reply RcodeRefused [], s)
           | Some ls \<Rightarrow>
               (let labels = ls @ [zoneClean] in
                case DecodeChunkFromLabels labels zoneClean of
                  Inl _ \<Rightarrow> (reply RcodeFormatError [], s)
                | Inr c \<Rightarrow>
                    if TotalChunks c = 0 then
                      (case QryChunk (MsgID c) (ChunkIdx c) s of
                         Inr (Some st) \<Rightarrow>
                           (reply RcodeSuccess [TXT qname 300 (butlast (EncodeToLabels st zoneClean))], s)
                       | _ \<Rightarrow> (reply RcodeNameError [], s))
                    else
                      (case HandleChunk c s of
                         (Some _, s') \<Rightarrow> (reply RcodeServerFailure [], s')
                       | (None, s') \<Rightarrow>
                           (reply RcodeSuccess [TXT qname 60 [labels ! 0, labels ! 1, ''OK'']], s')))))"

text \<open>The network that delivers every query to one server.\<close>

definition direct :: "(dns_query \<Rightarrow> 's \<Rightarrow> dns_resp \<times> 's) \<Rightarrow> 's exchange" where
  "direct serve nt q addr s = map_prod Inr (\<lambda>s. s) (serve q s)"

text \<open>A zone as the clients use it: no escape, no final dot.\<close>

definition zone_ok :: "string \<Rightarrow> bool" where
  "zone_ok zone \<longleftrightarrow> CHR 0x5C \<notin> set zone \<and> \<not> strings_HasSuffix zone ''.'' \<and> zone \<noteq> []"

section \<open>Names\<close>

lemma EncodeToLabels_split:
  "EncodeToLabels c zone = butlast (EncodeToLabels c zone) @ [zone]"
  "butlast (EncodeToLabels c zone) \<noteq> []"
  by (simp_all add: EncodeToLabels_def butlast_append)

lemma legal_label_chars:
  assumes "legal_label l"
  shows "CHR ''.'' \<notin> set l" "CHR 0x5C \<notin> set l" "CHR '':'' \<notin> set l"
  using assms by (auto simp: legal_label_def base32hex_alphabet_def)

lemma set_strings_Join: "set (strings_Join xs sep) \<subseteq> \<Union> (set ` set xs) \<union> set sep"
  by (induction xs sep rule: strings_Join.induct) auto

lemma HasSuffix_append_nonempty:
  assumes "t \<noteq> []" "strings_HasSuffix (s @ t) [x]" shows "strings_HasSuffix t [x]"
  using assms by (cases t rule: rev_cases) (auto simp: strings_HasSuffix_def)

lemma fqdn_name:
  assumes "fqdn_doc fqdn" "zone_ok zone" "CHR 0x5C \<notin> set body"
  shows "fqdn (fqdn (body @ zone)) = body @ zone @ ''.''" "fqdn (body @ zone) = body @ zone @ ''.''"
proof -
  have esc: "CHR 0x5C \<notin> set (body @ zone)" "CHR 0x5C \<notin> set (body @ zone @ ''.'')"
    using assms by (auto simp: zone_ok_def)
  have "\<not> strings_HasSuffix (body @ zone) ''.''"
    using assms(2) HasSuffix_append_nonempty [of zone body] by (auto simp: zone_ok_def)
  then show 1: "fqdn (body @ zone) = body @ zone @ ''.''"
    using assms(1) esc(1) unfolding fqdn_doc_def by simp
  have "strings_HasSuffix (body @ zone @ ''.'') ''.''"
    by (metis append_assoc strings_HasSuffix_append)
  then show "fqdn (fqdn (body @ zone)) = body @ zone @ ''.''"
    using assms(1) esc(2) unfolding fqdn_doc_def 1 by simp
qed

lemma query_labels_Join:
  assumes "fqdn_doc fqdn" "zone_ok zone" "ls \<noteq> []" "\<forall>l \<in> set ls. CHR ''.'' \<notin> set l \<and> CHR 0x5C \<notin> set l"
  shows "query_labels fqdn zone (fqdn (strings_Join (ls @ [zone]) ''.'')) = Some ls"
proof -
  let ?body = "strings_Join ls ''.''"
  have esc: "CHR 0x5C \<notin> set (?body @ ''.'')"
    using set_strings_Join [of ls "''.''"] assms(4) by auto
  have name: "strings_Join (ls @ [zone]) ''.'' = (?body @ ''.'') @ zone"
    using assms(3) by (simp add: strings_Join_snoc)
  have "strings_TrimSuffix (fqdn (fqdn (strings_Join (ls @ [zone]) ''.''))) ''.'' = ?body @ (''.'' @ zone)"
    using fqdn_name(1) [OF assms(1,2) esc] strings_TrimSuffix_append [of "?body @ ''.'' @ zone" "''.''"]
    by (simp add: name)
  moreover have "strings_HasSuffix (?body @ (''.'' @ zone)) zone"
    by (metis append_assoc strings_HasSuffix_append)
  moreover have "strings_Split (CHR ''.'') ?body = ls"
    using assms(3,4) by (intro strings_Split_Join) auto
  ultimately show ?thesis by (simp add: query_labels_def Let_def)
qed

lemma query_labels_chunk:
  assumes "fqdn_doc fqdn" "zone_ok zone" "length (RecipientHash c) \<in> {0, 32}"
  shows "query_labels fqdn zone (fqdn (strings_Join (EncodeToLabels c zone) ''.''))
    = Some (butlast (EncodeToLabels c zone))"
  using query_labels_Join [OF assms(1,2) EncodeToLabels_split(2) [of c zone]]
    EncodeToLabels_label [OF assms(3), of zone] legal_label_chars EncodeToLabels_split(1) [of c zone]
  by metis

lemma zone_ok_trim [simp]: "zone_ok zone \<Longrightarrow> strings_TrimSuffix zone ''.'' = zone"
  by (simp add: zone_ok_def strings_TrimSuffix_def)

lemma decode_butlast:
  "length (RecipientHash c) \<in> {0, 32} \<Longrightarrow>
   DecodeChunkFromLabels (butlast (EncodeToLabels c zone) @ [zone]) zone = Inr c"
  using DecodeChunkFromLabels_EncodeToLabels [of c zone] EncodeToLabels_split(1) [of c zone] by simp

section \<open>The handler interface\<close>

text \<open>
  What \<^verbatim>\<open>Handler\<close> has to provide for the transport to be a store: a chunk that was accepted
  can be asked for, and accepting it does not disturb the others.
\<close>

locale chunk_handler =
  fixes handle :: "Chunk \<Rightarrow> 's \<Rightarrow> string option \<times> 's"
    and qry :: "msg_id \<Rightarrow> uint16 \<Rightarrow> 's \<Rightarrow> string + Chunk option"
    and inv :: "'s \<Rightarrow> bool"
  assumes handle_qry: "inv s \<Longrightarrow> handle c s = (None, s') \<Longrightarrow>
      qry m i s' = (if m = MsgID c \<and> i = ChunkIdx c then Inr (Some c) else qry m i s)"
    and handle_inv: "inv s \<Longrightarrow> inv (snd (handle c s))"
begin

lemma serve_put:
  assumes "fqdn_doc fqdn" "zone_ok zone" "length (RecipientHash c) \<in> {0, 32}" "TotalChunks c \<noteq> 0"
    and "handle c s = (None, s')"
  shows "\<exists>ack. dns_handler fqdn zone handle qry (chunk_query fqdn c zone e) s
    = (reply RcodeSuccess ack, s')"
  using assms decode_butlast [OF assms(3), of zone] query_labels_chunk [OF assms(1,2,3)]
  by (auto simp: dns_handler_def chunk_query_def Let_def)

lemma serve_get:
  assumes "fqdn_doc fqdn" "zone_ok zone" "qry m i s = Inr (Some c)"
  shows "\<exists>q. dns_handler fqdn zone handle qry (chunk_query fqdn (NewChunk m i 0 []) zone e) s
    = (reply RcodeSuccess [TXT q 300 (butlast (EncodeToLabels c zone))], s)"
  using assms decode_butlast [of "NewChunk m i 0 []" zone]
    query_labels_chunk [OF assms(1,2), of "NewChunk m i 0 []"]
  by (auto simp: dns_handler_def chunk_query_def Let_def NewChunk_def)

text \<open>Whatever the mode, a chunk that was sent comes back when it is asked for.\<close>

lemma send_query:
  assumes "fqdn_doc fqdn" "zone_ok zone" "length (RecipientHash c) \<in> {0, 32}" "TotalChunks c \<noteq> 0"
    and "inv s" "handle c s = (None, s')"
  shows "SendChunk fqdn (direct (dns_handler fqdn zone handle qry)) addr zone c mode s = (Inr (), s')"
    and "QueryChunk fqdn (direct (dns_handler fqdn zone handle qry)) addr zone (MsgID c) (ChunkIdx c) mode' s'
      = (Inr c, s')"
proof -
  obtain ack where "dns_handler fqdn zone handle qry (chunk_query fqdn c zone (Some (4096, True))) s
      = (reply RcodeSuccess ack, s')" using serve_put [OF assms(1-4,6)] by blast
  then show "SendChunk fqdn (direct (dns_handler fqdn zone handle qry)) addr zone c mode s = (Inr (), s')"
    by (cases mode) (simp_all add: SendChunk_def direct_def check_rcode_def resp_ok_def reply_def Let_def)
  have "qry (MsgID c) (ChunkIdx c) s' = Inr (Some c)" using handle_qry [OF assms(5,6)] by simp
  then obtain q where "dns_handler fqdn zone handle qry
      (chunk_query fqdn (NewChunk (MsgID c) (ChunkIdx c) 0 []) zone None) s'
      = (reply RcodeSuccess [TXT q 300 (butlast (EncodeToLabels c zone))], s')"
    using serve_get [OF assms(1,2)] by blast
  then show "QueryChunk fqdn (direct (dns_handler fqdn zone handle qry)) addr zone (MsgID c) (ChunkIdx c) mode' s'
      = (Inr c, s')"
    using decode_butlast [OF assms(3), of zone]
    by (cases mode') (simp_all add: QueryChunk_def direct_def query_once_def txt_answer_def decode_answer_def
        reply_def Let_def)
qed

end

section \<open>Properties\<close>

lemma fqdn_doc_plain: "fqdn_doc plain_fqdn"
  by (simp add: fqdn_doc_def plain_fqdn_def)

lemma TransportMode_roundtrip: "TransportModeFromString (TransportMode_String m) = m"
proof -
  have "strings_TrimSpace (strings_ToLower (TransportMode_String m)) = TransportMode_String m"
    by (cases m; subst strings_TrimSpace_id)
      (simp_all add: TransportMode_String_def strings_ToLower_def lower_char_def space_seqs_def)
  then show ?thesis by (cases m) (simp_all add: TransportModeFromString_def TransportMode_String_def)
qed

lemma is_ok_check_rcode: "is_ok (check_rcode err r) \<longleftrightarrow> resp_ok r"
  by (auto simp: check_rcode_def resp_ok_def split: sum.split)

text \<open>
  The fallback gives the better of the two transports: if each of TCP and UDP always
  answers in its own way, sending a chunk in automatic mode succeeds exactly when TCP or
  UDP alone would.
\<close>

theorem auto_mode_either:
  assumes "\<And>nt w. fst (exch nt (chunk_query fqdn c zone (Some (4096, True))) addr w) = r nt"
  shows "is_ok (fst (SendChunk fqdn exch addr zone c TransportAuto w))
    \<longleftrightarrow> is_ok (fst (SendChunk fqdn exch addr zone c TransportTCP w))
      \<or> is_ok (fst (SendChunk fqdn exch addr zone c TransportUDP w))"
  by (auto simp: SendChunk_def Let_def split_beta assms is_ok_check_rcode split: sum.split)

theorem auto_mode_either_witness:
  "is_ok (fst (SendChunk plain_fqdn
      (\<lambda>nt q a w. (if nt = UDP then Inr (reply 0 []) else Inl ''refused'', w :: nat)) ''r'' ''z''
      (NewChunk 1 0 1 [7]) TransportAuto 0))"
  using auto_mode_either [of "\<lambda>nt q a w. (if nt = UDP then Inr (reply 0 []) else Inl ''refused'', w :: nat)"
      plain_fqdn "NewChunk 1 0 1 [7]" "''z''" "''r''"
      "\<lambda>nt. if nt = UDP then Inr (reply 0 []) else Inl ''refused''" 0]
  by (simp add: SendChunk_def Let_def check_rcode_def reply_def rcode_defs)

end
