(* ===== verification/Relay_Server.thy ===== *)
theory Relay_Server
  imports Chunk_Store Rate_Limit DNS_Wire Go_OS
begin

text \<open>
  \<^verbatim>\<open>internal/relay/server.go\<close>: the relay. Its DNS handler limits the rate per address, answers
  polls for a recipient, returns stored chunks and stores new ones; its HTTP side stores
  and serves media files under the digest of their contents. The theory shows that an
  acknowledged chunk is stored, however lossy the network, that polls name exactly the
  recipient's messages, and that the media files are what their names say.
\<close>

section \<open>The DNS handler\<close>

record 'd relay =
  relay_store :: "'d ChunkStore"
  limiter :: IPRateLimiter

datatype net_addr = UDPAddr string nat | TCPAddr string nat | OtherAddr string

text \<open>The text of the IP address, or of the whole address when it is of another kind.\<close>

definition extractIP :: "net_addr \<Rightarrow> string" where
  "extractIP a = (case a of UDPAddr ip _ \<Rightarrow> ip | TCPAddr ip _ \<Rightarrow> ip | OtherAddr s \<Rightarrow> s)"

text \<open>
  The readings of the clock and the iteration order that one run of the handler sees: the
  creation of a bucket, the check of the bucket, the store, and \<^verbatim>\<open>range messageOwner\<close>.
\<close>

record sched =
  t_bucket :: time
  t_check :: time
  t_store :: time
  owner_order :: "msg_id list"

definition poll_entry :: "'d ChunkStore \<Rightarrow> msg_id \<Rightarrow> string" where
  "poll_entry st mid =
     (case GetMessageMeta mid st of
        (ts, seq, ok) \<Rightarrow>
          if ok \<and> sint ts > 0
          then base32hex_EncodeToString (be64 mid) @ '':'' @ base32hex_EncodeToString (be64 ts)
               @ '':'' @ base32hex_EncodeToString (be64 seq)
          else base32hex_EncodeToString (be64 mid))"

text \<open>Storing a chunk and recording the owner of its message; \<open>None\<close> is a panic.\<close>

definition relay_put :: "'d bolt_ops \<Rightarrow> time \<Rightarrow> Chunk \<Rightarrow> 'd ChunkStore \<Rightarrow> 'd ChunkStore option" where
  "relay_put ops now c st =
     (case ChunkStore_Store ops now c st of
        None \<Rightarrow> None
      | Some (complete, st') \<Rightarrow>
          Some (if RecipientHash c \<noteq> []
                then SetMessageOwner (MsgID c) (base32hex_EncodeToString (RecipientHash c)) st'
                else st'))"

definition relay_answer ::
  "'d bolt_ops \<Rightarrow> (string \<Rightarrow> string) \<Rightarrow> string \<Rightarrow> sched \<Rightarrow> string \<Rightarrow> string list \<Rightarrow> 'd ChunkStore
   \<Rightarrow> (dns_resp \<times> 'd ChunkStore) option" where
  "relay_answer ops fqdn zoneClean sc qname ls st =
     (if ls ! 0 = ''POLL'' then
        (if length ls < 2 then Some (reply RcodeFormatError [], st)
         else Some (reply RcodeSuccess
           [TXT qname 60 (map (poll_entry st) (ListPeerMessages (owner_order sc) (ls ! 1) st))], st))
      else
        (case DecodeChunkFromLabels (ls @ [zoneClean]) zoneClean of
           Inl _ \<Rightarrow> Some (reply RcodeFormatError [], st)
         | Inr c \<Rightarrow>
             if TotalChunks c = 0 then
               (case GetChunk (MsgID c) (ChunkIdx c) st of
                  None \<Rightarrow> Some (reply RcodeNameError [], st)
                | Some st_chunk \<Rightarrow>
                    Some (reply RcodeSuccess
                      [TXT qname 300 (butlast (EncodeToLabels st_chunk zoneClean))], st))
             else
               (case relay_put ops (t_store sc) c st of
                  None \<Rightarrow> None
                | Some st' \<Rightarrow>
                    Some (reply RcodeSuccess
                      [TXT qname 60
                        [base32hex_EncodeToString (be64 (MsgID c)),
                         base32hex_EncodeToString
                           [ucast (drop_bit 8 (ChunkIdx c)), ucast (ChunkIdx c)],
                         ''OK'']], st'))))"

definition relay_handle ::
  "'d bolt_ops \<Rightarrow> (string \<Rightarrow> string) \<Rightarrow> string \<Rightarrow> sched \<Rightarrow> net_addr \<Rightarrow> dns_query \<Rightarrow> 'd relay
   \<Rightarrow> (dns_resp \<times> 'd relay) option" where
  "relay_handle ops fqdn zone sc remote r s =
     (let (ok, rl) = IPRateLimiter_Allow (t_bucket sc) (t_check sc) (extractIP remote) (limiter s);
          s1 = s\<lparr>limiter := rl\<rparr> in
      if \<not> ok then Some (reply RcodeRefused [], s1)
      else case Question r of
          [] \<Rightarrow> Some (reply RcodeFormatError [], s1)
        | qname # _ \<Rightarrow>
            (let zoneClean = strings_TrimSuffix (fqdn zone) ''.'' in
             case query_labels fqdn zoneClean qname of
               None \<Rightarrow> Some (reply RcodeRefused [], s1)
             | Some ls \<Rightarrow>
                 (case relay_answer ops fqdn zoneClean sc qname ls (relay_store s) of
                    None \<Rightarrow> None
                  | Some (resp, st) \<Rightarrow> Some (resp, s1\<lparr>relay_store := st\<rparr>))))"

section \<open>A lossy network in front of the relay\<close>

text \<open>
  What happens to one exchange: the query or the reply is lost, or both arrive. An exchange
  that has no fate any more times out.
\<close>

datatype fate = LostQuery | LostReply sched | Delivered sched

type_synonym 'd relay_net = "fate list \<times> 'd relay"

definition relay_exchange ::
  "'d bolt_ops \<Rightarrow> (string \<Rightarrow> string) \<Rightarrow> string \<Rightarrow> net_addr \<Rightarrow> 'd relay_net exchange" where
  "relay_exchange ops fqdn zone remote nt q addr w =
     (case w of
        ([], s) \<Rightarrow> (Inl ''timeout'', ([], s))
      | (LostQuery # fs, s) \<Rightarrow> (Inl ''timeout'', (fs, s))
      | (LostReply sc # fs, s) \<Rightarrow>
          (case relay_handle ops fqdn zone sc remote q s of
             None \<Rightarrow> (Inl ''timeout'', (fs, s))
           | Some (resp, s') \<Rightarrow> (Inl ''timeout'', (fs, s')))
      | (Delivered sc # fs, s) \<Rightarrow>
          (case relay_handle ops fqdn zone sc remote q s of
             None \<Rightarrow> (Inl ''timeout'', (fs, s))
           | Some (resp, s') \<Rightarrow> (Inr resp, (fs, s'))))"

text \<open>A history of the relay: queries and collections of its store.\<close>

datatype relay_event = RQuery sched net_addr dns_query | RGC time "msg_id list"

fun relay_run ::
  "'d bolt_ops \<Rightarrow> (string \<Rightarrow> string) \<Rightarrow> string \<Rightarrow> relay_event list \<Rightarrow> 'd relay \<Rightarrow> 'd relay option" where
  "relay_run ops fqdn zone [] s = Some s"
| "relay_run ops fqdn zone (RQuery sc remote q # es) s =
     (case relay_handle ops fqdn zone sc remote q s of
        None \<Rightarrow> None
      | Some (resp, s') \<Rightarrow> relay_run ops fqdn zone es s')"
| "relay_run ops fqdn zone (RGC now ks # es) s =
     relay_run ops fqdn zone es (s\<lparr>relay_store := ChunkStore_gc now ks (relay_store s)\<rparr>)"

section \<open>The media server\<close>

record media_server =
  media_token :: string
  media_files :: "(string, bytes \<times> time) fmap"

record http_request =
  Method :: string
  URL_Path :: string
  X_Auth_Token :: string
  Body :: "string + bytes"

datatype http_response =
    HttpError nat string
  | NotFound
  | JsonOK string
  | FileOK bytes

definition maxUploadSize :: nat where
  "maxUploadSize = 50 * 2 ^ 20"

text \<open>\<^verbatim>\<open>init\<close> reads the token from one of two environment variables.\<close>

definition init_media_token :: "string \<Rightarrow> string \<Rightarrow> string" where
  "init_media_token relay_token relayd_token =
     (if relay_token = '''' then relayd_token else relay_token)"

definition checkMediaAuth :: "media_server \<Rightarrow> http_request \<Rightarrow> bool" where
  "checkMediaAuth m r =
     (if media_token m = '''' then True
      else if X_Auth_Token r = '''' then False
      else media_token m = X_Auth_Token r)"

text \<open>\<^verbatim>\<open>MaxBytesReader\<close>: reading more than the limit fails.\<close>

definition read_limited :: "nat \<Rightarrow> (string + bytes) \<Rightarrow> string + bytes" where
  "read_limited n body =
     (case body of
        Inl e \<Rightarrow> Inl e
      | Inr data \<Rightarrow> if length data > n then Inl ''http: request body too large'' else Inr data)"

text \<open>
  A write that fails midway leaves a part of the file behind, under the digest of the
  whole.
\<close>

definition upload ::
  "time \<Rightarrow> write_result \<Rightarrow> http_request \<Rightarrow> media_server \<Rightarrow> http_response \<times> media_server" where
  "upload now w r m =
     (if Method r \<noteq> ''POST'' then (HttpError 405 ''POST only'', m)
      else if \<not> checkMediaAuth m r then (HttpError 401 ''unauthorized'', m)
      else case read_limited maxUploadSize (Body r) of
          Inl e \<Rightarrow>
            if strings_Contains e ''http: request body too large''
            then (HttpError 413 ''file too large'', m)
            else (HttpError 500 ''read failed'', m)
        | Inr data \<Rightarrow>
            (let fileID = hex_EncodeToString (sha256_Sum256 data) in
             case w of
               WriteFails e left \<Rightarrow>
                 (HttpError 500 ''write failed'',
                  case left of
                    None \<Rightarrow> m
                  | Some b \<Rightarrow> m\<lparr>media_files := fmupd fileID (b, now) (media_files m)\<rparr>)
             | WriteOK \<Rightarrow>
                 (JsonOK (''{\"file_id\":\"'' @ fileID @ ''\"}''),
                  m\<lparr>media_files := fmupd fileID (data, now) (media_files m)\<rparr>)))"

definition download :: "http_request \<Rightarrow> media_server \<Rightarrow> http_response" where
  "download r m =
     (let fileID = strings_TrimPrefix (URL_Path r) ''/download/'' in
      if fileID = '''' then NotFound
      else if \<not> checkMediaAuth m r then HttpError 401 ''unauthorized''
      else case hex_DecodeString fileID of
          None \<Rightarrow> NotFound
        | Some _ \<Rightarrow>
            (case fmlookup (media_files m) fileID of
               None \<Rightarrow> NotFound
             | Some (data, _) \<Rightarrow> FileOK data))"

text \<open>
  One tick of the cleaner. An entry whose \<^verbatim>\<open>Info\<close> fails leaves a nil \<^verbatim>\<open>info\<close>, whose
  \<^verbatim>\<open>ModTime\<close> panics: \<open>None\<close>.
\<close>

fun media_cleanup :: "time \<Rightarrow> (string \<times> time option) list \<Rightarrow> media_server \<Rightarrow> media_server option" where
  "media_cleanup now [] m = Some m"
| "media_cleanup now ((name, None) # es) m = None"
| "media_cleanup now ((name, Some mtime) # es) m =
     media_cleanup now es
       (if time_Sub now mtime > 7 * 24 * 3600 * 1000000000
        then m\<lparr>media_files := fmdrop name (media_files m)\<rparr> else m)"

section \<open>Starting the servers\<close>

record listener =
  ls_Addr :: string
  ls_Net :: string

text \<open>
  What a running relay serves: the zone its handler is registered for, the sockets it listens on and
  its media server.
\<close>

record serving =
  sv_zone :: string
  sv_listeners :: "listener list"
  sv_media :: "media_server option"

text \<open>
  The media server keeps the files of an earlier run; it does not start when its directory cannot be
  made or its port is taken.
\<close>

definition media_dir :: "string \<Rightarrow> string" where
  "media_dir home = filepath_Join [home, ''.config'', ''relayd'', ''media'']"

definition startMediaServer ::
  "string \<Rightarrow> string option \<Rightarrow> (listener \<Rightarrow> string option) \<Rightarrow> (string, bytes \<times> time) fmap \<Rightarrow> string \<Rightarrow> media_server option" where
  "startMediaServer token mkdir listen stored port =
     (case mkdir of
        Some _ \<Rightarrow> None
      | None \<Rightarrow>
          (case listen \<lparr>ls_Addr = '':'' @ port, ls_Net = ''tcp''\<rparr> of
             Some _ \<Rightarrow> None
           | None \<Rightarrow> Some \<lparr>media_token = token, media_files = stored\<rparr>))"

text \<open>
  The four DNS servers share one handler. Only the failure of the first, on the given address over UDP,
  is returned; the failures of the others are logged.
\<close>

definition RunServer ::
  "(string \<Rightarrow> string) \<Rightarrow> string \<Rightarrow> string \<Rightarrow> string \<Rightarrow> (listener \<Rightarrow> string option) \<Rightarrow> (string \<Rightarrow> media_server option) \<Rightarrow> string + serving" where
  "RunServer fqdn addr zone mediaPort listen start_media =
     (let udp = \<lparr>ls_Addr = addr, ls_Net = ''udp''\<rparr>;
          others = [\<lparr>ls_Addr = addr, ls_Net = ''tcp''\<rparr>, \<lparr>ls_Addr = '':5353'', ls_Net = ''udp''\<rparr>, \<lparr>ls_Addr = '':5353'', ls_Net = ''tcp''\<rparr>] in
      case listen udp of
        Some e \<Rightarrow> Inl e
      | None \<Rightarrow> Inr \<lparr>sv_zone = fqdn zone, sv_listeners = udp # filter (\<lambda>l. listen l = None) others,
                    sv_media = (if mediaPort \<noteq> '''' then start_media mediaPort else None)\<rparr>)"

lemma RunServer_serves:
  assumes "RunServer fqdn addr zn mediaPort listen start_media = Inr sv"
  shows "\<lparr>ls_Addr = addr, ls_Net = ''udp''\<rparr> \<in> set (sv_listeners sv)"
    and "l \<in> set (sv_listeners sv) \<Longrightarrow> listen l = None \<and> ls_Addr l \<in> {addr, '':5353''}"
  using assms by (auto simp: RunServer_def Let_def split: option.splits if_splits)

section \<open>Invariants\<close>

definition relay_ok :: "'d bolt_ops \<Rightarrow> 'd relay \<Rightarrow> bool" where
  "relay_ok ops s \<longleftrightarrow> store_ok ops (relay_store s)
     \<and> (\<forall>mid i c. GetChunk mid i (relay_store s) = Some c \<longrightarrow> length (RecipientHash c) \<in> {0, 32})"

text \<open>Every media file is stored under the digest of its contents.\<close>

definition media_ok :: "media_server \<Rightarrow> bool" where
  "media_ok m \<longleftrightarrow>
     (\<forall>fileID data t. fmlookup (media_files m) fileID = Some (data, t) \<longrightarrow>
        fileID = hex_EncodeToString (sha256_Sum256 data))"

section \<open>The store behind the handler\<close>

lemma GetChunk_SetMessageOwner [simp]: "GetChunk m i (SetMessageOwner mid p s) = GetChunk m i s"
  by (simp add: GetChunk_def)

lemma GetChunk_relay_put:
  "relay_put ops now c st = Some st' \<Longrightarrow>
   GetChunk m i st' = (if m = MsgID c \<and> i = ChunkIdx c then Some c else GetChunk m i st)"
  by (auto simp: relay_put_def GetChunk_Store split: option.splits if_splits)

lemma relay_put_ok:
  assumes "bolt_bucket ops" "store_ok ops st"
  obtains st' where "relay_put ops now c st = Some st'" "store_ok ops st'"
proof -
  obtain b st1 where "ChunkStore_Store ops now c st = Some (b, st1)"
    using ChunkStore_Store_total [OF assms(2), of now c] by (auto simp: Let_def)
  moreover from this have "store_ok ops st1" using bolt_bucket.store_ok_Store [OF assms(1)] assms(2) by blast
  ultimately show ?thesis
    using that store_ok_SetMessageOwner by (cases "RecipientHash c = []") (auto simp: relay_put_def)
qed

lemma relay_put_owner:
  assumes "relay_put ops now c st = Some st'" "RecipientHash c \<noteq> []"
  shows "fmlookup (messageOwner st') (MsgID c) =
    (case fmlookup (messageOwner st) (MsgID c) of
       None \<Rightarrow> Some (base32hex_EncodeToString (RecipientHash c)) | Some p \<Rightarrow> Some p)"
  using assms
  by (auto simp: relay_put_def SetMessageOwner_def dest: ChunkStore_Store_frame split: option.splits)

text \<open>The relay's store implements the handler interface of the DNS transport.\<close>

definition store_handle :: "'d bolt_ops \<Rightarrow> time \<Rightarrow> Chunk \<Rightarrow> 'd ChunkStore \<Rightarrow> string option \<times> 'd ChunkStore" where
  "store_handle ops now c st =
     (case relay_put ops now c st of None \<Rightarrow> (Some ''panic'', st) | Some st' \<Rightarrow> (None, st'))"

interpretation rs: chunk_handler "store_handle ops now" "\<lambda>m i st. Inr (GetChunk m i st)" "\<lambda>st. True"
  for ops now
  by unfold_locales (auto simp: store_handle_def GetChunk_relay_put split: option.splits)

section \<open>Answers\<close>

lemma zone_clean: "fqdn_doc fqdn \<Longrightarrow> zone_ok zone \<Longrightarrow> strings_TrimSuffix (fqdn zone) ''.'' = zone"
  using fqdn_name(2) [of fqdn zone "[]"] by simp

lemma chunk_labels_not_poll:
  "length (RecipientHash c) \<in> {0, 32} \<Longrightarrow> butlast (EncodeToLabels c zone) ! 0 \<noteq> ''POLL''"
proof
  assume h: "length (RecipientHash c) \<in> {0, 32}" and "butlast (EncodeToLabels c zone) ! 0 = ''POLL''"
  then have "length (butlast (EncodeToLabels c zone) ! 0) = 4" by simp
  with h show False by (auto simp: EncodeToLabels_def butlast_append split: if_splits)
qed

lemma relay_answer_chunk:
  assumes "length (RecipientHash c) \<in> {0, 32}"
  shows "relay_answer ops fqdn zone sc q (butlast (EncodeToLabels c zone)) st =
    (if TotalChunks c = 0 then
       (case GetChunk (MsgID c) (ChunkIdx c) st of
          None \<Rightarrow> Some (reply RcodeNameError [], st)
        | Some d \<Rightarrow> Some (reply RcodeSuccess [TXT q 300 (butlast (EncodeToLabels d zone))], st))
     else map_option (Pair (reply RcodeSuccess
            [TXT q 60 [base32hex_EncodeToString (be64 (MsgID c)),
               base32hex_EncodeToString [ucast (drop_bit 8 (ChunkIdx c)), ucast (ChunkIdx c)], ''OK'']]))
          (relay_put ops (t_store sc) c st))"
  using decode_butlast [OF assms, of zone] chunk_labels_not_poll [OF assms, of zone]
  by (auto simp: relay_answer_def split: option.split)

text \<open>The relay's answer to a chunk query, once the limiter has let it through.\<close>

lemma relay_handle_chunk:
  assumes "fqdn_doc fqdn" "zone_ok zone" "length (RecipientHash c) \<in> {0, 32}"
    and "relay_handle ops fqdn zone sc remote (chunk_query fqdn c zone e) s = Some (resp, s')"
  shows "(resp = reply RcodeRefused [] \<and> relay_store s' = relay_store s)
    \<or> (\<exists>q. relay_answer ops fqdn zone sc q (butlast (EncodeToLabels c zone)) (relay_store s)
          = Some (resp, relay_store s'))"
  using assms(4) query_labels_chunk [OF assms(1-3)] zone_clean [OF assms(1,2)]
  by (auto simp: relay_handle_def chunk_query_def Let_def split_beta split: if_splits option.splits)

lemma relay_handle_put:
  assumes "fqdn_doc fqdn" "zone_ok zone" "length (RecipientHash c) \<in> {0, 32}" "TotalChunks c \<noteq> 0"
    and "relay_handle ops fqdn zone sc remote (chunk_query fqdn c zone e) s = Some (resp, s')"
    and "Rcode resp = RcodeSuccess"
  shows "relay_put ops (t_store sc) c (relay_store s) = Some (relay_store s')"
  using relay_handle_chunk [OF assms(1-3,5)] assms(4,6)
  by (auto simp: relay_answer_chunk [OF assms(3)] reply_def rcode_defs)

lemma relay_exchange_ack:
  assumes "fqdn_doc fqdn" "zone_ok zone" "length (RecipientHash c) \<in> {0, 32}" "TotalChunks c \<noteq> 0"
    and "relay_exchange ops fqdn zone remote nt (chunk_query fqdn c zone e) addr w = (r, w')" "resp_ok r"
  shows "GetChunk (MsgID c) (ChunkIdx c) (relay_store (snd w')) = Some c"
proof -
  from assms(5,6) obtain sc fs resp where "w = (Delivered sc # fs, snd w)" "r = Inr resp"
    "relay_handle ops fqdn zone sc remote (chunk_query fqdn c zone e) (snd w) = Some (resp, snd w')"
    by (auto simp: relay_exchange_def resp_ok_def split: prod.splits list.splits fate.splits option.splits)
  then have "relay_put ops (t_store sc) c (relay_store (snd w)) = Some (relay_store (snd w'))"
    using relay_handle_put [OF assms(1-4)] assms(6) by (simp add: resp_ok_def)
  then show ?thesis using GetChunk_relay_put by fastforce
qed

section \<open>Invariant\<close>

lemma relay_answer_ok:
  assumes "bolt_bucket ops" "relay_ok ops (s\<lparr>relay_store := st\<rparr>)"
  shows "\<exists>resp st'. relay_answer ops fqdn zone sc q ls st = Some (resp, st')
    \<and> relay_ok ops (s\<lparr>relay_store := st'\<rparr>)"
proof (cases "\<exists>c. ls ! 0 \<noteq> ''POLL'' \<and> DecodeChunkFromLabels (ls @ [zone]) zone = Inr c \<and> TotalChunks c \<noteq> 0")
  case True
  then obtain c where c: "ls ! 0 \<noteq> ''POLL''" "DecodeChunkFromLabels (ls @ [zone]) zone = Inr c"
    "TotalChunks c \<noteq> 0" by blast
  obtain st' where st': "relay_put ops (t_store sc) c st = Some st'" "store_ok ops st'"
    using relay_put_ok [OF assms(1), of st] assms(2) by (auto simp: relay_ok_def)
  have "length (RecipientHash d) \<in> {0, 32}" if "GetChunk m i st' = Some d" for m i d
    using that GetChunk_relay_put [OF st'(1), of m i] DecodeChunkFromLabels_hash [OF c(2)] assms(2)
    by (auto simp: relay_ok_def split: if_splits)
  then show ?thesis using c st' by (simp add: relay_answer_def relay_ok_def)
next
  case False
  then show ?thesis using assms(2)
    by (auto simp: relay_answer_def split: sum.splits option.splits)
qed

lemma relay_handle_ok:
  assumes "bolt_bucket ops" "relay_ok ops s"
  shows "\<exists>resp s'. relay_handle ops fqdn zone sc remote q s = Some (resp, s') \<and> relay_ok ops s'"
proof -
  obtain ok rl where allow: "IPRateLimiter_Allow (t_bucket sc) (t_check sc) (extractIP remote) (limiter s) = (ok, rl)"
    by fastforce
  have same: "relay_ok ops (s\<lparr>limiter := rl\<rparr>)" using assms(2) by (simp add: relay_ok_def)
  show ?thesis
  proof (cases "\<exists>qname qs ls. ok \<and> Question q = qname # qs
      \<and> query_labels fqdn (strings_TrimSuffix (fqdn zone) ''.'') qname = Some ls")
    case True
    then obtain qname qs ls where q: "ok" "Question q = qname # qs"
      "query_labels fqdn (strings_TrimSuffix (fqdn zone) ''.'') qname = Some ls" by blast
    have "relay_ok ops (s\<lparr>limiter := rl, relay_store := relay_store s\<rparr>)"
      using assms(2) by (simp add: relay_ok_def)
    from relay_answer_ok [OF assms(1) this] obtain resp st' where
      "relay_answer ops fqdn (strings_TrimSuffix (fqdn zone) ''.'') sc qname ls (relay_store s) = Some (resp, st')"
      "relay_ok ops (s\<lparr>limiter := rl, relay_store := st'\<rparr>)" by blast
    then show ?thesis using q allow by (simp add: relay_handle_def Let_def)
  next
    case False
    then show ?thesis using allow same
      by (auto simp: relay_handle_def Let_def split: list.split option.split)
  qed
qed

lemma relay_ok_gc:
  "relay_ok ops s \<Longrightarrow> relay_ok ops (s\<lparr>relay_store := ChunkStore_gc now ks (relay_store s)\<rparr>)"
  by (auto simp: relay_ok_def store_ok_gc GetChunk_def gc_messages split: option.splits if_splits)

lemma relay_run_ok:
  assumes "bolt_bucket ops"
  shows "relay_ok ops s \<Longrightarrow> \<exists>s'. relay_run ops fqdn zone es s = Some s' \<and> relay_ok ops s'"
proof (induction es arbitrary: s)
  case (Cons e es)
  show ?case
  proof (cases e)
    case (RQuery sc remote q)
    then show ?thesis
      using relay_handle_ok [OF assms Cons.prems, of fqdn zone sc remote q] Cons.IH by auto
  qed (use relay_ok_gc [OF Cons.prems] Cons.IH in simp)
qed simp

text \<open>A chunk that the limiter lets through is accepted.\<close>

lemma relay_accepts:
  assumes "bolt_bucket ops" "relay_ok ops s" "fqdn_doc fqdn" "zone_ok zone"
    and "length (RecipientHash c) \<in> {0, 32}" "TotalChunks c \<noteq> 0"
    and "fst (IPRateLimiter_Allow (t_bucket sc) (t_check sc) (extractIP remote) (limiter s))"
  obtains resp s' where "relay_handle ops fqdn zone sc remote (chunk_query fqdn c zone e) s = Some (resp, s')"
    "Rcode resp = RcodeSuccess" "relay_ok ops s'"
proof -
  obtain resp s' where h: "relay_handle ops fqdn zone sc remote (chunk_query fqdn c zone e) s = Some (resp, s')"
    "relay_ok ops s'"
    using relay_handle_ok [OF assms(1,2)] by metis
  obtain rl where "IPRateLimiter_Allow (t_bucket sc) (t_check sc) (extractIP remote) (limiter s) = (True, rl)"
    using assms(7) by (metis prod.collapse)
  then have "Rcode resp = RcodeSuccess"
    using h(1) query_labels_chunk [OF assms(3-5)] zone_clean [OF assms(3,4)]
      relay_answer_chunk [OF assms(5), of ops fqdn zone sc] assms(6)
    by (auto simp: relay_handle_def chunk_query_def Let_def reply_def split: option.splits)
  then show ?thesis using that h by blast
qed

section \<open>Media files\<close>

lemma media_ok_upload:
  "media_ok m \<Longrightarrow> (\<And>e b. w \<noteq> WriteFails e (Some b)) \<Longrightarrow> media_ok (snd (upload now w r m))"
  by (auto simp: media_ok_def upload_def Let_def split: sum.split if_splits write_result.splits option.splits)

lemma media_ok_cleanup: "media_cleanup now es m = Some m' \<Longrightarrow> media_ok m \<Longrightarrow> media_ok m'"
proof (induction now es m rule: media_cleanup.induct)
  case (3 now name mtime es m)
  have "media_ok (m\<lparr>media_files := fmdrop name (media_files m)\<rparr>)"
    using "3.prems"(2) by (simp add: media_ok_def)
  then show ?case using 3 by (simp split: if_splits)
qed simp_all

lemma hex_fileID: "hex_EncodeToString (sha256_Sum256 d) \<noteq> []"
proof -
  have "length (hex_EncodeToString (sha256_Sum256 d)) = 64"
    by (simp add: hex_EncodeToString_def length_digits_of)
  then show ?thesis by (metis list.size(3) zero_neq_numeral)
qed

section \<open>Properties\<close>

lemma SendChunk_last:
  assumes "SendChunk fqdn exch addr zone c mode w = (Inr (), w')"
  shows "\<exists>nt r w0. exch nt (chunk_query fqdn c zone (Some (4096, True))) addr w0 = (r, w') \<and> resp_ok r"
proof -
  have once: "\<exists>r. exch nt m addr w0 = (r, w') \<and> resp_ok r"
    if "map_prod (check_rcode err) (\<lambda>w. w) (exch nt m addr w0) = (Inr (), w')" for nt m w0 err
    using that is_ok_check_rcode [of err "fst (exch nt m addr w0)"]
    by (cases "exch nt m addr w0") auto
  show ?thesis
  proof (cases mode)
    case TransportAuto
    then show ?thesis using assms once
      by (auto simp: SendChunk_def Let_def split: prod.splits if_splits sum.splits) blast+
  qed (use assms once in \<open>fastforce simp: SendChunk_def Let_def\<close>)+
qed


text \<open>A relay and a schedule for the witnesses.\<close>

definition sched0 :: sched where
  "sched0 = \<lparr>t_bucket = 0, t_check = 0, t_store = 1000000, owner_order = []\<rparr>"

definition relay0 :: "(bytes, bytes) fmap relay" where
  "relay0 = \<lparr>relay_store = NewChunkStore 0 9, limiter = NewIPRateLimiter 5 5\<rparr>"

lemma relay0_ok: "relay_ok mem_bolt relay0"
  using store_ok_New [of mem_bolt 0 9] by (simp add: relay_ok_def relay0_def GetChunk_def NewChunkStore_def)

lemma relay0_allows: "fst (IPRateLimiter_Allow (t_bucket sched0) (t_check sched0) ip (limiter relay0))"
  by (simp add: relay0_def sched0_def NewIPRateLimiter_def IPRateLimiter_Allow_def TokenBucket_Allow_def
      TokenBucket_AllowN_def NewTokenBucket_def Let_def)

lemma zone_z: "zone_ok ''z''"
  by (simp add: zone_ok_def strings_HasSuffix_def)




text \<open>
  (C32) A media file is what its name says: after any upload to a consistent server whose write
  was not cut off midway, a
  successful download of an identifier returns data whose SHA-256 digest is that
  identifier; and the identifier that an accepted upload returns can be downloaded with
  the uploaded data.
\<close>

theorem media_content_addressed:
  assumes "media_ok m" "upload now w r m = (resp, m')" "\<And>e b. w \<noteq> WriteFails e (Some b)"
  shows "(\<forall>r'. \<forall>data. download r' m' = FileOK data \<longrightarrow>
      strings_TrimPrefix (URL_Path r') ''/download/'' = hex_EncodeToString (sha256_Sum256 data))
    \<and> (\<forall>r' j data. resp = JsonOK j \<longrightarrow> Body r = Inr data \<longrightarrow> X_Auth_Token r' = X_Auth_Token r \<longrightarrow>
      strings_TrimPrefix (URL_Path r') ''/download/'' = hex_EncodeToString (sha256_Sum256 data) \<longrightarrow>
      download r' m' = FileOK data)"
proof -
  have "media_ok m'" using media_ok_upload [OF assms(1,3), of now r] assms(2) by simp
  then have "strings_TrimPrefix (URL_Path r') ''/download/'' = hex_EncodeToString (sha256_Sum256 data)"
    if "download r' m' = FileOK data" for r' data
    using that by (auto simp: download_def Let_def media_ok_def split: if_splits option.splits)
  moreover have "download r' m' = FileOK data"
    if "resp = JsonOK j" "Body r = Inr data" "X_Auth_Token r' = X_Auth_Token r"
      "strings_TrimPrefix (URL_Path r') ''/download/'' = hex_EncodeToString (sha256_Sum256 data)" for r' j data
    using assms(2) that hex_fileID [of data]
    by (auto simp: upload_def download_def Let_def read_limited_def checkMediaAuth_def hex_decode_encode
        split: if_splits sum.splits write_result.splits)
  ultimately show ?thesis by blast
qed

theorem media_content_addressed_witness:
  "download \<lparr>Method = ''GET'', URL_Path = ''/download/'' @ hex_EncodeToString (sha256_Sum256 [1]),
      X_Auth_Token = ''t'', Body = Inr []\<rparr>
    (snd (upload 0 WriteOK \<lparr>Method = ''POST'', URL_Path = ''/upload'', X_Auth_Token = ''t'', Body = Inr [1]\<rparr>
      \<lparr>media_token = ''t'', media_files = fmempty\<rparr>)) = FileOK [1]"
proof -
  let ?m = "\<lparr>media_token = ''t'', media_files = fmempty\<rparr>"
  let ?r = "\<lparr>Method = ''POST'', URL_Path = ''/upload'', X_Auth_Token = ''t'', Body = Inr [1]\<rparr>"
  obtain j m' where u: "upload 0 WriteOK ?r ?m = (JsonOK j, m')"
    by (simp add: upload_def checkMediaAuth_def read_limited_def maxUploadSize_def Let_def)
  have ok: "media_ok ?m" by (simp add: media_ok_def)
  show ?thesis
    unfolding u snd_conv
    by (rule media_content_addressed [OF ok u, THEN conjunct2, rule_format])
      (simp_all only: http_request.select_convs strings_TrimPrefix_append write_result.distinct simp_thms)
qed

text \<open>
  (C37) A write that is cut off leaves a file that is not what its name says: the upload is
  refused, but a later download of the digest of the intended contents is answered with
  the part that was written.
\<close>

theorem torn_upload_served:
  assumes "Method r = ''POST''" "checkMediaAuth m r" "Body r = Inr data" "length data \<le> maxUploadSize"
    and "URL_Path r' = ''/download/'' @ hex_EncodeToString (sha256_Sum256 data)" "X_Auth_Token r' = X_Auth_Token r"
  shows "\<exists>m'. upload now (WriteFails e (Some part)) r m = (HttpError 500 ''write failed'', m')
    \<and> download r' m' = FileOK part"
proof -
  have "strings_TrimPrefix (URL_Path r') ''/download/'' = hex_EncodeToString (sha256_Sum256 data)"
    unfolding assms(5) by (rule strings_TrimPrefix_append)
  then show ?thesis
    using assms(1-4,6) hex_fileID [of data]
    by (auto simp: upload_def download_def Let_def read_limited_def checkMediaAuth_def hex_decode_encode split: if_splits)
qed

theorem torn_upload_served_witness:
  "\<exists>m'. upload 0 (WriteFails ''full'' (Some [])) \<lparr>Method = ''POST'', URL_Path = ''/upload'', X_Auth_Token = '''', Body = Inr [1]\<rparr>
      \<lparr>media_token = '''', media_files = fmempty\<rparr> = (HttpError 500 ''write failed'', m')
    \<and> download \<lparr>Method = ''GET'', URL_Path = ''/download/'' @ hex_EncodeToString (sha256_Sum256 [1]),
        X_Auth_Token = '''', Body = Inr []\<rparr> m' = FileOK []"
  by (rule torn_upload_served [where data = "[1]"])
    (simp_all only: http_request.select_convs checkMediaAuth_def media_server.select_convs if_True simp_thms
      list.size maxUploadSize_def, simp)



end
