(* ===== verification/Client_Engine.thy ===== *)
theory Client_Engine
  imports DNS_Wire Go_Net
begin

text \<open>
  \<^verbatim>\<open>internal/client/dns_engine.go\<close>: the client's DNS engine. It sends a message as chunks to
  all relays in parallel, polls the relays for the identifiers of pending messages, and
  fetches and reassembles them. The network is the exchange parameter of the DNS
  transport; the scheduling of the parallel sender is an explicit list of events.
\<close>

section \<open>State and settings\<close>

record DNSClientEngine =
  relays :: "string list"
  fallbackRelays :: "string list"
  zone :: string
  dnsResolver :: string
  fetched :: "msg_id set"
  debugLogPath :: string
  transportMode :: TransportMode
  chunkSize :: int

definition maxRetries :: nat where "maxRetries = 3"
definition defaultChunkSize :: int where "defaultChunkSize = 75"

definition NewDNSClientEngine :: "string list \<Rightarrow> string \<Rightarrow> DNSClientEngine" where
  "NewDNSClientEngine fallback z =
     \<lparr>relays = fallback, fallbackRelays = fallback, zone = z, dnsResolver = ''8.8.8.8:53'',
      fetched = {}, debugLogPath = '''', transportMode = TransportAuto,
      chunkSize = defaultChunkSize\<rparr>"

definition SetRelays :: "string list \<Rightarrow> DNSClientEngine \<Rightarrow> DNSClientEngine" where
  "SetRelays rs e = e\<lparr>relays := rs\<rparr>"

definition GetRelays :: "DNSClientEngine \<Rightarrow> string list" where
  "GetRelays e = relays e"

definition SetDNSResolver :: "string \<Rightarrow> DNSClientEngine \<Rightarrow> DNSClientEngine" where
  "SetDNSResolver r e = e\<lparr>dnsResolver := r\<rparr>"

definition SetTransportMode :: "TransportMode \<Rightarrow> DNSClientEngine \<Rightarrow> DNSClientEngine" where
  "SetTransportMode m e = e\<lparr>transportMode := m\<rparr>"

definition GetTransportMode :: "DNSClientEngine \<Rightarrow> TransportMode" where
  "GetTransportMode e = transportMode e"

definition SetChunkSize :: "int \<Rightarrow> DNSClientEngine \<Rightarrow> DNSClientEngine" where
  "SetChunkSize sz e =
     (let sz1 = (if sz < 32 then 32 else sz);
          sz2 = (if sz1 > 200 then 200 else sz1)
      in e\<lparr>chunkSize := sz2\<rparr>)"

definition GetChunkSize :: "DNSClientEngine \<Rightarrow> int" where
  "GetChunkSize e = chunkSize e"

definition SetDebugLogPath :: "string \<Rightarrow> DNSClientEngine \<Rightarrow> DNSClientEngine" where
  "SetDebugLogPath p e = e\<lparr>debugLogPath := p\<rparr>"

definition GetDNSResolver :: "DNSClientEngine \<Rightarrow> string" where
  "GetDNSResolver e = dnsResolver e"

definition GetZone :: "DNSClientEngine \<Rightarrow> string" where
  "GetZone e = zone e"

definition discoverActiveRelays :: "DNSClientEngine \<Rightarrow> string list" where
  "discoverActiveRelays e = (if fallbackRelays e \<noteq> [] then fallbackRelays e else GetRelays e)"

section \<open>Resolving a relay's address\<close>

datatype client_error =
    BadAddress addr_error
  | ResolveFailed string
  | NoARecord string
  | Resolve string client_error
  | PollFailed string
  | PollCode nat
  | FetchChunk nat dns_error
  | Reassembly enc_error
  | FetchPanic
  | Undelivered "nat list"
  | SendTimeout nat nat
  | AllRelaysFailed nat
  | CtxDone
  | NoRelays

fun first_A :: "rr list \<Rightarrow> string option" where
  "first_A [] = None"
| "first_A (ARec a # rs) = Some a"
| "first_A (_ # rs) = first_A rs"

definition resolveAddr ::
  "(string \<Rightarrow> string) \<Rightarrow> 'w exchange \<Rightarrow> string \<Rightarrow> DNSClientEngine \<Rightarrow> 'w \<Rightarrow> (client_error + string) \<times> 'w" where
  "resolveAddr fqdn exch addr e w =
     (case net_SplitHostPort addr of
        Inl err \<Rightarrow> (Inl (BadAddress err), w)
      | Inr (host, port) \<Rightarrow>
          if net_ParseIP host then (Inr addr, w)
          else
            (let resolver = (if dnsResolver e = '''' then ''8.8.8.8:53'' else dnsResolver e);
                 m = \<lparr>Question = [fqdn host], Qtype = TypeA, RecursionDesired = True, Edns0 = None\<rparr>
             in case exch UDP m resolver w of
                  (Inl err, w') \<Rightarrow> (Inl (ResolveFailed err), w')
                | (Inr resp, w') \<Rightarrow>
                    if Rcode resp \<noteq> RcodeSuccess \<or> Answer resp = [] then (Inl (NoARecord host), w')
                    else case first_A (Answer resp) of
                        Some a \<Rightarrow> (Inr (net_JoinHostPort a port), w')
                      | None \<Rightarrow> (Inl (NoARecord host), w')))"

section \<open>Polling\<close>

record PolledMessage =
  pm_MsgID :: msg_id
  Data :: bytes
  Timestamp :: uint64
  Sequence :: uint64

text \<open>An eight-byte field of an extended record; anything else leaves the zero value.\<close>

definition meta_field :: "string \<Rightarrow> uint64" where
  "meta_field part =
     (case base32hex_DecodeString part of
        Some bs \<Rightarrow> if length bs = 8 then be_word bs else 0
      | None \<Rightarrow> 0)"

definition parsePollRecord :: "string \<Rightarrow> PolledMessage option" where
  "parsePollRecord record =
     (let parts = strings_SplitN 3 (CHR '':'') record in
      case base32hex_DecodeString (parts ! 0) of
        None \<Rightarrow> None
      | Some idBytes \<Rightarrow>
          if length idBytes \<noteq> 8 then None
          else Some \<lparr>pm_MsgID = be_word idBytes, Data = [],
                     Timestamp = (if length parts = 3 then meta_field (parts ! 1) else 0),
                     Sequence = (if length parts = 3 then meta_field (parts ! 2) else 0)\<rparr>)"

definition txt_strings :: "dns_resp \<Rightarrow> string list" where
  "txt_strings resp = concat (map (\<lambda>r. case r of TXT _ _ ts \<Rightarrow> ts | _ \<Rightarrow> []) (Answer resp))"

definition parsePollResponseWithMeta :: "dns_resp \<Rightarrow> PolledMessage list" where
  "parsePollResponseWithMeta resp = List.map_filter parsePollRecord (txt_strings resp)"

definition parsePollResponse :: "dns_resp \<Rightarrow> msg_id list" where
  "parsePollResponse resp =
     List.map_filter
       (\<lambda>t. case base32hex_DecodeString t of
              Some bs \<Rightarrow> if length bs = 8 then Some (be_word bs) else None
            | None \<Rightarrow> None)
       (txt_strings resp)"

definition poll_query :: "(string \<Rightarrow> string) \<Rightarrow> string \<Rightarrow> string \<Rightarrow> dns_query" where
  "poll_query fqdn peerID z =
     \<lparr>Question = [fqdn (strings_Join [''POLL'', peerID, z] ''.'')], Qtype = TypeTXT,
      RecursionDesired = False, Edns0 = None\<rparr>"

definition poll_result :: "(string + dns_resp) \<Rightarrow> client_error + PolledMessage list" where
  "poll_result r =
     (case r of
        Inl err \<Rightarrow> Inl (PollFailed err)
      | Inr resp \<Rightarrow>
          if Rcode resp \<noteq> RcodeSuccess then Inl (PollCode (Rcode resp))
          else Inr (parsePollResponseWithMeta resp))"

definition pollRelayWithMeta ::
  "(string \<Rightarrow> string) \<Rightarrow> 'w exchange \<Rightarrow> string \<Rightarrow> string \<Rightarrow> DNSClientEngine \<Rightarrow> 'w
   \<Rightarrow> (client_error + PolledMessage list) \<times> 'w" where
  "pollRelayWithMeta fqdn exch addr peerID e w =
     (case resolveAddr fqdn exch addr e w of
        (Inl err, w0) \<Rightarrow> (Inl (Resolve addr err), w0)
      | (Inr resolved, w0) \<Rightarrow>
          (let m = poll_query fqdn peerID (zone e) in
           case GetTransportMode e of
             TransportTCP \<Rightarrow> map_prod poll_result (\<lambda>w. w) (exch TCP m resolved w0)
           | TransportUDP \<Rightarrow> map_prod poll_result (\<lambda>w. w) (exch UDP m resolved w0)
           | TransportAuto \<Rightarrow>
               (let (r1, w1) = exch TCP m resolved w0 in
                if resp_ok r1 then (poll_result r1, w1)
                else let (r2, w2) = exch UDP m resolved w1 in
                  if resp_ok r2 then (poll_result r2, w2)
                  else map_prod poll_result (\<lambda>w. w) (exch TCP m resolved w2))))"

text \<open>Messages are taken in the order of the relays, each identifier once.\<close>

fun add_unseen :: "PolledMessage list \<Rightarrow> PolledMessage list \<Rightarrow> PolledMessage list" where
  "add_unseen all [] = all"
| "add_unseen all (m # ms) =
     (if pm_MsgID m \<in> pm_MsgID ` set all then add_unseen all ms else add_unseen (all @ [m]) ms)"

fun poll_all ::
  "(string \<Rightarrow> string) \<Rightarrow> 'w exchange \<Rightarrow> string \<Rightarrow> DNSClientEngine \<Rightarrow> string list \<Rightarrow> PolledMessage list \<Rightarrow> 'w
   \<Rightarrow> PolledMessage list \<times> 'w" where
  "poll_all fqdn exch peerID e [] all w = (all, w)"
| "poll_all fqdn exch peerID e (relay # rs) all w =
     (case pollRelayWithMeta fqdn exch relay peerID e w of
        (Inl _, w') \<Rightarrow> poll_all fqdn exch peerID e rs all w'
      | (Inr ms, w') \<Rightarrow> poll_all fqdn exch peerID e rs (add_unseen all ms) w')"

definition peer_hash :: "string \<Rightarrow> string" where
  "peer_hash pubkey = base32hex_EncodeToString (sha256_Sum256 (bytes_of_string pubkey))"

definition PollRelays ::
  "(string \<Rightarrow> string) \<Rightarrow> 'w exchange \<Rightarrow> string \<Rightarrow> DNSClientEngine \<Rightarrow> 'w \<Rightarrow> PolledMessage list \<times> 'w" where
  "PollRelays fqdn exch recipientPubkey e w =
     (if recipientPubkey = '''' then ([], w)
      else if discoverActiveRelays e = [] then ([], w)
      else poll_all fqdn exch (peer_hash recipientPubkey) e (discoverActiveRelays e) [] w)"

section \<open>Fetching\<close>

fun fetch_rest ::
  "(string \<Rightarrow> string) \<Rightarrow> 'w exchange \<Rightarrow> string \<Rightarrow> string \<Rightarrow> msg_id \<Rightarrow> TransportMode \<Rightarrow> nat list \<Rightarrow> Chunk list \<Rightarrow> 'w
   \<Rightarrow> (client_error + Chunk list) \<times> 'w" where
  "fetch_rest fqdn exch addr z mid mode [] acc w = (Inr acc, w)"
| "fetch_rest fqdn exch addr z mid mode (i # is) acc w =
     (case QueryChunk fqdn exch addr z mid (word_of_nat i) mode w of
        (Inl err, w') \<Rightarrow> (Inl (FetchChunk i err), w')
      | (Inr c, w') \<Rightarrow> fetch_rest fqdn exch addr z mid mode is (acc @ [c]) w')"

text \<open>
  A first chunk that announces no chunks makes the store into the empty slice
  \<^verbatim>\<open>allChunks[0]\<close> panic.
\<close>

definition fetchAndReassemble ::
  "(string \<Rightarrow> string) \<Rightarrow> 'w exchange \<Rightarrow> string \<Rightarrow> string \<Rightarrow> msg_id \<Rightarrow> TransportMode \<Rightarrow> 'w
   \<Rightarrow> (client_error + bytes) \<times> 'w" where
  "fetchAndReassemble fqdn exch addr z mid mode w =
     (case QueryChunk fqdn exch addr z mid 0 mode w of
        (Inl err, w') \<Rightarrow> (Inl (FetchChunk 0 err), w')
      | (Inr first, w') \<Rightarrow>
          if TotalChunks first = 0 then (Inl FetchPanic, w')
          else
            (case fetch_rest fqdn exch addr z mid mode [1..<unat (TotalChunks first)] [first] w' of
               (Inl err, w'') \<Rightarrow> (Inl err, w'')
             | (Inr cs, w'') \<Rightarrow>
                 (case ReassembleMessage cs of
                    Inl err \<Rightarrow> (Inl (Reassembly err), w'')
                  | Inr data \<Rightarrow> (Inr data, w''))))"

text \<open>The first relay that delivers the whole message; a panic ends the call.\<close>

fun fetch_from ::
  "(string \<Rightarrow> string) \<Rightarrow> 'w exchange \<Rightarrow> string \<Rightarrow> msg_id \<Rightarrow> TransportMode \<Rightarrow> string list
   \<Rightarrow> client_error + bytes \<Rightarrow> 'w \<Rightarrow> (client_error + bytes) \<times> 'w" where
  "fetch_from fqdn exch z mid mode [] res w = (res, w)"
| "fetch_from fqdn exch z mid mode (relay # rs) res w =
     (case fetchAndReassemble fqdn exch relay z mid mode w of
        (Inr data, w') \<Rightarrow> (Inr data, w')
      | (Inl FetchPanic, w') \<Rightarrow> (Inl FetchPanic, w')
      | (Inl err, w') \<Rightarrow> fetch_from fqdn exch z mid mode rs (Inl err) w')"

fun fetch_all ::
  "(string \<Rightarrow> string) \<Rightarrow> 'w exchange \<Rightarrow> string list \<Rightarrow> PolledMessage list \<Rightarrow> DNSClientEngine \<Rightarrow> 'w
   \<Rightarrow> (client_error + PolledMessage list) \<times> DNSClientEngine \<times> 'w" where
  "fetch_all fqdn exch rs [] e w = (Inr [], e, w)"
| "fetch_all fqdn exch rs (pm # pms) e w =
     (if pm_MsgID pm \<in> fetched e then fetch_all fqdn exch rs pms e w
      else
        (case fetch_from fqdn exch (zone e) (pm_MsgID pm) (GetTransportMode e) rs (Inr []) w of
           (Inl FetchPanic, w') \<Rightarrow> (Inl FetchPanic, e, w')
         | (Inl err, w') \<Rightarrow> fetch_all fqdn exch rs pms e w'
         | (Inr data, w') \<Rightarrow>
             (case fetch_all fqdn exch rs pms (e\<lparr>fetched := insert (pm_MsgID pm) (fetched e)\<rparr>) w' of
                (Inl err, e', w'') \<Rightarrow> (Inl err, e', w'')
              | (Inr ms, e', w'') \<Rightarrow> (Inr (pm\<lparr>Data := data\<rparr> # ms), e', w''))))"

definition PollMessages ::
  "(string \<Rightarrow> string) \<Rightarrow> 'w exchange \<Rightarrow> string \<Rightarrow> DNSClientEngine \<Rightarrow> 'w
   \<Rightarrow> (client_error + PolledMessage list) \<times> DNSClientEngine \<times> 'w" where
  "PollMessages fqdn exch recipientPubkey e w =
     (let (polledMeta, w') = PollRelays fqdn exch recipientPubkey e w in
      if polledMeta = [] then (Inr [], e, w')
      else if discoverActiveRelays e = [] then (Inl NoRelays, e, w')
      else fetch_all fqdn exch (discoverActiveRelays e) polledMeta e w')"

section \<open>Sending\<close>

text \<open>
  \<^verbatim>\<open>sendParallel\<close> starts one goroutine per chunk and relay and watches them. A schedule is
  the list of what happens: a task runs its \<^verbatim>\<open>SendChunk\<close>, a task gives up because the
  context is cancelled, the deadline of the parent context passes, and the main
  goroutine's \<^verbatim>\<open>select\<close> takes one of its three cases. The semaphore only bounds how many
  tasks are in flight; a task acquires and releases it within its own event.
\<close>

datatype par_phase =
    Monitoring
  | DrainTimeout
  | DrainOK
  | Returned "client_error + unit"

record par_state =
  par_pending :: "(nat \<times> nat) list"
  chunkDelivered :: "bool list"
  par_cancelled :: bool
  par_phase :: par_phase

datatype par_event =
    TaskRun nat nat
  | TaskQuit nat nat
  | Deadline
  | SelDone
  | SelCancelled
  | SelTick

definition undelivered :: "bool list \<Rightarrow> nat list" where
  "undelivered ds = filter (\<lambda>i. \<not> ds ! i) [0..<length ds]"

definition par_init :: "Chunk list \<Rightarrow> string list \<Rightarrow> par_state" where
  "par_init chunks rls =
     \<lparr>par_pending = List.product [0..<length chunks] [0..<length rls],
      chunkDelivered = replicate (length chunks) False, par_cancelled = False,
      par_phase = Monitoring\<rparr>"

definition par_done :: "par_state \<Rightarrow> par_phase" where
  "par_done st =
     (let u = undelivered (chunkDelivered st); n = length (chunkDelivered st) in
      case par_phase st of
        Monitoring \<Rightarrow> Returned (if u \<noteq> [] then Inl (Undelivered u) else Inr ())
      | DrainTimeout \<Rightarrow> Returned (Inl (SendTimeout (n - length u) n))
      | DrainOK \<Rightarrow> Returned (Inr ())
      | Returned r \<Rightarrow> Returned r)"

definition par_step ::
  "(string \<Rightarrow> string) \<Rightarrow> 'w exchange \<Rightarrow> string \<Rightarrow> TransportMode \<Rightarrow> Chunk list \<Rightarrow> string list
   \<Rightarrow> par_event \<Rightarrow> par_state \<times> 'w \<Rightarrow> (par_state \<times> 'w) option" where
  "par_step fqdn exch z mode chunks rls ev s =
     (let (st, w) = s in
      if \<exists>r. par_phase st = Returned r then None
      else case ev of
          TaskRun i j \<Rightarrow>
            if (i, j) \<in> set (par_pending st) then
              (let (r, w') = SendChunk fqdn exch (rls ! j) z (chunks ! i) mode w;
                   st' = st\<lparr>par_pending := remove1 (i, j) (par_pending st)\<rparr>
               in Some (if is_ok r then st'\<lparr>chunkDelivered := (chunkDelivered st)[i := True]\<rparr> else st', w'))
            else None
        | TaskQuit i j \<Rightarrow>
            if (i, j) \<in> set (par_pending st) \<and> par_cancelled st
            then Some (st\<lparr>par_pending := remove1 (i, j) (par_pending st)\<rparr>, w)
            else None
        | Deadline \<Rightarrow> Some (st\<lparr>par_cancelled := True\<rparr>, w)
        | SelDone \<Rightarrow>
            if par_pending st = [] then Some (st\<lparr>par_phase := par_done st\<rparr>, w) else None
        | SelCancelled \<Rightarrow>
            if par_phase st = Monitoring \<and> par_cancelled st
            then Some (st\<lparr>par_phase := DrainTimeout\<rparr>, w) else None
        | SelTick \<Rightarrow>
            if par_phase st \<noteq> Monitoring then None
            else if undelivered (chunkDelivered st) = []
            then Some (st\<lparr>par_cancelled := True, par_phase := DrainOK\<rparr>, w)
            else Some (st, w))"

fun par_run ::
  "(string \<Rightarrow> string) \<Rightarrow> 'w exchange \<Rightarrow> string \<Rightarrow> TransportMode \<Rightarrow> Chunk list \<Rightarrow> string list
   \<Rightarrow> par_event list \<Rightarrow> par_state \<times> 'w \<Rightarrow> (par_state \<times> 'w) option" where
  "par_run fqdn exch z mode chunks rls [] s = Some s"
| "par_run fqdn exch z mode chunks rls (ev # evs) s =
     (case par_step fqdn exch z mode chunks rls ev s of
        None \<Rightarrow> None
      | Some s' \<Rightarrow> par_run fqdn exch z mode chunks rls evs s')"

text \<open>The result for a schedule; \<open>None\<close> when the schedule is not a complete run of the call.\<close>

definition sendParallel ::
  "(string \<Rightarrow> string) \<Rightarrow> 'w exchange \<Rightarrow> DNSClientEngine \<Rightarrow> Chunk list \<Rightarrow> string list \<Rightarrow> par_event list \<Rightarrow> 'w
   \<Rightarrow> ((client_error + unit) \<times> 'w) option" where
  "sendParallel fqdn exch e chunks rls evs w =
     (if chunks = [] \<or> rls = [] then Some (Inr (), w)
      else case par_run fqdn exch (zone e) (GetTransportMode e) chunks rls evs (par_init chunks rls, w) of
          None \<Rightarrow> None
        | Some (st, w') \<Rightarrow> (case par_phase st of Returned r \<Rightarrow> Some (r, w') | _ \<Rightarrow> None))"

text \<open>
  One round over the relays, and the retry loop. The flags say what the checks of
  \<^verbatim>\<open>ctx.Done()\<close> see, in order; the sleeps between the rounds have no other effect.
\<close>

fun try_relays ::
  "(string \<Rightarrow> string) \<Rightarrow> 'w exchange \<Rightarrow> DNSClientEngine \<Rightarrow> Chunk \<Rightarrow> string list \<Rightarrow> bool list \<Rightarrow> 'w
   \<Rightarrow> (client_error + bool) \<times> bool list \<times> 'w" where
  "try_relays fqdn exch e c [] dones w = (Inr False, dones, w)"
| "try_relays fqdn exch e c (relay # rs) dones w =
     (if dones \<noteq> [] \<and> hd dones then (Inl CtxDone, tl dones, w)
      else case SendChunk fqdn exch relay (zone e) c (GetTransportMode e) w of
          (Inr _, w') \<Rightarrow> (Inr True, tl dones, w')
        | (Inl _, w') \<Rightarrow> try_relays fqdn exch e c rs (tl dones) w')"

fun retry_rounds ::
  "nat \<Rightarrow> (string \<Rightarrow> string) \<Rightarrow> 'w exchange \<Rightarrow> DNSClientEngine \<Rightarrow> Chunk \<Rightarrow> bool list \<Rightarrow> 'w
   \<Rightarrow> (client_error + unit) \<times> bool list \<times> 'w" where
  "retry_rounds 0 fqdn exch e c dones w = (Inl (AllRelaysFailed maxRetries), dones, w)"
| "retry_rounds (Suc n) fqdn exch e c dones w =
     (case try_relays fqdn exch e c (GetRelays e) dones w of
        (Inl err, dones', w') \<Rightarrow> (Inl err, dones', w')
      | (Inr True, dones', w') \<Rightarrow> (Inr (), dones', w')
      | (Inr False, dones', w') \<Rightarrow> retry_rounds n fqdn exch e c dones' w')"

definition sendWithRetry ::
  "(string \<Rightarrow> string) \<Rightarrow> 'w exchange \<Rightarrow> DNSClientEngine \<Rightarrow> Chunk \<Rightarrow> bool list \<Rightarrow> 'w
   \<Rightarrow> (client_error + unit) \<times> bool list \<times> 'w" where
  "sendWithRetry fqdn exch e c dones w = retry_rounds maxRetries fqdn exch e c dones w"

fun send_sequential ::
  "(string \<Rightarrow> string) \<Rightarrow> 'w exchange \<Rightarrow> DNSClientEngine \<Rightarrow> Chunk list \<Rightarrow> bool list \<Rightarrow> 'w
   \<Rightarrow> (client_error + unit) \<times> 'w" where
  "send_sequential fqdn exch e [] dones w = (Inr (), w)"
| "send_sequential fqdn exch e (c # cs) dones w =
     (case sendWithRetry fqdn exch e c dones w of
        (Inl err, dones', w') \<Rightarrow> (Inl err, w')
      | (Inr _, dones', w') \<Rightarrow> send_sequential fqdn exch e cs dones' w')"

text \<open>\<open>mid\<close> is the identifier that \<^verbatim>\<open>rand.Read\<close> filled in.\<close>

definition SendMessage ::
  "(string \<Rightarrow> string) \<Rightarrow> 'w exchange \<Rightarrow> msg_id \<Rightarrow> par_event list \<Rightarrow> bool list \<Rightarrow> bytes \<Rightarrow> string \<Rightarrow> DNSClientEngine \<Rightarrow> 'w
   \<Rightarrow> ((client_error + msg_id \<times> nat) \<times> 'w) option" where
  "SendMessage fqdn exch mid evs dones plaintext recipientPubkey e w =
     (let chunks = ChunkMessage mid plaintext (GetChunkSize e) recipientPubkey;
          rls = discoverActiveRelays e;
          res = (if rls \<noteq> [] then sendParallel fqdn exch e chunks rls evs w
                 else Some (send_sequential fqdn exch e chunks dones w))
      in map_option (map_prod (map_sum (\<lambda>err. err) (\<lambda>_. (mid, length chunks))) (\<lambda>w. w)) res)"

section \<open>What a successful send means\<close>

definition par_wf :: "Chunk list \<Rightarrow> string list \<Rightarrow> par_state \<Rightarrow> bool" where
  "par_wf chunks rls st \<longleftrightarrow>
     length (chunkDelivered st) = length chunks
     \<and> set (par_pending st) \<subseteq> {..<length chunks} \<times> {..<length rls}
     \<and> (par_phase st \<in> {DrainOK, Returned (Inr ())} \<longrightarrow> undelivered (chunkDelivered st) = [])"

text \<open>Every chunk that counts as delivered is held by some relay.\<close>

definition delivered_ok ::
  "(string \<Rightarrow> Chunk \<Rightarrow> 'w \<Rightarrow> bool) \<Rightarrow> Chunk list \<Rightarrow> string list \<Rightarrow> par_state \<Rightarrow> 'w \<Rightarrow> bool" where
  "delivered_ok has chunks rls st w \<longleftrightarrow>
     (\<forall>i < length chunks. chunkDelivered st ! i \<longrightarrow> (\<exists>a \<in> set rls. has a (chunks ! i) w))"

lemma undelivered_nil: "undelivered ds = [] \<longleftrightarrow> (\<forall>i < length ds. ds ! i)"
  by (auto simp: undelivered_def filter_empty_conv)

lemma undelivered_update: "undelivered ds = [] \<Longrightarrow> undelivered (ds[i := True]) = []"
  unfolding undelivered_nil by (metis length_list_update nth_list_update_eq nth_list_update_neq)

lemma par_wf_init: "par_wf chunks rls (par_init chunks rls)"
  by (auto simp: par_wf_def par_init_def)

lemma par_wf_step:
  assumes "par_wf chunks rls st" "par_step fqdn exch z mode chunks rls ev (st, w) = Some (st', w')"
  shows "par_wf chunks rls st'"
proof -
  have sub: "set (remove1 x (par_pending st)) \<subseteq> {..<length chunks} \<times> {..<length rls}" for x
    using assms(1) set_remove1_subset [of x "par_pending st"] by (auto simp: par_wf_def)
  show ?thesis
  proof (cases ev)
    case (TaskRun i j)
    then show ?thesis using assms sub [of "(i, j)"]
      by (auto simp: par_step_def par_wf_def Let_def undelivered_update split: if_splits prod.splits)
  next
    case (TaskQuit i j)
    then show ?thesis using assms sub [of "(i, j)"]
      by (auto simp: par_step_def par_wf_def Let_def split: if_splits)
  next
    case SelDone
    then show ?thesis using assms
      by (auto simp: par_step_def par_wf_def par_done_def Let_def split: if_splits par_phase.splits)
  qed (use assms in \<open>auto simp: par_step_def par_wf_def Let_def split: if_splits\<close>)
qed

lemma par_wf_run:
  "par_run fqdn exch z mode chunks rls evs (st, w) = Some (st', w') \<Longrightarrow> par_wf chunks rls st \<Longrightarrow> par_wf chunks rls st'"
  by (induction evs arbitrary: st w) (auto dest: par_wf_step split: option.splits)

text \<open>
  What the parallel sender needs from the transport: an accepted chunk is held by that relay,
  and sending a chunk does not make a relay lose one with another index.
\<close>

locale chunk_transport =
  fixes fqdn :: "string \<Rightarrow> string" and exch :: "'w exchange" and z :: string
    and has :: "string \<Rightarrow> Chunk \<Rightarrow> 'w \<Rightarrow> bool" and valid :: "Chunk \<Rightarrow> bool"
  assumes send_ack: "valid c \<Longrightarrow> SendChunk fqdn exch a z c mode w = (Inr (), w') \<Longrightarrow> has a c w'"
    and send_keep: "valid c \<Longrightarrow> SendChunk fqdn exch a z c mode w = (r, w') \<Longrightarrow> has b d w \<Longrightarrow>
      ChunkIdx c \<noteq> ChunkIdx d \<or> c = d \<Longrightarrow> has b d w'"
begin

lemma delivered_step:
  assumes "par_wf chunks rls st" "par_step fqdn exch z mode chunks rls ev (st, w) = Some (st', w')"
    and "delivered_ok has chunks rls st w" "distinct (map ChunkIdx chunks)" "\<forall>c \<in> set chunks. valid c"
  shows "delivered_ok has chunks rls st' w'"
proof (cases "\<exists>i j. ev = TaskRun i j")
  case True
  then obtain i j where ev: "ev = TaskRun i j" by blast
  obtain r where snd: "SendChunk fqdn exch (rls ! j) z (chunks ! i) mode w = (r, w')"
    and ij: "i < length chunks" "j < length rls"
    and st': "chunkDelivered st' = (if is_ok r then (chunkDelivered st)[i := True] else chunkDelivered st)"
    using assms(1,2) by (auto simp: ev par_step_def par_wf_def Let_def split: if_splits prod.splits)
  have v: "valid (chunks ! i)" using assms(5) ij(1) by simp
  have keep: "has a (chunks ! k) w'" if "has a (chunks ! k) w" "k < length chunks" for a k
  proof (rule send_keep [OF v snd that(1)])
    show "ChunkIdx (chunks ! i) \<noteq> ChunkIdx (chunks ! k) \<or> chunks ! i = chunks ! k"
      using assms(4) ij(1) that(2) by (metis distinct_conv_nth length_map nth_map)
  qed
  have "\<exists>a \<in> set rls. has a (chunks ! k) w'" if "k < length chunks" "chunkDelivered st' ! k" for k
  proof (cases "k = i \<and> is_ok r")
    case True
    then have "has (rls ! j) (chunks ! i) w'" using send_ack [OF v] snd by (cases r) auto
    then show ?thesis using True ij(2) by auto
  next
    case False
    then have "chunkDelivered st ! k" using that st' by (auto split: if_splits)
    then show ?thesis using assms(3) that(1) keep unfolding delivered_ok_def by blast
  qed
  then show ?thesis by (simp add: delivered_ok_def)
next
  case False
  then have "chunkDelivered st' = chunkDelivered st \<and> w' = w"
    using assms(2) by (cases ev) (auto simp: par_step_def Let_def split: if_splits)
  then show ?thesis using assms(3) by (simp add: delivered_ok_def)
qed

lemma delivered_run:
  "par_run fqdn exch z mode chunks rls evs (st, w) = Some (st', w') \<Longrightarrow> par_wf chunks rls st \<Longrightarrow>
   delivered_ok has chunks rls st w \<Longrightarrow> distinct (map ChunkIdx chunks) \<Longrightarrow> \<forall>c \<in> set chunks. valid c \<Longrightarrow>
   delivered_ok has chunks rls st' w'"
proof (induction evs arbitrary: st w)
  case (Cons ev evs)
  then obtain st1 w1 where st1: "par_step fqdn exch z mode chunks rls ev (st, w) = Some (st1, w1)"
    "par_run fqdn exch z mode chunks rls evs (st1, w1) = Some (st', w')"
    by (auto split: option.splits)
  show ?case
    by (rule Cons.IH [OF st1(2) par_wf_step [OF Cons.prems(2) st1(1)]
          delivered_step [OF Cons.prems(2) st1(1) Cons.prems(3-5)] Cons.prems(4,5)])
qed simp

lemma sendParallel_delivers:
  assumes "sendParallel fqdn exch e chunks rls evs w = Some (Inr (), w')" "zone e = z" "rls \<noteq> []"
    and "distinct (map ChunkIdx chunks)" "\<forall>c \<in> set chunks. valid c" "c \<in> set chunks"
  shows "\<exists>a \<in> set rls. has a c w'"
proof -
  have ne: "chunks \<noteq> []" using assms(6) by auto
  obtain st where run: "par_run fqdn exch z (GetTransportMode e) chunks rls evs (par_init chunks rls, w) = Some (st, w')"
    and ret: "par_phase st = Returned (Inr ())"
    using assms(1,2,3) ne by (auto simp: sendParallel_def split: option.splits par_phase.splits)
  have wf: "par_wf chunks rls st" using par_wf_run [OF run par_wf_init] .
  have "delivered_ok has chunks rls (par_init chunks rls) w"
    by (simp add: delivered_ok_def par_init_def)
  from delivered_run [OF run par_wf_init this assms(4,5)] have "delivered_ok has chunks rls st w'" .
  moreover have "chunkDelivered st ! i" if "i < length chunks" for i
    using wf ret that by (simp add: par_wf_def undelivered_nil)
  ultimately show ?thesis using assms(6) by (auto simp: delivered_ok_def in_set_conv_nth)
qed

end

section \<open>What a successful fetch means\<close>

text \<open>
  A relay that, while the fetch lasts, answers only with the chunks that it holds for the
  message.
\<close>

locale chunk_source =
  fixes fqdn :: "string \<Rightarrow> string" and exch :: "'w exchange" and a :: string and z :: string
    and mid :: msg_id and mode :: TransportMode
    and src :: "uint16 \<Rightarrow> Chunk option" and good :: "'w \<Rightarrow> bool"
  assumes query_src: "good w \<Longrightarrow> QueryChunk fqdn exch a z mid i mode w = (Inr c, w') \<Longrightarrow> src i = Some c"
    and query_good: "good w \<Longrightarrow> QueryChunk fqdn exch a z mid i mode w = (r, w') \<Longrightarrow> good w'"
begin

lemma fetch_rest_src:
  "good w \<Longrightarrow> fetch_rest fqdn exch a z mid mode is acc w = (Inr cs, w') \<Longrightarrow>
   \<exists>ds. cs = acc @ ds \<and> map (\<lambda>i. src (word_of_nat i)) is = map Some ds"
proof (induction "is" arbitrary: acc w)
  case (Cons i "is")
  then obtain c w1 where q: "QueryChunk fqdn exch a z mid (word_of_nat i) mode w = (Inr c, w1)"
    "fetch_rest fqdn exch a z mid mode is (acc @ [c]) w1 = (Inr cs, w')"
    by (auto split: prod.splits sum.splits)
  obtain ds where "cs = (acc @ [c]) @ ds" "map (\<lambda>i. src (word_of_nat i)) is = map Some ds"
    using Cons.IH [OF query_good [OF Cons.prems(1) q(1)] q(2)] by blast
  then show ?case using query_src [OF Cons.prems(1) q(1)] by (intro exI [of _ "c # ds"]) simp
qed simp

lemma fetch_src:
  assumes "good w" "fetchAndReassemble fqdn exch a z mid mode w = (Inr data, w')"
  obtains cs where "cs \<noteq> []" "length cs = unat (TotalChunks (hd cs))"
    "map (\<lambda>i. src (word_of_nat i)) [0..<length cs] = map Some cs" "ReassembleMessage cs = Inr data"
proof -
  from assms(2) obtain first w1 cs w2 where q: "QueryChunk fqdn exch a z mid 0 mode w = (Inr first, w1)"
    and t: "TotalChunks first \<noteq> 0"
    and rest: "fetch_rest fqdn exch a z mid mode [1..<unat (TotalChunks first)] [first] w1 = (Inr cs, w2)"
    and re: "ReassembleMessage cs = Inr data"
    by (auto simp: fetchAndReassemble_def split: prod.splits sum.splits if_splits)
  obtain ds where cs: "cs = [first] @ ds"
    and ds: "map (\<lambda>i. src (word_of_nat i)) [1..<unat (TotalChunks first)] = map Some ds"
    using fetch_rest_src [OF query_good [OF assms(1) q] rest] by blast
  have "unat (TotalChunks first) \<noteq> 0" using t by (simp add: unat_eq_0)
  moreover have "length ds = unat (TotalChunks first) - 1" using arg_cong [OF ds, of length] by simp
  ultimately have len: "length cs = unat (TotalChunks first)" by (simp add: cs)
  have "[0..<unat (TotalChunks first)] = 0 # [1..<unat (TotalChunks first)]"
    using \<open>unat (TotalChunks first) \<noteq> 0\<close> by (simp add: upt_conv_Cons)
  then have "map (\<lambda>i. src (word_of_nat i)) [0..<length cs] = map Some cs"
    unfolding len using query_src [OF assms(1) q] ds by (simp add: cs)
  moreover have "cs \<noteq> []" "hd cs = first" by (simp_all add: cs)
  ultimately show ?thesis using that [of cs] len re by metis
qed

text \<open>If the relay holds the chunks of a message, what is fetched is the message.\<close>

lemma fetch_message:
  assumes "good w" "fetchAndReassemble fqdn exch a z mid mode w = (Inr data, w')"
    and "p \<noteq> []" "length (ChunkMessage mid p n r) \<le> 65535"
    and "\<forall>c \<in> set (ChunkMessage mid p n r). src (ChunkIdx c) = Some c"
  shows "data = p"
proof -
  let ?ms = "ChunkMessage mid p n r"
  obtain cs where cs: "cs \<noteq> []" "length cs = unat (TotalChunks (hd cs))"
    "map (\<lambda>i. src (word_of_nat i)) [0..<length cs] = map Some cs" "ReassembleMessage cs = Inr data"
    using fetch_src [OF assms(1,2)] by blast
  have src: "src (word_of_nat i) = Some (?ms ! i)" if "i < length ?ms" for i
    using assms(5) that nth_ChunkMessage [OF that] by (metis Chunk.select_convs(2) nth_mem)
  have pos: "0 < length ?ms" using assms(3) by (simp add: ChunkMessage_empty_iff)
  have got: "src (word_of_nat i) = Some (cs ! i)" if "i < length cs" for i
    using arg_cong [OF cs(3), of "\<lambda>xs. xs ! i"] that by simp
  have "hd cs = ?ms ! 0"
    using got [of 0] src [OF pos] cs(1) by (simp add: hd_conv_nth)
  moreover have "unat (TotalChunks (?ms ! 0)) = length ?ms"
    unfolding nth_ChunkMessage [OF pos] using assms(4) by (simp add: unat_of_nat)
  ultimately have len: "length cs = length ?ms" using cs(2) by simp
  have "cs = ?ms"
  proof (rule nth_equalityI [OF len])
    fix i assume "i < length cs"
    then show "cs ! i = ?ms ! i" using got [of i] src [of i] len by simp
  qed
  then show ?thesis using ReassembleMessage_ChunkMessage [OF assms(3,4)] cs(4) by simp
qed

end

section \<open>Properties\<close>

lemma par_run_append:
  "par_run fqdn exch z mode chunks rls (es @ fs) s =
     (case par_run fqdn exch z mode chunks rls es s of
        None \<Rightarrow> None | Some s' \<Rightarrow> par_run fqdn exch z mode chunks rls fs s')"
  by (induction es arbitrary: s) (auto split: option.split)

text \<open>Running the tasks that are left empties the queue and keeps the phase.\<close>

lemma par_run_drain:
  "\<nexists>r. par_phase st = Returned r \<Longrightarrow>
   \<exists>st' w'. par_run fqdn exch z mode chunks rls (map (\<lambda>(i, j). TaskRun i j) (par_pending st)) (st, w)
       = Some (st', w') \<and> par_pending st' = [] \<and> par_phase st' = par_phase st"
proof (induction "par_pending st" arbitrary: st w)
  case (Cons ij ps)
  obtain i j where ij: "ij = (i, j)" by fastforce
  obtain r w1 where r: "SendChunk fqdn exch (rls ! j) z (chunks ! i) mode w = (r, w1)" by fastforce
  let ?st = "st\<lparr>par_pending := ps,
      chunkDelivered := (if is_ok r then (chunkDelivered st)[i := True] else chunkDelivered st)\<rparr>"
  have p: "par_pending st = (i, j) # ps" using Cons.hyps(2) ij by simp
  then have "par_step fqdn exch z mode chunks rls (TaskRun i j) (st, w) = Some (?st, w1)"
    using Cons.prems r by (simp add: par_step_def Let_def)
  moreover have "\<exists>st' w'. par_run fqdn exch z mode chunks rls (map (\<lambda>(i, j). TaskRun i j) ps) (?st, w1)
      = Some (st', w') \<and> par_pending st' = [] \<and> par_phase st' = par_phase st"
    using Cons.hyps(1) [of ?st w1] Cons.prems by simp
  ultimately show ?case by (simp add: p)
qed simp





lemma retry_without_relays:
  "GetRelays e = [] \<Longrightarrow> retry_rounds n fqdn exch e c dones w = (Inl (AllRelaysFailed maxRetries), dones, w)"
  by (induction n) simp_all

text \<open>
  The path with retries never sends anything: it is taken only when there is no relay at
  all, and then it fails for every message with a chunk, without an exchange.
\<close>

theorem retry_path_never_sends:
  assumes "discoverActiveRelays e = []" "p \<noteq> []"
  shows "SendMessage fqdn exch mid evs dones p r e w = Some (Inl (AllRelaysFailed maxRetries), w)"
proof -
  have none: "GetRelays e = []" using assms(1) by (auto simp: discoverActiveRelays_def split: if_splits)
  obtain c cs where "ChunkMessage mid p (GetChunkSize e) r = c # cs"
    using assms(2) ChunkMessage_empty_iff [of mid p "GetChunkSize e" r] by (cases "ChunkMessage mid p (GetChunkSize e) r") auto
  then show ?thesis
    using assms(1)
    by (simp add: SendMessage_def Let_def sendWithRetry_def retry_without_relays [OF none])
qed

theorem retry_path_never_sends_witness:
  "SendMessage plain_fqdn (\<lambda>nt q a w. (Inl ''down'', Suc w)) 1 [] [] [7] '''' (NewDNSClientEngine [] ''z'') 0
    = Some (Inl (AllRelaysFailed maxRetries), 0)"
  by (rule retry_path_never_sends)
    (simp_all add: discoverActiveRelays_def GetRelays_def NewDNSClientEngine_def)

text \<open>
  The cap on the chunk size does not keep names legal: with the largest size that
  \<^verbatim>\<open>SetChunkSize\<close> accepts, the first chunk of a message of 200 bytes to a recipient has a
  name of more than 253 characters, in every zone.
\<close>

theorem capped_chunk_name_too_long:
  assumes "200 \<le> length p" "r \<noteq> ''''" "200 \<le> sz"
  shows "253 < length (strings_Join (EncodeToLabels
    (hd (ChunkMessage mid p (GetChunkSize (SetChunkSize sz e)) r)) z) ''.'')"
proof -
  let ?n = "GetChunkSize (SetChunkSize sz e)"
  let ?cs = "ChunkMessage mid p ?n r"
  have n: "chunk_size ?n = 200"
    using assms(3) by (auto simp: chunk_size_def GetChunkSize_def SetChunkSize_def)
  have "p \<noteq> []" using assms(1) by auto
  then have pos: "0 < length ?cs" by (simp add: ChunkMessage_empty_iff)
  have "groups 200 p ! 0 = take 200 p" using \<open>p \<noteq> []\<close> by (simp add: groups_step)
  then have "length (Payload (hd ?cs)) = 200" "length (RecipientHash (hd ?cs)) = 32"
    using nth_ChunkMessage [OF pos] assms(1,2) pos n by (simp_all add: hd_conv_nth)
  then have "RecipientHash (hd ?cs) \<noteq> []" by auto
  with \<open>length (Payload (hd ?cs)) = 200\<close> \<open>length (RecipientHash (hd ?cs)) = 32\<close> show ?thesis
    by (simp add: length_chunk_name)
qed

theorem capped_chunk_name_too_long_witness:
  "253 < length (strings_Join (EncodeToLabels
    (hd (ChunkMessage 1 (replicate 200 0) (GetChunkSize (SetChunkSize 200 (NewDNSClientEngine [] ''z''))) ''k'')) ''z'') ''.'')"
  by (rule capped_chunk_name_too_long) simp_all

end
