(* ===== verification/Media_Transport.thy ===== *)
theory Media_Transport
  imports Crypto_Layer Go_JSON Relay_Server Client_Engine
begin

text \<open>
  \<^verbatim>\<open>internal/media\<close>: the encryption of files, the metadata message (\<^verbatim>\<open>types.go\<close>) and the two
  transports of \<^verbatim>\<open>dns_transport.go\<close>. The HTTP client is a parameter; \<open>relay_http\<close> connects it
  to the media handlers of the relay, and the theory shows that a file that was uploaded
  is the file that the recipient decrypts. AES-GCM is modelled in full, so this
  rests on no assumption about the cryptography.
\<close>

section \<open>File encryption and metadata\<close>

datatype MediaType = MediaTypeText | MediaTypeVoice | MediaTypeImage | MediaTypeFile | MediaTypeVideo

definition media_type_number :: "MediaType \<Rightarrow> nat" where
  "media_type_number t =
     (case t of MediaTypeText \<Rightarrow> 0 | MediaTypeVoice \<Rightarrow> 1 | MediaTypeImage \<Rightarrow> 2 | MediaTypeFile \<Rightarrow> 3 | MediaTypeVideo \<Rightarrow> 4)"

record ThumbnailInfo =
  th_Mime :: string
  th_Size :: int
  th_Data :: bytes

record MediaMessage =
  MessageID :: string
  Timestamp :: int
  MediaType_of :: MediaType
  FileName :: string
  MimeType :: string
  FileSize :: int
  FileKeyB64 :: string
  Checksum :: string
  HasThumbnail :: bool
  Thumbnail :: "ThumbnailInfo option"
  FileID :: string

definition EncryptFile :: "entropy \<Rightarrow> bytes \<Rightarrow> bytes \<Rightarrow> crypto_error + bytes" where
  "EncryptFile rnd key plaintext =
     (if \<not> aes_key_ok key then Inl CipherFailed
      else case rand_Read gcm_NonceSize rnd of
             Inl e \<Rightarrow> Inl (RandFailed e)
           | Inr nonce \<Rightarrow> Inr (nonce @ gcm_Seal key nonce plaintext))"

definition DecryptFile :: "bytes \<Rightarrow> bytes \<Rightarrow> crypto_error + bytes" where
  "DecryptFile key ciphertext =
     (if \<not> aes_key_ok key then Inl CipherFailed
      else if length ciphertext < gcm_NonceSize then Inl CiphertextTooShort
      else case gcm_Open key (take gcm_NonceSize ciphertext) (drop gcm_NonceSize ciphertext) of
             None \<Rightarrow> Inl DecryptionFailed
           | Some p \<Rightarrow> Inr p)"

definition GenerateFileKey :: "entropy \<Rightarrow> crypto_error + bytes" where
  "GenerateFileKey rnd = map_sum RandFailed (\<lambda>k. k) (rand_Read 32 rnd)"

definition json_int :: "int \<Rightarrow> json" where
  "json_int i = JNum (if i < 0 then CHR ''-'' # nat_string (nat (- i)) else nat_string (nat i))"

definition omitempty :: "string \<Rightarrow> bool \<Rightarrow> json \<Rightarrow> (string \<times> json) list" where
  "omitempty k zero v = (if zero then [] else [(k, v)])"

definition thumbnail_json :: "ThumbnailInfo \<Rightarrow> json" where
  "thumbnail_json t =
     JObj ([(''mime'', JStr (th_Mime t)), (''size'', json_int (th_Size t))]
       @ omitempty ''data'' (th_Data t = []) (JStr (base64_EncodeToString (th_Data t))))"

definition MediaMessage_json :: "MediaMessage \<Rightarrow> json" where
  "MediaMessage_json m =
     JObj ([(''message_id'', JStr (MessageID m)), (''timestamp'', json_int (Timestamp m)),
            (''media_type'', JNum (nat_string (media_type_number (MediaType_of m))))]
       @ omitempty ''file_name'' (FileName m = []) (JStr (FileName m))
       @ omitempty ''mime_type'' (MimeType m = []) (JStr (MimeType m))
       @ omitempty ''file_size'' (FileSize m = 0) (json_int (FileSize m))
       @ omitempty ''file_key_b64'' (FileKeyB64 m = []) (JStr (FileKeyB64 m))
       @ omitempty ''checksum'' (Checksum m = []) (JStr (Checksum m))
       @ omitempty ''has_thumbnail'' (\<not> HasThumbnail m) (JBool True)
       @ (case Thumbnail m of None \<Rightarrow> [] | Some t \<Rightarrow> [(''thumbnail'', thumbnail_json t)])
       @ omitempty ''file_id'' (FileID m = []) (JStr (FileID m)))"

definition MediaMessage_Marshal :: "MediaMessage \<Rightarrow> bytes" where
  "MediaMessage_Marshal m = bytes_of_string (json_Marshal (MediaMessage_json m))"

section \<open>Sending over DNS\<close>

definition MaxDNSChunkSize :: int where "MaxDNSChunkSize = 1000"
definition MediaDNSSizeThreshold :: nat where "MediaDNSSizeThreshold = 60 * 1024"
definition MediaMaxHardCap :: nat where "MediaMaxHardCap = 10 * 1024 * 1024"

datatype media_error =
    FileTooLarge nat
  | GenerateKey crypto_error
  | EncryptError crypto_error
  | SendChunkFailed client_error
  | CreateRequest string
  | UploadFailed string
  | UploadStatus string
  | DecodeResponse
  | DownloadFailed string
  | DownloadStatus string
  | FileNotFound

definition sha256Hash :: "bytes \<Rightarrow> bytes" where
  "sha256Hash data = sha256_Sum256 data"

text \<open>
  A sender is what implements \<^verbatim>\<open>DNSChunkSender\<close>; the adapter makes one of an engine for a fixed
  recipient. The schedule of the engine's run is its argument.
\<close>

type_synonym 'w chunk_sender = "bytes \<Rightarrow> 'w \<Rightarrow> (client_error + msg_id \<times> nat) \<times> 'w"

definition metadata :: "msg_id \<Rightarrow> int \<Rightarrow> MediaType \<Rightarrow> string \<Rightarrow> string \<Rightarrow> bytes \<Rightarrow> bytes \<Rightarrow> string \<Rightarrow> MediaMessage" where
  "metadata msgID now mediaType fileName mimeType fileData fileKey fileID = \<lparr>
     MessageID = hex_EncodeToString (be64 msgID),
     Timestamp = now,
     MediaType_of = mediaType,
     FileName = fileName,
     MimeType = mimeType,
     FileSize = int (length fileData),
     FileKeyB64 = base64_EncodeToString fileKey,
     Checksum = ''sha256:'' @ hex_EncodeToString (sha256Hash fileData),
     HasThumbnail = False,
     Thumbnail = None,
     FileID = fileID\<rparr>"

fun send_payloads :: "'w chunk_sender \<Rightarrow> Chunk list \<Rightarrow> 'w \<Rightarrow> (media_error + string list) \<times> 'w" where
  "send_payloads send [] w = (Inr [], w)"
| "send_payloads send (c # cs) w =
     (case send (Payload c) w of
        (Inl e, w') \<Rightarrow> (Inl (SendChunkFailed e), w')
      | (Inr (dnsMsgID, _), w') \<Rightarrow>
          map_prod (map_sum (\<lambda>e. e) (\<lambda>ids. base64_EncodeToString (be64 dnsMsgID) # ids)) (\<lambda>w. w) (send_payloads send cs w'))"

definition DNSTransport_SendChunks ::
  "entropy \<Rightarrow> entropy \<Rightarrow> int \<Rightarrow> 'w chunk_sender \<Rightarrow> msg_id \<Rightarrow> bytes \<Rightarrow> string \<Rightarrow> string \<Rightarrow> MediaType \<Rightarrow> 'w
    \<Rightarrow> (media_error + MediaMessage) \<times> 'w" where
  "DNSTransport_SendChunks rk rn now send msgID fileData fileName mimeType mediaType w =
     (if length fileData > MediaMaxHardCap then (Inl (FileTooLarge (length fileData)), w)
      else case GenerateFileKey rk of
        Inl e \<Rightarrow> (Inl (GenerateKey e), w)
      | Inr fileKey \<Rightarrow>
          (case EncryptFile rn fileKey fileData of
             Inl e \<Rightarrow> (Inl (EncryptError e), w)
           | Inr encrypted \<Rightarrow>
               (case send_payloads send (ChunkMessage msgID encrypted MaxDNSChunkSize '''') w of
                  (Inl e, w') \<Rightarrow> (Inl e, w')
                | (Inr chunkMsgIDs, w') \<Rightarrow>
                    (Inr (metadata msgID now mediaType fileName mimeType fileData fileKey ''''), w'))))"

section \<open>Sending over HTTP\<close>

record TCPTransport =
  relayAddr :: string
  tcp_authToken :: bytes

definition NewTCPTransport :: "string \<Rightarrow> bytes \<Rightarrow> TCPTransport" where
  "NewTCPTransport addr authToken =
     (let host = (case net_SplitHostPort addr of Inr (h, _) \<Rightarrow> h | Inl _ \<Rightarrow> addr)
      in \<lparr>relayAddr = host @ '':9877'', tcp_authToken = authToken\<rparr>)"

text \<open>
  The HTTP client: method, URL, token header and body give a failure to build the request, a
  failure to send it, or a reply.
\<close>

record http_reply =
  StatusCode :: nat
  Status_line :: string
  RespBody :: "string + bytes"

datatype http_failure = BadRequest string | DoFailed string

type_synonym 'w http_client = "string \<Rightarrow> string \<Rightarrow> string \<Rightarrow> bytes \<Rightarrow> 'w \<Rightarrow> (http_failure + http_reply) \<times> 'w"

definition token_header :: "TCPTransport \<Rightarrow> string" where
  "token_header t = string_of_bytes (tcp_authToken t)"

text \<open>\<^verbatim>\<open>json.NewDecoder(resp.Body).Decode(&uploadResp)\<close>: the first value of the body.\<close>

definition decode_upload_response :: "string + bytes \<Rightarrow> string option" where
  "decode_upload_response body =
     (case body of
        Inl _ \<Rightarrow> None
      | Inr b \<Rightarrow>
          (case json_value (Suc (2 * length b)) 10000 (string_of_bytes b) of
             Some (JObj ms, _) \<Rightarrow> field_string ''file_id'' ms ''''
           | Some (JNull, _) \<Rightarrow> Some ''''
           | _ \<Rightarrow> None))"

definition TCPTransport_SendChunks ::
  "'w http_client \<Rightarrow> entropy \<Rightarrow> entropy \<Rightarrow> int \<Rightarrow> TCPTransport \<Rightarrow> msg_id \<Rightarrow> bytes \<Rightarrow> string \<Rightarrow> string \<Rightarrow> MediaType \<Rightarrow> 'w
    \<Rightarrow> (media_error + MediaMessage) \<times> 'w" where
  "TCPTransport_SendChunks http rk rn now t msgID fileData fileName mimeType mediaType w =
     (if length fileData > MediaMaxHardCap then (Inl (FileTooLarge (length fileData)), w)
      else case GenerateFileKey rk of
        Inl e \<Rightarrow> (Inl (GenerateKey e), w)
      | Inr fileKey \<Rightarrow>
          (case EncryptFile rn fileKey fileData of
             Inl e \<Rightarrow> (Inl (EncryptError e), w)
           | Inr encrypted \<Rightarrow>
               (case http ''POST'' (''http://'' @ relayAddr t @ ''/upload'') (token_header t) encrypted w of
                  (Inl (BadRequest e), w') \<Rightarrow> (Inl (CreateRequest e), w')
                | (Inl (DoFailed e), w') \<Rightarrow> (Inl (UploadFailed e), w')
                | (Inr resp, w') \<Rightarrow>
                    if StatusCode resp \<noteq> 200 then (Inl (UploadStatus (Status_line resp)), w')
                    else (case decode_upload_response (RespBody resp) of
                            None \<Rightarrow> (Inl DecodeResponse, w')
                          | Some fileID \<Rightarrow>
                              (Inr (metadata msgID now mediaType fileName mimeType fileData fileKey fileID), w')))))"

definition DownloadFile :: "'w http_client \<Rightarrow> TCPTransport \<Rightarrow> string \<Rightarrow> 'w \<Rightarrow> (media_error + bytes) \<times> 'w" where
  "DownloadFile http t fileID w =
     (case http ''GET'' (''http://'' @ relayAddr t @ ''/download/'' @ fileID) (token_header t) [] w of
        (Inl (BadRequest e), w') \<Rightarrow> (Inl (CreateRequest e), w')
      | (Inl (DoFailed e), w') \<Rightarrow> (Inl (DownloadFailed e), w')
      | (Inr resp, w') \<Rightarrow>
          if StatusCode resp = 404 then (Inl FileNotFound, w')
          else if StatusCode resp \<noteq> 200 then (Inl (DownloadStatus (Status_line resp)), w')
          else (map_sum DownloadFailed (\<lambda>b. b) (RespBody resp), w'))"

section \<open>The client and the relay's media server together\<close>

definition http_reply_of :: "http_response \<Rightarrow> http_reply" where
  "http_reply_of r =
     (case r of
        HttpError n e \<Rightarrow> \<lparr>StatusCode = n, Status_line = e, RespBody = Inr (bytes_of_string e)\<rparr>
      | NotFound \<Rightarrow> \<lparr>StatusCode = 404, Status_line = ''404 Not Found'', RespBody = Inr (bytes_of_string ''404 page not found'')\<rparr>
      | JsonOK j \<Rightarrow> \<lparr>StatusCode = 200, Status_line = ''200 OK'', RespBody = Inr (bytes_of_string j)\<rparr>
      | FileOK d \<Rightarrow> \<lparr>StatusCode = 200, Status_line = ''200 OK'', RespBody = Inr d\<rparr>)"

text \<open>
  Requests to the media port of one host, each served at a given time with a given outcome of
  the write; requests elsewhere fail.
\<close>

definition relay_http :: "string \<Rightarrow> time \<Rightarrow> write_result \<Rightarrow> media_server http_client" where
  "relay_http host now wr method url token body m =
     (if strings_HasPrefix url (''http://'' @ host @ '':9877'') then
        (let path = strings_TrimPrefix url (''http://'' @ host @ '':9877'');
             req = \<lparr>Method = method, URL_Path = path, X_Auth_Token = token, Body = Inr body\<rparr> in
         if path = ''/upload'' then map_prod (\<lambda>r. Inr (http_reply_of r)) (\<lambda>m. m) (upload now wr req m)
         else if strings_HasPrefix path ''/download/'' then (Inr (http_reply_of (download req m)), m)
         else (Inr (http_reply_of NotFound), m))
      else (Inl (DoFailed ''no route''), m))"

section \<open>Lemmas\<close>

lemma GenerateFileKey_ok: "GenerateFileKey rnd = Inr k \<Longrightarrow> length k = 32 \<and> aes_key_ok k"
  using length_rand_Read [of 32 rnd] by (cases "rand_Read 32 rnd") (auto simp: GenerateFileKey_def aes_key_ok_def)

lemma DecryptFile_iff:
  "DecryptFile key d = Inr p \<longleftrightarrow> aes_key_ok key \<and> gcm_NonceSize \<le> length d
    \<and> d = take gcm_NonceSize d @ gcm_Seal key (take gcm_NonceSize d) p"
  using gcm.unbox_iff [of key gcm_NonceSize d p]
  by (auto simp: DecryptFile_def split: option.splits)

lemma DecryptFile_EncryptFile: "EncryptFile rnd key p = Inr d \<Longrightarrow> DecryptFile key d = Inr p"
  using length_rand_Read [of gcm_NonceSize rnd]
  by (auto simp: EncryptFile_def DecryptFile_iff split: if_splits sum.splits)

lemma length_EncryptFile: "EncryptFile rnd key p = Inr d \<Longrightarrow> length d = length p + 28"
  using length_rand_Read [of gcm_NonceSize rnd]
  by (auto simp: EncryptFile_def gcm_NonceSize_def split: if_splits sum.splits)

text \<open>Printable ASCII without the characters that JSON escapes is written as it is.\<close>

definition plain_char :: "char \<Rightarrow> bool" where
  "plain_char c \<longleftrightarrow> 32 \<le> code c \<and> code c < 128 \<and> c \<notin> {quote, backslash, CHR ''<'', CHR ''>'', CHR ''&''}"

lemma short_escape_plain: "plain_char c \<Longrightarrow> short_escape c = None"
  unfolding short_escape_def plain_char_def
  by (simp only: insert_iff de_Morgan_disj empty_iff if_False simp_thms option.distinct split: if_split)
     (intro conjI impI notI; simp)

lemma escape_ascii_plain: "plain_char c \<Longrightarrow> escape_ascii c = [c]"
  using short_escape_plain [of c] unfolding escape_ascii_def plain_char_def
  by (simp only: option.case insert_iff empty_iff simp_thms if_False not_less) simp

lemma json_escape_plain: "list_all plain_char s \<Longrightarrow> json_escape s = s"
proof (induction s)
  case (Cons c s)
  then have "code c < 128" by (simp add: plain_char_def)
  then show ?case using Cons escape_ascii_plain [of c] by (simp add: json_escape.simps(2))
qed simp

lemma utf8_valid_ascii: "list_all (\<lambda>c. code c < 128) s \<Longrightarrow> utf8_valid s"
  by (induction s) (auto simp: utf8_valid.simps [of "_ # _"] utf8_valid.simps [of "[]"] utf8_len_def)

lemma utf8_valid_plain: "list_all plain_char s \<Longrightarrow> utf8_valid s"
  by (rule utf8_valid_ascii) (auto simp: plain_char_def list_all_iff)

lemma plain_hex: "list_all plain_char (hex_EncodeToString bs)"
proof -
  have "\<forall>c \<in> set hex_alphabet. plain_char c" by (simp add: hex_alphabet_def plain_char_def)
  then show ?thesis using set_hex [of bs] by (auto simp: list_all_iff)
qed

lemma decode_upload_ok:
  "decode_upload_response (Inr (bytes_of_string (''{\"file_id\":\"'' @ hex_EncodeToString bs @ ''\"}''))) =
     Some (hex_EncodeToString bs)"
proof -
  let ?h = "hex_EncodeToString bs" and ?v = "JObj [(''file_id'', JStr (hex_EncodeToString bs))]"
  have t: "''{\"file_id\":\"'' @ ?h @ ''\"}'' = json_print (\<lambda>_. []) [] 0 ?v"
    using json_escape_plain [OF plain_hex, of bs] json_escape_plain [of "''file_id''"]
    by (simp add: json_quoted_def plain_char_def)
  have wf: "json_wf 10000 ?v"
    using utf8_valid_plain [OF plain_hex, of bs] utf8_valid_plain [of "''file_id''"] by (simp add: plain_char_def)
  have "json_value (Suc (2 * length (json_print (\<lambda>_. []) [] 0 ?v))) 10000 (json_print (\<lambda>_. []) [] 0 ?v) = Some (?v, [])"
    using json_read_print(1) [of "\<lambda>_. []" "[]" 10000 ?v _ "[]" "[]" 0] wf json_fuel_length(1) [OF wf, of "\<lambda>_. []" "[]" 0]
    by (simp add: follows_def del: json_value.simps json_print.simps)
  then show ?thesis
    unfolding decode_upload_response_def t
    by (simp add: key_matches_def upper_char_def del: json_value.simps json_print.simps)
qed

lemma HasPrefix_append [simp]: "strings_HasPrefix (p @ s) p"
  by (simp add: strings_HasPrefix_def)

lemma relay_http_upload:
  assumes "relayAddr t = host @ '':9877''"
  shows "relay_http host now wr method (''http://'' @ relayAddr t @ ''/upload'') tok body m =
    map_prod (\<lambda>r. Inr (http_reply_of r)) (\<lambda>m. m)
      (upload now wr \<lparr>Method = method, URL_Path = ''/upload'', X_Auth_Token = tok, Body = Inr body\<rparr> m)"
proof -
  have u: "''http://'' @ relayAddr t @ ''/upload'' = (''http://'' @ host @ '':9877'') @ ''/upload''" by (simp add: assms)
  show ?thesis unfolding relay_http_def u strings_TrimPrefix_append by (simp only: HasPrefix_append Let_def if_True simp_thms)
qed

lemma relay_http_download:
  assumes "relayAddr t = host @ '':9877''"
  shows "relay_http host now wr method (''http://'' @ relayAddr t @ ''/download/'' @ f) tok body m =
    (Inr (http_reply_of (download \<lparr>Method = method, URL_Path = ''/download/'' @ f, X_Auth_Token = tok, Body = Inr body\<rparr> m)), m)"
proof -
  have u: "''http://'' @ relayAddr t @ ''/download/'' @ f = (''http://'' @ host @ '':9877'') @ (''/download/'' @ f)" by (simp add: assms)
  have "''/download/'' @ f \<noteq> ''/upload''" by simp
  then show ?thesis
    unfolding relay_http_def u strings_TrimPrefix_append by (simp only: HasPrefix_append Let_def if_True if_False)
qed

lemma upload_accepted:
  assumes "media_token m = '''' \<or> media_token m = X_Auth_Token r" "Method r = ''POST''" "Body r = Inr d" "length d \<le> maxUploadSize"
  shows "upload now WriteOK r m =
    (JsonOK (''{\"file_id\":\"'' @ hex_EncodeToString (sha256_Sum256 d) @ ''\"}''),
     m\<lparr>media_files := fmupd (hex_EncodeToString (sha256_Sum256 d)) (d, now) (media_files m)\<rparr>)"
  using assms by (auto simp: upload_def checkMediaAuth_def read_limited_def Let_def)

lemma download_stored:
  assumes "media_token m = '''' \<or> media_token m = X_Auth_Token r"
    "URL_Path r = ''/download/'' @ hex_EncodeToString h" "h \<noteq> []"
    "fmlookup (media_files m) (hex_EncodeToString h) = Some (d, t)"
  shows "download r m = FileOK d"
proof -
  have "strings_TrimPrefix (URL_Path r) ''/download/'' = hex_EncodeToString h"
    unfolding assms(2) by (rule strings_TrimPrefix_append)
  moreover have "hex_EncodeToString h \<noteq> []" using assms(3) by (metis length_0_conv length_hex mult_is_0 zero_neq_numeral)
  ultimately show ?thesis
    using assms(1,4) by (auto simp: download_def Let_def checkMediaAuth_def hex_decode_encode)
qed

lemma GenerateFileKey_total: "\<exists>k. GenerateFileKey (Inr f) = Inr k"
  by (simp add: GenerateFileKey_def)

lemma EncryptFile_total: "aes_key_ok k \<Longrightarrow> \<exists>d. EncryptFile (Inr g) k p = Inr d"
  by (simp add: EncryptFile_def)

lemma tcp_send_accepted:
  assumes "relayAddr t = host @ '':9877''" "media_token m = '''' \<or> media_token m = token_header t"
    and "length data \<le> MediaMaxHardCap" "GenerateFileKey rk = Inr key" "EncryptFile rn key data = Inr enc"
  shows "TCPTransport_SendChunks (relay_http host now WriteOK) rk rn ts t mid data name mime ty m =
    (Inr (metadata mid ts ty name mime data key (hex_EncodeToString (sha256_Sum256 enc))),
     m\<lparr>media_files := fmupd (hex_EncodeToString (sha256_Sum256 enc)) (enc, now) (media_files m)\<rparr>)"
proof -
  have "length enc \<le> maxUploadSize"
    using length_EncryptFile [OF assms(5)] assms(3) by (simp add: MediaMaxHardCap_def maxUploadSize_def)
  then show ?thesis
    unfolding TCPTransport_SendChunks_def assms(4,5) sum.case relay_http_upload [OF assms(1)]
    using assms(2,3) by (simp add: upload_accepted http_reply_of_def decode_upload_ok [simplified] not_less)
qed

lemma tcp_download_stored:
  assumes "relayAddr t = host @ '':9877''" "media_token m = '''' \<or> media_token m = token_header t"
    and "fmlookup (media_files m) (hex_EncodeToString (sha256_Sum256 enc)) = Some (enc, t0)"
  shows "DownloadFile (relay_http host now wr) t (hex_EncodeToString (sha256_Sum256 enc)) m = (Inr enc, m)"
proof -
  have "download \<lparr>Method = ''GET'', URL_Path = ''/download/'' @ hex_EncodeToString (sha256_Sum256 enc),
      X_Auth_Token = token_header t, Body = Inr []\<rparr> m = FileOK enc"
  proof (rule download_stored)
    show "sha256_Sum256 enc \<noteq> []" by (metis length_sha256 list.size(3) zero_neq_numeral)
  qed (use assms in simp_all)
  then show ?thesis
    unfolding DownloadFile_def relay_http_download [OF assms(1)] by (simp add: http_reply_of_def)
qed

section \<open>Properties\<close>

text \<open>
  (C20) Media arrive intact: a file of at most 10 MB, sent to a relay that accepts the client's
  token, is always accepted, and with the metadata of the send any later download from the
  same relay, for as long as it keeps the file, returns data that decrypts under the key in
  the metadata to exactly the file that was sent.
\<close>

theorem tcp_media_roundtrip:
  assumes "relayAddr t = host @ '':9877''" "media_token m = '''' \<or> media_token m = token_header t"
    and "length file \<le> MediaMaxHardCap"
  shows "\<exists>meta m' key. TCPTransport_SendChunks (relay_http host now WriteOK) (Inr f) (Inr g) ts t mid file name mime ty m
        = (Inr meta, m')
    \<and> base64_DecodeString (FileKeyB64 meta) = Some key
    \<and> (\<forall>m2. fmlookup (media_files m2) (FileID meta) = fmlookup (media_files m') (FileID meta) \<longrightarrow>
        media_token m2 = media_token m \<longrightarrow>
        (\<exists>enc. DownloadFile (relay_http host now2 w2) t (FileID meta) m2 = (Inr enc, m2) \<and> DecryptFile key enc = Inr file))"
proof -
  obtain key where key: "GenerateFileKey (Inr f) = Inr key" using GenerateFileKey_total by blast
  obtain enc where enc: "EncryptFile (Inr g) key file = Inr enc"
    using EncryptFile_total GenerateFileKey_ok [OF key] by blast
  note send = tcp_send_accepted [OF assms key enc]
  have "DownloadFile (relay_http host now2 w2) t (hex_EncodeToString (sha256_Sum256 enc)) m2 = (Inr enc, m2)"
    if "fmlookup (media_files m2) (hex_EncodeToString (sha256_Sum256 enc)) = Some (enc, now)" "media_token m2 = media_token m" for m2
    using assms(1,2) that by (intro tcp_download_stored) simp_all
  with send DecryptFile_EncryptFile [OF enc] show ?thesis by (simp add: metadata_def b64.dec_enc)
qed

theorem tcp_media_roundtrip_witness:
  "\<exists>meta m' key enc. TCPTransport_SendChunks (relay_http ''9.9.9.9'' 0 WriteOK) (Inr (\<lambda>_. 1)) (Inr (\<lambda>_. 2)) 7
      (NewTCPTransport ''9.9.9.9:53'' []) 5 [1, 2, 3] ''a'' ''b'' MediaTypeFile \<lparr>media_token = '''', media_files = fmempty\<rparr> = (Inr meta, m')
    \<and> DownloadFile (relay_http ''9.9.9.9'' 9 WriteOK) (NewTCPTransport ''9.9.9.9:53'' []) (FileID meta) m' = (Inr enc, m')
    \<and> base64_DecodeString (FileKeyB64 meta) = Some key \<and> DecryptFile key enc = Inr [1, 2, 3]"
proof -
  let ?t = "NewTCPTransport ''9.9.9.9:53'' []" and ?m = "\<lparr>media_token = '''', media_files = fmempty\<rparr>"
  have a: "relayAddr ?t = ''9.9.9.9'' @ '':9877''"
    by (simp add: NewTCPTransport_def net_SplitHostPort_def last_index_def split_tail_def)
  have b: "media_token ?m = '''' \<or> media_token ?m = token_header ?t" by simp
  have c: "length [1, 2, 3 :: byte] \<le> MediaMaxHardCap" by (simp add: MediaMaxHardCap_def)
  obtain meta m' key where
    s: "TCPTransport_SendChunks (relay_http ''9.9.9.9'' 0 WriteOK) (Inr (\<lambda>_. 1)) (Inr (\<lambda>_. 2)) 7 ?t 5 [1, 2, 3] ''a'' ''b'' MediaTypeFile ?m
        = (Inr meta, m')" "base64_DecodeString (FileKeyB64 meta) = Some key"
    and d: "\<And>m2. fmlookup (media_files m2) (FileID meta) = fmlookup (media_files m') (FileID meta) \<Longrightarrow>
        media_token m2 = media_token ?m \<Longrightarrow>
        \<exists>enc. DownloadFile (relay_http ''9.9.9.9'' 9 WriteOK) ?t (FileID meta) m2 = (Inr enc, m2) \<and> DecryptFile key enc = Inr [1, 2, 3]"
    using tcp_media_roundtrip [OF a b c, of 0 "\<lambda>_. 1" "\<lambda>_. 2" 7 5 "''a''" "''b''" MediaTypeFile 9 WriteOK] by blast
  have "media_token m' = media_token ?m"
    using s(1) by (auto simp: TCPTransport_SendChunks_def relay_http_def upload_def Let_def
        split: sum.splits if_splits option.splits prod.splits http_failure.splits)
  with s d [OF refl] show ?thesis by blast
qed

text \<open>
  A file sent over DNS cannot be fetched: the identifiers under which its parts travel are
  collected but do not reach the metadata, so two sends whose parts got different
  identifiers produce the same metadata message.
\<close>

theorem dns_media_ids_lost:
  assumes "DNSTransport_SendChunks rk rn ts send mid file name mime ty w = (Inr meta, w1)"
    and "DNSTransport_SendChunks rk rn ts send' mid file name mime ty w' = (Inr meta', w1')"
  shows "meta = meta' \<and> FileID meta = ''''"
  using assms by (auto simp: DNSTransport_SendChunks_def metadata_def split: if_splits sum.splits prod.splits)

theorem dns_media_ids_lost_witness:
  "\<exists>meta. DNSTransport_SendChunks (Inr (\<lambda>_. 1)) (Inr (\<lambda>_. 2)) 7 (\<lambda>_ w. (Inr (1, 1), w)) 5 [1] ''a'' ''b'' MediaTypeFile () = (Inr meta, ())
    \<and> DNSTransport_SendChunks (Inr (\<lambda>_. 1)) (Inr (\<lambda>_. 2)) 7 (\<lambda>_ w. (Inr (2, 1), w)) 5 [1] ''a'' ''b'' MediaTypeFile () = (Inr meta, ())"
proof -
  have ok: "\<exists>ids. send_payloads (\<lambda>_ w. (Inr (i, 1), w)) cs w = (Inr ids, w)" for i :: msg_id and cs and w :: unit
    by (induction cs) auto
  have "\<exists>meta. DNSTransport_SendChunks (Inr (\<lambda>_. 1)) (Inr (\<lambda>_. 2)) 7 (\<lambda>_ w. (Inr (i, 1), w)) 5 [1] ''a'' ''b'' MediaTypeFile () = (Inr meta, ())"
    for i :: msg_id
    using ok [of i "ChunkMessage 5 (map (\<lambda>_. 2) [0..<12] @ gcm_Seal (map (\<lambda>_. 1) [0..<32]) (map (\<lambda>_. 2) [0..<12]) [1]) MaxDNSChunkSize ''''" "()"]
    by (auto simp: DNSTransport_SendChunks_def MediaMaxHardCap_def GenerateFileKey_def EncryptFile_def aes_key_ok_def gcm_NonceSize_def
        simp del: upt_rec_numeral)
  then obtain m1 m2 where m: "DNSTransport_SendChunks (Inr (\<lambda>_. 1)) (Inr (\<lambda>_. 2)) 7 (\<lambda>_ w. (Inr (1, 1), w)) 5 [1] ''a'' ''b'' MediaTypeFile () = (Inr m1, ())"
    "DNSTransport_SendChunks (Inr (\<lambda>_. 1)) (Inr (\<lambda>_. 2)) 7 (\<lambda>_ w. (Inr (2, 1), w)) 5 [1] ''a'' ''b'' MediaTypeFile () = (Inr m2, ())"
    by blast
  with dns_media_ids_lost [OF m] show ?thesis by blast
qed

end
