(* ===== verification/Offline_Queue.thy ===== *)
theory Offline_Queue
  imports Client_Engine Go_JSON
begin

text \<open>
  \<^verbatim>\<open>internal/client/queue.go\<close>, the SQLite queue of messages that could not be sent, with the loop of
  \<^verbatim>\<open>processQueue\<close> (\<^verbatim>\<open>daemon.go\<close>) that retries them, and \<^verbatim>\<open>detector.go\<close>. The database is a parameter:
  the statements of the source are the fields of a \<open>queue_sql\<close>, and \<open>queue_doc\<close> says, of the rows
  of the table, what SQLite documents of these statements. The locale \<open>message_queue\<close>
  is what the daemon relies on; the operations of the queue satisfy it, and under it a
  message leaves the queue only when it was sent or after twenty failures.
\<close>

section \<open>The database\<close>

record QueuedMessage =
  qm_ID :: int
  PeerKey :: string
  Ciphertext :: bytes
  CreatedAt :: string
  Retries :: int

text \<open>
  The insertion returns \<^verbatim>\<open>LastInsertId\<close>. The query returns the results of \<^verbatim>\<open>Scan\<close> on the rows that
  \<^verbatim>\<open>rows.Next()\<close> reaches; the source does not look at \<^verbatim>\<open>rows.Err()\<close>, so the iteration may
  stop early.
\<close>

record 'd queue_sql =
  sql_insert :: "string \<Rightarrow> bytes \<Rightarrow> 'd \<Rightarrow> (string + int) \<times> 'd"
  sql_pending :: "'d \<Rightarrow> string + (string + QueuedMessage) list"
  sql_mark :: "string \<Rightarrow> int \<Rightarrow> 'd \<Rightarrow> string option \<times> 'd"
  sql_delete :: "int \<Rightarrow> 'd \<Rightarrow> string option \<times> 'd"

type_synonym queue_rows = "(int, string \<times> bytes \<times> int) fmap"

definition bump :: "int \<Rightarrow> queue_rows \<Rightarrow> queue_rows" where
  "bump i m = (case fmlookup m i of None \<Rightarrow> m | Some (p, c, n) \<Rightarrow> fmupd i (p, c, n + 1) m)"

definition insert_doc :: "'d queue_sql \<Rightarrow> ('d \<Rightarrow> queue_rows) \<Rightarrow> bool" where
  "insert_doc sql view \<longleftrightarrow> (\<forall>p c d.
     case sql_insert sql p c d of
       (Inl _, d') \<Rightarrow> view d' = view d
     | (Inr i, d') \<Rightarrow> fmlookup (view d) i = None \<and> view d' = fmupd i (p, c, 0) (view d))"

definition pending_doc :: "'d queue_sql \<Rightarrow> ('d \<Rightarrow> queue_rows) \<Rightarrow> bool" where
  "pending_doc sql view \<longleftrightarrow> (\<forall>d rows. sql_pending sql d = Inr rows \<longrightarrow>
     (\<forall>m. Inr m \<in> set rows \<longrightarrow> fmlookup (view d) (qm_ID m) = Some (PeerKey m, Ciphertext m, Retries m))
     \<and> distinct [qm_ID m. Inr m \<leftarrow> rows])"

definition mark_doc :: "'d queue_sql \<Rightarrow> ('d \<Rightarrow> queue_rows) \<Rightarrow> bool" where
  "mark_doc sql view \<longleftrightarrow> (\<forall>e i d.
     view (snd (sql_mark sql e i d)) = (if fst (sql_mark sql e i d) = None then bump i (view d) else view d))"

definition delete_doc :: "'d queue_sql \<Rightarrow> ('d \<Rightarrow> queue_rows) \<Rightarrow> bool" where
  "delete_doc sql view \<longleftrightarrow> (\<forall>i d.
     view (snd (sql_delete sql i d)) = (if fst (sql_delete sql i d) = None then fmdrop i (view d) else view d))"

definition queue_doc :: "'d queue_sql \<Rightarrow> ('d \<Rightarrow> queue_rows) \<Rightarrow> bool" where
  "queue_doc sql view \<longleftrightarrow> insert_doc sql view \<and> pending_doc sql view \<and> mark_doc sql view \<and> delete_doc sql view"

section \<open>The queue\<close>

text \<open>
  Opening: the handle of the database, the statement that sets the timeout and the one that creates the
  table unless it exists are arguments, each with its error or the database after it.
\<close>

definition NewOfflineQueue :: "string + 'd \<Rightarrow> ('d \<Rightarrow> string + 'd) \<Rightarrow> ('d \<Rightarrow> string + 'd) \<Rightarrow> string + 'd" where
  "NewOfflineQueue opened set_timeout create_table =
     (case opened of
        Inl e \<Rightarrow> Inl e
      | Inr db \<Rightarrow>
          (case set_timeout db of
             Inl e \<Rightarrow> Inl e
           | Inr db1 \<Rightarrow> (case create_table db1 of Inl e \<Rightarrow> Inl e | Inr db2 \<Rightarrow> Inr db2)))"

text \<open>A statement that does not touch the rows of a table, as \<^verbatim>\<open>PRAGMA\<close> and \<^verbatim>\<open>CREATE TABLE IF NOT EXISTS\<close>.\<close>

definition keeps_rows :: "('d \<Rightarrow> 'r) \<Rightarrow> ('d \<Rightarrow> string + 'd) \<Rightarrow> bool" where
  "keeps_rows view stmt \<longleftrightarrow> (\<forall>d d'. stmt d = Inr d' \<longrightarrow> view d' = view d)"

lemma NewOfflineQueue_rows:
  assumes "NewOfflineQueue (Inr db) set_timeout create_table = Inr q" "keeps_rows view set_timeout" "keeps_rows view create_table"
  shows "view q = view db"
  using assms by (auto simp: NewOfflineQueue_def keeps_rows_def split: sum.splits)

definition OfflineQueue_Enqueue :: "'d queue_sql \<Rightarrow> string \<Rightarrow> bytes \<Rightarrow> 'd \<Rightarrow> (string + int) \<times> 'd" where
  "OfflineQueue_Enqueue sql peerKey ciphertext d = sql_insert sql peerKey ciphertext d"

fun scan_rows :: "(string + QueuedMessage) list \<Rightarrow> string + QueuedMessage list" where
  "scan_rows [] = Inr []"
| "scan_rows (Inl e # _) = Inl e"
| "scan_rows (Inr m # rows) = (case scan_rows rows of Inl e \<Rightarrow> Inl e | Inr msgs \<Rightarrow> Inr (m # msgs))"

definition OfflineQueue_Pending :: "'d queue_sql \<Rightarrow> 'd \<Rightarrow> string + QueuedMessage list" where
  "OfflineQueue_Pending sql d = (case sql_pending sql d of Inl e \<Rightarrow> Inl e | Inr rows \<Rightarrow> scan_rows rows)"

lemma scan_rows_Inr: "scan_rows rows = Inr msgs \<Longrightarrow> rows = map Inr msgs"
  by (induction rows arbitrary: msgs rule: scan_rows.induct) (auto split: sum.splits)

lemma scanned_rows: "[m. Inr m \<leftarrow> map Inr msgs] = msgs" "[f m. Inr m \<leftarrow> map Inr msgs] = map f msgs"
  by (induction msgs) simp_all

definition OfflineQueue_MarkFailed :: "'d queue_sql \<Rightarrow> int \<Rightarrow> string \<Rightarrow> 'd \<Rightarrow> string option \<times> 'd" where
  "OfflineQueue_MarkFailed sql i errMsg d = sql_mark sql errMsg i d"

definition OfflineQueue_Remove :: "'d queue_sql \<Rightarrow> int \<Rightarrow> 'd \<Rightarrow> string option \<times> 'd" where
  "OfflineQueue_Remove sql i d = sql_delete sql i d"

section \<open>One pass of the retry loop\<close>

definition maxQueueRetries :: int where "maxQueueRetries = 20"

datatype fate_of_message = GaveUp | Sent | SendFailed client_error

text \<open>
  \<open>send\<close> is the engine's \<^verbatim>\<open>SendMessage\<close> with the schedules of its runs inside the world; \<open>None\<close>
  means that a call has not returned. The error message recorded for a failure is an
  argument, as it has no influence.
\<close>

type_synonym 'w engine_send = "bytes \<Rightarrow> string \<Rightarrow> 'w \<Rightarrow> ((client_error + msg_id \<times> nat) \<times> 'w) option"

fun process_pending ::
  "'d queue_sql \<Rightarrow> (client_error \<Rightarrow> string) \<Rightarrow> 'w engine_send \<Rightarrow> QueuedMessage list \<Rightarrow> 'd \<Rightarrow> 'w
   \<Rightarrow> ((int \<times> fate_of_message) list \<times> 'd \<times> 'w) option" where
  "process_pending sql txt_of send [] d w = Some ([], d, w)"
| "process_pending sql txt_of send (msg # ms) d w =
     (if Retries msg \<ge> maxQueueRetries then
        map_option (\<lambda>(l, r). ((qm_ID msg, GaveUp) # l, r))
          (process_pending sql txt_of send ms (snd (OfflineQueue_Remove sql (qm_ID msg) d)) w)
      else case send (Ciphertext msg) (PeerKey msg) w of
          None \<Rightarrow> None
        | Some (Inl e, w') \<Rightarrow>
            map_option (\<lambda>(l, r). ((qm_ID msg, SendFailed e) # l, r))
              (process_pending sql txt_of send ms (snd (OfflineQueue_MarkFailed sql (qm_ID msg) (txt_of e) d)) w')
        | Some (Inr _, w') \<Rightarrow>
            map_option (\<lambda>(l, r). ((qm_ID msg, Sent) # l, r))
              (process_pending sql txt_of send ms (snd (OfflineQueue_Remove sql (qm_ID msg) d)) w'))"

definition processQueue_pass ::
  "'d queue_sql \<Rightarrow> (client_error \<Rightarrow> string) \<Rightarrow> 'w engine_send \<Rightarrow> 'd \<Rightarrow> 'w
   \<Rightarrow> ((int \<times> fate_of_message) list \<times> 'd \<times> 'w) option" where
  "processQueue_pass sql txt_of send d w =
     (case OfflineQueue_Pending sql d of
        Inl _ \<Rightarrow> Some ([], d, w)
      | Inr pending \<Rightarrow> process_pending sql txt_of send pending d w)"

section \<open>The network detector\<close>

datatype NetworkMode = ModeNormal | ModeBlackout

record Detector =
  forceBlackout :: bool
  det_mode :: NetworkMode
  relayCount :: int

definition NewDetector :: "bool \<Rightarrow> int \<Rightarrow> Detector" where
  "NewDetector force n = \<lparr>forceBlackout = force, det_mode = ModeNormal, relayCount = n\<rparr>"

definition CurrentMode :: "Detector \<Rightarrow> NetworkMode" where
  "CurrentMode d = (if forceBlackout d then ModeBlackout else det_mode d)"

definition Detector_Check :: "Detector \<Rightarrow> NetworkMode \<times> Detector" where
  "Detector_Check d =
     (if forceBlackout d then (ModeBlackout, d\<lparr>det_mode := ModeBlackout\<rparr>)
      else if relayCount d > 0 then (ModeNormal, d\<lparr>det_mode := ModeNormal\<rparr>)
      else (ModeBlackout, d\<lparr>det_mode := ModeBlackout\<rparr>))"

section \<open>The interface of the queue\<close>

locale message_queue =
  fixes enqueue :: "string \<Rightarrow> bytes \<Rightarrow> 'd \<Rightarrow> (string + int) \<times> 'd"
    and pending :: "'d \<Rightarrow> string + QueuedMessage list"
    and mark :: "int \<Rightarrow> string \<Rightarrow> 'd \<Rightarrow> string option \<times> 'd"
    and remove :: "int \<Rightarrow> 'd \<Rightarrow> string option \<times> 'd"
    and view :: "'d \<Rightarrow> queue_rows"
  assumes enqueue_ok: "enqueue p c d = (Inr i, d') \<Longrightarrow> fmlookup (view d) i = None \<and> view d' = fmupd i (p, c, 0) (view d)"
    and enqueue_fails: "enqueue p c d = (Inl e, d') \<Longrightarrow> view d' = view d"
    and pending_distinct: "pending d = Inr ms \<Longrightarrow> distinct (map qm_ID ms)"
    and pending_rows: "pending d = Inr ms \<Longrightarrow> m \<in> set ms \<Longrightarrow>
      fmlookup (view d) (qm_ID m) = Some (PeerKey m, Ciphertext m, Retries m)"
    and mark_view: "view (snd (mark i e d)) \<in> {bump i (view d), view d}"
    and remove_view: "view (snd (remove i d)) \<in> {fmdrop i (view d), view d}"
begin

lemma mark_other: "j \<noteq> i \<Longrightarrow> fmlookup (view (snd (mark i e d))) j = fmlookup (view d) j"
  using mark_view [of i e d] by (auto simp: bump_def split: option.splits)

lemma mark_same:
  "fmlookup (view d) i = Some (p, c, n) \<Longrightarrow> fmlookup (view (snd (mark i e d))) i \<in> {Some (p, c, n), Some (p, c, n + 1)}"
  using mark_view [of i e d] by (auto simp: bump_def)

lemma remove_other: "j \<noteq> i \<Longrightarrow> fmlookup (view (snd (remove i d))) j = fmlookup (view d) j"
  using remove_view [of i d] by auto

lemma remove_same: "fmlookup (view (snd (remove i d))) i \<in> {None, fmlookup (view d) i}"
  using remove_view [of i d] by auto

lemma enqueue_keeps: "fmlookup (view d) i = Some r \<Longrightarrow> fmlookup (view (snd (enqueue p c d))) i = Some r"
  using enqueue_ok [of p c d] enqueue_fails [of p c d] by (cases "enqueue p c d"; cases "fst (enqueue p c d)") auto

end

lemma queue_doc_message_queue:
  assumes "queue_doc sql view"
  shows "message_queue (OfflineQueue_Enqueue sql) (OfflineQueue_Pending sql) (OfflineQueue_MarkFailed sql)
    (OfflineQueue_Remove sql) view"
proof
  fix p c d d' i and e :: string
  have ins: "case sql_insert sql p c d of (Inl _, d') \<Rightarrow> view d' = view d
     | (Inr i, d') \<Rightarrow> fmlookup (view d) i = None \<and> view d' = fmupd i (p, c, 0) (view d)"
    using assms by (simp add: queue_doc_def insert_doc_def)
  show "OfflineQueue_Enqueue sql p c d = (Inr i, d') \<Longrightarrow> fmlookup (view d) i = None \<and> view d' = fmupd i (p, c, 0) (view d)"
    "OfflineQueue_Enqueue sql p c d = (Inl e, d') \<Longrightarrow> view d' = view d"
    using ins by (simp_all add: OfflineQueue_Enqueue_def)
  show "view (snd (OfflineQueue_MarkFailed sql i e d)) \<in> {bump i (view d), view d}"
    "view (snd (OfflineQueue_Remove sql i d)) \<in> {fmdrop i (view d), view d}"
    using assms by (simp_all add: queue_doc_def mark_doc_def delete_doc_def OfflineQueue_MarkFailed_def OfflineQueue_Remove_def)
next
  fix d ms m
  assume "OfflineQueue_Pending sql d = Inr ms"
  then have rows: "sql_pending sql d = Inr (map Inr ms)"
    by (auto simp: OfflineQueue_Pending_def split: sum.splits dest!: scan_rows_Inr)
  have "pending_doc sql view" using assms by (simp add: queue_doc_def)
  from this [unfolded pending_doc_def, rule_format, OF rows]
  have doc: "\<forall>m. Inr m \<in> set (map Inr ms :: (string + QueuedMessage) list) \<longrightarrow>
      fmlookup (view d) (qm_ID m) = Some (PeerKey m, Ciphertext m, Retries m)"
    "distinct [qm_ID m. Inr m \<leftarrow> (map Inr ms :: (string + QueuedMessage) list)]" by blast+
  show "distinct (map qm_ID ms)" using doc(2) by (simp only: scanned_rows)
  show "m \<in> set ms \<Longrightarrow> fmlookup (view d) (qm_ID m) = Some (PeerKey m, Ciphertext m, Retries m)" using doc(1) by auto
qed

text \<open>A table in memory.\<close>

definition mem_sql :: "(int \<times> queue_rows) queue_sql" where
  "mem_sql = \<lparr>
     sql_insert = (\<lambda>p c (n, m). let i = Max (insert n (fset (fmdom m))) + 1 in (Inr i, (i, fmupd i (p, c, 0) m))),
     sql_pending = (\<lambda>(n, m). Inr (map (\<lambda>(i, p, c, r). Inr \<lparr>qm_ID = i, PeerKey = p, Ciphertext = c, CreatedAt = '''', Retries = r\<rparr>)
        (map (\<lambda>i. (i, the (fmlookup m i))) (sorted_list_of_fset (fmdom m))))),
     sql_mark = (\<lambda>e i (n, m). (None, (n, bump i m))),
     sql_delete = (\<lambda>i (n, m). (None, (n, fmdrop i m)))\<rparr>"


lemma queue_doc_mem: "queue_doc mem_sql snd"
proof -
  have i: "fmlookup m (Max (insert n (fset (fmdom m))) + 1) = None" for n and m :: queue_rows
  proof -
    have "Max (insert n (fset (fmdom m))) + 1 \<notin> fset (fmdom m)"
      by (metis Max_ge add.commute finite_fset finite_insert insertCI less_add_one linorder_not_le)
    then show ?thesis by (simp add: fmdom_notD)
  qed
  have "insert_doc mem_sql snd" using i by (simp add: insert_doc_def mem_sql_def Let_def split_def)
  moreover have "pending_doc mem_sql snd"
    by (auto simp: pending_doc_def mem_sql_def comp_def fmlookup_dom_iff split_def sorted_list_of_fset.rep_eq)
  moreover have "mark_doc mem_sql snd" "delete_doc mem_sql snd"
    by (simp_all add: mark_doc_def delete_doc_def mem_sql_def split_def)
  ultimately show ?thesis by (simp add: queue_doc_def)
qed

interpretation mem_queue: message_queue "OfflineQueue_Enqueue mem_sql" "OfflineQueue_Pending mem_sql"
  "OfflineQueue_MarkFailed mem_sql" "OfflineQueue_Remove mem_sql" snd
  by (rule queue_doc_message_queue [OF queue_doc_mem])

section \<open>What a pass does\<close>

lemma process_pending_ConsE:
  assumes "process_pending sql te send (a # ms) d w = Some (l, d', w')"
  obtains f dn wn l' where "process_pending sql te send ms dn wn = Some (l', d', w')" "l = (qm_ID a, f) # l'"
    "f = GaveUp \<longrightarrow> maxQueueRetries \<le> Retries a"
    "f = Sent \<longrightarrow> (\<exists>w1 r w2. send (Ciphertext a) (PeerKey a) w1 = Some (Inr r, w2))"
    "case f of SendFailed e \<Rightarrow> dn = snd (OfflineQueue_MarkFailed sql (qm_ID a) (te e) d)
       | _ \<Rightarrow> dn = snd (OfflineQueue_Remove sql (qm_ID a) d)"
proof (cases "maxQueueRetries \<le> Retries a")
  case True
  then show ?thesis using assms that [where f = GaveUp] by auto
next
  case False
  then obtain r w1 where r: "send (Ciphertext a) (PeerKey a) w = Some (r, w1)"
    using assms by (cases "send (Ciphertext a) (PeerKey a) w") auto
  show ?thesis
  proof (cases r)
    case (Inl e)
    obtain l' where "process_pending sql te send ms (snd (OfflineQueue_MarkFailed sql (qm_ID a) (te e) d)) w1 = Some (l', d', w')"
      "l = (qm_ID a, SendFailed e) # l'" using assms False r Inl by auto
    then show ?thesis by (rule that) simp_all
  next
    case (Inr x)
    obtain l' where "process_pending sql te send ms (snd (OfflineQueue_Remove sql (qm_ID a) d)) w1 = Some (l', d', w')"
      "l = (qm_ID a, Sent) # l'" using assms False r Inr by auto
    then show ?thesis
    proof (rule that)
      show "Sent = Sent \<longrightarrow> (\<exists>w1 r w2. send (Ciphertext a) (PeerKey a) w1 = Some (Inr r, w2))" using r Inr by blast
    qed simp_all
  qed
qed

lemma process_step_other:
  assumes "queue_doc sql view" "i \<noteq> qm_ID a"
    "case f of SendFailed e \<Rightarrow> dn = snd (OfflineQueue_MarkFailed sql (qm_ID a) (te e) d)
       | _ \<Rightarrow> dn = snd (OfflineQueue_Remove sql (qm_ID a) d)"
  shows "fmlookup (view dn) i = fmlookup (view d) i"
  using assms(2,3) message_queue.mark_other [OF queue_doc_message_queue [OF assms(1)], of i "qm_ID a"]
    message_queue.remove_other [OF queue_doc_message_queue [OF assms(1)], of i "qm_ID a"]
  by (cases f) simp_all

text \<open>Messages that are not in the list keep their row.\<close>

lemma process_pending_other:
  assumes "queue_doc sql view"
  shows "process_pending sql te send ms d w = Some (l, d', w') \<Longrightarrow> i \<notin> qm_ID ` set ms \<Longrightarrow>
    fmlookup (view d') i = fmlookup (view d) i \<and> i \<notin> fst ` set l"
proof (induction ms arbitrary: d w l)
  case (Cons m ms)
  from Cons.prems(1) obtain f dn wn l' where st: "process_pending sql te send ms dn wn = Some (l', d', w')" "l = (qm_ID m, f) # l'"
    "case f of SendFailed e \<Rightarrow> dn = snd (OfflineQueue_MarkFailed sql (qm_ID m) (te e) d)
       | _ \<Rightarrow> dn = snd (OfflineQueue_Remove sql (qm_ID m) d)"
    by (rule process_pending_ConsE)
  have i: "i \<noteq> qm_ID m" "i \<notin> qm_ID ` set ms" using Cons.prems(2) by simp_all
  show ?case using Cons.IH [OF st(1) i(2)] process_step_other [OF assms i(1) st(3)] st(2) i(1) by simp
qed simp

lemma process_pending_row:
  assumes "queue_doc sql view"
  shows "process_pending sql te send ms d w = Some (l, d', w') \<Longrightarrow> distinct (map qm_ID ms) \<Longrightarrow> m \<in> set ms \<Longrightarrow>
    fmlookup (view d) (qm_ID m) = Some (p, c, Retries m) \<Longrightarrow> p = PeerKey m \<Longrightarrow> c = Ciphertext m \<Longrightarrow>
    (\<exists>f. (qm_ID m, f) \<in> set l \<and> (case f of
         GaveUp \<Rightarrow> maxQueueRetries \<le> Retries m
       | Sent \<Rightarrow> \<exists>w1 r w2. send c p w1 = Some (Inr r, w2)
       | SendFailed e \<Rightarrow> fmlookup (view d') (qm_ID m) \<in> {Some (p, c, Retries m), Some (p, c, Retries m + 1)}))"
proof (induction ms arbitrary: d w l)
  case (Cons a ms)
  note q = queue_doc_message_queue [OF assms]
  from Cons.prems(1) obtain f dn wn l' where st: "process_pending sql te send ms dn wn = Some (l', d', w')" "l = (qm_ID a, f) # l'"
    "f = GaveUp \<longrightarrow> maxQueueRetries \<le> Retries a"
    "f = Sent \<longrightarrow> (\<exists>w1 r w2. send (Ciphertext a) (PeerKey a) w1 = Some (Inr r, w2))"
    "case f of SendFailed e \<Rightarrow> dn = snd (OfflineQueue_MarkFailed sql (qm_ID a) (te e) d)
       | _ \<Rightarrow> dn = snd (OfflineQueue_Remove sql (qm_ID a) d)"
    by (rule process_pending_ConsE)
  show ?case
  proof (cases "m = a")
    case True
    have later: "fmlookup (view d') (qm_ID a) = fmlookup (view dn) (qm_ID a)"
      using process_pending_other [OF assms st(1)] Cons.prems(2) by auto
    show ?thesis
    proof (intro exI [of _ f] conjI)
      show "(qm_ID m, f) \<in> set l" using st(2) True by simp
      show "case f of GaveUp \<Rightarrow> maxQueueRetries \<le> Retries m
         | Sent \<Rightarrow> \<exists>w1 r w2. send c p w1 = Some (Inr r, w2)
         | SendFailed e \<Rightarrow> fmlookup (view d') (qm_ID m) \<in> {Some (p, c, Retries m), Some (p, c, Retries m + 1)}"
        using st(3-5) later message_queue.mark_same [OF q, of d "qm_ID a" p c "Retries m"] Cons.prems(4-6) True
        by (cases f) simp_all
    qed
  next
    case False
    then have m: "m \<in> set ms" using Cons.prems(3) by simp
    then have ne: "qm_ID m \<noteq> qm_ID a" using Cons.prems(2) by (metis distinct.simps(2) image_eqI list.set_map list.simps(9))
    have row: "fmlookup (view dn) (qm_ID m) = Some (p, c, Retries m)"
      using process_step_other [OF assms ne st(5)] Cons.prems(4) by simp
    have dis: "distinct (map qm_ID ms)" using Cons.prems(2) by simp
    from Cons.IH [OF st(1) dis m row Cons.prems(5,6)] show ?thesis
      by (rule ex_forward) (simp add: st(2))
  qed
qed simp

text \<open>(C18) A message in the table leaves it only when it was sent or after twenty retries.  One pass of the
queue ends with each listed message in one of three fates: it was given up, and then its counter had
reached the limit; it was sent, and then the send function had accepted this ciphertext for this peer; or
sending failed, and then its row is still there with the same peer and ciphertext and the counter higher by
at most one.  Messages that were not listed keep their row.\<close>

theorem queue_message_fate:
  assumes "queue_doc sql view"
    and "OfflineQueue_Pending sql d = Inr ms"
    and "processQueue_pass sql te send d w = Some (l, d', w')"
    and "fmlookup (view d) i = Some (p, c, n)"
  shows "(if i \<in> qm_ID ` set ms
    then \<exists>f. (i, f) \<in> set l \<and> (case f of
         GaveUp \<Rightarrow> maxQueueRetries \<le> n
       | Sent \<Rightarrow> \<exists>w1 r w2. send c p w1 = Some (Inr r, w2)
       | SendFailed e \<Rightarrow> fmlookup (view d') i \<in> {Some (p, c, n), Some (p, c, n + 1)})
    else fmlookup (view d') i = Some (p, c, n))"
proof -
  have run: "process_pending sql te send ms d w = Some (l, d', w')"
    using assms(2,3) by (simp add: processQueue_pass_def)
  show ?thesis
  proof (cases "i \<in> qm_ID ` set ms")
    case True
    then obtain m where m: "m \<in> set ms" "i = qm_ID m" by auto
    note q = queue_doc_message_queue [OF assms(1)]
    have row: "fmlookup (view d) (qm_ID m) = Some (PeerKey m, Ciphertext m, Retries m)"
      using message_queue.pending_rows [OF q assms(2) m(1)] .
    then have e: "p = PeerKey m" "c = Ciphertext m" "n = Retries m" using assms(4) m(2) by simp_all
    with row have "fmlookup (view d) (qm_ID m) = Some (p, c, Retries m)" by simp
    from process_pending_row [OF assms(1) run message_queue.pending_distinct [OF q assms(2)] m(1) this e(1,2)]
    show ?thesis using True by (simp only: m(2) e(3) if_True)
  next
    case False
    then show ?thesis using process_pending_other [OF assms(1) run False] assms(4) by simp
  qed
qed

text \<open>The call succeeds for the first message and fails for the second.\<close>

definition send_even :: "nat engine_send" where
  "send_even c p w = Some (if even w then Inr (0, 1) else Inl (AllRelaysFailed 1), w + 1)"

definition two_rows :: "int \<times> queue_rows" where
  "two_rows = (2, fmap_of_list [(1, (''ann'', [7], 0)), (2, (''bob'', [8], 3))])"

theorem queue_message_fate_witness:
  "\<exists>l d' w'. processQueue_pass mem_sql (\<lambda>_. ''no relay'') send_even two_rows 0 = Some (l, d', w')
     \<and> map fst l = [1, 2]
     \<and> (\<exists>f. (2, f) \<in> set l \<and> f \<noteq> GaveUp)"
proof -
  have p: "OfflineQueue_Pending mem_sql two_rows =
      Inr [\<lparr>qm_ID = 1, PeerKey = ''ann'', Ciphertext = [7], CreatedAt = '''', Retries = 0\<rparr>,
           \<lparr>qm_ID = 2, PeerKey = ''bob'', Ciphertext = [8], CreatedAt = '''', Retries = 3\<rparr>]"
    by code_simp
  obtain l d' w' where run: "processQueue_pass mem_sql (\<lambda>_. ''no relay'') send_even two_rows 0 = Some (l, d', w')"
    "map fst l = [1, 2]"
    by (simp add: processQueue_pass_def p maxQueueRetries_def send_even_def)
  have r: "fmlookup (snd two_rows) 2 = Some (''bob'', [8], 3)" by (simp add: two_rows_def)
  obtain f where f: "(2, f) \<in> set l" "(case f of GaveUp \<Rightarrow> maxQueueRetries \<le> 3
       | Sent \<Rightarrow> \<exists>w1 r w2. send_even [8] ''bob'' w1 = Some (Inr r, w2)
       | SendFailed e \<Rightarrow> fmlookup (snd d') 2 \<in> {Some (''bob'', [8], 3), Some (''bob'', [8], 3 + 1)})"
    using queue_message_fate [OF queue_doc_mem p run(1) r] by auto
  from f(2) have "f \<noteq> GaveUp" by (cases f) (simp_all add: maxQueueRetries_def)
  with f(1) have "\<exists>f. (2, f) \<in> set l \<and> f \<noteq> GaveUp" by auto
  with run show ?thesis by auto
qed

end
