(* ===== verification/Transfer_Store.thy ===== *)
theory Transfer_Store
  imports Offline_Queue "HOL-Library.Char_ord" "HOL-Library.List_Lexorder"
begin

text \<open>
  \<^verbatim>\<open>internal/media/transfer.go\<close>, the table of media transfers. As in the offline queue the statements
  are the fields of a record and \<open>transfer_doc\<close> says what SQLite documents of them, in terms of
  the rows by their primary key. The locale \<open>transfer_table\<close> is what the daemon relies on.
\<close>

section \<open>Entries\<close>

text \<open>The status is the integer of the column; the daemon has a status type of its own.\<close>

definition store_TransferQueued :: int where "store_TransferQueued = 0"
definition store_TransferEncrypting :: int where "store_TransferEncrypting = 1"
definition store_TransferUploading :: int where "store_TransferUploading = 2"
definition store_TransferConfirming :: int where "store_TransferConfirming = 3"
definition store_TransferComplete :: int where "store_TransferComplete = 4"
definition store_TransferFailed :: int where "store_TransferFailed = 5"
definition store_TransferCancelled :: int where "store_TransferCancelled = 6"

lemmas store_status_defs = store_TransferQueued_def store_TransferEncrypting_def store_TransferUploading_def
  store_TransferConfirming_def store_TransferComplete_def store_TransferFailed_def store_TransferCancelled_def

definition int_string :: "int \<Rightarrow> string" where
  "int_string i = (if i < 0 then ''-'' @ nat_string (nat (- i)) else nat_string (nat i))"

definition TransferStatus_String :: "int \<Rightarrow> string" where
  "TransferStatus_String s =
     (if s = store_TransferQueued then ''queued''
      else if s = store_TransferEncrypting then ''encrypting''
      else if s = store_TransferUploading then ''uploading''
      else if s = store_TransferConfirming then ''confirming''
      else if s = store_TransferComplete then ''complete''
      else if s = store_TransferFailed then ''failed''
      else if s = store_TransferCancelled then ''cancelled''
      else ''unknown('' @ int_string s @ '')'')"

record TransferEntry =
  te_ID :: string
  te_PeerPubkey :: string
  te_FileName :: string
  te_MimeType :: string
  te_FileSize :: int
  te_Status :: int
  te_Progress :: int
  te_ChunksSent :: int
  te_TotalChunks :: int
  te_AvgChunkTime :: int
  te_Error :: string
  te_CreatedAt :: int
  te_TempFilePath :: string

section \<open>The database\<close>

text \<open>The query for one row returns \<open>None\<close> for \<^verbatim>\<open>sql.ErrNoRows\<close>.\<close>

record 't transfer_sql =
  sqlt_insert :: "TransferEntry \<Rightarrow> 't \<Rightarrow> string option \<times> 't"
  sqlt_update :: "int \<Rightarrow> int \<Rightarrow> int \<Rightarrow> string \<Rightarrow> 't \<Rightarrow> string option \<times> 't"
  sqlt_select :: "string \<Rightarrow> 't \<Rightarrow> string + TransferEntry option"
  sqlt_pending :: "'t \<Rightarrow> string + (string + TransferEntry) list"

type_synonym transfer_rows = "(string, TransferEntry) fmap"

definition set_progress :: "string \<Rightarrow> int \<Rightarrow> int \<Rightarrow> int \<Rightarrow> transfer_rows \<Rightarrow> transfer_rows" where
  "set_progress i st pr cs m =
     (case fmlookup m i of
        None \<Rightarrow> m
      | Some e \<Rightarrow> fmupd i (e\<lparr>te_Status := st, te_Progress := pr, te_ChunksSent := cs\<rparr>) m)"

definition transfer_insert_doc :: "'t transfer_sql \<Rightarrow> ('t \<Rightarrow> transfer_rows) \<Rightarrow> bool" where
  "transfer_insert_doc sql view \<longleftrightarrow> (\<forall>e t.
     if fst (sqlt_insert sql e t) = None
     then fmlookup (view t) (te_ID e) = None \<and> view (snd (sqlt_insert sql e t)) = fmupd (te_ID e) e (view t)
     else view (snd (sqlt_insert sql e t)) = view t)"

definition transfer_update_doc :: "'t transfer_sql \<Rightarrow> ('t \<Rightarrow> transfer_rows) \<Rightarrow> bool" where
  "transfer_update_doc sql view \<longleftrightarrow> (\<forall>st pr cs i t.
     view (snd (sqlt_update sql st pr cs i t)) =
       (if fst (sqlt_update sql st pr cs i t) = None then set_progress i st pr cs (view t) else view t))"

definition transfer_select_doc :: "'t transfer_sql \<Rightarrow> ('t \<Rightarrow> transfer_rows) \<Rightarrow> bool" where
  "transfer_select_doc sql view \<longleftrightarrow> (\<forall>i t r. sqlt_select sql i t = Inr r \<longrightarrow> r = fmlookup (view t) i)"

definition transfer_pending_doc :: "'t transfer_sql \<Rightarrow> ('t \<Rightarrow> transfer_rows) \<Rightarrow> bool" where
  "transfer_pending_doc sql view \<longleftrightarrow> (\<forall>t rows e. sqlt_pending sql t = Inr rows \<longrightarrow> Inr e \<in> set rows \<longrightarrow>
     fmlookup (view t) (te_ID e) = Some e \<and> te_Status e \<in> {0, 1, 2, 3})"

definition transfer_doc :: "'t transfer_sql \<Rightarrow> ('t \<Rightarrow> transfer_rows) \<Rightarrow> bool" where
  "transfer_doc sql view \<longleftrightarrow> transfer_insert_doc sql view \<and> transfer_update_doc sql view
     \<and> transfer_select_doc sql view \<and> transfer_pending_doc sql view"

section \<open>The store\<close>

text \<open>
  Opening: creating the directory, the handle of the database and creating the table are arguments. When the
  table cannot be created the handle is closed.
\<close>

definition NewTransferStore :: "string option \<Rightarrow> string + 't \<Rightarrow> ('t \<Rightarrow> string + 't) \<Rightarrow> string + 't" where
  "NewTransferStore mkdir opened create_table =
     (case mkdir of
        Some e \<Rightarrow> Inl (''create transfer dir: '' @ e)
      | None \<Rightarrow>
          (case opened of
             Inl e \<Rightarrow> Inl (''open transfer db: '' @ e)
           | Inr db \<Rightarrow> (case create_table db of Inl e \<Rightarrow> Inl (''create transfer table: '' @ e) | Inr db1 \<Rightarrow> Inr db1)))"

lemma NewTransferStore_rows:
  "NewTransferStore mkdir (Inr db) create_table = Inr t \<Longrightarrow> keeps_rows view create_table \<Longrightarrow> view t = view db"
  by (auto simp: NewTransferStore_def keeps_rows_def split: option.splits sum.splits)

definition TransferStore_Create :: "'t transfer_sql \<Rightarrow> TransferEntry \<Rightarrow> 't \<Rightarrow> string option \<times> 't" where
  "TransferStore_Create sql entry t = sqlt_insert sql entry t"

definition TransferStore_Update :: "'t transfer_sql \<Rightarrow> string \<Rightarrow> int \<Rightarrow> int \<Rightarrow> int \<Rightarrow> 't \<Rightarrow> string option \<times> 't" where
  "TransferStore_Update sql i status progress chunksSent t = sqlt_update sql status progress chunksSent i t"

definition TransferStore_Get :: "'t transfer_sql \<Rightarrow> string \<Rightarrow> 't \<Rightarrow> string + TransferEntry option" where
  "TransferStore_Get sql i t = sqlt_select sql i t"

fun scan_entries :: "(string + TransferEntry) list \<Rightarrow> string + TransferEntry list" where
  "scan_entries [] = Inr []"
| "scan_entries (Inl e # _) = Inl e"
| "scan_entries (Inr m # rows) = (case scan_entries rows of Inl e \<Rightarrow> Inl e | Inr entries \<Rightarrow> Inr (m # entries))"

definition TransferStore_ListPending :: "'t transfer_sql \<Rightarrow> 't \<Rightarrow> string + TransferEntry list" where
  "TransferStore_ListPending sql t = (case sqlt_pending sql t of Inl e \<Rightarrow> Inl e | Inr rows \<Rightarrow> scan_entries rows)"

text \<open>Conversion to \<^verbatim>\<open>int32\<close> wraps; the division of Go truncates, and the sizes are not negative.\<close>

definition int32 :: "int \<Rightarrow> int" where
  "int32 i = sint (word_of_int i :: 32 word)"

definition EstimateSeconds :: "int \<Rightarrow> bool \<Rightarrow> int" where
  "EstimateSeconds fileSize useTCP =
     (if useTCP then
        (let est = int32 (fileSize div (100 * 1024) * 100 div 1000) in if est < 5 then 5 else est)
      else
        (let est = int32 (fileSize div (15 * 200) * 100 div 1000) in if est < 10 then 10 else est))"

section \<open>The interface of the store\<close>

locale transfer_table =
  fixes create :: "TransferEntry \<Rightarrow> 't \<Rightarrow> string option \<times> 't"
    and update :: "string \<Rightarrow> int \<Rightarrow> int \<Rightarrow> int \<Rightarrow> 't \<Rightarrow> string option \<times> 't"
    and get :: "string \<Rightarrow> 't \<Rightarrow> string + TransferEntry option"
    and list_pending :: "'t \<Rightarrow> string + TransferEntry list"
    and view :: "'t \<Rightarrow> transfer_rows"
  assumes create_view: "view (snd (create e t)) = (if fst (create e t) = None then fmupd (te_ID e) e (view t) else view t)"
    and create_fresh: "fst (create e t) = None \<Longrightarrow> fmlookup (view t) (te_ID e) = None"
    and update_view: "view (snd (update i st pr cs t)) = (if fst (update i st pr cs t) = None then set_progress i st pr cs (view t) else view t)"
    and get_view: "get i t = Inr r \<Longrightarrow> r = fmlookup (view t) i"
    and pending_view: "list_pending t = Inr es \<Longrightarrow> e \<in> set es \<Longrightarrow>
      fmlookup (view t) (te_ID e) = Some e \<and> te_Status e \<in> {0, 1, 2, 3}"
begin

lemma update_unknown: "fmlookup (view t) i = None \<Longrightarrow> view (snd (update i st pr cs t)) = view t"
  by (simp add: update_view set_progress_def)

lemma update_other: "j \<noteq> i \<Longrightarrow> fmlookup (view (snd (update i st pr cs t))) j = fmlookup (view t) j"
  by (simp add: update_view set_progress_def split: option.splits)

lemma create_then_update:
  assumes "create e t = (None, t')" "update (te_ID e) st pr cs t' = (None, t'')" "get (te_ID e) t'' = Inr r"
  shows "r = Some (e\<lparr>te_Status := st, te_Progress := pr, te_ChunksSent := cs\<rparr>)"
  using create_view [of e t] update_view [of "te_ID e" st pr cs t'] get_view [OF assms(3)] assms(1,2)
  by (simp add: set_progress_def)

end

lemma scan_entries_Inr: "scan_entries rows = Inr es \<Longrightarrow> rows = map Inr es"
  by (induction rows arbitrary: es rule: scan_entries.induct) (auto split: sum.splits)

lemma transfer_doc_table:
  assumes "transfer_doc sql view"
  shows "transfer_table (TransferStore_Create sql) (TransferStore_Update sql) (TransferStore_Get sql) (TransferStore_ListPending sql) view"
proof
  fix e t
  show "view (snd (TransferStore_Create sql e t)) =
      (if fst (TransferStore_Create sql e t) = None then fmupd (te_ID e) e (view t) else view t)"
    "fst (TransferStore_Create sql e t) = None \<Longrightarrow> fmlookup (view t) (te_ID e) = None"
    using assms by (auto simp: transfer_doc_def transfer_insert_doc_def TransferStore_Create_def split: if_splits)
next
  fix i st pr cs t r
  show "view (snd (TransferStore_Update sql i st pr cs t)) =
      (if fst (TransferStore_Update sql i st pr cs t) = None then set_progress i st pr cs (view t) else view t)"
    using assms by (simp add: transfer_doc_def transfer_update_doc_def TransferStore_Update_def)
  show "TransferStore_Get sql i t = Inr r \<Longrightarrow> r = fmlookup (view t) i"
    using assms by (simp add: transfer_doc_def transfer_select_doc_def TransferStore_Get_def)
next
  fix t es e
  assume "TransferStore_ListPending sql t = Inr es" "e \<in> set es"
  then have "sqlt_pending sql t = Inr (map Inr es)"
    by (auto simp: TransferStore_ListPending_def split: sum.splits dest!: scan_entries_Inr)
  moreover have "Inr e \<in> set (map Inr es :: (string + TransferEntry) list)" using \<open>e \<in> set es\<close> by simp
  ultimately show "fmlookup (view t) (te_ID e) = Some e \<and> te_Status e \<in> {0, 1, 2, 3}"
    using assms unfolding transfer_doc_def transfer_pending_doc_def by blast
qed

text \<open>A table in memory.\<close>

definition mem_transfers :: "transfer_rows transfer_sql" where
  "mem_transfers = \<lparr>
     sqlt_insert = (\<lambda>e m. if fmlookup m (te_ID e) = None then (None, fmupd (te_ID e) e m)
        else (Some ''UNIQUE constraint failed: transfers.id'', m)),
     sqlt_update = (\<lambda>st pr cs i m. (None, set_progress i st pr cs m)),
     sqlt_select = (\<lambda>i m. Inr (fmlookup m i)),
     sqlt_pending = (\<lambda>m. Inr (map Inr (filter (\<lambda>e. te_Status e \<in> {0, 1, 2, 3})
        (map (\<lambda>i. the (fmlookup m i)) (sorted_list_of_fset (fmdom (fmfilter (\<lambda>i. te_ID (the (fmlookup m i)) = i) m)))))))\<rparr>"

lemma transfer_doc_mem: "transfer_doc mem_transfers (\<lambda>m. m)"
  by (auto simp: transfer_doc_def transfer_insert_doc_def transfer_update_doc_def transfer_select_doc_def
      transfer_pending_doc_def mem_transfers_def fmlookup_dom_iff sorted_list_of_fset.rep_eq split: if_splits)

interpretation mem_table: transfer_table "TransferStore_Create mem_transfers" "TransferStore_Update mem_transfers"
  "TransferStore_Get mem_transfers" "TransferStore_ListPending mem_transfers" "\<lambda>m. m"
  by (rule transfer_doc_table [OF transfer_doc_mem])

lemma EstimateSeconds_bounds: "(if useTCP then 5 else 10) \<le> EstimateSeconds n useTCP"
  by (simp add: EstimateSeconds_def Let_def)

end
