(* ===== verification/Daemon_State.thy ===== *)
theory Daemon_State
  imports Media_Transport Transfer_Store
begin

text \<open>
  The state of the client daemon (\<^verbatim>\<open>internal/client/daemon.go\<close>), its files (\<^verbatim>\<open>daemon_state.go\<close>), the check of the
  call token, and the calls that only read or set a part of the state. What the daemon gets
  from outside is the record \<open>env\<close>: the cryptography and database libraries, the network, and
  functions that read the clock, the random source, the outcome of a file access, the schedule
  of a parallel send and the iteration order of a map off the world and advance it. Every theorem
  holds for all of them. A call that a handler makes runs to its end before the next one: a
  handler is one step.
\<close>

section \<open>Data\<close>

record helloEntry =
  he_nonce :: bytes
  he_pubkey :: string
  he_nickname :: string
  he_createdAt :: time

record Profile =
  prof_Nickname :: string
  prof_Bio :: string

record PeerInfoEntry =
  pe_Nickname :: string
  pe_Pubkey :: string

record GroupMember =
  gm_Pubkey :: string
  gm_Nickname :: string
  gm_Role :: string

text \<open>
  A map to pointers may hold \<^verbatim>\<open>nil\<close>, which a \<^verbatim>\<open>null\<close> in a file puts there: its values are options. A
  \<^verbatim>\<open>nil\<close> slice or map is the empty one.
\<close>

record Group =
  GroupID :: string
  gr_Name :: string
  AdminPubkey :: string
  Members :: "(string, GroupMember option) fmap"
  GroupKey :: bytes
  KeyEpoch :: uint64

datatype status_code =
    codes_FailedPrecondition | codes_NotFound | codes_Internal | codes_InvalidArgument
  | codes_Unauthenticated | codes_PermissionDenied

datatype daemon_error =
    Status status_code string
  | BadBase64
  | CryptoError crypto_error
  | EngineError client_error
  | MediaError media_error
  | QueueError string
  | StreamError string

datatype TransferStatus = TransferQueued | TransferSending | TransferComplete | TransferFailed | TransferCancelled

text \<open>The error of a transfer is a text, or the error whose text it is.\<close>

record MediaTransfer =
  mt_Status :: TransferStatus
  mt_Progress :: int
  mt_ChunksSent :: int
  mt_TotalChunks :: int
  mt_Error :: "string + daemon_error"
  mt_Created :: time

record ('q, 't) Daemon =
  engine :: DNSClientEngine
  detector :: Detector
  dm_queue :: 'q
  identity :: "KeyPair option"
  peers :: "(string, PeerInfoEntry option) fmap"
  peersPath :: string
  dm_groups :: "(string, Group option) fmap"
  groupsPath :: string
  dataDir :: string
  pendingHellos :: "(string, helloEntry) fmap"
  transfers :: "(string, MediaTransfer) fmap"
  transferStore :: "'t option"
  authToken :: "bytes option"
  dm_profile :: "Profile option"
  profilePath :: string
  disk :: files

section \<open>The outside\<close>

record ('w, 'q, 't) env =
  env_crypto :: crypto_ops
  env_fqdn :: "string \<Rightarrow> string"
  env_exch :: "'w exchange"
  env_http :: "'w http_client"
  env_queue :: "'q queue_sql"
  env_transfers :: "'t transfer_sql"
  env_now :: "'w \<Rightarrow> time \<times> 'w"
  env_random :: "'w \<Rightarrow> entropy \<times> 'w"
  env_write :: "'w \<Rightarrow> write_result \<times> 'w"
  env_read :: "'w \<Rightarrow> string option \<times> 'w"
  env_run :: "'w \<Rightarrow> (msg_id \<times> par_event list \<times> bool list) \<times> 'w"
  env_range :: "string fset \<Rightarrow> 'w \<Rightarrow> string list \<times> 'w"

text \<open>A range over a map visits each key once.\<close>

definition range_ok :: "('w, 'q, 't) env \<Rightarrow> bool" where
  "range_ok env \<longleftrightarrow> (\<forall>S w. distinct (fst (env_range env S w)) \<and> set (fst (env_range env S w)) = fset S)"

text \<open>
  What a call ends in: a value, an error, a panic, which stops the daemon, or, when the
  given schedule of a parallel send is not a complete run, nothing yet.
\<close>

datatype 'a reply = Reply 'a | Fails daemon_error | Panics | Hangs

definition daemon_WriteFile ::
  "('w, 'q, 't) env \<Rightarrow> string \<Rightarrow> bytes \<Rightarrow> ('q, 't) Daemon \<Rightarrow> 'w \<Rightarrow> string option \<times> ('q, 't) Daemon \<times> 'w" where
  "daemon_WriteFile env path data d w =
     (case env_write env w of
        (r, w') \<Rightarrow> (case os_WriteFile r path data (disk d) of (e, fs) \<Rightarrow> (e, d\<lparr>disk := fs\<rparr>, w')))"

definition daemon_ReadFile ::
  "('w, 'q, 't) env \<Rightarrow> string \<Rightarrow> ('q, 't) Daemon \<Rightarrow> 'w \<Rightarrow> (string + bytes) \<times> 'w" where
  "daemon_ReadFile env path d w = (case env_read env w of (f, w') \<Rightarrow> (os_ReadFile f path (disk d), w'))"

text \<open>
  \<^verbatim>\<open>d.engine.SendMessage\<close>: the message id it drew and the number of chunks or the error;
  \<open>None\<close> when it has not returned.
\<close>

definition engine_send ::
  "('w, 'q, 't) env \<Rightarrow> bytes \<Rightarrow> string \<Rightarrow> ('q, 't) Daemon \<Rightarrow> 'w \<Rightarrow> (msg_id \<times> (client_error + nat)) option \<times> 'w" where
  "engine_send env payload recipient d w =
     (case env_run env w of
        ((mid, evs, dones), w1) \<Rightarrow>
          (case SendMessage (env_fqdn env) (env_exch env) mid evs dones payload recipient (engine d) w1 of
             None \<Rightarrow> (None, w1)
           | Some (Inl e, w2) \<Rightarrow> (Some (mid, Inl e), w2)
           | Some (Inr (_, n), w2) \<Rightarrow> (Some (mid, Inr n), w2)))"

text \<open>A loop over keys whose body does not change the daemon.\<close>

fun each_key :: "(string \<Rightarrow> 'w \<Rightarrow> unit reply \<times> 'w) \<Rightarrow> string list \<Rightarrow> 'w \<Rightarrow> unit reply \<times> 'w" where
  "each_key f [] w = (Reply (), w)"
| "each_key f (k # ks) w =
     (case f k w of
        (Reply _, w') \<Rightarrow> each_key f ks w'
      | (r, w') \<Rightarrow> (r, w'))"

section \<open>The files of the daemon\<close>

text \<open>\<^verbatim>\<open>encoding/json\<close> writes the keys of a map in order.\<close>

definition map_json :: "('a \<Rightarrow> json) \<Rightarrow> (string, 'a) fmap \<Rightarrow> json" where
  "map_json f m = JObj (map (\<lambda>k. (k, f (the (fmlookup m k)))) (sorted_list_of_fset (fmdom m)))"

definition pointer_json :: "('a \<Rightarrow> json) \<Rightarrow> 'a option \<Rightarrow> json" where
  "pointer_json f p = (case p of None \<Rightarrow> JNull | Some x \<Rightarrow> f x)"

fun decode_entries ::
  "(json \<Rightarrow> 'a option) \<Rightarrow> (string \<times> json) list \<Rightarrow> (string, 'a) fmap \<Rightarrow> (string, 'a) fmap option" where
  "decode_entries dec [] m = Some m"
| "decode_entries dec ((k, v) # ms) m =
     (case dec v of None \<Rightarrow> None | Some x \<Rightarrow> decode_entries dec ms (fmupd k x m))"

definition decode_pointer :: "((string \<times> json) list \<Rightarrow> 'a option) \<Rightarrow> json \<Rightarrow> 'a option option" where
  "decode_pointer dec v =
     (case v of JNull \<Rightarrow> Some None | JObj ms \<Rightarrow> map_option Some (dec ms) | _ \<Rightarrow> None)"

definition decode_map :: "(json \<Rightarrow> 'a option) \<Rightarrow> string \<Rightarrow> (string, 'a) fmap option" where
  "decode_map dec s =
     (case json_parse s of
        Some JNull \<Rightarrow> Some fmempty
      | Some (JObj ms) \<Rightarrow> decode_entries dec ms fmempty
      | _ \<Rightarrow> None)"

definition peer_json :: "PeerInfoEntry \<Rightarrow> json" where
  "peer_json p = JObj [(''nickname'', JStr (pe_Nickname p)), (''pubkey'', JStr (pe_Pubkey p))]"

definition decode_peer :: "(string \<times> json) list \<Rightarrow> PeerInfoEntry option" where
  "decode_peer ms =
     (case field_string ''nickname'' ms '''' of
        None \<Rightarrow> None
      | Some n \<Rightarrow>
          map_option (\<lambda>k. \<lparr>pe_Nickname = n, pe_Pubkey = k\<rparr>) (field_string ''pubkey'' ms ''''))"

definition member_json :: "GroupMember \<Rightarrow> json" where
  "member_json m = JObj [(''pubkey'', JStr (gm_Pubkey m)), (''nickname'', JStr (gm_Nickname m)), (''role'', JStr (gm_Role m))]"

definition decode_member :: "(string \<times> json) list \<Rightarrow> GroupMember option" where
  "decode_member ms =
     (case (field_string ''pubkey'' ms '''', field_string ''nickname'' ms '''', field_string ''role'' ms '''') of
        (Some p, Some n, Some r) \<Rightarrow> Some \<lparr>gm_Pubkey = p, gm_Nickname = n, gm_Role = r\<rparr>
      | _ \<Rightarrow> None)"

definition group_json :: "Group \<Rightarrow> json" where
  "group_json g = JObj [
     (''group_id'', JStr (GroupID g)),
     (''name'', JStr (gr_Name g)),
     (''admin_pubkey'', JStr (AdminPubkey g)),
     (''members'', map_json (pointer_json member_json) (Members g)),
     (''group_key'', JStr (base64_EncodeToString (GroupKey g))),
     (''key_epoch'', JNum (nat_string (unat (KeyEpoch g))))]"

text \<open>A field that is a map: \<^verbatim>\<open>null\<close> makes it \<^verbatim>\<open>nil\<close>, an object adds to it.\<close>

fun field_members :: "string \<Rightarrow> (string \<times> json) list \<Rightarrow> (string, GroupMember option) fmap
    \<Rightarrow> (string, GroupMember option) fmap option" where
  "field_members f [] z = Some z"
| "field_members f ((k, v) # ms) z =
     (if key_matches f k then
        (case v of
           JNull \<Rightarrow> field_members f ms fmempty
         | JObj es \<Rightarrow> (case decode_entries (decode_pointer decode_member) es z of
                       None \<Rightarrow> None | Some z' \<Rightarrow> field_members f ms z')
         | _ \<Rightarrow> None)
      else field_members f ms z)"

text \<open>A field of bytes: a base64 string, or an array of numbers below 256.\<close>

fun byte_elems :: "json list \<Rightarrow> bytes option" where
  "byte_elems [] = Some []"
| "byte_elems (JNum s # vs) =
     (case parse_uint64 s of
        None \<Rightarrow> None
      | Some n \<Rightarrow> if n < 256 then map_option ((#) (ucast n)) (byte_elems vs) else None)"
| "byte_elems (JNull # vs) = map_option ((#) 0) (byte_elems vs)"
| "byte_elems (v # vs) = None"

fun field_bytes :: "string \<Rightarrow> (string \<times> json) list \<Rightarrow> bytes \<Rightarrow> bytes option" where
  "field_bytes f [] z = Some z"
| "field_bytes f ((k, v) # ms) z =
     (if key_matches f k then
        (case v of
           JNull \<Rightarrow> field_bytes f ms []
         | JStr s \<Rightarrow> (case base64_DecodeString s of None \<Rightarrow> None | Some b \<Rightarrow> field_bytes f ms b)
         | JArr vs \<Rightarrow> (case byte_elems vs of None \<Rightarrow> None | Some b \<Rightarrow> field_bytes f ms b)
         | _ \<Rightarrow> None)
      else field_bytes f ms z)"

definition decode_group :: "(string \<times> json) list \<Rightarrow> Group option" where
  "decode_group ms =
     (case (field_string ''group_id'' ms '''', field_string ''name'' ms '''', field_string ''admin_pubkey'' ms '''',
            field_members ''members'' ms fmempty, field_bytes ''group_key'' ms [], field_uint64 ''key_epoch'' ms 0) of
        (Some i, Some n, Some a, Some m, Some k, Some e) \<Rightarrow>
          Some \<lparr>GroupID = i, gr_Name = n, AdminPubkey = a, Members = m, GroupKey = k, KeyEpoch = e\<rparr>
      | _ \<Rightarrow> None)"

definition loadPeers :: "('w, 'q, 't) env \<Rightarrow> ('q, 't) Daemon \<Rightarrow> 'w \<Rightarrow> ('q, 't) Daemon \<times> 'w" where
  "loadPeers env d w =
     (case daemon_ReadFile env (peersPath d) d w of
        (Inl _, w') \<Rightarrow> (d, w')
      | (Inr data, w') \<Rightarrow>
          (case decode_map (decode_pointer decode_peer) (string_of_bytes data) of
             None \<Rightarrow> (d, w')
           | Some loaded \<Rightarrow> (d\<lparr>peers := peers d ++\<^sub>f loaded\<rparr>, w')))"

definition savePeers :: "('w, 'q, 't) env \<Rightarrow> ('q, 't) Daemon \<Rightarrow> 'w \<Rightarrow> ('q, 't) Daemon \<times> 'w" where
  "savePeers env d w =
     snd (daemon_WriteFile env (peersPath d)
       (bytes_of_string (json_MarshalIndent (map_json (pointer_json peer_json) (peers d)))) d w)"

definition saveGroups :: "('w, 'q, 't) env \<Rightarrow> ('q, 't) Daemon \<Rightarrow> 'w \<Rightarrow> ('q, 't) Daemon \<times> 'w" where
  "saveGroups env d w =
     snd (daemon_WriteFile env (groupsPath d)
       (bytes_of_string (json_MarshalIndent (map_json (pointer_json group_json) (dm_groups d)))) d w)"

definition loadGroups :: "('w, 'q, 't) env \<Rightarrow> ('q, 't) Daemon \<Rightarrow> 'w \<Rightarrow> ('q, 't) Daemon \<times> 'w" where
  "loadGroups env d w =
     (case daemon_ReadFile env (groupsPath d) d w of
        (Inl _, w') \<Rightarrow> (d, w')
      | (Inr data, w') \<Rightarrow>
          (case decode_map (decode_pointer decode_group) (string_of_bytes data) of
             None \<Rightarrow> (d, w')
           | Some loaded \<Rightarrow> (d\<lparr>dm_groups := dm_groups d ++\<^sub>f loaded\<rparr>, w')))"

definition profile_json :: "Profile \<Rightarrow> json" where
  "profile_json p = JObj (omitempty ''nickname'' (prof_Nickname p = '''') (JStr (prof_Nickname p))
     @ omitempty ''bio'' (prof_Bio p = '''') (JStr (prof_Bio p)))"

definition loadProfile :: "('w, 'q, 't) env \<Rightarrow> ('q, 't) Daemon \<Rightarrow> 'w \<Rightarrow> ('q, 't) Daemon \<times> 'w" where
  "loadProfile env d w =
     (case daemon_ReadFile env (profilePath d) d w of
        (Inl _, w') \<Rightarrow> (d, w')
      | (Inr data, w') \<Rightarrow>
          (case struct_members (string_of_bytes data) of
             None \<Rightarrow> (d, w')
           | Some ms \<Rightarrow>
               (case (field_string ''nickname'' ms '''', field_string ''bio'' ms '''') of
                  (Some n, Some b) \<Rightarrow> (d\<lparr>dm_profile := Some \<lparr>prof_Nickname = n, prof_Bio = b\<rparr>\<rparr>, w')
                | _ \<Rightarrow> (d, w'))))"

definition saveProfile :: "('w, 'q, 't) env \<Rightarrow> ('q, 't) Daemon \<Rightarrow> 'w \<Rightarrow> ('q, 't) Daemon \<times> 'w" where
  "saveProfile env d w =
     snd (daemon_WriteFile env (profilePath d)
       (bytes_of_string (json_MarshalIndent (pointer_json profile_json (dm_profile d)))) d w)"

definition getMyNickname :: "('q, 't) Daemon \<Rightarrow> string" where
  "getMyNickname d =
     (case dm_profile d of
        Some p \<Rightarrow> if prof_Nickname p \<noteq> '''' then prof_Nickname p else ''Me''
      | None \<Rightarrow> ''Me'')"

text \<open>A field that is a list of strings: a \<^verbatim>\<open>null\<close> element keeps what the slice had there.\<close>

fun string_elems :: "json list \<Rightarrow> string list \<Rightarrow> string list option" where
  "string_elems [] old = Some []"
| "string_elems (JStr s # vs) old = map_option ((#) s) (string_elems vs (drop 1 old))"
| "string_elems (JNull # vs) old = map_option ((#) (if old = [] then '''' else hd old)) (string_elems vs (drop 1 old))"
| "string_elems (v # vs) old = None"

fun field_strings :: "string \<Rightarrow> (string \<times> json) list \<Rightarrow> string list \<Rightarrow> string list option" where
  "field_strings f [] z = Some z"
| "field_strings f ((k, v) # ms) z =
     (if key_matches f k then
        (case v of
           JNull \<Rightarrow> field_strings f ms []
         | JArr vs \<Rightarrow> (case string_elems vs z of None \<Rightarrow> None | Some l \<Rightarrow> field_strings f ms l)
         | _ \<Rightarrow> None)
      else field_strings f ms z)"

definition loadRelaysFromConfig :: "string option \<Rightarrow> string \<Rightarrow> files \<Rightarrow> string list" where
  "loadRelaysFromConfig fault dir fs =
     (case os_ReadFile fault (filepath_Join [dir, ''relays.json'']) fs of
        Inl _ \<Rightarrow> []
      | Inr data \<Rightarrow>
          (case struct_members (string_of_bytes data) of
             None \<Rightarrow> []
           | Some ms \<Rightarrow> (case field_strings ''relays'' ms [] of None \<Rightarrow> [] | Some l \<Rightarrow> l)))"

section \<open>The call token\<close>

definition authTokenLen :: nat where "authTokenLen = 32"

definition new_auth_token :: "entropy \<Rightarrow> write_result \<Rightarrow> string \<Rightarrow> files \<Rightarrow> (string + bytes) \<times> files" where
  "new_auth_token rnd wr path fs =
     (case rand_Read authTokenLen rnd of
        Inl e \<Rightarrow> (Inl (''generate auth token: '' @ e), fs)
      | Inr token \<Rightarrow>
          (let tokenHex = bytes_of_string (hex_EncodeToString token) in
           case os_WriteFile wr path tokenHex fs of
             (Some e, fs') \<Rightarrow> (Inl (''save auth token: '' @ e), fs')
           | (None, fs') \<Rightarrow> (Inr tokenHex, fs')))"

definition loadOrGenerateAuthToken ::
  "string option \<Rightarrow> entropy \<Rightarrow> write_result \<Rightarrow> string \<Rightarrow> files \<Rightarrow> (string + bytes) \<times> files" where
  "loadOrGenerateAuthToken fault rnd wr path fs =
     (case os_ReadFile fault path fs of
        Inr data \<Rightarrow> if length data = authTokenLen * 2 then (Inr data, fs) else new_auth_token rnd wr path fs
      | Inl _ \<Rightarrow> new_auth_token rnd wr path fs)"

text \<open>
  The interceptor of unary calls. The metadata of the call is given by the values of
  \<^verbatim>\<open>x-auth-token\<close>, or \<open>None\<close> when the call has no metadata. \<^verbatim>\<open>subtle.ConstantTimeCompare\<close> is
  equality.
\<close>

definition authInterceptor ::
  "string \<Rightarrow> string list option \<Rightarrow> (('q, 't) Daemon \<Rightarrow> 'w \<Rightarrow> 'a reply \<times> ('q, 't) Daemon \<times> 'w)
   \<Rightarrow> ('q, 't) Daemon \<Rightarrow> 'w \<Rightarrow> 'a reply \<times> ('q, 't) Daemon \<times> 'w" where
  "authInterceptor fullMethod md handler d w =
     (case authToken d of
        None \<Rightarrow> handler d w
      | Some token \<Rightarrow>
          if strings_Contains fullMethod ''GetIdentity'' then handler d w
          else (case md of
                  None \<Rightarrow> (Fails (Status codes_Unauthenticated ''missing metadata''), d, w)
                | Some [] \<Rightarrow> (Fails (Status codes_Unauthenticated ''missing auth token''), d, w)
                | Some (t # _) \<Rightarrow>
                    if length t \<noteq> authTokenLen * 2 then (Fails (Status codes_Unauthenticated ''invalid auth token''), d, w)
                    else if token \<noteq> bytes_of_string t then (Fails (Status codes_Unauthenticated ''invalid auth token''), d, w)
                    else handler d w))"

section \<open>Calls that read or set a part of the state\<close>

record RelayStatus =
  rs_Address :: string
  rs_Reachable :: bool
  rs_BlackoutMode :: bool

definition Daemon_GetRelayStatus :: "('q, 't) Daemon \<Rightarrow> RelayStatus list" where
  "Daemon_GetRelayStatus d =
     (let mode = CurrentMode (detector d) in
      map (\<lambda>r. \<lparr>rs_Address = r, rs_Reachable = (mode = ModeNormal), rs_BlackoutMode = (mode = ModeBlackout)\<rparr>)
        (GetRelays (engine d)))"

definition Daemon_AddRelay :: "string \<Rightarrow> ('q, 't) Daemon \<Rightarrow> ('q, 't) Daemon" where
  "Daemon_AddRelay addr d = d\<lparr>engine := SetRelays (GetRelays (engine d) @ [addr]) (engine d)\<rparr>"

definition Daemon_RemoveRelay :: "string \<Rightarrow> ('q, 't) Daemon \<Rightarrow> ('q, 't) Daemon" where
  "Daemon_RemoveRelay addr d = d\<lparr>engine := SetRelays (filter (\<lambda>r. r \<noteq> addr) (GetRelays (engine d))) (engine d)\<rparr>"

record IdentityInfo =
  ii_Pubkey :: string
  ii_Nickname :: string
  ii_Bio :: string

definition Daemon_GetIdentity :: "('q, 't) Daemon \<Rightarrow> IdentityInfo reply" where
  "Daemon_GetIdentity d =
     (case identity d of
        None \<Rightarrow> Panics
      | Some kp \<Rightarrow>
          (let (nickname, bio) = (case dm_profile d of None \<Rightarrow> ('''', '''') | Some p \<Rightarrow> (prof_Nickname p, prof_Bio p))
           in Reply \<lparr>ii_Pubkey = base64_EncodeToString (PublicKey kp), ii_Nickname = nickname, ii_Bio = bio\<rparr>))"

definition Daemon_AddPeer ::
  "('w, 'q, 't) env \<Rightarrow> string \<Rightarrow> string \<Rightarrow> ('q, 't) Daemon \<Rightarrow> 'w \<Rightarrow> unit reply \<times> ('q, 't) Daemon \<times> 'w" where
  "Daemon_AddPeer env nickname pubkey d w =
     (case base64_DecodeString pubkey of
        None \<Rightarrow> (Fails (Status codes_InvalidArgument ''invalid public key: not valid base64''), d, w)
      | Some pubkeyBytes \<Rightarrow>
          if length pubkeyBytes \<noteq> KeyLength
          then (Fails (Status codes_InvalidArgument ''invalid public key: expected 32 bytes''), d, w)
          else (Reply (), savePeers env
                  (d\<lparr>peers := fmupd pubkey (Some \<lparr>pe_Nickname = nickname, pe_Pubkey = pubkey\<rparr>) (peers d)\<rparr>) w))"

definition Daemon_RemovePeer ::
  "('w, 'q, 't) env \<Rightarrow> string \<Rightarrow> ('q, 't) Daemon \<Rightarrow> 'w \<Rightarrow> unit reply \<times> ('q, 't) Daemon \<times> 'w" where
  "Daemon_RemovePeer env pubkey d w = (Reply (), savePeers env (d\<lparr>peers := fmdrop pubkey (peers d)\<rparr>) w)"

definition Daemon_ListPeers ::
  "('w, 'q, 't) env \<Rightarrow> ('q, 't) Daemon \<Rightarrow> 'w \<Rightarrow> PeerInfoEntry list reply \<times> 'w" where
  "Daemon_ListPeers env d w =
     (case env_range env (fmdom (peers d)) w of
        (ks, w') \<Rightarrow>
          (let ps = map (\<lambda>k. the (fmlookup (peers d) k)) ks
           in (if None \<in> set ps then Panics else Reply (map the ps), w')))"

definition Daemon_GetProfilePic ::
  "('w, 'q, 't) env \<Rightarrow> ('q, 't) Daemon \<Rightarrow> 'w \<Rightarrow> (bytes \<times> string) \<times> 'w" where
  "Daemon_GetProfilePic env d w =
     (case daemon_ReadFile env (filepath_Join [dataDir d, ''profile_pic.jpg'']) d w of
        (Inl _, w') \<Rightarrow> (([], ''''), w')
      | (Inr data, w') \<Rightarrow> ((data, ''image/jpeg''), w'))"

text \<open>What the two calls that set the profile start in the background is part of their result.\<close>

datatype background = BroadcastProfile string string | BroadcastPic bytes string

definition Daemon_UpdateProfile ::
  "('w, 'q, 't) env \<Rightarrow> string \<Rightarrow> string \<Rightarrow> ('q, 't) Daemon \<Rightarrow> 'w
   \<Rightarrow> (unit reply \<times> background list) \<times> ('q, 't) Daemon \<times> 'w" where
  "Daemon_UpdateProfile env nickname bio d w =
     ((Reply (), [BroadcastProfile nickname bio]),
      saveProfile env (d\<lparr>dm_profile := Some \<lparr>prof_Nickname = nickname, prof_Bio = bio\<rparr>\<rparr>) w)"

definition Daemon_SetProfilePic ::
  "('w, 'q, 't) env \<Rightarrow> bytes \<Rightarrow> string \<Rightarrow> ('q, 't) Daemon \<Rightarrow> 'w
   \<Rightarrow> (unit reply \<times> background list) \<times> ('q, 't) Daemon \<times> 'w" where
  "Daemon_SetProfilePic env imageData mimeType d w =
     (if length imageData > 5 * 1024 * 1024
      then ((Fails (Status codes_InvalidArgument ''image too large (max 5MB)''), []), d, w)
      else case daemon_WriteFile env (filepath_Join [dataDir d, ''profile_pic.jpg'']) imageData d w of
             (Some _, d', w') \<Rightarrow> ((Fails (Status codes_Internal ''failed to save profile picture''), []), d', w')
           | (None, d', w') \<Rightarrow> ((Reply (), [BroadcastPic imageData mimeType]), d', w'))"

definition Daemon_GetTransportStatus :: "('q, 't) Daemon \<Rightarrow> string" where
  "Daemon_GetTransportStatus d = (if CurrentMode (detector d) = ModeBlackout then ''blackout'' else ''normal'')"

text \<open>The numbers of \<^verbatim>\<open>SetTransportModeRequest\<close>: 0 automatic, 1 TCP, 2 UDP; others are automatic.\<close>

definition Daemon_SetTransportMode :: "int \<Rightarrow> ('q, 't) Daemon \<Rightarrow> ('q, 't) Daemon" where
  "Daemon_SetTransportMode m d =
     d\<lparr>engine := SetTransportMode (if m = 1 then TransportTCP else if m = 2 then TransportUDP else TransportAuto) (engine d)\<rparr>"

definition Daemon_SetChunkSize :: "int \<Rightarrow> ('q, 't) Daemon \<Rightarrow> ('q, 't) Daemon" where
  "Daemon_SetChunkSize n d = d\<lparr>engine := SetChunkSize n (engine d)\<rparr>"

section \<open>The watchers\<close>

text \<open>One tick of each loop; \<open>prev\<close> is its local variable \<^verbatim>\<open>last\<close>.\<close>

definition watchTransportMode_tick ::
  "('w, 'q, 't) env \<Rightarrow> string \<Rightarrow> ('q, 't) Daemon \<Rightarrow> 'w \<Rightarrow> string \<times> ('q, 't) Daemon \<times> 'w" where
  "watchTransportMode_tick env prev d w =
     (case daemon_ReadFile env (filepath_Join [dataDir d, ''transport_mode'']) d w of
        (Inl _, w') \<Rightarrow> (prev, d, w')
      | (Inr data, w') \<Rightarrow>
          (let mode = strings_TrimSpace (string_of_bytes data)
           in if mode = prev then (prev, d, w')
              else (mode, d\<lparr>engine := SetTransportMode (TransportModeFromString mode) (engine d)\<rparr>, w')))"

definition strconv_Atoi :: "string \<Rightarrow> int option" where
  "strconv_Atoi s =
     (let neg = (s \<noteq> [] \<and> hd s = CHR ''-'');
          ds = (if s \<noteq> [] \<and> (hd s = CHR ''-'' \<or> hd s = CHR ''+'') then tl s else s);
          n = (if neg then - int (dec_value ds) else int (dec_value ds))
      in if ds \<noteq> [] \<and> list_all is_digit ds \<and> - (2 ^ 63) \<le> n \<and> n < 2 ^ 63 then Some n else None)"

definition watchChunkSize_tick ::
  "('w, 'q, 't) env \<Rightarrow> int \<Rightarrow> ('q, 't) Daemon \<Rightarrow> 'w \<Rightarrow> int \<times> ('q, 't) Daemon \<times> 'w" where
  "watchChunkSize_tick env prev d w =
     (case daemon_ReadFile env (filepath_Join [dataDir d, ''chunk_size'']) d w of
        (Inl _, w') \<Rightarrow> (prev, d, w')
      | (Inr data, w') \<Rightarrow>
          (case strconv_Atoi (strings_TrimSpace (string_of_bytes data)) of
             None \<Rightarrow> (prev, d, w')
           | Some n \<Rightarrow>
               if n < 32 \<or> n > 200 \<or> n = prev then (prev, d, w')
               else (n, d\<lparr>engine := SetChunkSize n (engine d)\<rparr>, w')))"

end
