(* ===== verification/Daemon_Files.thy ===== *)
theory Daemon_Files
  imports Daemon_State
begin

text \<open>
  The files of the daemon: what was saved is loaded again, and the
  token survives a restart.
\<close>

section \<open>Maps in files\<close>

lemma decode_entries_image:
  assumes "\<And>k. k \<in> set ks \<Longrightarrow> dec (f (g k)) = Some (g k)"
  shows "decode_entries dec (map (\<lambda>k. (k, f (g k))) ks) z = Some (foldl (\<lambda>z k. fmupd k (g k) z) z ks)"
  using assms by (induction ks arbitrary: z) simp_all

lemma foldl_fmupd: "fmlookup (foldl (\<lambda>z k. fmupd k (g k) z) z ks) k = (if k \<in> set ks then Some (g k) else fmlookup z k)"
  by (induction ks arbitrary: z) auto

lemma decode_entries_map_json:
  assumes "\<And>k x. fmlookup m k = Some x \<Longrightarrow> dec (f x) = Some x"
  shows "decode_entries dec (map (\<lambda>k. (k, f (the (fmlookup m k)))) (sorted_list_of_fset (fmdom m))) fmempty = Some m"
proof -
  have "decode_entries dec (map (\<lambda>k. (k, f (the (fmlookup m k)))) (sorted_list_of_fset (fmdom m))) fmempty
      = Some (foldl (\<lambda>z k. fmupd k (the (fmlookup m k)) z) fmempty (sorted_list_of_fset (fmdom m)))"
    by (rule decode_entries_image) (auto simp: fmlookup_dom_iff intro: assms)
  also have "foldl (\<lambda>z k. fmupd k (the (fmlookup m k)) z) fmempty (sorted_list_of_fset (fmdom m)) = m"
    by (rule fmap_ext) (auto simp: foldl_fmupd fmlookup_dom_iff)
  finally show ?thesis .
qed

lemma json_wf_map:
  assumes "0 < n" "\<And>k x. fmlookup m k = Some x \<Longrightarrow> utf8_valid k \<and> json_wf (n - 1) (f x)"
  shows "json_wf n (map_json f m)"
  using assms by (auto simp: map_json_def list_all_iff fmlookup_dom_iff)

lemma decode_map_json:
  assumes "\<And>k x. fmlookup m k = Some x \<Longrightarrow> utf8_valid k \<and> json_wf 9999 (f x) \<and> dec (f x) = Some x"
  shows "decode_map dec (json_MarshalIndent (map_json f m)) = Some m"
proof -
  have "json_wf 10000 (map_json f m)" using assms by (intro json_wf_map) simp_all
  then have "json_parse (json_MarshalIndent (map_json f m)) = Some (map_json f m)" by (rule json_parse_MarshalIndent)
  moreover have "decode_entries dec (map (\<lambda>k. (k, f (the (fmlookup m k)))) (sorted_list_of_fset (fmdom m))) fmempty = Some m"
    using assms by (intro decode_entries_map_json) blast
  ultimately show ?thesis unfolding decode_map_def map_json_def by simp
qed

section \<open>Peers and groups in files\<close>

definition field_char :: "char \<Rightarrow> bool" where
  "field_char c \<longleftrightarrow> c = CHR ''_'' \<or> 97 \<le> code c \<and> code c \<le> 122 \<or> 48 \<le> code c \<and> code c \<le> 57"

lemma field_char_ascii: "field_char c \<Longrightarrow> code c < 128"
  by (auto simp: field_char_def)

lemma fold_key_field: "list_all field_char s \<Longrightarrow> fold_key s = map upper_char s"
proof (induction s rule: fold_key.induct)
  case (1 a b c r)
  then have "code a < 128" "code b < 128" by (auto dest: field_char_ascii)
  then have "a \<noteq> CHR 0xE2" "a \<noteq> CHR 0xC5" by auto
  with 1 show ?case by simp
next
  case (2 a b)
  then have "code a < 128" by (auto dest: field_char_ascii)
  then have "a \<noteq> CHR 0xC5" by auto
  then show ?case by simp
qed simp_all

lemma upper_char_inj: "field_char a \<Longrightarrow> field_char b \<Longrightarrow> upper_char a = upper_char b \<Longrightarrow> a = b"
proof -
  have u: "code (upper_char c) = (if 97 \<le> code c then code c - 32 else code c)" if "field_char c" for c
    using that by (auto simp: field_char_def upper_char_def)
  have cls: "code c = 95 \<or> 97 \<le> code c \<and> code c \<le> 122 \<or> 48 \<le> code c \<and> code c \<le> 57" if "field_char c" for c
    using that by (auto simp: field_char_def)
  have inj: "A = B" if e: "(if 97 \<le> A then A - 32 else A) = (if 97 \<le> B then B - 32 else B)"
    and a: "A = 95 \<or> 97 \<le> A \<and> A \<le> 122 \<or> 48 \<le> A \<and> A \<le> 57" and b: "B = 95 \<or> 97 \<le> B \<and> B \<le> 122 \<or> 48 \<le> B \<and> B \<le> 57"
    for A B :: nat using a b e by (elim disjE conjE) simp_all
  assume a: "field_char a" "field_char b" "upper_char a = upper_char b"
  have "code a = code b" by (rule inj [OF _ cls [OF a(1)] cls [OF a(2)]]) (simp only: u [OF a(1), symmetric] u [OF a(2), symmetric] a(3))
  then show "a = b" by simp
qed

lemma key_matches_field: "list_all field_char a \<Longrightarrow> list_all field_char b \<Longrightarrow> key_matches a b \<longleftrightarrow> a = b"
proof -
  assume ab: "list_all field_char a" "list_all field_char b"
  have "inj_on upper_char (set b \<union> set a)"
  proof (rule inj_onI)
    fix x y assume "x \<in> set b \<union> set a" "y \<in> set b \<union> set a" and eq: "upper_char x = upper_char y"
    then have "field_char x" "field_char y" using ab by (auto simp: list_all_iff)
    then show "x = y" using eq by (rule upper_char_inj)
  qed
  from inj_on_map_eq_map [OF this] show "key_matches a b \<longleftrightarrow> a = b"
    unfolding key_matches_def fold_key_field [OF ab(2)] by metis
qed

lemma utf8_field: "list_all field_char s \<Longrightarrow> utf8_valid s"
  by (rule utf8_valid_ascii) (auto simp: list_all_iff intro: field_char_ascii)

definition utf8_peer :: "PeerInfoEntry option \<Rightarrow> bool" where
  "utf8_peer p = (case p of None \<Rightarrow> True | Some e \<Rightarrow> utf8_valid (pe_Nickname e) \<and> utf8_valid (pe_Pubkey e))"

definition utf8_member :: "GroupMember option \<Rightarrow> bool" where
  "utf8_member p = (case p of None \<Rightarrow> True
     | Some e \<Rightarrow> utf8_valid (gm_Pubkey e) \<and> utf8_valid (gm_Nickname e) \<and> utf8_valid (gm_Role e))"

definition utf8_group :: "Group option \<Rightarrow> bool" where
  "utf8_group p = (case p of None \<Rightarrow> True
     | Some g \<Rightarrow> utf8_valid (GroupID g) \<and> utf8_valid (gr_Name g) \<and> utf8_valid (AdminPubkey g)
         \<and> fmpred (\<lambda>k m. utf8_valid k \<and> utf8_member m) (Members g))"

lemma decode_peer_json:
  "utf8_peer p \<Longrightarrow> json_wf 9999 (pointer_json peer_json p) \<and> decode_pointer decode_peer (pointer_json peer_json p) = Some p"
  by (cases p)
    (auto simp: utf8_peer_def pointer_json_def peer_json_def decode_pointer_def decode_peer_def key_matches_field utf8_field
      field_char_def)

lemma decode_member_json:
  "utf8_member p \<Longrightarrow> 1 < n \<Longrightarrow>
   json_wf n (pointer_json member_json p) \<and> decode_pointer decode_member (pointer_json member_json p) = Some p"
  by (cases p)
    (auto simp: utf8_member_def pointer_json_def member_json_def decode_pointer_def decode_member_def key_matches_field utf8_field
      field_char_def)

lemma utf8_base64: "utf8_valid (base64_EncodeToString b)"
proof (rule utf8_valid_ascii)
  have "code c < 128" if "c \<in> insert CHR ''='' (set base64_alphabet)" for c
    using that by (auto simp: base64_alphabet_def)
  then show "list_all (\<lambda>c. code c < 128) (base64_EncodeToString b)"
    using set_base64 [of b] by (auto simp: list_all_iff)
qed

lemma decode_members_json:
  assumes "fmpred (\<lambda>k m. utf8_valid k \<and> utf8_member m) m"
  shows "json_wf 9998 (map_json (pointer_json member_json) m)"
    and "decode_entries (decode_pointer decode_member)
      (map (\<lambda>k. (k, pointer_json member_json (the (fmlookup m k)))) (sorted_list_of_fset (fmdom m))) fmempty = Some m"
proof -
  have m: "utf8_valid k \<and> utf8_member x" if "fmlookup m k = Some x" for k x
    using assms that by (auto dest: fmpredD)
  show "json_wf 9998 (map_json (pointer_json member_json) m)"
    using m decode_member_json [where n = 9997] by (intro json_wf_map) auto
  show "decode_entries (decode_pointer decode_member)
      (map (\<lambda>k. (k, pointer_json member_json (the (fmlookup m k)))) (sorted_list_of_fset (fmdom m))) fmempty = Some m"
    using m decode_member_json [where n = 9997] by (intro decode_entries_map_json) auto
qed

lemma decode_group_json:
  assumes "utf8_group p"
  shows "json_wf 9999 (pointer_json group_json p) \<and> decode_pointer decode_group (pointer_json group_json p) = Some p"
proof (cases p)
  case (Some g)
  have m: "fmpred (\<lambda>k m. utf8_valid k \<and> utf8_member m) (Members g)" using assms Some by (simp add: utf8_group_def)
  have wf: "json_wf 9999 (group_json g)"
    using assms Some decode_members_json(1) [OF m]
    by (simp add: group_json_def utf8_group_def utf8_field field_char_def utf8_base64 num_ok_nat_string)
  have "decode_group (case group_json g of JObj ms \<Rightarrow> ms) = Some g"
    using decode_members_json(2) [OF m]
    by (simp add: group_json_def decode_group_def key_matches_field field_char_def map_json_def base64_decode_encode parse_uint64_string)
  then show ?thesis using wf Some by (simp add: pointer_json_def decode_pointer_def group_json_def)
qed (simp add: pointer_json_def decode_pointer_def)

section \<open>Saving and loading\<close>

text \<open>An outside in which every file access succeeds, with a given network and a given schedule of sends.\<close>

definition quiet_env ::
  "'w exchange \<Rightarrow> 'w http_client \<Rightarrow> msg_id \<times> par_event list \<times> bool list \<Rightarrow> ('w, int \<times> queue_rows, transfer_rows) env" where
  "quiet_env exch http run = \<lparr>
     env_crypto = plain_crypto, env_fqdn = (\<lambda>s. s @ ''.''), env_exch = exch, env_http = http,
     env_queue = mem_sql, env_transfers = mem_transfers,
     env_now = (\<lambda>w. (0, w)), env_random = (\<lambda>w. (Inr (\<lambda>_. 7), w)),
     env_write = (\<lambda>w. (WriteOK, w)), env_read = (\<lambda>w. (None, w)),
     env_run = (\<lambda>w. (run, w)), env_range = (\<lambda>S w. (sorted_list_of_fset S, w))\<rparr>"

definition blank_daemon :: "string \<Rightarrow> (int \<times> queue_rows, transfer_rows) Daemon" where
  "blank_daemon dir = \<lparr>engine = NewDNSClientEngine [] ''z'', detector = NewDetector False 0, dm_queue = (0, fmempty), identity = None,
     peers = fmempty, peersPath = dir @ ''/daemon_peers.json'', dm_groups = fmempty, groupsPath = dir @ ''/daemon_groups.json'',
     dataDir = dir, pendingHellos = fmempty, transfers = fmempty, transferStore = None, authToken = None,
     dm_profile = None, profilePath = dir @ ''/profile.json'', disk = fmempty\<rparr>"

lemma range_ok_quiet: "range_ok (quiet_env exch http run)"
  by (simp add: range_ok_def quiet_env_def sorted_list_of_fset.rep_eq)

lemma savePeers_ok:
  "fst (env_write env w) = WriteOK \<Longrightarrow>
   fst (savePeers env d w) = d\<lparr>disk := fmupd (peersPath d)
     (bytes_of_string (json_MarshalIndent (map_json (pointer_json peer_json) (peers d)))) (disk d)\<rparr>"
  by (simp add: savePeers_def daemon_WriteFile_def os_WriteFile_def split_def)

lemma saveGroups_ok:
  "fst (env_write env w) = WriteOK \<Longrightarrow>
   fst (saveGroups env d w) = d\<lparr>disk := fmupd (groupsPath d)
     (bytes_of_string (json_MarshalIndent (map_json (pointer_json group_json) (dm_groups d)))) (disk d)\<rparr>"
  by (simp add: saveGroups_def daemon_WriteFile_def os_WriteFile_def split_def)

lemma loadPeers_saved:
  assumes "fst (env_read env w) = None" "fmpred (\<lambda>k p. utf8_valid k \<and> utf8_peer p) m"
    "fmlookup (disk d) (peersPath d) = Some (bytes_of_string (json_MarshalIndent (map_json (pointer_json peer_json) m)))"
  shows "fst (loadPeers env d w) = d\<lparr>peers := peers d ++\<^sub>f m\<rparr>"
proof -
  have "decode_map (decode_pointer decode_peer) (json_MarshalIndent (map_json (pointer_json peer_json) m)) = Some m"
    using assms(2) decode_peer_json by (intro decode_map_json) (auto dest: fmpredD)
  then show ?thesis using assms(1,3)
    by (simp add: loadPeers_def daemon_ReadFile_def os_ReadFile_def split_def)
qed

lemma loadGroups_saved:
  assumes "fst (env_read env w) = None" "fmpred (\<lambda>k g. utf8_valid k \<and> utf8_group g) m"
    "fmlookup (disk d) (groupsPath d) = Some (bytes_of_string (json_MarshalIndent (map_json (pointer_json group_json) m)))"
  shows "fst (loadGroups env d w) = d\<lparr>dm_groups := dm_groups d ++\<^sub>f m\<rparr>"
proof -
  have "decode_map (decode_pointer decode_group) (json_MarshalIndent (map_json (pointer_json group_json) m)) = Some m"
    using assms(2) decode_group_json by (intro decode_map_json) (auto dest: fmpredD)
  then show ?thesis using assms(1,3)
    by (simp add: loadGroups_def daemon_ReadFile_def os_ReadFile_def split_def)
qed

text \<open>
  (C28) A restarted daemon has the peers and the groups that were saved: when the file accesses
  succeed and all names are valid UTF-8, loading the two files into a daemon with no peers and
  groups restores both maps, including every member, key and epoch of every group.
\<close>

theorem saved_state_reloaded:
  assumes "\<And>w. fst (env_write env w) = WriteOK" "\<And>w. fst (env_read env w) = None"
    and "fmpred (\<lambda>k p. utf8_valid k \<and> utf8_peer p) (peers d)" "fmpred (\<lambda>k g. utf8_valid k \<and> utf8_group g) (dm_groups d)"
    and "peersPath d \<noteq> groupsPath d"
    and "savePeers env d w = (d1, w1)" "saveGroups env d1 w1 = (d2, w2)"
    and "loadPeers env (d2\<lparr>peers := fmempty, dm_groups := fmempty\<rparr>) w2 = (d3, w3)" "loadGroups env d3 w3 = (d4, w4)"
  shows "peers d4 = peers d \<and> dm_groups d4 = dm_groups d"
proof -
  note d1 = savePeers_ok [where w = w and d = d, OF assms(1), unfolded assms(6) fst_conv]
  note d2 = saveGroups_ok [where w = w1 and d = d1, OF assms(1), unfolded assms(7) fst_conv]
  let ?blank = "d2\<lparr>peers := fmempty, dm_groups := fmempty\<rparr>"
  have files: "fmlookup (disk d2) (peersPath d2) = Some (bytes_of_string (json_MarshalIndent (map_json (pointer_json peer_json) (peers d))))"
    "fmlookup (disk d2) (groupsPath d2) = Some (bytes_of_string (json_MarshalIndent (map_json (pointer_json group_json) (dm_groups d))))"
    using assms(5) by (simp_all add: d1 d2)
  have d3: "d3 = ?blank\<lparr>peers := fmempty ++\<^sub>f peers d\<rparr>"
    using loadPeers_saved [where d = ?blank and w = w2, OF assms(2,3)] files(1) by (simp add: assms(8))
  have "fmlookup (disk d3) (groupsPath d3) = Some (bytes_of_string (json_MarshalIndent (map_json (pointer_json group_json) (dm_groups d))))"
    using files(2) by (simp add: d3)
  from loadGroups_saved [OF assms(2,4) this, of w3] have "d4 = d3\<lparr>dm_groups := dm_groups d3 ++\<^sub>f dm_groups d\<rparr>"
    unfolding assms(9) by simp
  then show ?thesis by (simp add: d3)
qed

text \<open>A daemon with one peer and one group of one member.\<close>

definition ann_daemon :: "(int \<times> queue_rows, transfer_rows) Daemon" where
  "ann_daemon = (blank_daemon ''/d'')\<lparr>
     peers := fmap_of_list [(''ann'', Some \<lparr>pe_Nickname = ''Ann'', pe_Pubkey = ''ann''\<rparr>)],
     dm_groups := fmap_of_list [(''g1'', Some \<lparr>GroupID = ''g1'', gr_Name = ''all'', AdminPubkey = ''ann'',
       Members = fmap_of_list [(''ann'', Some \<lparr>gm_Pubkey = ''ann'', gm_Nickname = ''Ann'', gm_Role = ''admin''\<rparr>)],
       GroupKey = [1, 2], KeyEpoch = 3\<rparr>)]\<rparr>"

definition silent_exch :: "unit exchange" where
  "silent_exch nt q addr w = (Inl ''timeout'', w)"

definition silent_http :: "unit http_client" where
  "silent_http method url token body w = (Inl (DoFailed ''refused''), w)"

theorem saved_state_reloaded_witness:
  "let env = quiet_env silent_exch silent_http (1, [], []);
       (d1, w1) = savePeers env ann_daemon (); (d2, w2) = saveGroups env d1 w1;
       (d3, w3) = loadPeers env (d2\<lparr>peers := fmempty, dm_groups := fmempty\<rparr>) w2; (d4, w4) = loadGroups env d3 w3
   in peers d4 = peers ann_daemon \<and> dm_groups d4 = dm_groups ann_daemon"
proof -
  define env where "env = quiet_env silent_exch silent_http (1, [], [])"
  obtain d1 w1 where 1: "savePeers env ann_daemon () = (d1, w1)" by (rule prod.exhaust)
  obtain d2 w2 where 2: "saveGroups env d1 w1 = (d2, w2)" by (rule prod.exhaust)
  obtain d3 w3 where 3: "loadPeers env (d2\<lparr>peers := fmempty, dm_groups := fmempty\<rparr>) w2 = (d3, w3)" by (rule prod.exhaust)
  obtain d4 w4 where 4: "loadGroups env d3 w3 = (d4, w4)" by (rule prod.exhaust)
  have ascii: "utf8_valid ''ann''" "utf8_valid ''Ann''" "utf8_valid ''g1''" "utf8_valid ''all''" "utf8_valid ''admin''"
    by (rule utf8_valid_ascii, simp)+
  have "fmpred (\<lambda>k p. utf8_valid k \<and> utf8_peer p) (peers ann_daemon)"
    by (auto simp: ann_daemon_def utf8_peer_def ascii fmpred_iff split: if_splits)
  moreover have "fmpred (\<lambda>k g. utf8_valid k \<and> utf8_group g) (dm_groups ann_daemon)"
    by (auto simp: ann_daemon_def utf8_group_def utf8_member_def ascii fmpred_iff split: if_splits)
  moreover have "peersPath ann_daemon \<noteq> groupsPath ann_daemon" by (simp add: ann_daemon_def blank_daemon_def)
  ultimately have "peers d4 = peers ann_daemon \<and> dm_groups d4 = dm_groups ann_daemon"
    by (intro saved_state_reloaded [OF _ _ _ _ _ 1 2 3 4]) (simp_all add: env_def quiet_env_def)
  then show ?thesis unfolding env_def [symmetric] Let_def 1 2 3 4 prod.case .
qed

section \<open>The token\<close>

lemma auth_token_reloaded:
  assumes "loadOrGenerateAuthToken fault rnd wr path fs = (Inr token, fs')"
  shows "loadOrGenerateAuthToken None rnd' wr' path fs' = (Inr token, fs') \<and> length token = authTokenLen * 2"
proof -
  have new: "fmlookup fs' path = Some token \<and> length token = authTokenLen * 2"
    if "new_auth_token rnd wr path fs = (Inr token, fs')"
    using that length_rand_Read [of authTokenLen rnd]
    by (auto simp: new_auth_token_def Let_def os_WriteFile_def bytes_of_string_def split: sum.splits write_result.splits)
  have "fmlookup fs' path = Some token \<and> length token = authTokenLen * 2"
  proof (cases "os_ReadFile fault path fs")
    case (Inl e)
    then show ?thesis using assms new by (simp add: loadOrGenerateAuthToken_def)
  next
    case (Inr data)
    then have "fmlookup fs path = Some data" by (auto simp: os_ReadFile_def split: option.splits)
    then show ?thesis using assms new Inr by (auto simp: loadOrGenerateAuthToken_def split: if_splits)
  qed
  then show ?thesis by (simp add: loadOrGenerateAuthToken_def os_ReadFile_def)
qed

end
