(* ===== verification/Daemon_Messages.thy ===== *)
theory Daemon_Messages
  imports Daemon_Files
begin

text \<open>
  The messages of the daemon: \<^verbatim>\<open>SendMessage\<close>, \<^verbatim>\<open>PollMessages\<close>, the invitations and the broadcasts of
  the profile (\<^verbatim>\<open>daemon.go\<close> and \<^verbatim>\<open>daemon_state.go\<close>). The long loop body of \<^verbatim>\<open>PollMessages\<close> is cut where
  the source decides on the kind of a message.
\<close>

section \<open>Sending\<close>

record SendRequest =
  sr_PeerPubkey :: string
  sr_Plaintext :: bytes
  sr_GroupId :: string

record SendResponse =
  sresp_MessageId :: string
  sresp_Queued :: bool
  sresp_ChunkCount :: int

text \<open>The key shared with a peer given in base64.\<close>

definition peer_secret :: "crypto_ops \<Rightarrow> KeyPair \<Rightarrow> string \<Rightarrow> daemon_error + bytes" where
  "peer_secret ops kp peer =
     (case base64_DecodeString peer of
        None \<Rightarrow> Inl BadBase64
      | Some pub \<Rightarrow> map_sum CryptoError (\<lambda>s. s) (SharedSecret ops (PrivateKey kp) pub))"

definition group_envelope :: "string \<Rightarrow> uint64 \<Rightarrow> bytes \<Rightarrow> string" where
  "group_envelope groupID epoch ciphertext =
     ''{\"g\":\"'' @ groupID @ ''\",\"e\":'' @ nat_string (unat epoch) @ '',\"m\":\"'' @ base64_EncodeToString ciphertext @ ''\"}''"

definition send_to_members ::
  "('w, 'q, 't) env \<Rightarrow> bytes \<Rightarrow> string \<Rightarrow> Group \<Rightarrow> ('q, 't) Daemon \<Rightarrow> 'w \<Rightarrow> unit reply \<times> 'w" where
  "send_to_members env payload myPubkey grp d w =
     (case env_range env (fmdom (Members grp)) w of
        (ks, w') \<Rightarrow>
          each_key (\<lambda>pubkey w. if pubkey = myPubkey then (Reply (), w)
            else case engine_send env payload pubkey d w of
                   (None, w1) \<Rightarrow> (Hangs, w1)
                 | (Some _, w1) \<Rightarrow> (Reply (), w1)) ks w')"

definition send_group_message ::
  "('w, 'q, 't) env \<Rightarrow> KeyPair \<Rightarrow> SendRequest \<Rightarrow> ('q, 't) Daemon \<Rightarrow> 'w \<Rightarrow> SendResponse reply \<times> ('q, 't) Daemon \<times> 'w" where
  "send_group_message env kp req d w =
     (case fmlookup (dm_groups d) (sr_GroupId req) of
        None \<Rightarrow> (Fails (Status codes_NotFound (''group not found: '' @ sr_GroupId req)), d, w)
      | Some None \<Rightarrow> (Panics, d, w)
      | Some (Some grp) \<Rightarrow>
          (case env_random env w of
             (rnd, w1) \<Rightarrow>
               (case EncryptGroupMessage (env_crypto env) rnd (GroupKey grp) (sr_Plaintext req) of
                  Inl _ \<Rightarrow> (Fails (Status codes_Internal ''encrypt group message failed''), d, w1)
                | Inr ciphertext \<Rightarrow>
                    (case send_to_members env (bytes_of_string (group_envelope (sr_GroupId req) (KeyEpoch grp) ciphertext))
                        (base64_EncodeToString (PublicKey kp)) grp d w1 of
                       (Reply _, w2) \<Rightarrow>
                         (Reply \<lparr>sresp_MessageId = ''group:'' @ sr_GroupId req, sresp_Queued = False, sresp_ChunkCount = 0\<rparr>, d, w2)
                     | (Panics, w2) \<Rightarrow> (Panics, d, w2)
                     | (Fails e, w2) \<Rightarrow> (Fails e, d, w2)
                     | (Hangs, w2) \<Rightarrow> (Hangs, d, w2)))))"

definition send_direct_message ::
  "('w, 'q, 't) env \<Rightarrow> KeyPair \<Rightarrow> SendRequest \<Rightarrow> ('q, 't) Daemon \<Rightarrow> 'w \<Rightarrow> SendResponse reply \<times> ('q, 't) Daemon \<times> 'w" where
  "send_direct_message env kp req d w =
     (case peer_secret (env_crypto env) kp (sr_PeerPubkey req) of
        Inl e \<Rightarrow> (Fails e, d, w)
      | Inr sharedSecret \<Rightarrow>
          (case BuildSignedPayload (env_crypto env) kp (sr_Plaintext req) of
             None \<Rightarrow> (Panics, d, w)
           | Some signedPayload \<Rightarrow>
               (case env_random env w of
                  (rnd, w1) \<Rightarrow>
                    (case EncryptMessage (env_crypto env) rnd sharedSecret signedPayload of
                       Inl e \<Rightarrow> (Fails (CryptoError e), d, w1)
                     | Inr (ciphertext, nonce) \<Rightarrow>
                         (let transportPayload = nonce @ ciphertext in
                          case engine_send env transportPayload (sr_PeerPubkey req) d w1 of
                            (None, w2) \<Rightarrow> (Hangs, d, w2)
                          | (Some (msgID, Inl _), w2) \<Rightarrow>
                              (case OfflineQueue_Enqueue (env_queue env) (sr_PeerPubkey req) transportPayload (dm_queue d) of
                                 (Inl qErr, q) \<Rightarrow> (Fails (QueueError qErr), d\<lparr>dm_queue := q\<rparr>, w2)
                               | (Inr _, q) \<Rightarrow>
                                   (Reply \<lparr>sresp_MessageId = base64_EncodeToString (be64 msgID), sresp_Queued = True,
                                      sresp_ChunkCount = 0\<rparr>, d\<lparr>dm_queue := q\<rparr>, w2))
                          | (Some (msgID, Inr chunkCount), w2) \<Rightarrow>
                              (Reply \<lparr>sresp_MessageId = base64_EncodeToString (be64 msgID), sresp_Queued = False,
                                 sresp_ChunkCount = int32 (int chunkCount)\<rparr>, d, w2))))))"

definition Daemon_SendMessage ::
  "('w, 'q, 't) env \<Rightarrow> SendRequest \<Rightarrow> ('q, 't) Daemon \<Rightarrow> 'w \<Rightarrow> SendResponse reply \<times> ('q, 't) Daemon \<times> 'w" where
  "Daemon_SendMessage env req d w =
     (case identity d of
        None \<Rightarrow> (Fails (Status codes_FailedPrecondition ''identity not initialized''), d, w)
      | Some kp \<Rightarrow>
          if sr_GroupId req \<noteq> '''' then send_group_message env kp req d w else send_direct_message env kp req d w)"

section \<open>Opening what was polled\<close>

text \<open>
  The empty plaintext that \<^verbatim>\<open>Open\<close> returns is \<^verbatim>\<open>nil\<close>, which the source takes for a message that
  was not decrypted.
\<close>

definition open_payload :: "crypto_ops \<Rightarrow> string \<Rightarrow> bytes \<Rightarrow> (string \<times> bytes) option" where
  "open_payload ops pubkeyStr plaintext =
     (let unsigned = (if plaintext = [] then None else Some (pubkeyStr, plaintext)) in
      case ParseSignedPayload ops plaintext of
        Inl _ \<Rightarrow> unsigned
      | Inr (senderX25519, _, msgPlaintext, _) \<Rightarrow>
          if senderX25519 = '''' then unsigned else Some (senderX25519, msgPlaintext))"

text \<open>A failed attempt logs the nickname, which panics on a \<^verbatim>\<open>nil\<close> entry.\<close>

fun try_peers ::
  "crypto_ops \<Rightarrow> KeyPair \<Rightarrow> bytes \<Rightarrow> bytes \<Rightarrow> (string, PeerInfoEntry option) fmap \<Rightarrow> string list
   \<Rightarrow> (string \<times> bytes) option reply" where
  "try_peers ops kp nonce ciphertext ps [] = Reply None"
| "try_peers ops kp nonce ciphertext ps (k # ks) =
     (case peer_secret ops kp k of
        Inl _ \<Rightarrow> if fmlookup ps k = Some None then Panics else try_peers ops kp nonce ciphertext ps ks
      | Inr ss \<Rightarrow>
          (case DecryptMessage ops ss nonce ciphertext of
             Inl _ \<Rightarrow> if fmlookup ps k = Some None then Panics else try_peers ops kp nonce ciphertext ps ks
           | Inr plaintext \<Rightarrow> Reply (open_payload ops k plaintext)))"

definition decode_hello :: "string \<Rightarrow> (string \<times> string \<times> string) option" where
  "decode_hello s =
     (case struct_members s of
        None \<Rightarrow> None
      | Some ms \<Rightarrow>
          (case (field_string ''type'' ms '''', field_string ''pubkey'' ms '''', field_string ''nickname'' ms '''') of
             (Some t, Some p, Some n) \<Rightarrow> Some (t, p, n)
           | _ \<Rightarrow> None))"

definition hello_ttl :: duration where "hello_ttl = 24 * 60 * 60 * 1000000000"

definition accept_hello ::
  "('w, 'q, 't) env \<Rightarrow> string \<Rightarrow> string \<Rightarrow> string \<Rightarrow> ('q, 't) Daemon \<Rightarrow> 'w \<Rightarrow> ('q, 't) Daemon \<times> 'w" where
  "accept_hello env nonceHex pubkey nickname d w =
     (let nick = (if nickname = '''' then ''Unknown'' else nickname) in
      case savePeers env (d\<lparr>peers := fmupd pubkey (Some \<lparr>pe_Nickname = nick, pe_Pubkey = pubkey\<rparr>) (peers d)\<rparr>) w of
        (d', w') \<Rightarrow> (d'\<lparr>pendingHellos := fmdrop nonceHex (pendingHellos d')\<rparr>, w'))"

fun try_hellos ::
  "('w, 'q, 't) env \<Rightarrow> bytes \<Rightarrow> string list \<Rightarrow> (string \<times> bytes) option \<Rightarrow> ('q, 't) Daemon \<Rightarrow> 'w
   \<Rightarrow> (string \<times> bytes) option \<times> ('q, 't) Daemon \<times> 'w" where
  "try_hellos env raw [] found d w = (found, d, w)"
| "try_hellos env raw (h # hs) found d w =
     (case fmlookup (pendingHellos d) h of
        None \<Rightarrow> try_hellos env raw hs found d w
      | Some entry \<Rightarrow>
          (case env_now env w of
             (now, w1) \<Rightarrow>
               if time_Sub now (he_createdAt entry) > hello_ttl
               then try_hellos env raw hs found (d\<lparr>pendingHellos := fmdrop h (pendingHellos d)\<rparr>) w1
               else (case DecryptHello (env_crypto env) (DeriveHelloKey (env_crypto env) (he_nonce entry)) raw of
                       Inl _ \<Rightarrow> try_hellos env raw hs found d w1
                     | Inr plaintext \<Rightarrow>
                         (case decode_hello (string_of_bytes plaintext) of
                            None \<Rightarrow> try_hellos env raw hs found d w1
                          | Some (typ, pubkey, nickname) \<Rightarrow>
                              if typ = ''hello'' \<and> pubkey \<noteq> ''''
                              then (case accept_hello env h pubkey nickname d w1 of
                                      (d2, w2) \<Rightarrow> try_hellos env raw hs (Some (pubkey, plaintext)) d2 w2)
                              else try_hellos env raw hs found d w1))))"

section \<open>What a decrypted message is\<close>

record ReceivedMessage =
  rm_MessageId :: string
  rm_Plaintext :: bytes
  rm_FromPeer :: string
  rm_GroupId :: string
  rm_ServerTimestampMs :: uint64
  rm_SequenceNumber :: uint64

definition looks_like_json :: "nat \<Rightarrow> bytes \<Rightarrow> bool" where
  "looks_like_json n decrypted \<longleftrightarrow> length decrypted > n \<and> hd decrypted = byte_of_char CHR ''{''"

text \<open>A distributed group key: its group, key, epoch and the name of the group.\<close>

definition decode_group_key :: "bytes \<Rightarrow> (string \<times> bytes \<times> uint64 \<times> string) option" where
  "decode_group_key decrypted =
     (if looks_like_json 10 decrypted then
        (case struct_members (string_of_bytes decrypted) of
           None \<Rightarrow> None
         | Some ms \<Rightarrow>
             (case (field_string ''type'' ms '''', field_string ''group_id'' ms '''', field_string ''group_key_b64'' ms '''',
                    field_uint64 ''key_epoch'' ms 0, field_string ''name'' ms '''') of
                (Some t, Some g, Some k, Some e, Some n) \<Rightarrow>
                  if t = ''group_key'' \<and> k \<noteq> '''' then Some (g, base64_decoded k, e, n) else None
              | _ \<Rightarrow> None))
      else None)"

definition apply_group_key ::
  "('w, 'q, 't) env \<Rightarrow> string \<Rightarrow> bytes \<Rightarrow> uint64 \<Rightarrow> string \<Rightarrow> ('q, 't) Daemon \<Rightarrow> 'w \<Rightarrow> unit reply \<times> ('q, 't) Daemon \<times> 'w" where
  "apply_group_key env groupID groupKey epoch name d w =
     (case fmlookup (dm_groups d) groupID of
        Some None \<Rightarrow> (Panics, d, w)
      | None \<Rightarrow>
          (Reply (), saveGroups env (d\<lparr>dm_groups := fmupd groupID
             (Some \<lparr>GroupID = groupID, gr_Name = name, AdminPubkey = '''', Members = fmempty, GroupKey = groupKey, KeyEpoch = epoch\<rparr>)
             (dm_groups d)\<rparr>) w)
      | Some (Some g) \<Rightarrow>
          (Reply (), saveGroups env (d\<lparr>dm_groups := fmupd groupID (Some (g\<lparr>GroupKey := groupKey, KeyEpoch := epoch\<rparr>))
             (dm_groups d)\<rparr>) w))"

definition decode_group_meta :: "bytes \<Rightarrow> (string \<times> uint64 \<times> string) option" where
  "decode_group_meta decrypted =
     (if looks_like_json 10 decrypted then
        (case struct_members (string_of_bytes decrypted) of
           None \<Rightarrow> None
         | Some ms \<Rightarrow>
             (case (field_string ''g'' ms '''', field_uint64 ''e'' ms 0, field_string ''m'' ms '''') of
                (Some g, Some e, Some m) \<Rightarrow> if g \<noteq> '''' \<and> m \<noteq> '''' then Some (g, e, m) else None
              | _ \<Rightarrow> None))
      else None)"

text \<open>
  The text of a group message and its group, the message as it is when it is none or cannot be
  opened, and \<open>Reply None\<close> when its epoch is stale.
\<close>

definition open_group_message ::
  "crypto_ops \<Rightarrow> (string, Group option) fmap \<Rightarrow> bytes \<Rightarrow> (bytes \<times> string) option reply" where
  "open_group_message ops gs decrypted =
     (case decode_group_meta decrypted of
        None \<Rightarrow> Reply (Some (decrypted, ''''))
      | Some (g, e, m) \<Rightarrow>
          (case fmlookup gs g of
             None \<Rightarrow> Reply (Some (decrypted, ''''))
           | Some None \<Rightarrow> Panics
           | Some (Some grp) \<Rightarrow>
               if e < KeyEpoch grp then Reply None
               else (case base64_DecodeString m of
                       None \<Rightarrow> Reply (Some (decrypted, ''''))
                     | Some msgBytes \<Rightarrow>
                         (case DecryptGroupMessage ops (GroupKey grp) msgBytes of
                            Inl _ \<Rightarrow> Reply (Some (decrypted, ''''))
                          | Inr msgPlaintext \<Rightarrow> Reply (Some (msgPlaintext, g))))))"

section \<open>Profiles and media\<close>

record profile_msg =
  pm_Type :: string
  pm_Nickname :: string
  pm_Bio :: string
  pm_FileID :: string
  pm_FileKeyB64 :: string

definition decode_profile_msg :: "string \<Rightarrow> profile_msg option" where
  "decode_profile_msg s =
     (case struct_members s of
        None \<Rightarrow> None
      | Some ms \<Rightarrow>
          (case (field_string ''type'' ms '''', field_string ''nickname'' ms '''', field_string ''bio'' ms '''',
                 field_string ''file_id'' ms '''', field_string ''file_key_b64'' ms '''',
                 field_string ''transport'' ms '''', field_string ''mime'' ms '''') of
             (Some t, Some n, Some b, Some i, Some k, Some _, Some _) \<Rightarrow>
               Some \<lparr>pm_Type = t, pm_Nickname = n, pm_Bio = b, pm_FileID = i, pm_FileKeyB64 = k\<rparr>
           | _ \<Rightarrow> None))"

definition save_bio ::
  "('w, 'q, 't) env \<Rightarrow> string \<Rightarrow> profile_msg \<Rightarrow> ('q, 't) Daemon \<Rightarrow> 'w \<Rightarrow> ('q, 't) Daemon \<times> 'w" where
  "save_bio env fromPeer m d w =
     (case savePeers env d w of
        (d1, w1) \<Rightarrow>
          if pm_Bio m \<noteq> ''''
          then snd (daemon_WriteFile env (filepath_Join [filepath_Join [dataDir d, ''peer_bios''], fromPeer @ ''.json''])
                 (bytes_of_string (json_Marshal (JObj [(''bio'', JStr (pm_Bio m))]))) d1 w1)
          else (d1, w1))"

text \<open>A new nickname is written through the pointer, which panics when it is \<^verbatim>\<open>nil\<close>.\<close>

definition apply_profile_update ::
  "('w, 'q, 't) env \<Rightarrow> string \<Rightarrow> profile_msg \<Rightarrow> ('q, 't) Daemon \<Rightarrow> 'w \<Rightarrow> unit reply \<times> ('q, 't) Daemon \<times> 'w" where
  "apply_profile_update env fromPeer m d w =
     (case fmlookup (peers d) fromPeer of
        Some None \<Rightarrow> if pm_Nickname m \<noteq> '''' then (Panics, d, w) else (Reply (), save_bio env fromPeer m d w)
      | Some (Some e) \<Rightarrow>
          (Reply (), save_bio env fromPeer m
             (if pm_Nickname m \<noteq> '''' then d\<lparr>peers := fmupd fromPeer (Some (e\<lparr>pe_Nickname := pm_Nickname m\<rparr>)) (peers d)\<rparr> else d) w)
      | None \<Rightarrow> (Reply (), save_bio env fromPeer m d w))"

definition token_bytes :: "('q, 't) Daemon \<Rightarrow> bytes" where
  "token_bytes d = (case authToken d of None \<Rightarrow> [] | Some t \<Rightarrow> t)"

definition save_profile_pic ::
  "('w, 'q, 't) env \<Rightarrow> string \<Rightarrow> profile_msg \<Rightarrow> ('q, 't) Daemon \<Rightarrow> 'w \<Rightarrow> ('q, 't) Daemon \<times> 'w" where
  "save_profile_pic env fromPeer m d w =
     (case GetRelays (engine d) of
        [] \<Rightarrow> (d, w)
      | relay # _ \<Rightarrow>
          (case DownloadFile (env_http env) (NewTCPTransport relay (token_bytes d)) (pm_FileID m) w of
             (Inl _, w1) \<Rightarrow> (d, w1)
           | (Inr encryptedPic, w1) \<Rightarrow>
               (case DecryptFile (base64_decoded (pm_FileKeyB64 m)) encryptedPic of
                  Inl _ \<Rightarrow> (d, w1)
                | Inr picData \<Rightarrow>
                    if length picData > 0
                    then snd (daemon_WriteFile env (filepath_Join [filepath_Join [dataDir d, ''peer_pics''], fromPeer @ ''.jpg'']) picData d w1)
                    else (d, w1))))"

record media_meta =
  mm_FileKeyB64 :: string
  mm_MimeType :: string
  mm_FileName :: string
  mm_FileID :: string

definition decode_media_meta :: "string \<Rightarrow> media_meta option" where
  "decode_media_meta s =
     (case struct_members s of
        None \<Rightarrow> None
      | Some ms \<Rightarrow>
          (case (field_string ''file_key_b64'' ms '''', field_string ''mime_type'' ms '''',
                 field_string ''file_name'' ms '''', field_string ''file_id'' ms '''') of
             (Some k, Some t, Some n, Some i) \<Rightarrow>
               Some \<lparr>mm_FileKeyB64 = k, mm_MimeType = t, mm_FileName = n, mm_FileID = i\<rparr>
           | _ \<Rightarrow> None))"

text \<open>The file, or \<open>None\<close> for \<^verbatim>\<open>nil\<close>; decrypting an empty file returns \<^verbatim>\<open>nil\<close> as well.\<close>

definition fetch_media ::
  "('w, 'q, 't) env \<Rightarrow> string \<Rightarrow> media_meta \<Rightarrow> ('q, 't) Daemon \<Rightarrow> 'w \<Rightarrow> bytes option \<times> 'w" where
  "fetch_media env relay m d w =
     (if mm_FileID m = '''' then (None, w)
      else case DownloadFile (env_http env) (NewTCPTransport relay (token_bytes d)) (mm_FileID m) w of
             (Inl _, w1) \<Rightarrow> (None, w1)
           | (Inr encryptedFile, w1) \<Rightarrow>
               (case DecryptFile (base64_decoded (mm_FileKeyB64 m)) encryptedFile of
                  Inl _ \<Rightarrow> (None, w1)
                | Inr fileData \<Rightarrow> (if fileData = [] then None else Some fileData, w1)))"

definition media_ext :: "string \<Rightarrow> string" where
  "media_ext mime =
     (if mime = ''image/jpeg'' then ''.jpg'' else if mime = ''image/png'' then ''.png''
      else if mime = ''video/mp4'' then ''.mp4'' else if mime = ''audio/m4a'' then ''.m4a'' else ''.bin'')"

definition media_path :: "('q, 't) Daemon \<Rightarrow> PolledMessage \<Rightarrow> string \<Rightarrow> string" where
  "media_path d pm mime =
     filepath_Join [filepath_Join [dataDir d, ''media_received''], hex_EncodeToString (be64 (pm_MsgID pm)) @ media_ext mime]"

definition sidecar_json :: "media_meta \<Rightarrow> string \<Rightarrow> PolledMessage \<Rightarrow> bool \<Rightarrow> json" where
  "sidecar_json m fromPeer pm complete = JObj [
     (''filename'', JStr (mm_FileName m)), (''mime'', JStr (mm_MimeType m)), (''sender_pubkey'', JStr fromPeer),
     (''server_timestamp_ms'', JStr (int_string (sint (PolledMessage.Timestamp pm)))),
     (''status'', JStr (if complete then ''complete'' else ''failed''))]"

definition save_media ::
  "('w, 'q, 't) env \<Rightarrow> PolledMessage \<Rightarrow> string \<Rightarrow> media_meta \<Rightarrow> ('q, 't) Daemon \<Rightarrow> 'w \<Rightarrow> ('q, 't) Daemon \<times> 'w" where
  "save_media env pm fromPeer m d w =
     (case GetRelays (engine d) of
        [] \<Rightarrow> (d, w)
      | relay # _ \<Rightarrow>
          (case fetch_media env relay m d w of
             (fileData, w1) \<Rightarrow>
               (case daemon_WriteFile env (media_path d pm (mm_MimeType m) @ ''.meta'')
                   (bytes_of_string (json_Marshal (sidecar_json m fromPeer pm (fileData \<noteq> None)))) d w1 of
                  (_, d2, w2) \<Rightarrow>
                    snd (daemon_WriteFile env (media_path d pm (mm_MimeType m))
                      (case fileData of Some b \<Rightarrow> b | None \<Rightarrow> []) d2 w2))))"

text \<open>\<open>None\<close> when the message is not one of these kinds and is delivered as text.\<close>

definition handle_media ::
  "('w, 'q, 't) env \<Rightarrow> PolledMessage \<Rightarrow> string \<Rightarrow> string \<Rightarrow> ('q, 't) Daemon \<Rightarrow> 'w
   \<Rightarrow> (unit reply \<times> ('q, 't) Daemon \<times> 'w) option" where
  "handle_media env pm fromPeer s d w =
     (case decode_media_meta s of
        Some m \<Rightarrow> if mm_FileKeyB64 m \<noteq> '''' then Some (Reply (), save_media env pm fromPeer m d w) else None
      | None \<Rightarrow> None)"

definition handle_typed ::
  "('w, 'q, 't) env \<Rightarrow> PolledMessage \<Rightarrow> string \<Rightarrow> bytes \<Rightarrow> ('q, 't) Daemon \<Rightarrow> 'w
   \<Rightarrow> (unit reply \<times> ('q, 't) Daemon \<times> 'w) option" where
  "handle_typed env pm fromPeer decrypted d w =
     (if \<not> looks_like_json 20 decrypted then None
      else let s = string_of_bytes decrypted in
        (case decode_profile_msg s of
           Some m \<Rightarrow>
             if pm_Type m = ''profile_update'' \<and> fromPeer \<noteq> '''' then Some (apply_profile_update env fromPeer m d w)
             else if pm_Type m = ''profile_pic'' \<and> fromPeer \<noteq> '''' \<and> pm_FileID m \<noteq> ''''
                  then Some (Reply (), save_profile_pic env fromPeer m d w)
             else handle_media env pm fromPeer s d w
         | None \<Rightarrow> handle_media env pm fromPeer s d w))"

section \<open>Polling\<close>

definition received :: "PolledMessage \<Rightarrow> string \<Rightarrow> bytes \<Rightarrow> string \<Rightarrow> ReceivedMessage" where
  "received pm fromPeer decrypted groupID = \<lparr>
     rm_MessageId = hex_EncodeToString (be64 (pm_MsgID pm)), rm_Plaintext = decrypted, rm_FromPeer = fromPeer, rm_GroupId = groupID,
     rm_ServerTimestampMs = (if sint (PolledMessage.Timestamp pm) > 0 then PolledMessage.Timestamp pm else 0),
     rm_SequenceNumber = Sequence pm\<rparr>"

definition deliver ::
  "('w, 'q, 't) env \<Rightarrow> PolledMessage \<Rightarrow> string \<Rightarrow> bytes \<Rightarrow> ('q, 't) Daemon \<Rightarrow> 'w
   \<Rightarrow> ReceivedMessage option reply \<times> ('q, 't) Daemon \<times> 'w" where
  "deliver env pm fromPeer decrypted d w =
     (case decode_group_key decrypted of
        Some (groupID, groupKey, epoch, name) \<Rightarrow>
          (case apply_group_key env groupID groupKey epoch name d w of
             (Reply _, d', w') \<Rightarrow> (Reply None, d', w')
           | (_, d', w') \<Rightarrow> (Panics, d', w'))
      | None \<Rightarrow>
          (case open_group_message (env_crypto env) (dm_groups d) decrypted of
             Reply None \<Rightarrow> (Reply None, d, w)
           | Reply (Some (decrypted', groupID)) \<Rightarrow>
               (case handle_typed env pm fromPeer decrypted' d w of
                  None \<Rightarrow> (Reply (Some (received pm fromPeer decrypted' groupID)), d, w)
                | Some (Reply _, d', w') \<Rightarrow> (Reply None, d', w')
                | Some (_, d', w') \<Rightarrow> (Panics, d', w'))
           | _ \<Rightarrow> (Panics, d, w)))"

definition poll_one ::
  "('w, 'q, 't) env \<Rightarrow> KeyPair \<Rightarrow> PolledMessage \<Rightarrow> ('q, 't) Daemon \<Rightarrow> 'w
   \<Rightarrow> ReceivedMessage option reply \<times> ('q, 't) Daemon \<times> 'w" where
  "poll_one env kp pm d w =
     (let raw = Data pm in
      if length raw < NonceLength then (Reply None, d, w)
      else case env_range env (fmdom (peers d)) w of
             (ks, w1) \<Rightarrow>
               (case try_peers (env_crypto env) kp (take NonceLength raw) (drop NonceLength raw) (peers d) ks of
                  Reply (Some (fromPeer, decrypted)) \<Rightarrow> deliver env pm fromPeer decrypted d w1
                | Reply None \<Rightarrow>
                    (case env_range env (fmdom (pendingHellos d)) w1 of
                       (hs, w2) \<Rightarrow>
                         (case try_hellos env raw hs None d w2 of
                            (None, d', w3) \<Rightarrow> (Reply None, d', w3)
                          | (Some (fromPeer, decrypted), d', w3) \<Rightarrow> deliver env pm fromPeer decrypted d' w3))
                | _ \<Rightarrow> (Panics, d, w1)))"

fun poll_each ::
  "('w, 'q, 't) env \<Rightarrow> KeyPair \<Rightarrow> PolledMessage list \<Rightarrow> ('q, 't) Daemon \<Rightarrow> 'w
   \<Rightarrow> ReceivedMessage list reply \<times> ('q, 't) Daemon \<times> 'w" where
  "poll_each env kp [] d w = (Reply [], d, w)"
| "poll_each env kp (pm # pms) d w =
     (case poll_one env kp pm d w of
        (Reply r, d1, w1) \<Rightarrow>
          (case poll_each env kp pms d1 w1 of
             (Reply ms, d2, w2) \<Rightarrow> (Reply (case r of None \<Rightarrow> ms | Some m \<Rightarrow> m # ms), d2, w2)
           | (_, d2, w2) \<Rightarrow> (Panics, d2, w2))
      | (_, d1, w1) \<Rightarrow> (Panics, d1, w1))"

definition Daemon_PollMessages ::
  "('w, 'q, 't) env \<Rightarrow> ('q, 't) Daemon \<Rightarrow> 'w \<Rightarrow> ReceivedMessage list reply \<times> ('q, 't) Daemon \<times> 'w" where
  "Daemon_PollMessages env d w =
     (case identity d of
        None \<Rightarrow> (Reply [], d, w)
      | Some kp \<Rightarrow>
          (case PollMessages (env_fqdn env) (env_exch env) (base64_EncodeToString (PublicKey kp)) (engine d) w of
             (Inl FetchPanic, e, w1) \<Rightarrow> (Panics, d\<lparr>engine := e\<rparr>, w1)
           | (Inl _, e, w1) \<Rightarrow> (Reply [], d\<lparr>engine := e\<rparr>, w1)
           | (Inr polled, e, w1) \<Rightarrow> poll_each env kp polled (d\<lparr>engine := e\<rparr>) w1))"

section \<open>Invitations\<close>

definition invite_error :: "crypto_error \<Rightarrow> string" where
  "invite_error e =
     (case e of
        PublicKeyLen n \<Rightarrow> ''pubkey must be 32 bytes, got '' @ nat_string n
      | RandFailed r \<Rightarrow> ''generate nonce: '' @ r
      | _ \<Rightarrow> '''')"

definition Daemon_GenerateInviteCode ::
  "('w, 'q, 't) env \<Rightarrow> string \<Rightarrow> ('q, 't) Daemon \<Rightarrow> 'w \<Rightarrow> string reply \<times> ('q, 't) Daemon \<times> 'w" where
  "Daemon_GenerateInviteCode env nick d w =
     (case identity d of
        None \<Rightarrow> (Panics, d, w)
      | Some kp \<Rightarrow>
          (let nickname = (if nick = '''' then (if getMyNickname d = '''' then ''Me'' else getMyNickname d) else nick) in
           case env_random env w of
             (rnd, w1) \<Rightarrow>
               (case GenerateInviteCode rnd (PublicKey kp) nickname of
                  Inl e \<Rightarrow> (Fails (Status codes_Internal (invite_error e)), d, w1)
                | Inr (invite, nonce) \<Rightarrow>
                    (case env_now env w1 of
                       (now, w2) \<Rightarrow>
                         (Reply invite, d\<lparr>pendingHellos := fmupd (hex_EncodeToString nonce)
                            \<lparr>he_nonce = nonce, he_pubkey = base64_EncodeToString (PublicKey kp), he_nickname = nickname, he_createdAt = now\<rparr>
                            (pendingHellos d)\<rparr>, w2)))))"

definition hello_payload :: "string \<Rightarrow> string \<Rightarrow> string" where
  "hello_payload pubkey nickname =
     ''{\"type\":\"hello\",\"pubkey\":\"'' @ pubkey @ ''\",\"nickname\":\"'' @ nickname @ ''\"}''"

definition Daemon_JoinViaCode ::
  "('w, 'q, 't) env \<Rightarrow> string \<Rightarrow> ('q, 't) Daemon \<Rightarrow> 'w \<Rightarrow> (string \<times> string) reply \<times> ('q, 't) Daemon \<times> 'w" where
  "Daemon_JoinViaCode env invite d w =
     (case ParseInviteCode invite of
        Inl _ \<Rightarrow> (Fails (Status codes_InvalidArgument ''invalid invite code''), d, w)
      | Inr (remotePubkey, nonce, nickname) \<Rightarrow>
          (let remote = base64_EncodeToString remotePubkey in
           case savePeers env (d\<lparr>peers := fmupd remote (Some \<lparr>pe_Nickname = nickname, pe_Pubkey = remote\<rparr>) (peers d)\<rparr>) w of
             (d1, w1) \<Rightarrow>
               (case identity d of
                  None \<Rightarrow> (Panics, d1, w1)
                | Some kp \<Rightarrow>
                    (case env_random env w1 of
                       (rnd, w2) \<Rightarrow>
                         (case EncryptHello (env_crypto env) rnd (DeriveHelloKey (env_crypto env) nonce)
                             (bytes_of_string (hello_payload (base64_EncodeToString (PublicKey kp)) (getMyNickname d))) of
                            Inl _ \<Rightarrow> (Fails (Status codes_Internal ''encrypt hello failed''), d1, w2)
                          | Inr encryptedHello \<Rightarrow>
                              (case engine_send env encryptedHello remote d1 w2 of
                                 (None, w3) \<Rightarrow> (Hangs, d1, w3)
                               | (Some (_, Inr _), w3) \<Rightarrow> (Reply (nickname, remote), d1, w3)
                               | (Some (_, Inl _), w3) \<Rightarrow>
                                   (Reply (nickname, remote),
                                    d1\<lparr>dm_queue := snd (OfflineQueue_Enqueue (env_queue env) remote encryptedHello (dm_queue d1))\<rparr>, w3)))))))"

section \<open>Broadcasting the profile\<close>

definition sendProfileToPeer ::
  "('w, 'q, 't) env \<Rightarrow> string \<Rightarrow> ('q, 't) Daemon \<Rightarrow> string \<Rightarrow> 'w \<Rightarrow> unit reply \<times> 'w" where
  "sendProfileToPeer env payload d peer w =
     (case base64_DecodeString peer of
        None \<Rightarrow> (Reply (), w)
      | Some pubkey \<Rightarrow>
          (case identity d of
             None \<Rightarrow> (Panics, w)
           | Some kp \<Rightarrow>
               (case SharedSecret (env_crypto env) (PrivateKey kp) pubkey of
                  Inl _ \<Rightarrow> (Reply (), w)
                | Inr sharedSecret \<Rightarrow>
                    (case env_random env w of
                       (rnd, w1) \<Rightarrow>
                         (case EncryptMessage (env_crypto env) rnd sharedSecret (bytes_of_string payload) of
                            Inl _ \<Rightarrow> (Reply (), w1)
                          | Inr (ciphertext, nonce) \<Rightarrow>
                              (case engine_send env (nonce @ ciphertext) peer d w1 of
                                 (None, w2) \<Rightarrow> (Hangs, w2)
                               | (Some _, w2) \<Rightarrow> (Reply (), w2)))))))"

definition escape_quotes :: "string \<Rightarrow> string" where
  "escape_quotes s = concat (map (\<lambda>c. if c = quote then [backslash, quote] else [c]) s)"

definition profile_update_payload :: "string \<Rightarrow> string \<Rightarrow> string" where
  "profile_update_payload nickname bio =
     ''{\"type\":\"profile_update\",\"nickname\":\"'' @ escape_quotes nickname @ ''\",\"bio\":\"'' @ escape_quotes bio @ ''\"}''"

definition broadcastProfileUpdate ::
  "('w, 'q, 't) env \<Rightarrow> string \<Rightarrow> string \<Rightarrow> ('q, 't) Daemon \<Rightarrow> 'w \<Rightarrow> unit reply \<times> 'w" where
  "broadcastProfileUpdate env nickname bio d w =
     (case env_range env (fmdom (peers d)) w of
        (ks, w') \<Rightarrow> each_key (sendProfileToPeer env (profile_update_payload nickname bio) d) ks w')"

text \<open>The errors of \<^verbatim>\<open>rand.Read(mid[:])\<close> are ignored; \<open>draw_id\<close> is what the array then holds.\<close>

definition draw_id :: "entropy \<Rightarrow> msg_id" where
  "draw_id rnd = (case rand_Read 8 rnd of Inr b \<Rightarrow> be_word b | Inl _ \<Rightarrow> 0)"

definition upload_media ::
  "('w, 'q, 't) env \<Rightarrow> string \<Rightarrow> msg_id \<Rightarrow> bytes \<Rightarrow> string \<Rightarrow> string \<Rightarrow> MediaType \<Rightarrow> ('q, 't) Daemon \<Rightarrow> 'w
   \<Rightarrow> (media_error + MediaMessage) \<times> 'w" where
  "upload_media env relay mid fileData fileName mimeType mediaType d w =
     (case env_random env w of
        (rk, w1) \<Rightarrow>
          (case env_random env w1 of
             (rn, w2) \<Rightarrow>
               (case env_now env w2 of
                  (now, w3) \<Rightarrow>
                    TCPTransport_SendChunks (env_http env) rk rn (sint (time_UnixMilli now)) (NewTCPTransport relay (token_bytes d))
                      mid fileData fileName mimeType mediaType w3)))"

definition profile_pic_payload :: "MediaMessage \<Rightarrow> string \<Rightarrow> string" where
  "profile_pic_payload meta mimeType =
     ''{\"type\":\"profile_pic\",\"file_id\":\"'' @ FileID meta @ ''\",\"file_key_b64\":\"'' @ FileKeyB64 meta
       @ ''\",\"mime\":\"'' @ mimeType @ ''\",\"transport\":\"tcp\"}''"

definition broadcastProfilePic ::
  "('w, 'q, 't) env \<Rightarrow> bytes \<Rightarrow> string \<Rightarrow> ('q, 't) Daemon \<Rightarrow> 'w \<Rightarrow> unit reply \<times> 'w" where
  "broadcastProfilePic env imageData mimeType d w =
     (case GetRelays (engine d) of
        [] \<Rightarrow> (Reply (), w)
      | relay # _ \<Rightarrow>
          (case env_random env w of
             (rm, w1) \<Rightarrow>
               (case upload_media env relay (draw_id rm) imageData ''profile_pic.jpg'' mimeType MediaTypeImage d w1 of
                  (Inl _, w2) \<Rightarrow> (Reply (), w2)
                | (Inr meta, w2) \<Rightarrow>
                    (case env_range env (fmdom (peers d)) w2 of
                       (ks, w3) \<Rightarrow> each_key (sendProfileToPeer env (profile_pic_payload meta mimeType) d) ks w3))))"

definition run_background ::
  "('w, 'q, 't) env \<Rightarrow> background \<Rightarrow> ('q, 't) Daemon \<Rightarrow> 'w \<Rightarrow> unit reply \<times> 'w" where
  "run_background env job d w =
     (case job of
        BroadcastProfile nickname bio \<Rightarrow> broadcastProfileUpdate env nickname bio d w
      | BroadcastPic imageData mimeType \<Rightarrow> broadcastProfilePic env imageData mimeType d w)"

end
