(* ===== verification/Daemon_Groups.thy ===== *)
theory Daemon_Groups
  imports Daemon_Messages
begin

text \<open>
  \<^verbatim>\<open>internal/client/daemon_groups.go\<close>: creating a group, listing, leaving, removing a member and
  distributing the key. A \<^verbatim>\<open>nil\<close> group or member, and a missing identity, panic where the source
  dereferences them.
\<close>

section \<open>Distributing a key\<close>

text \<open>
  The error and the nonce that \<^verbatim>\<open>EncryptMessage\<close> returns are dropped by the source; on an error
  the ciphertext is \<^verbatim>\<open>nil\<close>.
\<close>

definition send_group_key ::
  "('w, 'q, 't) env \<Rightarrow> KeyPair \<Rightarrow> string \<Rightarrow> ('q, 't) Daemon \<Rightarrow> string \<Rightarrow> 'w \<Rightarrow> unit reply \<times> 'w" where
  "send_group_key env kp distribution d pubkeyB64 w =
     (if pubkeyB64 = base64_EncodeToString (PublicKey kp) then (Reply (), w)
      else case peer_secret (env_crypto env) kp pubkeyB64 of
             Inl _ \<Rightarrow> (Reply (), w)
           | Inr ss \<Rightarrow>
               (case env_random env w of
                  (rnd, w1) \<Rightarrow>
                    (let ciphertext = (case EncryptMessage (env_crypto env) rnd ss (bytes_of_string distribution) of
                                         Inl _ \<Rightarrow> [] | Inr (c, _) \<Rightarrow> c) in
                     case engine_send env ciphertext pubkeyB64 d w1 of
                       (None, w2) \<Rightarrow> (Hangs, w2)
                     | (Some _, w2) \<Rightarrow> (Reply (), w2))))"

definition group_key_text :: "string \<Rightarrow> bytes \<Rightarrow> uint64 \<Rightarrow> string" where
  "group_key_text groupID key epoch =
     ''{\"type\":\"group_key\",\"group_id\":\"'' @ groupID @ ''\",\"group_key_b64\":\"'' @ base64_EncodeToString key
       @ ''\",\"key_epoch\":'' @ nat_string (unat epoch)"

definition distributeGroupKey ::
  "('w, 'q, 't) env \<Rightarrow> string \<Rightarrow> ('q, 't) Daemon \<Rightarrow> 'w \<Rightarrow> unit reply \<times> 'w" where
  "distributeGroupKey env groupID d w =
     (case fmlookup (dm_groups d) groupID of
        None \<Rightarrow> (Reply (), w)
      | Some g \<Rightarrow>
          (case (identity d, g) of
             (Some kp, Some grp) \<Rightarrow>
               (case env_range env (fmdom (Members grp)) w of
                  (ks, w1) \<Rightarrow>
                    each_key (send_group_key env kp (group_key_text groupID (GroupKey grp) (KeyEpoch grp) @ ''}'') d) ks w1)
           | _ \<Rightarrow> (Panics, w)))"

section \<open>The calls\<close>

definition unix_nano :: "time \<Rightarrow> int" where
  "unix_nano t = sint (word_of_int t :: 64 word)"

definition new_members :: "string \<Rightarrow> string \<Rightarrow> string list \<Rightarrow> (string, GroupMember option) fmap" where
  "new_members myPubkey name pubkeys =
     foldl (\<lambda>m mpk. fmupd mpk (Some \<lparr>gm_Pubkey = mpk, gm_Nickname = '''', gm_Role = ''member''\<rparr>) m)
       (fmupd myPubkey (Some \<lparr>gm_Pubkey = myPubkey, gm_Nickname = name @ ''_admin'', gm_Role = ''admin''\<rparr>) fmempty)
       pubkeys"

definition Daemon_CreateGroup ::
  "('w, 'q, 't) env \<Rightarrow> string \<Rightarrow> string list \<Rightarrow> ('q, 't) Daemon \<Rightarrow> 'w \<Rightarrow> string reply \<times> ('q, 't) Daemon \<times> 'w" where
  "Daemon_CreateGroup env name memberPubkeys d w =
     (case env_random env w of
        (rnd, w1) \<Rightarrow>
          (case GenerateGroupKey rnd of
             Inl _ \<Rightarrow> (Fails (Status codes_Internal ''generate group key failed''), d, w1)
           | Inr groupKey \<Rightarrow>
               (case env_now env w1 of
                  (now, w2) \<Rightarrow>
                    (case identity d of
                       None \<Rightarrow> (Panics, d, w2)
                     | Some kp \<Rightarrow>
                         (let groupID = ''g'' @ int_string (unix_nano now);
                              myPubkey = base64_EncodeToString (PublicKey kp);
                              members = new_members myPubkey name memberPubkeys;
                              grp = \<lparr>GroupID = groupID, gr_Name = name, AdminPubkey = myPubkey, Members = members,
                                     GroupKey = groupKey, KeyEpoch = 1\<rparr> in
                          case saveGroups env (d\<lparr>dm_groups := fmupd groupID (Some grp) (dm_groups d)\<rparr>) w2 of
                            (d1, w3) \<Rightarrow>
                              (case env_range env (fmdom members) w3 of
                                 (ks, w4) \<Rightarrow>
                                   (case each_key (send_group_key env kp
                                       (group_key_text groupID groupKey 1 @ '',\"name\":\"'' @ name @ ''\"}'') d1) ks w4 of
                                      (Reply _, w5) \<Rightarrow> (Reply groupID, d1, w5)
                                    | (Hangs, w5) \<Rightarrow> (Hangs, d1, w5)
                                    | (_, w5) \<Rightarrow> (Panics, d1, w5))))))))"

record GroupInfo =
  gi_GroupId :: string
  gi_Name :: string
  gi_AdminPubkey :: string
  gi_Members :: "GroupMember list"
  gi_KeyEpoch :: uint64

fun list_groups ::
  "('w, 'q, 't) env \<Rightarrow> (string, Group option) fmap \<Rightarrow> string list \<Rightarrow> 'w \<Rightarrow> GroupInfo list reply \<times> 'w" where
  "list_groups env gs [] w = (Reply [], w)"
| "list_groups env gs (k # ks) w =
     (case fmlookup gs k of
        Some (Some g) \<Rightarrow>
          (case env_range env (fmdom (Members g)) w of
             (ms, w1) \<Rightarrow>
               (let members = map (\<lambda>m. the (fmlookup (Members g) m)) ms in
                if None \<in> set members then (Panics, w1)
                else case list_groups env gs ks w1 of
                       (Reply infos, w2) \<Rightarrow>
                         (Reply (\<lparr>gi_GroupId = GroupID g, gi_Name = gr_Name g, gi_AdminPubkey = AdminPubkey g,
                            gi_Members = map the members, gi_KeyEpoch = KeyEpoch g\<rparr> # infos), w2)
                     | (r, w2) \<Rightarrow> (r, w2)))
      | _ \<Rightarrow> (Panics, w))"

definition Daemon_ListGroups ::
  "('w, 'q, 't) env \<Rightarrow> ('q, 't) Daemon \<Rightarrow> 'w \<Rightarrow> GroupInfo list reply \<times> 'w" where
  "Daemon_ListGroups env d w =
     (case env_range env (fmdom (dm_groups d)) w of (ks, w1) \<Rightarrow> list_groups env (dm_groups d) ks w1)"

text \<open>The first key of the range becomes the administrator.\<close>

definition reassign_admin :: "string \<Rightarrow> string list \<Rightarrow> Group \<Rightarrow> Group option" where
  "reassign_admin myPubkey ks g =
     (if AdminPubkey g = myPubkey \<and> fmsize (Members g) > 0 then
        (case ks of
           [] \<Rightarrow> Some g
         | k # _ \<Rightarrow>
             (case fmlookup (Members g) k of
                Some (Some m) \<Rightarrow> Some (g\<lparr>AdminPubkey := k, Members := fmupd k (Some (m\<lparr>gm_Role := ''admin''\<rparr>)) (Members g)\<rparr>)
              | _ \<Rightarrow> None))
      else Some g)"

definition Daemon_LeaveGroup ::
  "('w, 'q, 't) env \<Rightarrow> string \<Rightarrow> ('q, 't) Daemon \<Rightarrow> 'w \<Rightarrow> unit reply \<times> ('q, 't) Daemon \<times> 'w" where
  "Daemon_LeaveGroup env groupId d w =
     (case fmlookup (dm_groups d) groupId of
        None \<Rightarrow> (Fails (Status codes_NotFound (''group not found: '' @ groupId)), d, w)
      | Some g \<Rightarrow>
          (case (identity d, g) of
             (Some kp, Some grp) \<Rightarrow>
               (let myPubkey = base64_EncodeToString (PublicKey kp);
                    g1 = grp\<lparr>Members := fmdrop myPubkey (Members grp)\<rparr> in
                case env_range env (fmdom (Members g1)) w of
                  (ks, w1) \<Rightarrow>
                    (case reassign_admin myPubkey ks g1 of
                       None \<Rightarrow> (Panics, d, w1)
                     | Some g2 \<Rightarrow>
                         (Reply (), saveGroups env
                            (d\<lparr>dm_groups := (if fmsize (Members g2) = 0 then fmdrop groupId (dm_groups d)
                                             else fmupd groupId (Some g2) (dm_groups d))\<rparr>) w1)))
           | _ \<Rightarrow> (Panics, d, w)))"

definition Daemon_RemoveGroupMember ::
  "('w, 'q, 't) env \<Rightarrow> string \<Rightarrow> string \<Rightarrow> ('q, 't) Daemon \<Rightarrow> 'w \<Rightarrow> unit reply \<times> ('q, 't) Daemon \<times> 'w" where
  "Daemon_RemoveGroupMember env groupId memberPubkey d w =
     (case fmlookup (dm_groups d) groupId of
        None \<Rightarrow> (Fails (Status codes_NotFound (''group not found: '' @ groupId)), d, w)
      | Some g \<Rightarrow>
          (case (identity d, g) of
             (Some kp, Some grp) \<Rightarrow>
               if AdminPubkey grp \<noteq> base64_EncodeToString (PublicKey kp)
               then (Fails (Status codes_PermissionDenied ''only admin can remove members''), d, w)
               else if fmlookup (Members grp) memberPubkey = None
               then (Fails (Status codes_NotFound ''member not in group''), d, w)
               else (let g1 = grp\<lparr>Members := fmdrop memberPubkey (Members grp), GroupKey := RotateGroupKey (GroupKey grp),
                          KeyEpoch := KeyEpoch grp + 1\<rparr> in
                     case saveGroups env (d\<lparr>dm_groups := fmupd groupId (Some g1) (dm_groups d)\<rparr>) w of
                       (d1, w1) \<Rightarrow>
                         (case distributeGroupKey env (GroupID grp) d1 w1 of
                            (r, w2) \<Rightarrow> (r, d1, w2)))
           | _ \<Rightarrow> (Panics, d, w)))"

end
