(* ===== verification/Daemon_Media.thy ===== *)
theory Daemon_Media
  imports Daemon_Groups "HOL-Library.Signed_Division"
begin

text \<open>
  The media transfers of the daemon (\<^verbatim>\<open>daemon.go\<close>): sending a file in one call or as a stream of
  chunks, asking for the state of a transfer, cancelling it and forgetting old ones.
\<close>

section \<open>Transfers\<close>

datatype MediaStatus = QUEUED | SENDING | ARRIVING | COMPLETE | FAILED

definition toProtoStatus :: "MediaTransfer \<Rightarrow> MediaStatus" where
  "toProtoStatus t =
     (case mt_Status t of
        TransferQueued \<Rightarrow> QUEUED
      | TransferSending \<Rightarrow> SENDING
      | TransferComplete \<Rightarrow> COMPLETE
      | TransferFailed \<Rightarrow> FAILED
      | TransferCancelled \<Rightarrow> FAILED)"

definition getProgress :: "MediaTransfer \<Rightarrow> int" where
  "getProgress t = mt_Progress t"

definition getError :: "MediaTransfer \<Rightarrow> string + daemon_error" where
  "getError t = mt_Error t"

definition new_transfer :: "time \<Rightarrow> MediaTransfer" where
  "new_transfer now = \<lparr>mt_Status = TransferQueued, mt_Progress = 0, mt_ChunksSent = 0, mt_TotalChunks = 0,
     mt_Error = Inl '''', mt_Created = now\<rparr>"

definition change_transfer :: "string \<Rightarrow> (MediaTransfer \<Rightarrow> MediaTransfer) \<Rightarrow> ('q, 't) Daemon \<Rightarrow> ('q, 't) Daemon" where
  "change_transfer i f d =
     (case fmlookup (transfers d) i of
        None \<Rightarrow> d
      | Some t \<Rightarrow> d\<lparr>transfers := fmupd i (f t) (transfers d)\<rparr>)"

definition fail_transfer :: "string \<Rightarrow> string + daemon_error \<Rightarrow> ('q, 't) Daemon \<Rightarrow> ('q, 't) Daemon" where
  "fail_transfer i e d = change_transfer i (\<lambda>t. t\<lparr>mt_Status := TransferFailed, mt_Error := e\<rparr>) d"

definition store_update ::
  "('w, 'q, 't) env \<Rightarrow> string \<Rightarrow> int \<Rightarrow> int \<Rightarrow> int \<Rightarrow> ('q, 't) Daemon \<Rightarrow> ('q, 't) Daemon" where
  "store_update env i st progress sent d =
     d\<lparr>transferStore := map_option (\<lambda>t. snd (TransferStore_Update (env_transfers env) i st progress sent t)) (transferStore d)\<rparr>"

record MediaStatusResponse =
  msr_MessageId :: string
  msr_Status :: MediaStatus
  msr_ProgressPct :: int
  msr_Error :: "string + daemon_error"

definition Daemon_GetMediaStatus :: "string \<Rightarrow> ('q, 't) Daemon \<Rightarrow> MediaStatusResponse reply" where
  "Daemon_GetMediaStatus i d =
     (case fmlookup (transfers d) i of
        None \<Rightarrow> Fails (Status codes_NotFound ''transfer not found'')
      | Some t \<Rightarrow> Reply \<lparr>msr_MessageId = i, msr_Status = toProtoStatus t, msr_ProgressPct = getProgress t, msr_Error = getError t\<rparr>)"

definition Daemon_CancelSend :: "string \<Rightarrow> ('q, 't) Daemon \<Rightarrow> unit reply \<times> ('q, 't) Daemon" where
  "Daemon_CancelSend i d =
     (case fmlookup (transfers d) i of
        None \<Rightarrow> (Fails (Status codes_NotFound ''transfer not found''), d)
      | Some t \<Rightarrow>
          if mt_Status t = TransferComplete \<or> mt_Status t = TransferFailed
          then (Fails (Status codes_FailedPrecondition ''transfer already finished''), d)
          else (Reply (), change_transfer i (\<lambda>t. t\<lparr>mt_Status := TransferCancelled\<rparr>) d))"

text \<open>One pass of \<^verbatim>\<open>cleanupTransfers\<close> at a given time, over the keys in some order.\<close>

definition transfer_ttl :: duration where "transfer_ttl = 60 * 60 * 1000000000"

definition removable :: "time \<Rightarrow> MediaTransfer \<Rightarrow> bool" where
  "removable now t \<longleftrightarrow> (mt_Status t = TransferComplete \<or> mt_Status t = TransferFailed \<or> mt_Status t = TransferCancelled)
     \<and> time_Sub now (mt_Created t) > transfer_ttl"

fun cleanup_keys :: "time \<Rightarrow> string list \<Rightarrow> (string, MediaTransfer) fmap \<Rightarrow> (string, MediaTransfer) fmap" where
  "cleanup_keys now [] m = m"
| "cleanup_keys now (i # is) m =
     cleanup_keys now is (case fmlookup m i of
        None \<Rightarrow> m
      | Some t \<Rightarrow> if removable now t then fmdrop i m else m)"

definition cleanupTransfers_pass ::
  "('w, 'q, 't) env \<Rightarrow> ('q, 't) Daemon \<Rightarrow> 'w \<Rightarrow> ('q, 't) Daemon \<times> 'w" where
  "cleanupTransfers_pass env d w =
     (case env_now env w of
        (now, w1) \<Rightarrow>
          (case env_range env (fmdom (transfers d)) w1 of
             (ks, w2) \<Rightarrow> (d\<lparr>transfers := cleanup_keys now ks (transfers d)\<rparr>, w2)))"

section \<open>Sending a file in one call\<close>

record SendMediaRequest =
  smr_PeerPubkey :: string
  smr_MediaData :: bytes
  smr_Filename :: string
  smr_MimeType :: string

record SendMediaResponse =
  smresp_MessageId :: string
  smresp_EstimatedSeconds :: int
  smresp_Transport :: string

text \<open>\<^verbatim>\<open>%x\<close> of an integer.\<close>

function nat_hex :: "nat \<Rightarrow> string" where
  "nat_hex n = (if n < 16 then [hex_digit n] else nat_hex (n div 16) @ [hex_digit (n mod 16)])"
  by pat_completeness auto
termination by (relation "measure id") auto

declare nat_hex.simps [simp del]

definition int_hex :: "int \<Rightarrow> string" where
  "int_hex i = (if i < 0 then ''-'' @ nat_hex (nat (- i)) else nat_hex (nat i))"

text \<open>The metadata as an encrypted payload for the peer: the nonce and the ciphertext.\<close>

definition seal_metadata ::
  "('w, 'q, 't) env \<Rightarrow> KeyPair \<Rightarrow> string \<Rightarrow> MediaMessage \<Rightarrow> 'w \<Rightarrow> (daemon_error + bytes \<times> bytes) \<times> 'w" where
  "seal_metadata env kp peer meta w =
     (case peer_secret (env_crypto env) kp peer of
        Inl e \<Rightarrow> (Inl e, w)
      | Inr sharedSecret \<Rightarrow>
          (case env_random env w of
             (rnd, w1) \<Rightarrow>
               (case EncryptMessage (env_crypto env) rnd sharedSecret (MediaMessage_Marshal meta) of
                  Inl e \<Rightarrow> (Inl (CryptoError e), w1)
                | Inr (ciphertext, nonce) \<Rightarrow> (Inr (nonce, ciphertext), w1))))"

definition send_media_metadata ::
  "('w, 'q, 't) env \<Rightarrow> string \<Rightarrow> SendMediaRequest \<Rightarrow> MediaMessage \<Rightarrow> int \<Rightarrow> ('q, 't) Daemon \<Rightarrow> 'w
   \<Rightarrow> SendMediaResponse reply \<times> ('q, 't) Daemon \<times> 'w" where
  "send_media_metadata env msgID req meta estimatedSec d w =
     (case env_now env w of
        (now, w1) \<Rightarrow>
          (case identity d of
             None \<Rightarrow> (if base64_DecodeString (smr_PeerPubkey req) = None
                      then (Fails BadBase64, fail_transfer msgID (Inr BadBase64) d, w1) else (Panics, d, w1))
           | Some kp \<Rightarrow>
               (case seal_metadata env kp (smr_PeerPubkey req)
                   (meta\<lparr>MediaMessage.Timestamp := sint (time_UnixMilli now), MessageID := msgID\<rparr>) w1 of
                  (Inl e, w2) \<Rightarrow> (Fails e, fail_transfer msgID (Inr e) d, w2)
                | (Inr (nonce, ciphertext), w2) \<Rightarrow>
                    (case engine_send env (nonce @ ciphertext) (smr_PeerPubkey req) d w2 of
                       (None, w3) \<Rightarrow> (Hangs, d, w3)
                     | (Some (_, Inl e), w3) \<Rightarrow> (Fails (EngineError e), fail_transfer msgID (Inr (EngineError e)) d, w3)
                     | (Some (_, Inr _), w3) \<Rightarrow>
                         (Reply \<lparr>smresp_MessageId = msgID, smresp_EstimatedSeconds = estimatedSec, smresp_Transport = ''tcp''\<rparr>,
                          store_update env msgID store_TransferComplete 100 (int32 (int (length (smr_MediaData req)) div (256 * 1024)) + 1)
                            (change_transfer msgID (\<lambda>t. t\<lparr>mt_Status := TransferComplete, mt_Progress := 100\<rparr>) d), w3)))))"

definition Daemon_SendMedia ::
  "('w, 'q, 't) env \<Rightarrow> SendMediaRequest \<Rightarrow> ('q, 't) Daemon \<Rightarrow> 'w \<Rightarrow> SendMediaResponse reply \<times> ('q, 't) Daemon \<times> 'w" where
  "Daemon_SendMedia env req d w =
     (let est = int32 (int (length (smr_MediaData req)) div (100 * 1024) * 100 div 1000);
          estimatedSec = (if est < 5 then 5 else est) in
      case env_now env w of
        (t0, w1) \<Rightarrow>
          (case env_now env w1 of
             (created, w2) \<Rightarrow>
               (let msgID = int_hex (unix_nano t0);
                    d1 = d\<lparr>transfers := fmupd msgID (new_transfer created) (transfers d)\<rparr> in
                case env_random env w2 of
                  (rm, w3) \<Rightarrow>
                    (case GetRelays (engine d1) of
                       [] \<Rightarrow> (Fails (Status codes_FailedPrecondition ''no relays configured''),
                              fail_transfer msgID (Inl ''no relays configured for TCP upload'') d1, w3)
                     | relay # _ \<Rightarrow>
                         (let d2 = change_transfer msgID (\<lambda>t. t\<lparr>mt_Status := TransferSending, mt_Progress := 10\<rparr>) d1 in
                          case upload_media env relay (draw_id rm) (smr_MediaData req) (smr_Filename req) (smr_MimeType req) MediaTypeFile d2 w3 of
                            (Inl e, w4) \<Rightarrow> (Fails (MediaError e), fail_transfer msgID (Inr (MediaError e)) d2, w4)
                          | (Inr meta, w4) \<Rightarrow>
                              send_media_metadata env msgID req meta estimatedSec
                                (change_transfer msgID (\<lambda>t. t\<lparr>mt_Progress := 50\<rparr>) d2) w4)))))"

section \<open>Sending a file as a stream\<close>

text \<open>What the stream delivers before its end: chunks, or an error that ends it.\<close>

datatype stream_event = StreamChunk string bytes | StreamBroken string

record stream_state =
  ss_transferID :: string
  ss_tempFile :: "bytes option"
  ss_totalSize :: int
  ss_peerPubkey :: string
  ss_fileName :: string
  ss_mimeType :: string
  ss_chunkCount :: int

definition stream_start :: stream_state where
  "stream_start = \<lparr>ss_transferID = '''', ss_tempFile = None, ss_totalSize = 0, ss_peerPubkey = '''', ss_fileName = '''',
     ss_mimeType = '''', ss_chunkCount = 0\<rparr>"

definition decode_header :: "bytes \<Rightarrow> (string \<times> string \<times> string) option" where
  "decode_header data =
     (case struct_members (string_of_bytes data) of
        None \<Rightarrow> None
      | Some ms \<Rightarrow>
          (case (field_string ''peer_pubkey'' ms '''', field_string ''file_name'' ms '''', field_string ''mime_type'' ms '''') of
             (Some p, Some n, Some m) \<Rightarrow> Some (p, n, m)
           | _ \<Rightarrow> None))"

text \<open>The error of a write to the temporary file is ignored; a failed write may have written a part.\<close>

definition temp_write :: "('w, 'q, 't) env \<Rightarrow> bytes \<Rightarrow> stream_state \<Rightarrow> 'w \<Rightarrow> stream_state \<times> 'w" where
  "temp_write env data st w =
     (case env_write env w of
        (r, w') \<Rightarrow>
          (let written = (case r of WriteOK \<Rightarrow> data
                          | WriteFails _ None \<Rightarrow> []
                          | WriteFails _ (Some b) \<Rightarrow> take (length b) data)
           in (st\<lparr>ss_tempFile := map_option (\<lambda>f. f @ written) (ss_tempFile st),
                  ss_totalSize := ss_totalSize st + int (length written)\<rparr>, w')))"

definition first_chunk ::
  "('w, 'q, 't) env \<Rightarrow> string \<Rightarrow> bytes \<Rightarrow> stream_state \<Rightarrow> ('q, 't) Daemon \<Rightarrow> 'w
   \<Rightarrow> (daemon_error + stream_state) \<times> ('q, 't) Daemon \<times> 'w" where
  "first_chunk env transferId data st d w =
     (let st1 = (case decode_header data of
                   None \<Rightarrow> st\<lparr>ss_transferID := transferId\<rparr>
                 | Some (p, n, m) \<Rightarrow> st\<lparr>ss_transferID := transferId, ss_peerPubkey := p, ss_fileName := n, ss_mimeType := m\<rparr>) in
      case env_write env w of
        (WriteFails _ _, w1) \<Rightarrow> (Inl (Status codes_Internal ''create temp file failed''), d, w1)
      | (WriteOK, w1) \<Rightarrow>
          (case env_now env w1 of
             (now, w2) \<Rightarrow>
               (case env_now env w2 of
                  (created, w3) \<Rightarrow>
                    (let st2 = st1\<lparr>ss_tempFile := Some []\<rparr>;
                         d1 = d\<lparr>transfers := fmupd transferId (new_transfer now) (transfers d),
                                transferStore := map_option (\<lambda>t. snd (TransferStore_Create (env_transfers env)
                                  \<lparr>te_ID = transferId, te_PeerPubkey = ss_peerPubkey st1, te_FileName = ss_fileName st1,
                                   te_MimeType = ss_mimeType st1, te_FileSize = 0, te_Status = store_TransferQueued, te_Progress = 0,
                                   te_ChunksSent = 0, te_TotalChunks = 0, te_AvgChunkTime = 0, te_Error = '''',
                                   te_CreatedAt = sint (time_UnixMilli created), te_TempFilePath = ''''\<rparr> t)) (transferStore d)\<rparr> in
                     case (if ss_peerPubkey st2 = '''' then temp_write env data st2 w3 else (st2, w3)) of
                       (st3, w4) \<Rightarrow> (Inr (st3\<lparr>ss_chunkCount := int32 (ss_chunkCount st3 + 1)\<rparr>), d1, w4)))))"

definition next_chunk ::
  "('w, 'q, 't) env \<Rightarrow> bytes \<Rightarrow> stream_state \<Rightarrow> ('q, 't) Daemon \<Rightarrow> 'w
   \<Rightarrow> (daemon_error + stream_state) \<times> ('q, 't) Daemon \<times> 'w" where
  "next_chunk env data st d w =
     (case temp_write env data st w of
        (st1, w1) \<Rightarrow>
          (let st2 = st1\<lparr>ss_chunkCount := int32 (ss_chunkCount st1 + 1)\<rparr> in
           if ss_totalSize st2 > int MediaMaxHardCap
           then (Inl (Status codes_InvalidArgument ''file too large (max 10485760 bytes)''), d, w1)
           else (Inr st2, change_transfer (ss_transferID st2) (\<lambda>t. t\<lparr>mt_Status := TransferSending,
                   mt_Progress := int32 (int32 (ss_chunkCount st2 * 100) sdiv 1000), mt_ChunksSent := ss_chunkCount st2\<rparr>) d, w1)))"

fun receive_stream ::
  "('w, 'q, 't) env \<Rightarrow> stream_event list \<Rightarrow> stream_state \<Rightarrow> ('q, 't) Daemon \<Rightarrow> 'w
   \<Rightarrow> (daemon_error + stream_state) \<times> ('q, 't) Daemon \<times> 'w" where
  "receive_stream env [] st d w = (Inr st, d, w)"
| "receive_stream env (StreamBroken e # _) st d w =
     (Inl (StreamError e),
      (if ss_transferID st \<noteq> ''''
       then store_update env (ss_transferID st) store_TransferFailed 0 (ss_chunkCount st)
              (fail_transfer (ss_transferID st) (Inl e) d)
       else d), w)"
| "receive_stream env (StreamChunk i data # evs) st d w =
     (case (if ss_transferID st = '''' then first_chunk env i data st d w else next_chunk env data st d w) of
        (Inl e, d1, w1) \<Rightarrow> (Inl e, d1, w1)
      | (Inr st1, d1, w1) \<Rightarrow> receive_stream env evs st1 d1 w1)"

text \<open>Marking a transfer as failed in the map and in the store.\<close>

definition fail_stream ::
  "('w, 'q, 't) env \<Rightarrow> stream_state \<Rightarrow> string + daemon_error \<Rightarrow> ('q, 't) Daemon \<Rightarrow> ('q, 't) Daemon" where
  "fail_stream env st e d =
     store_update env (ss_transferID st) store_TransferFailed 0 (ss_chunkCount st) (fail_transfer (ss_transferID st) e d)"

definition stream_response :: "stream_state \<Rightarrow> SendMediaResponse" where
  "stream_response st = \<lparr>smresp_MessageId = ss_transferID st,
     smresp_EstimatedSeconds = EstimateSeconds (ss_totalSize st) True, smresp_Transport = ''tcp''\<rparr>"

text \<open>The source drops the nonce and ignores whether the send succeeded.\<close>

definition stream_metadata ::
  "('w, 'q, 't) env \<Rightarrow> stream_state \<Rightarrow> MediaMessage \<Rightarrow> ('q, 't) Daemon \<Rightarrow> 'w
   \<Rightarrow> SendMediaResponse reply \<times> ('q, 't) Daemon \<times> 'w" where
  "stream_metadata env st meta d w =
     (case env_now env w of
        (now, w1) \<Rightarrow>
          (case base64_DecodeString (ss_peerPubkey st) of
             None \<Rightarrow> (Fails (Status codes_InvalidArgument ''invalid peer pubkey''), fail_stream env st (Inr BadBase64) d, w1)
           | Some _ \<Rightarrow>
               (case identity d of
                  None \<Rightarrow> (Panics, d, w1)
                | Some kp \<Rightarrow>
                    (case seal_metadata env kp (ss_peerPubkey st)
                        (meta\<lparr>MediaMessage.Timestamp := sint (time_UnixMilli now), MessageID := ss_transferID st\<rparr>) w1 of
                       (Inl e, w2) \<Rightarrow> (Fails e, fail_stream env st (Inr e) d, w2)
                     | (Inr (nonce, ciphertext), w2) \<Rightarrow>
                         (case engine_send env ciphertext (ss_peerPubkey st) d w2 of
                            (None, w3) \<Rightarrow> (Hangs, d, w3)
                          | (Some _, w3) \<Rightarrow>
                              (Reply (stream_response st),
                               store_update env (ss_transferID st) store_TransferComplete 100 (ss_chunkCount st)
                                 (change_transfer (ss_transferID st) (\<lambda>t. t\<lparr>mt_Status := TransferComplete, mt_Progress := 100\<rparr>) d), w3))))))"

definition stream_upload ::
  "('w, 'q, 't) env \<Rightarrow> stream_state \<Rightarrow> bytes \<Rightarrow> ('q, 't) Daemon \<Rightarrow> 'w
   \<Rightarrow> SendMediaResponse reply \<times> ('q, 't) Daemon \<times> 'w" where
  "stream_upload env st fileData d w =
     (case env_random env w of
        (rm, w1) \<Rightarrow>
          if ss_peerPubkey st = ''''
          then (Reply (stream_response st), store_update env (ss_transferID st) store_TransferComplete 100 (ss_chunkCount st) d, w1)
          else (case GetRelays (engine d) of
                  [] \<Rightarrow> (Fails (Status codes_FailedPrecondition ''no relays configured for TCP upload''),
                         fail_stream env st (Inl ''no relays configured for TCP upload'') d, w1)
                | relay # _ \<Rightarrow>
                    (case upload_media env relay (draw_id rm) fileData (ss_fileName st) (ss_mimeType st) MediaTypeFile d w1 of
                       (Inl e, w2) \<Rightarrow> (Fails (MediaError e), fail_stream env st (Inr (MediaError e)) d, w2)
                     | (Inr meta, w2) \<Rightarrow>
                         stream_metadata env st meta
                           (store_update env (ss_transferID st) store_TransferConfirming 90 (ss_chunkCount st) d) w2)))"

definition Daemon_SendMediaStream ::
  "('w, 'q, 't) env \<Rightarrow> stream_event list \<Rightarrow> ('q, 't) Daemon \<Rightarrow> 'w \<Rightarrow> SendMediaResponse reply \<times> ('q, 't) Daemon \<times> 'w" where
  "Daemon_SendMediaStream env evs d w =
     (case receive_stream env evs stream_start d w of
        (Inl e, d1, w1) \<Rightarrow> (Fails e, d1, w1)
      | (Inr st, d1, w1) \<Rightarrow>
          (case ss_tempFile st of
             None \<Rightarrow> (Fails (Status codes_InvalidArgument ''no data received''), d1, w1)
           | Some content \<Rightarrow>
               (case env_read env w1 of
                  (Some _, w2) \<Rightarrow> (Fails (Status codes_Internal ''read temp file failed''), d1, w2)
                | (None, w2) \<Rightarrow> stream_upload env st content d1 w2)))"

section \<open>What the clean-up removes\<close>

lemma cleanup_keys_lookup:
  "fmlookup (cleanup_keys now ks m) i =
     (case fmlookup m i of
        None \<Rightarrow> None
      | Some t \<Rightarrow> if i \<in> set ks \<and> removable now t then None else Some t)"
  by (induction now ks m rule: cleanup_keys.induct) (auto split: option.splits)



end
