(* ===== verification/Daemon_Service.thy ===== *)
theory Daemon_Service
  imports Daemon_Media
begin

text \<open>
  The daemon as a service: the calls that gRPC dispatches (the names of the methods are those of
  \<^verbatim>\<open>relaypb/relay_grpc.pb.go\<close>), its background loops, and how \<^verbatim>\<open>RunDaemon\<close> starts it. Unary
  calls pass the interceptor; the one streaming call does not, because the server is created with a
  unary interceptor only.
\<close>

section \<open>Calls\<close>

datatype rpc =
    SendMessage_rpc SendRequest
  | PollMessages_rpc
  | GetRelayStatus_rpc
  | AddRelay_rpc string
  | RemoveRelay_rpc string
  | GetIdentity_rpc
  | AddPeer_rpc string string
  | GetTransportStatus_rpc
  | SendMedia_rpc SendMediaRequest
  | GetMediaStatus_rpc string
  | CancelSend_rpc string
  | GenerateInviteCode_rpc string
  | JoinViaCode_rpc string
  | RemovePeer_rpc string
  | ListPeers_rpc
  | CreateGroup_rpc string "string list"
  | ListGroups_rpc
  | LeaveGroup_rpc string
  | RemoveGroupMember_rpc string string
  | UpdateProfile_rpc string string
  | GetProfilePic_rpc
  | SetProfilePic_rpc bytes string
  | SetTransportMode_rpc int
  | SetChunkSize_rpc int

fun rpc_name :: "rpc \<Rightarrow> string" where
  "rpc_name (SendMessage_rpc _) = ''SendMessage''"
| "rpc_name PollMessages_rpc = ''PollMessages''"
| "rpc_name GetRelayStatus_rpc = ''GetRelayStatus''"
| "rpc_name (AddRelay_rpc _) = ''AddRelay''"
| "rpc_name (RemoveRelay_rpc _) = ''RemoveRelay''"
| "rpc_name GetIdentity_rpc = ''GetIdentity''"
| "rpc_name (AddPeer_rpc _ _) = ''AddPeer''"
| "rpc_name GetTransportStatus_rpc = ''GetTransportStatus''"
| "rpc_name (SendMedia_rpc _) = ''SendMedia''"
| "rpc_name (GetMediaStatus_rpc _) = ''GetMediaStatus''"
| "rpc_name (CancelSend_rpc _) = ''CancelSend''"
| "rpc_name (GenerateInviteCode_rpc _) = ''GenerateInviteCode''"
| "rpc_name (JoinViaCode_rpc _) = ''JoinViaCode''"
| "rpc_name (RemovePeer_rpc _) = ''RemovePeer''"
| "rpc_name ListPeers_rpc = ''ListPeers''"
| "rpc_name (CreateGroup_rpc _ _) = ''CreateGroup''"
| "rpc_name ListGroups_rpc = ''ListGroups''"
| "rpc_name (LeaveGroup_rpc _) = ''LeaveGroup''"
| "rpc_name (RemoveGroupMember_rpc _ _) = ''RemoveGroupMember''"
| "rpc_name (UpdateProfile_rpc _ _) = ''UpdateProfile''"
| "rpc_name GetProfilePic_rpc = ''GetProfilePic''"
| "rpc_name (SetProfilePic_rpc _ _) = ''SetProfilePic''"
| "rpc_name (SetTransportMode_rpc _) = ''SetTransportMode''"
| "rpc_name (SetChunkSize_rpc _) = ''SetChunkSize''"

definition FullMethodName :: "rpc \<Rightarrow> string" where
  "FullMethodName c = ''/relaypb.RelayClient/'' @ rpc_name c"

datatype answer =
    Empty
  | Sent_answer SendResponse
  | Polled "ReceivedMessage list"
  | Relays "RelayStatus list"
  | Identity IdentityInfo
  | Transport string
  | Media_answer SendMediaResponse
  | Media_state MediaStatusResponse
  | Code string
  | Joined string string
  | Peers "PeerInfoEntry list"
  | Group_created string
  | Groups "GroupInfo list"
  | Pic bytes string

definition answering :: "('a \<Rightarrow> answer) \<Rightarrow> 'a reply \<times> 's \<Rightarrow> (answer \<times> background list) reply \<times> 's" where
  "answering f r = map_prod (map_reply (\<lambda>x. (f x, []))) (\<lambda>s. s) r"

definition with_jobs :: "(unit reply \<times> background list) \<times> 's \<Rightarrow> (answer \<times> background list) reply \<times> 's" where
  "with_jobs r = (case r of ((x, jobs), s) \<Rightarrow> (map_reply (\<lambda>_. (Empty, jobs)) x, s))"

fun daemon_call ::
  "('w, 'q, 't) env \<Rightarrow> rpc \<Rightarrow> ('q, 't) Daemon \<Rightarrow> 'w \<Rightarrow> (answer \<times> background list) reply \<times> ('q, 't) Daemon \<times> 'w" where
  "daemon_call env (SendMessage_rpc req) d w = answering Sent_answer (Daemon_SendMessage env req d w)"
| "daemon_call env PollMessages_rpc d w = answering Polled (Daemon_PollMessages env d w)"
| "daemon_call env GetRelayStatus_rpc d w = (Reply (Relays (Daemon_GetRelayStatus d), []), d, w)"
| "daemon_call env (AddRelay_rpc a) d w = (Reply (Empty, []), Daemon_AddRelay a d, w)"
| "daemon_call env (RemoveRelay_rpc a) d w = (Reply (Empty, []), Daemon_RemoveRelay a d, w)"
| "daemon_call env GetIdentity_rpc d w = answering Identity (Daemon_GetIdentity d, d, w)"
| "daemon_call env (AddPeer_rpc n p) d w = answering (\<lambda>_. Empty) (Daemon_AddPeer env n p d w)"
| "daemon_call env GetTransportStatus_rpc d w = (Reply (Transport (Daemon_GetTransportStatus d), []), d, w)"
| "daemon_call env (SendMedia_rpc req) d w = answering Media_answer (Daemon_SendMedia env req d w)"
| "daemon_call env (GetMediaStatus_rpc i) d w = answering Media_state (Daemon_GetMediaStatus i d, d, w)"
| "daemon_call env (CancelSend_rpc i) d w = (case Daemon_CancelSend i d of (r, d') \<Rightarrow> answering (\<lambda>_. Empty) (r, d', w))"
| "daemon_call env (GenerateInviteCode_rpc n) d w = answering Code (Daemon_GenerateInviteCode env n d w)"
| "daemon_call env (JoinViaCode_rpc c) d w = answering (\<lambda>(n, p). Joined n p) (Daemon_JoinViaCode env c d w)"
| "daemon_call env (RemovePeer_rpc p) d w = answering (\<lambda>_. Empty) (Daemon_RemovePeer env p d w)"
| "daemon_call env ListPeers_rpc d w = (case Daemon_ListPeers env d w of (r, w') \<Rightarrow> answering Peers (r, d, w'))"
| "daemon_call env (CreateGroup_rpc n ms) d w = answering Group_created (Daemon_CreateGroup env n ms d w)"
| "daemon_call env ListGroups_rpc d w = (case Daemon_ListGroups env d w of (r, w') \<Rightarrow> answering Groups (r, d, w'))"
| "daemon_call env (LeaveGroup_rpc g) d w = answering (\<lambda>_. Empty) (Daemon_LeaveGroup env g d w)"
| "daemon_call env (RemoveGroupMember_rpc g m) d w = answering (\<lambda>_. Empty) (Daemon_RemoveGroupMember env g m d w)"
| "daemon_call env (UpdateProfile_rpc n b) d w = with_jobs (Daemon_UpdateProfile env n b d w)"
| "daemon_call env GetProfilePic_rpc d w =
     (case Daemon_GetProfilePic env d w of ((b, m), w') \<Rightarrow> (Reply (Pic b m, []), d, w'))"
| "daemon_call env (SetProfilePic_rpc b m) d w = with_jobs (Daemon_SetProfilePic env b m d w)"
| "daemon_call env (SetTransportMode_rpc m) d w = (Reply (Empty, []), Daemon_SetTransportMode m d, w)"
| "daemon_call env (SetChunkSize_rpc n) d w = (Reply (Empty, []), Daemon_SetChunkSize n d, w)"

definition serve_unary ::
  "('w, 'q, 't) env \<Rightarrow> string list option \<Rightarrow> rpc \<Rightarrow> ('q, 't) Daemon \<Rightarrow> 'w
   \<Rightarrow> (answer \<times> background list) reply \<times> ('q, 't) Daemon \<times> 'w" where
  "serve_unary env md c d w = authInterceptor (FullMethodName c) md (daemon_call env c) d w"

definition serve_stream ::
  "('w, 'q, 't) env \<Rightarrow> string list option \<Rightarrow> stream_event list \<Rightarrow> ('q, 't) Daemon \<Rightarrow> 'w
   \<Rightarrow> (answer \<times> background list) reply \<times> ('q, 't) Daemon \<times> 'w" where
  "serve_stream env md evs d w = answering Media_answer (Daemon_SendMediaStream env evs d w)"

section \<open>Background loops\<close>

definition queue_send :: "('w, 'q, 't) env \<Rightarrow> ('q, 't) Daemon \<Rightarrow> 'w engine_send" where
  "queue_send env d ciphertext peer w =
     (case engine_send env ciphertext peer d w of
        (None, _) \<Rightarrow> None
      | (Some (_, Inl e), w') \<Rightarrow> Some (Inl e, w')
      | (Some (mid, Inr n), w') \<Rightarrow> Some (Inr (mid, n), w'))"

definition processQueue ::
  "('w, 'q, 't) env \<Rightarrow> (client_error \<Rightarrow> string) \<Rightarrow> ('q, 't) Daemon \<Rightarrow> 'w \<Rightarrow> unit reply \<times> ('q, 't) Daemon \<times> 'w" where
  "processQueue env error_text d w =
     (case processQueue_pass (env_queue env) error_text (queue_send env d) (dm_queue d) w of
        None \<Rightarrow> (Hangs, d, w)
      | Some (_, q, w') \<Rightarrow> (Reply (), d\<lparr>dm_queue := q\<rparr>, w'))"

definition network_check :: "('q, 't) Daemon \<Rightarrow> ('q, 't) Daemon" where
  "network_check d = d\<lparr>detector := snd (Detector_Check (detector d))\<rparr>"

section \<open>Starting\<close>

datatype startup_error = StartFailed string | StartIdentity crypto_error

record startup =
  su_relays :: "string list"
  su_zone :: string
  su_dataDir :: string
  su_forceBlackout :: bool
  su_dnsResolver :: string

text \<open>The first occurrence of each relay, those of the file before those given.\<close>

fun add_unseen_relays :: "string list \<Rightarrow> string list \<Rightarrow> string list" where
  "add_unseen_relays acc [] = acc"
| "add_unseen_relays acc (r # rs) = add_unseen_relays (if r \<in> set acc then acc else acc @ [r]) rs"

definition merge_relays :: "string list \<Rightarrow> string list \<Rightarrow> string list" where
  "merge_relays fileRelays given = add_unseen_relays (add_unseen_relays [] fileRelays) given"

text \<open>\<open>None\<close> is the panic of \<^verbatim>\<open>SaveIdentity\<close> on a key that is too short.\<close>

definition load_or_create_identity ::
  "('w, 'q, 't) env \<Rightarrow> string \<Rightarrow> files \<Rightarrow> 'w \<Rightarrow> (crypto_error + KeyPair) option \<times> files \<times> 'w" where
  "load_or_create_identity env path fs w =
     (case env_read env w of
        (fault, w1) \<Rightarrow>
          (case LoadIdentity (env_crypto env) fault path fs of
             Inr kp \<Rightarrow> (Some (Inr kp), fs, w1)
           | Inl _ \<Rightarrow>
               (case env_random env w1 of
                  (rnd, w2) \<Rightarrow>
                    (case GenerateKeyPair (env_crypto env) rnd of
                       Inl e \<Rightarrow> (Some (Inl e), fs, w2)
                     | Inr kp \<Rightarrow>
                         (case env_write env w2 of
                            (wr, w3) \<Rightarrow>
                              (case SaveIdentity wr path kp fs of
                                 None \<Rightarrow> (None, fs, w3)
                               | Some (Inl e, fs') \<Rightarrow> (Some (Inl e), fs', w3)
                               | Some (Inr _, fs') \<Rightarrow> (Some (Inr kp), fs', w3)))))))"

definition load_or_create_token ::
  "('w, 'q, 't) env \<Rightarrow> string \<Rightarrow> files \<Rightarrow> 'w \<Rightarrow> (string + bytes) \<times> files \<times> 'w" where
  "load_or_create_token env path fs w =
     (case env_read env w of
        (fault, w1) \<Rightarrow>
          (case env_random env w1 of
             (rnd, w2) \<Rightarrow>
               (case env_write env w2 of
                  (wr, w3) \<Rightarrow>
                    (case loadOrGenerateAuthToken fault rnd wr path fs of (r, fs') \<Rightarrow> (r, fs', w3)))))"

definition new_daemon :: "startup \<Rightarrow> string list \<Rightarrow> KeyPair \<Rightarrow> bytes \<Rightarrow> 'q \<Rightarrow> files \<Rightarrow> ('q, 't) Daemon" where
  "new_daemon su engineRelays kp token q fs = \<lparr>
     engine = SetDebugLogPath (filepath_Join [su_dataDir su, ''relayd_debug.log''])
       (SetDNSResolver (su_dnsResolver su) (NewDNSClientEngine engineRelays (su_zone su))),
     detector = snd (Detector_Check (NewDetector (su_forceBlackout su) (int (length engineRelays)))),
     dm_queue = q, identity = Some kp,
     peers = fmempty, peersPath = filepath_Join [su_dataDir su, ''daemon_peers.json''],
     dm_groups = fmempty, groupsPath = filepath_Join [su_dataDir su, ''daemon_groups.json''],
     dataDir = su_dataDir su, pendingHellos = fmempty, transfers = fmempty, transferStore = None,
     authToken = Some token, dm_profile = None, profilePath = filepath_Join [su_dataDir su, ''profile.json''], disk = fs\<rparr>"

definition load_state ::
  "('w, 'q, 't) env \<Rightarrow> ('q, 't) Daemon \<Rightarrow> 'w \<Rightarrow> ('q, 't) Daemon \<times> 'w" where
  "load_state env d w =
     (case loadPeers env d w of
        (d1, w1) \<Rightarrow> (case loadGroups env d1 w1 of (d2, w2) \<Rightarrow> loadProfile env d2 w2))"

text \<open>
  \<^verbatim>\<open>RunDaemon\<close> up to the point where it serves. The outcomes of creating the directory, opening the two
  databases and listening are arguments; the log files are left out.
\<close>

definition RunDaemon ::
  "('w, 'q, 't) env \<Rightarrow> string option \<Rightarrow> string + 'q \<Rightarrow> string + 't \<Rightarrow> string option \<Rightarrow> startup \<Rightarrow> files \<Rightarrow> 'w
   \<Rightarrow> (startup_error + ('q, 't) Daemon) option \<times> files \<times> 'w" where
  "RunDaemon env mkdir open_queue open_transfers listen su fs w =
     (case mkdir of
        Some e \<Rightarrow> (Some (Inl (StartFailed e)), fs, w)
      | None \<Rightarrow>
          (case load_or_create_identity env (filepath_Join [su_dataDir su, ''identity.key'']) fs w of
             (None, fs1, w1) \<Rightarrow> (None, fs1, w1)
           | (Some (Inl e), fs1, w1) \<Rightarrow> (Some (Inl (StartIdentity e)), fs1, w1)
           | (Some (Inr kp), fs1, w1) \<Rightarrow>
               (case load_or_create_token env (filepath_Join [su_dataDir su, ''auth_token'']) fs1 w1 of
                  (Inl e, fs2, w2) \<Rightarrow> (Some (Inl (StartFailed (''auth token: '' @ e))), fs2, w2)
                | (Inr token, fs2, w2) \<Rightarrow>
                    (case open_queue of
                       Inl e \<Rightarrow> (Some (Inl (StartFailed e)), fs2, w2)
                     | Inr q \<Rightarrow>
                         (case env_read env w2 of
                            (fault, w3) \<Rightarrow>
                              (case load_state env (new_daemon su
                                  (merge_relays (loadRelaysFromConfig fault (su_dataDir su) fs2) (su_relays su)) kp token q fs2) w3 of
                                 (d, w4) \<Rightarrow>
                                   (let d' = d\<lparr>transferStore := (case open_transfers of Inl _ \<Rightarrow> None | Inr t \<Rightarrow> Some t)\<rparr> in
                                    case listen of
                                      Some e \<Rightarrow> (Some (Inl (StartFailed e)), disk d', w4)
                                    | None \<Rightarrow> (Some (Inr d'), disk d', w4))))))))"

section \<open>Steps\<close>

text \<open>
  Everything that changes a running daemon. A step runs to its end before the next one starts. The
  local variable of a watcher is an argument of its tick.
\<close>

datatype daemon_event =
    Unary_call "string list option" rpc
  | Stream_call "string list option" "stream_event list"
  | Queue_round "client_error \<Rightarrow> string"
  | Network_round
  | Cleanup_round
  | Mode_tick string
  | Size_tick int
  | Background_job background

definition daemon_step ::
  "('w, 'q, 't) env \<Rightarrow> daemon_event \<Rightarrow> ('q, 't) Daemon \<Rightarrow> 'w \<Rightarrow> unit reply \<times> ('q, 't) Daemon \<times> 'w" where
  "daemon_step env ev d w =
     (case ev of
        Unary_call md c \<Rightarrow> map_prod (map_reply (\<lambda>_. ())) (\<lambda>s. s) (serve_unary env md c d w)
      | Stream_call md evs \<Rightarrow> map_prod (map_reply (\<lambda>_. ())) (\<lambda>s. s) (serve_stream env md evs d w)
      | Queue_round error_text \<Rightarrow> processQueue env error_text d w
      | Network_round \<Rightarrow> (Reply (), network_check d, w)
      | Cleanup_round \<Rightarrow> (Reply (), cleanupTransfers_pass env d w)
      | Mode_tick prev \<Rightarrow> (Reply (), snd (watchTransportMode_tick env prev d w))
      | Size_tick prev \<Rightarrow> (Reply (), snd (watchChunkSize_tick env prev d w))
      | Background_job job \<Rightarrow> (case run_background env job d w of (r, w') \<Rightarrow> (r, d, w')))"

text \<open>A panic ends the process, and so does the run.\<close>

fun daemon_run ::
  "('w, 'q, 't) env \<Rightarrow> daemon_event list \<Rightarrow> ('q, 't) Daemon \<Rightarrow> 'w \<Rightarrow> unit reply \<times> ('q, 't) Daemon \<times> 'w" where
  "daemon_run env [] d w = (Reply (), d, w)"
| "daemon_run env (ev # evs) d w =
     (case daemon_step env ev d w of
        (Panics, d', w') \<Rightarrow> (Panics, d', w')
      | (_, d', w') \<Rightarrow> daemon_run env evs d' w')"

end
