(* ===== verification/Daemon_Invariant.thy ===== *)
theory Daemon_Invariant
  imports Daemon_Service
begin

text \<open>
  The daemon has an identity with usable keys, and its tables of peers, groups and members hold no
  \<^verbatim>\<open>nil\<close> pointer. Every step keeps this, and in such a state only a malformed chunk fetched by
  \<^verbatim>\<open>PollMessages\<close> can make the daemon panic.
\<close>

section \<open>The invariant\<close>

definition no_nil :: "(string, 'a option) fmap \<Rightarrow> bool" where
  "no_nil m \<longleftrightarrow> (\<forall>k. fmlookup m k \<noteq> Some None)"

definition group_ok :: "Group \<Rightarrow> bool" where
  "group_ok g \<longleftrightarrow> no_nil (Members g)"

definition identity_ok :: "KeyPair option \<Rightarrow> bool" where
  "identity_ok i \<longleftrightarrow> (case i of None \<Rightarrow> False | Some kp \<Rightarrow> length (Ed25519PrivateKey kp) \<in> {0, 64})"

definition daemon_ok :: "('q, 't) Daemon \<Rightarrow> bool" where
  "daemon_ok d \<longleftrightarrow> identity_ok (identity d) \<and> no_nil (peers d) \<and> no_nil (dm_groups d)
     \<and> (\<forall>k g. fmlookup (dm_groups d) k = Some (Some g) \<longrightarrow> group_ok g)"

text \<open>A step that ends well: the invariant holds afterwards and there was no panic.\<close>

definition safe :: "'a reply \<times> ('q, 't) Daemon \<times> 'w \<Rightarrow> bool" where
  "safe r \<longleftrightarrow> daemon_ok (fst (snd r)) \<and> fst r \<noteq> Panics"

named_theorems safe

lemma safe_simp [simp]: "safe (r, d, w) \<longleftrightarrow> daemon_ok d \<and> r \<noteq> Panics"
  by (simp add: safe_def)

lemma no_nil_upd [simp]: "no_nil m \<Longrightarrow> no_nil (fmupd k (Some x) m)"
  by (simp add: no_nil_def)

lemma no_nil_drop [simp]: "no_nil m \<Longrightarrow> no_nil (fmdrop k m)"
  by (simp add: no_nil_def)

lemma no_nil_empty [simp]: "no_nil fmempty"
  by (simp add: no_nil_def)

lemma no_nil_lookup: "no_nil m \<Longrightarrow> fmlookup m k \<noteq> Some None"
  by (simp add: no_nil_def)

lemma daemon_ok_fields [simp]:
  "daemon_ok (d\<lparr>engine := e\<rparr>) = daemon_ok d"
  "daemon_ok (d\<lparr>detector := dt\<rparr>) = daemon_ok d"
  "daemon_ok (d\<lparr>dm_queue := q\<rparr>) = daemon_ok d"
  "daemon_ok (d\<lparr>pendingHellos := h\<rparr>) = daemon_ok d"
  "daemon_ok (d\<lparr>transfers := t\<rparr>) = daemon_ok d"
  "daemon_ok (d\<lparr>transferStore := s\<rparr>) = daemon_ok d"
  "daemon_ok (d\<lparr>dm_profile := p\<rparr>) = daemon_ok d"
  "daemon_ok (d\<lparr>disk := fs\<rparr>) = daemon_ok d"
  by (simp_all add: daemon_ok_def)

lemma daemon_ok_peer [simp]: "daemon_ok d \<Longrightarrow> daemon_ok (d\<lparr>peers := fmupd k (Some p) (peers d)\<rparr>)"
  by (simp add: daemon_ok_def)

lemma daemon_ok_drop_peer [simp]: "daemon_ok d \<Longrightarrow> daemon_ok (d\<lparr>peers := fmdrop k (peers d)\<rparr>)"
  by (simp add: daemon_ok_def)

lemma daemon_ok_group [simp]:
  "daemon_ok d \<Longrightarrow> group_ok g \<Longrightarrow> daemon_ok (d\<lparr>dm_groups := fmupd k (Some g) (dm_groups d)\<rparr>)"
  by (simp add: daemon_ok_def)

lemma daemon_ok_drop_group [simp]: "daemon_ok d \<Longrightarrow> daemon_ok (d\<lparr>dm_groups := fmdrop k (dm_groups d)\<rparr>)"
  by (simp add: daemon_ok_def)

lemma group_ok_fields [simp]:
  "group_ok (g\<lparr>GroupKey := k\<rparr>) = group_ok g"
  "group_ok (g\<lparr>KeyEpoch := e\<rparr>) = group_ok g"
  "group_ok (g\<lparr>AdminPubkey := a\<rparr>) = group_ok g"
  "group_ok \<lparr>GroupID = i, gr_Name = n, AdminPubkey = a, Members = m, GroupKey = k, KeyEpoch = e\<rparr> = no_nil m"
  "group_ok g \<Longrightarrow> group_ok (g\<lparr>Members := fmdrop p (Members g)\<rparr>)"
  "group_ok g \<Longrightarrow> group_ok (g\<lparr>Members := fmupd p (Some x) (Members g)\<rparr>)"
  by (simp_all add: group_ok_def)

lemma daemon_ok_identity: "daemon_ok d \<Longrightarrow> identity d = None \<Longrightarrow> False"
  by (simp add: daemon_ok_def identity_ok_def)

lemma daemon_ok_signs:
  "daemon_ok d \<Longrightarrow> identity d = Some kp \<Longrightarrow> BuildSignedPayload ops kp m \<noteq> None"
  by (auto simp: daemon_ok_def identity_ok_def BuildSignedPayload_def SignMessage_def Let_def)

lemma daemon_ok_peers: "daemon_ok d \<Longrightarrow> fmlookup (peers d) k \<noteq> Some None"
  by (simp add: daemon_ok_def no_nil_def)

lemma daemon_ok_groups: "daemon_ok d \<Longrightarrow> fmlookup (dm_groups d) k \<noteq> Some None"
  by (simp add: daemon_ok_def no_nil_def)

lemma daemon_ok_group_ok: "daemon_ok d \<Longrightarrow> fmlookup (dm_groups d) k = Some (Some g) \<Longrightarrow> group_ok g"
  by (simp add: daemon_ok_def)

lemmas reply_splits = prod.splits option.splits sum.splits reply.splits list.splits if_splits

section \<open>Files\<close>

lemma keeps_WriteFile [simp]: "daemon_ok (fst (snd (daemon_WriteFile env path data d w))) = daemon_ok d"
  by (simp add: daemon_WriteFile_def split: prod.splits)

lemma keeps_savePeers [simp]: "daemon_ok (fst (savePeers env d w)) = daemon_ok d"
  by (simp add: savePeers_def)

lemma keeps_saveGroups [simp]: "daemon_ok (fst (saveGroups env d w)) = daemon_ok d"
  by (simp add: saveGroups_def)

lemma keeps_saveProfile [simp]: "daemon_ok (fst (saveProfile env d w)) = daemon_ok d"
  by (simp add: saveProfile_def)

lemma file_results:
  "savePeers env d w = (d', w') \<Longrightarrow> daemon_ok d' = daemon_ok d"
  "saveGroups env d w = (d', w') \<Longrightarrow> daemon_ok d' = daemon_ok d"
  "saveProfile env d w = (d', w') \<Longrightarrow> daemon_ok d' = daemon_ok d"
  "daemon_WriteFile env path data d w = (e, d', w') \<Longrightarrow> daemon_ok d' = daemon_ok d"
  using keeps_savePeers [of env d w] keeps_saveGroups [of env d w] keeps_saveProfile [of env d w]
    keeps_WriteFile [of env path data d w] by simp_all

lemma safe_fst: "safe (r, p) \<longleftrightarrow> daemon_ok (fst p) \<and> r \<noteq> Panics"
  by (simp add: safe_def)

lemma each_key_stops:
  "each_key f ks w = (r, w') \<Longrightarrow> r \<noteq> Reply () \<Longrightarrow> \<exists>k w1 w2. k \<in> set ks \<and> f k w1 = (r, w2)"
proof (induction ks arbitrary: w)
  case (Cons k ks)
  obtain x w1 where "f k w = (x, w1)" by fastforce
  then show ?case using Cons.IH [of w1] Cons.prems by (cases x) auto
qed simp

lemmas each_key_panic = each_key_stops [where r = Panics, simplified]
lemmas each_key_fails = each_key_stops [where r = "Fails e" for e, simplified]

section \<open>Messages\<close>

lemma send_to_members_panic: "send_to_members env payload me grp d w = (Panics, w') \<Longrightarrow> False"
  by (auto simp: send_to_members_def split: prod.splits option.splits if_splits dest!: each_key_panic)

lemma safe_send_group_message: "daemon_ok d \<Longrightarrow> safe (send_group_message env kp req d w)"
  by (auto simp: send_group_message_def daemon_ok_groups split: reply_splits dest: send_to_members_panic)

lemma safe_send_direct_message:
  "daemon_ok d \<Longrightarrow> identity d = Some kp \<Longrightarrow> safe (send_direct_message env kp req d w)"
  by (auto simp: send_direct_message_def Let_def daemon_ok_signs split: reply_splits)

lemma safe_SendMessage [safe]: "daemon_ok d \<Longrightarrow> safe (Daemon_SendMessage env req d w)"
  by (simp add: Daemon_SendMessage_def safe_send_group_message safe_send_direct_message split: option.splits)

lemma try_peers_no_panic: "no_nil ps \<Longrightarrow> try_peers ops kp n c ps ks \<noteq> Panics"
  by (induction ks) (auto simp: no_nil_lookup split: sum.splits)

lemma try_peers_replies: "try_peers ops kp n c ps ks \<noteq> Panics \<Longrightarrow> \<exists>r. try_peers ops kp n c ps ks = Reply r"
  by (induction ks) (auto split: sum.splits if_splits)

lemma accept_hello_result: "accept_hello env h p n d w = (d', w') \<Longrightarrow> daemon_ok d \<Longrightarrow> daemon_ok d'"
  by (auto simp: accept_hello_def Let_def file_results split: prod.splits)

lemma try_hellos_result:
  "try_hellos env raw hs found d w = (found', d', w') \<Longrightarrow> daemon_ok d \<Longrightarrow> daemon_ok d'"
proof (induction hs arbitrary: found d w)
  case (Cons h hs)
  show ?case using Cons.prems
    by (auto split: reply_splits elim!: Cons.IH dest: accept_hello_result)
qed simp

lemma safe_apply_group_key: "daemon_ok d \<Longrightarrow> safe (apply_group_key env g k e n d w)"
  by (auto simp: apply_group_key_def safe_fst daemon_ok_groups intro!: daemon_ok_group dest: daemon_ok_group_ok split: option.splits)

lemma open_group_message_replies: "no_nil gs \<Longrightarrow> \<exists>r. open_group_message ops gs text = Reply r"
  by (auto simp: open_group_message_def no_nil_lookup split: option.splits sum.splits)

lemma save_bio_ok [simp]: "daemon_ok (fst (save_bio env p m d w)) = daemon_ok d"
  by (auto simp: save_bio_def file_results split: prod.splits)

lemma safe_apply_profile_update: "daemon_ok d \<Longrightarrow> safe (apply_profile_update env p m d w)"
  by (auto simp: apply_profile_update_def safe_fst daemon_ok_peers split: option.splits)

lemma save_profile_pic_ok [simp]: "daemon_ok (fst (save_profile_pic env p m d w)) = daemon_ok d"
  by (auto simp: save_profile_pic_def split: reply_splits)

lemma save_media_ok [simp]: "daemon_ok (fst (save_media env pm p m d w)) = daemon_ok d"
  by (auto simp: save_media_def file_results split: list.splits prod.splits)

lemma safe_handle_media: "handle_media env pm p s d w = Some r \<Longrightarrow> daemon_ok d \<Longrightarrow> safe r"
  by (auto simp: handle_media_def safe_fst split: option.splits if_splits)

lemma safe_handle_typed: "handle_typed env pm p s d w = Some r \<Longrightarrow> daemon_ok d \<Longrightarrow> safe r"
  by (auto simp: handle_typed_def Let_def safe_fst safe_apply_profile_update dest: safe_handle_media split: option.splits if_splits)

text \<open>The two handlers below a delivery either answer or panic.\<close>

lemma apply_group_key_answers: "fst (apply_group_key env g k e n d w) \<in> {Reply (), Panics}"
  by (auto simp: apply_group_key_def split: option.splits)

lemma handle_typed_answers: "handle_typed env pm p s d w = Some r \<Longrightarrow> fst r \<in> {Reply (), Panics}"
  by (auto simp: handle_typed_def handle_media_def apply_profile_update_def Let_def split: option.splits if_splits)

text \<open>A step that answers and keeps the invariant.\<close>

definition settled :: "'a reply \<times> ('q, 't) Daemon \<times> 'w \<Rightarrow> bool" where
  "settled r \<longleftrightarrow> daemon_ok (fst (snd r)) \<and> (\<exists>x. fst r = Reply x)"

lemma settled_simps [simp]: "settled (r, d, w) \<longleftrightarrow> daemon_ok d \<and> (\<exists>x. r = Reply x)"
  by (simp add: settled_def)

lemma settled_deliver: "daemon_ok d \<Longrightarrow> settled (deliver env pm p text d w)"
proof -
  assume d: "daemon_ok d"
  show ?thesis
  proof (cases "decode_group_key text")
    case None
    from d obtain r where r: "open_group_message (env_crypto env) (dm_groups d) text = Reply r"
      using open_group_message_replies [of "dm_groups d" "env_crypto env" "text"] by (auto simp: daemon_ok_def)
    have "settled (case handle_typed env pm p text' d w of
                  None \<Rightarrow> (Reply (Some (received pm p text' gid)), d, w)
                | Some (Reply _, d', w') \<Rightarrow> (Reply None, d', w')
                | Some (_, d', w') \<Rightarrow> (Panics, d', w'))" for text' gid
    proof (cases "handle_typed env pm p text' d w")
      case (Some x)
      then have "daemon_ok (fst (snd x))" "fst x = Reply ()"
        using d handle_typed_answers [OF Some] safe_handle_typed [OF Some] by (auto simp: safe_def)
      then show ?thesis using Some by (cases x) simp
    qed (simp add: d)
    then show ?thesis using None r d by (cases r) (auto simp: deliver_def)
  next
    case (Some k)
    obtain g key e n where k: "k = (g, key, e, n)" by (cases k)
    have "fst (apply_group_key env g key e n d w) = Reply ()"
      using apply_group_key_answers [of env g key e n d w] safe_apply_group_key [OF d, of env g key e n w]
      by (auto simp: safe_def)
    then show ?thesis
      using Some k safe_apply_group_key [OF d, of env g key e n w]
      by (auto simp: deliver_def safe_def settled_def split: prod.splits reply.splits)
  qed
qed

lemma settled_poll_one: "daemon_ok d \<Longrightarrow> settled (poll_one env kp pm d w)"
proof -
  assume d: "daemon_ok d"
  obtain ks w1 where ks: "env_range env (fmdom (peers d)) w = (ks, w1)" by fastforce
  obtain r where r: "try_peers (env_crypto env) kp (take NonceLength (Data pm)) (drop NonceLength (Data pm)) (peers d) ks = Reply r"
    using try_peers_replies try_peers_no_panic d by (metis daemon_ok_def)
  show ?thesis
  proof (cases r)
    case None
    obtain hs w2 where "env_range env (fmdom (pendingHellos d)) w1 = (hs, w2)" by fastforce
    moreover obtain f d' w3 where "try_hellos env (Data pm) hs None d w2 = (f, d', w3)" by (metis prod_cases3)
    moreover from this have "daemon_ok d'" by (rule try_hellos_result [OF _ d])
    ultimately show ?thesis using d ks r None
      by (auto simp: poll_one_def Let_def settled_deliver split: option.splits)
  qed (use d ks r in \<open>auto simp: poll_one_def Let_def settled_deliver\<close>)
qed

lemma settled_poll_each: "daemon_ok d \<Longrightarrow> settled (poll_each env kp pms d w)"
proof (induction pms arbitrary: d w)
  case (Cons pm pms)
  obtain x d1 w1 where one: "poll_one env kp pm d w = (Reply x, d1, w1)" "daemon_ok d1"
    using settled_poll_one [OF Cons.prems, of env kp pm w] by (auto simp: settled_def)
      (metis prod.collapse)
  from Cons.IH [OF one(2), of w1] obtain y d2 w2 where "poll_each env kp pms d1 w1 = (Reply y, d2, w2)" "daemon_ok d2"
    by (auto simp: settled_def) (metis prod.collapse)
  with one show ?case by simp
qed simp

lemma PollMessages_ok:
  assumes "daemon_ok d" "Daemon_PollMessages env d w = (r, d', w')"
  shows "daemon_ok d'"
    and "r = Panics \<Longrightarrow> \<exists>kp. identity d = Some kp \<and>
      fst (PollMessages (env_fqdn env) (env_exch env) (base64_EncodeToString (PublicKey kp)) (engine d) w) = Inl FetchPanic"
proof -
  obtain kp where kp: "identity d = Some kp" using daemon_ok_identity [OF assms(1)] by auto
  obtain x e w1 where x: "PollMessages (env_fqdn env) (env_exch env) (base64_EncodeToString (PublicKey kp)) (engine d) w = (x, e, w1)"
    by (metis prod_cases3)
  have *: "daemon_ok d' \<and> (r = Panics \<longrightarrow> x = Inl FetchPanic)"
  proof (cases x)
    case (Inl er)
    then show ?thesis using assms kp x by (cases er) (auto simp: Daemon_PollMessages_def)
  next
    case (Inr pms)
    have "settled (poll_each env kp pms (d\<lparr>engine := e\<rparr>) w1)"
      by (rule settled_poll_each) (simp add: assms(1))
    then show ?thesis using assms kp x Inr by (auto simp: Daemon_PollMessages_def)
  qed
  then show "daemon_ok d'" by blast
  show "\<exists>kp. identity d = Some kp \<and>
      fst (PollMessages (env_fqdn env) (env_exch env) (base64_EncodeToString (PublicKey kp)) (engine d) w) = Inl FetchPanic"
    if "r = Panics" using * kp x that by simp
qed

section \<open>Other calls\<close>

lemma safe_GenerateInviteCode [safe]: "daemon_ok d \<Longrightarrow> safe (Daemon_GenerateInviteCode env n d w)"
  by (auto simp: Daemon_GenerateInviteCode_def Let_def dest: daemon_ok_identity split: option.splits prod.splits sum.splits)

lemma safe_JoinViaCode [safe]: "daemon_ok d \<Longrightarrow> safe (Daemon_JoinViaCode env c d w)"
  by (auto simp: Daemon_JoinViaCode_def Let_def file_results dest: daemon_ok_identity split: option.splits prod.splits sum.splits)

lemma safe_AddPeer [safe]: "daemon_ok d \<Longrightarrow> safe (Daemon_AddPeer env n p d w)"
  by (auto simp: Daemon_AddPeer_def safe_fst split: option.splits)

lemma safe_RemovePeer [safe]: "daemon_ok d \<Longrightarrow> safe (Daemon_RemovePeer env p d w)"
  by (simp add: Daemon_RemovePeer_def safe_fst)

lemma range_okD:
  assumes "range_ok env" "env_range env S w = (ks, w')"
  shows "set ks = fset S" "distinct ks"
proof -
  have "distinct (fst (env_range env S w)) \<and> set (fst (env_range env S w)) = fset S"
    using assms(1) by (simp only: range_ok_def)
  then show "set ks = fset S" "distinct ks" by (simp_all add: assms(2))
qed

lemma no_nil_values:
  assumes "no_nil m" "set ks = fset (fmdom m)"
  shows "None \<notin> set (map (\<lambda>k. the (fmlookup m k)) ks)"
proof
  assume "None \<in> set (map (\<lambda>k. the (fmlookup m k)) ks)"
  then obtain k where k: "k \<in> fset (fmdom m)" "the (fmlookup m k) = None" using assms(2) by force
  then obtain v where "fmlookup m k = Some v" by (metis fmdomE)
  with k(2) assms(1) show False by (simp add: no_nil_def)
qed

lemma ListPeers_no_panic:
  assumes "range_ok env" "daemon_ok d" "Daemon_ListPeers env d w = (r, w')"
  shows "r \<noteq> Panics"
proof -
  obtain ks w1 where ks: "env_range env (fmdom (peers d)) w = (ks, w1)" by fastforce
  then show ?thesis using no_nil_values [of "peers d" ks] range_okD [OF assms(1) ks] assms(2,3)
    by (auto simp: Daemon_ListPeers_def daemon_ok_def Let_def)
qed

lemma list_groups_no_panic:
  assumes "range_ok env" "no_nil gs" "\<forall>k g. fmlookup gs k = Some (Some g) \<longrightarrow> group_ok g"
  shows "set ks \<subseteq> fset (fmdom gs) \<Longrightarrow> fst (list_groups env gs ks w) \<noteq> Panics"
proof (induction ks arbitrary: w)
  case (Cons k ks)
  then obtain g where g: "fmlookup gs k = Some (Some g)"
    using no_nil_lookup [OF assms(2), of k] by (metis fmdomE list.set_intros(1) not_Some_eq subsetD)
  obtain ms w1 where ms: "env_range env (fmdom (Members g)) w = (ms, w1)" by fastforce
  have "None \<notin> set (map (\<lambda>m. the (fmlookup (Members g) m)) ms)"
    using assms(3) g range_okD [OF assms(1) ms] by (intro no_nil_values) (auto simp: group_ok_def)
  moreover have "fst (list_groups env gs ks w1) \<noteq> Panics" using Cons.prems by (intro Cons.IH) simp
  ultimately show ?case using g ms by (auto simp: Let_def split: prod.splits reply.splits)
qed simp

lemma ListGroups_no_panic:
  assumes "range_ok env" "daemon_ok d" "Daemon_ListGroups env d w = (r, w')"
  shows "r \<noteq> Panics"
proof -
  obtain ks w1 where ks: "env_range env (fmdom (dm_groups d)) w = (ks, w1)" by fastforce
  then show ?thesis
    using list_groups_no_panic [OF assms(1), of "dm_groups d" ks w1] range_okD [OF assms(1) ks] assms(2,3)
    by (auto simp: Daemon_ListGroups_def daemon_ok_def)
qed

section \<open>Groups\<close>

lemma send_group_key_panic: "send_group_key env kp m d k w = (Panics, w') \<Longrightarrow> False"
  by (auto simp: send_group_key_def Let_def split: reply_splits)

lemma send_group_key_fails: "send_group_key env kp m d k w = (Fails e, w') \<Longrightarrow> False"
  by (auto simp: send_group_key_def Let_def split: reply_splits)

lemma no_nil_new_members: "no_nil (new_members me n ms)"
proof -
  have "no_nil m \<Longrightarrow> no_nil (foldl (\<lambda>m mpk. fmupd mpk (Some (f mpk)) m) m ms)" for m and f :: "string \<Rightarrow> GroupMember"
    by (induction ms arbitrary: m) simp_all
  then show ?thesis by (simp add: new_members_def)
qed

lemma safe_CreateGroup [safe]: "daemon_ok d \<Longrightarrow> safe (Daemon_CreateGroup env n ms d w)"
  by (auto simp: Daemon_CreateGroup_def Let_def file_results no_nil_new_members split: prod.splits option.splits sum.splits reply.splits
      dest: daemon_ok_identity dest!: each_key_panic send_group_key_panic each_key_fails send_group_key_fails)

lemma reassign_admin_ok:
  assumes "group_ok g" "set ks = fset (fmdom (Members g))"
  shows "\<exists>g'. reassign_admin me ks g = Some g' \<and> group_ok g'"
proof (cases ks)
  case (Cons k ks')
  then obtain m where "fmlookup (Members g) k = Some (Some m)"
    using assms no_nil_lookup [of "Members g" k] unfolding group_ok_def
    by (metis fmdomE list.set_intros(1) not_Some_eq)
  then show ?thesis using assms(1) Cons by (simp add: reassign_admin_def group_ok_def)
qed (use assms(1) in \<open>simp add: reassign_admin_def\<close>)

lemma safe_LeaveGroup [safe]:
  assumes "range_ok env" "daemon_ok d"
  shows "safe (Daemon_LeaveGroup env g d w)"
proof (cases "fmlookup (dm_groups d) g")
  case (Some x)
  obtain kp where kp: "identity d = Some kp" using daemon_ok_identity [OF assms(2)] by auto
  obtain grp where grp: "x = Some grp" using Some daemon_ok_groups [OF assms(2), of g] by auto
  define g1 where "g1 = grp\<lparr>Members := fmdrop (base64_EncodeToString (PublicKey kp)) (Members grp)\<rparr>"
  obtain ks w1 where ks: "env_range env (fmdom (Members g1)) w = (ks, w1)" by fastforce
  have "group_ok g1" using daemon_ok_group_ok [OF assms(2)] Some grp by (simp add: g1_def)
  from reassign_admin_ok [OF this range_okD(1) [OF assms(1) ks]] obtain g2
    where "reassign_admin (base64_EncodeToString (PublicKey kp)) ks g1 = Some g2" "group_ok g2" by blast
  then show ?thesis using Some kp grp ks assms(2)
    by (simp add: Daemon_LeaveGroup_def Let_def safe_fst g1_def)
qed (simp add: Daemon_LeaveGroup_def assms(2))

lemma distributeGroupKey_panic: "distributeGroupKey env g d w = (Panics, w') \<Longrightarrow> daemon_ok d \<Longrightarrow> False"
  by (auto simp: distributeGroupKey_def daemon_ok_groups split: prod.splits option.splits
      dest: daemon_ok_identity dest!: each_key_panic send_group_key_panic)

lemma safe_distribute:
  assumes "daemon_ok d1" "distributeGroupKey env g d1 w1 = (r, w2)"
  shows "safe (r, d1, w2)"
  using assms distributeGroupKey_panic by fastforce

lemma safe_RemoveGroupMember [safe]:
  assumes "daemon_ok d"
  shows "safe (Daemon_RemoveGroupMember env g m d w)"
proof (cases "fmlookup (dm_groups d) g")
  case (Some x)
  obtain kp where kp: "identity d = Some kp" using daemon_ok_identity [OF assms] by auto
  obtain grp where grp: "x = Some grp" using Some daemon_ok_groups [OF assms, of g] by auto
  define g1 where "g1 = grp\<lparr>Members := fmdrop m (Members grp), GroupKey := RotateGroupKey (GroupKey grp), KeyEpoch := KeyEpoch grp + 1\<rparr>"
  obtain d1 w1 where d1: "saveGroups env (d\<lparr>dm_groups := fmupd g (Some g1) (dm_groups d)\<rparr>) w = (d1, w1)" by fastforce
  have "group_ok g1" using daemon_ok_group_ok [OF assms] Some grp by (simp add: g1_def group_ok_def)
  then have "daemon_ok d1" using file_results(2) [OF d1] assms by simp
  moreover obtain r w2 where "distributeGroupKey env (GroupID grp) d1 w1 = (r, w2)" by fastforce
  moreover from calculation have "safe (r, d1, w2)" by (rule safe_distribute)
  ultimately show ?thesis using Some kp grp d1 assms
    by (simp add: Daemon_RemoveGroupMember_def Let_def g1_def)
qed (simp add: Daemon_RemoveGroupMember_def assms)

section \<open>Media\<close>

lemma change_transfer_ok [simp]: "daemon_ok (change_transfer i f d) = daemon_ok d"
  by (simp add: change_transfer_def split: option.splits)

lemma transfer_changes_ok [simp]:
  "daemon_ok (fail_transfer i e d) = daemon_ok d"
  "daemon_ok (store_update env i st pr n d) = daemon_ok d"
  "daemon_ok (fail_stream env ss e d) = daemon_ok d"
  by (simp_all add: fail_transfer_def store_update_def fail_stream_def)

lemma identity_change_transfer [simp]: "identity (change_transfer i f d) = identity d"
  by (simp add: change_transfer_def split: option.splits)

lemma safe_send_media_metadata: "daemon_ok d \<Longrightarrow> safe (send_media_metadata env i req meta est d w)"
  by (auto simp: send_media_metadata_def dest: daemon_ok_identity split: prod.splits option.splits sum.splits)

lemma safe_SendMedia [safe]: "daemon_ok d \<Longrightarrow> safe (Daemon_SendMedia env req d w)"
  by (auto simp: Daemon_SendMedia_def Let_def safe_send_media_metadata split: prod.splits list.splits sum.splits)

lemma CancelSend_ok: "daemon_ok (snd (Daemon_CancelSend i d)) = daemon_ok d"
  by (simp add: Daemon_CancelSend_def split: option.splits)

lemma first_chunk_ok: "first_chunk env i b st d w = (r, d', w') \<Longrightarrow> daemon_ok d \<Longrightarrow> daemon_ok d'"
  by (auto simp: first_chunk_def Let_def split: prod.splits write_result.splits if_splits)

lemma next_chunk_ok: "next_chunk env b st d w = (r, d', w') \<Longrightarrow> daemon_ok d \<Longrightarrow> daemon_ok d'"
  by (auto simp: next_chunk_def Let_def split: prod.splits if_splits)

lemma receive_stream_ok: "receive_stream env evs st d w = (r, d', w') \<Longrightarrow> daemon_ok d \<Longrightarrow> daemon_ok d'"
proof (induction evs arbitrary: st d w)
  case (Cons ev evs)
  show ?case
  proof (cases ev)
    case (StreamChunk i b)
    obtain r1 d1 w1 where "(if ss_transferID st = [] then first_chunk env i b st d w else next_chunk env b st d w) = (r1, d1, w1)"
      by (metis prod_cases3)
    moreover from this have "daemon_ok d1" using Cons.prems(2) first_chunk_ok next_chunk_ok by (metis (full_types))
    ultimately show ?thesis using Cons.prems(1) Cons.IH [where d = d1 and w = w1] StreamChunk by (cases r1) auto
  qed (use Cons.prems in \<open>auto split: if_splits\<close>)
qed simp

lemma safe_stream_metadata: "daemon_ok d \<Longrightarrow> safe (stream_metadata env st meta d w)"
  by (auto simp: stream_metadata_def dest: daemon_ok_identity split: prod.splits option.splits sum.splits)

lemma safe_stream_upload: "daemon_ok d \<Longrightarrow> safe (stream_upload env st b d w)"
  by (auto simp: stream_upload_def safe_stream_metadata split: prod.splits list.splits sum.splits)

lemma safe_SendMediaStream [safe]: "daemon_ok d \<Longrightarrow> safe (Daemon_SendMediaStream env evs d w)"
  by (auto simp: Daemon_SendMediaStream_def safe_stream_upload split: prod.splits sum.splits option.splits
      dest: receive_stream_ok)

section \<open>Steps\<close>

lemma sendProfileToPeer_panic: "sendProfileToPeer env m d p w = (Panics, w') \<Longrightarrow> daemon_ok d \<Longrightarrow> False"
  by (auto simp: sendProfileToPeer_def dest: daemon_ok_identity split: prod.splits option.splits sum.splits)

lemma run_background_panic: "run_background env job d w = (Panics, w') \<Longrightarrow> daemon_ok d \<Longrightarrow> False"
  by (auto simp: run_background_def broadcastProfileUpdate_def broadcastProfilePic_def
      dest!: each_key_panic dest: sendProfileToPeer_panic split: background.splits prod.splits list.splits sum.splits)

lemma map_reply_Panics [simp]: "map_reply f r = Panics \<longleftrightarrow> r = Panics"
  by (cases r) simp_all

lemma safe_answering [simp]: "safe (answering f r) = safe r"
  by (cases r) (simp add: answering_def)

lemma safe_UpdateProfile [safe]: "daemon_ok d \<Longrightarrow> safe (with_jobs (Daemon_UpdateProfile env n b d w))"
  by (simp add: Daemon_UpdateProfile_def with_jobs_def safe_fst)

lemma safe_SetProfilePic [safe]: "daemon_ok d \<Longrightarrow> safe (with_jobs (Daemon_SetProfilePic env b m d w))"
  by (auto simp: Daemon_SetProfilePic_def with_jobs_def file_results split: prod.splits option.splits)

lemma GetIdentity_no_panic: "daemon_ok d \<Longrightarrow> Daemon_GetIdentity d \<noteq> Panics"
  by (auto simp: Daemon_GetIdentity_def Let_def dest: daemon_ok_identity split: option.splits prod.splits)

lemma GetMediaStatus_no_panic: "Daemon_GetMediaStatus i d \<noteq> Panics"
  by (simp add: Daemon_GetMediaStatus_def split: option.splits)

lemma CancelSend_no_panic: "fst (Daemon_CancelSend i d) \<noteq> Panics"
  by (simp add: Daemon_CancelSend_def split: option.splits)

lemma safe_daemon_call:
  assumes "range_ok env" "daemon_ok d" "c \<noteq> PollMessages_rpc"
  shows "safe (daemon_call env c d w)"
proof (cases c)
  case (CancelSend_rpc i)
  then show ?thesis using CancelSend_no_panic [of i d] CancelSend_ok [of i d] assms(2)
    by (auto split: prod.splits)
next
  case ListPeers_rpc
  then show ?thesis using ListPeers_no_panic [OF assms(1,2)] assms(2) by (auto split: prod.splits)
next
  case ListGroups_rpc
  then show ?thesis using ListGroups_no_panic [OF assms(1,2)] assms(2) by (auto split: prod.splits)
next
  case GetProfilePic_rpc
  then show ?thesis using assms(2) by (auto split: prod.splits)
qed (use assms GetIdentity_no_panic GetMediaStatus_no_panic in
    \<open>simp_all add: safe Daemon_AddRelay_def Daemon_RemoveRelay_def Daemon_SetTransportMode_def Daemon_SetChunkSize_def\<close>)

lemma authInterceptor_cases:
  "authInterceptor m md h d w = h d w \<or> (\<exists>e. authInterceptor m md h d w = (Fails (Status codes_Unauthenticated e), d, w))"
  by (simp add: authInterceptor_def split: option.split list.split)

definition fetch_panics :: "('w, 'q, 't) env \<Rightarrow> ('q, 't) Daemon \<Rightarrow> 'w \<Rightarrow> bool" where
  "fetch_panics env d w \<longleftrightarrow> (case identity d of
     None \<Rightarrow> False
   | Some kp \<Rightarrow> fst (PollMessages (env_fqdn env) (env_exch env) (base64_EncodeToString (PublicKey kp)) (engine d) w) = Inl FetchPanic)"

lemma daemon_call_ok:
  assumes "range_ok env" "daemon_ok d"
  shows "daemon_ok (fst (snd (daemon_call env c d w)))"
    and "fst (daemon_call env c d w) = Panics \<Longrightarrow> c = PollMessages_rpc \<and> fetch_panics env d w"
proof -
  have "daemon_ok (fst (snd (daemon_call env c d w))) \<and>
    (fst (daemon_call env c d w) = Panics \<longrightarrow> c = PollMessages_rpc \<and> fetch_panics env d w)"
  proof (cases "c = PollMessages_rpc")
    case True
    obtain r d' w' where "Daemon_PollMessages env d w = (r, d', w')" by (metis prod_cases3)
    with PollMessages_ok [OF assms(2) this] True show ?thesis
      by (auto simp: answering_def fetch_panics_def)
  next
    case False
    then show ?thesis using safe_daemon_call [OF assms False, of w] by (simp add: safe_def)
  qed
  then show "daemon_ok (fst (snd (daemon_call env c d w)))"
    "fst (daemon_call env c d w) = Panics \<Longrightarrow> c = PollMessages_rpc \<and> fetch_panics env d w" by blast+
qed

text \<open>One step from a state that satisfies the invariant.\<close>

lemma daemon_step_ok:
  assumes "range_ok env" "daemon_ok d" "daemon_step env ev d w = (r, d', w')"
  shows "daemon_ok d' \<and> (r = Panics \<longrightarrow> (\<exists>md. ev = Unary_call md PollMessages_rpc) \<and> fetch_panics env d w)"
proof (cases ev)
  case (Unary_call md c)
  show ?thesis
    using authInterceptor_cases [of "FullMethodName c" md "daemon_call env c" d w]
  proof (elim disjE exE)
    assume "authInterceptor (FullMethodName c) md (daemon_call env c) d w = daemon_call env c d w"
    moreover obtain x d1 w1 where "daemon_call env c d w = (x, d1, w1)" by (metis prod_cases3)
    ultimately show ?thesis using assms(3) Unary_call daemon_call_ok [OF assms(1,2), of c w]
      by (auto simp: daemon_step_def serve_unary_def)
  next
    fix e
    assume "authInterceptor (FullMethodName c) md (daemon_call env c) d w = (Fails (Status codes_Unauthenticated e), d, w)"
    then show ?thesis using assms(2,3) Unary_call by (auto simp: daemon_step_def serve_unary_def)
  qed
next
  case (Stream_call md evs)
  have "safe (Daemon_SendMediaStream env evs d w)" using assms(2) by (rule safe)
  moreover obtain x d1 w1 where "Daemon_SendMediaStream env evs d w = (x, d1, w1)" by (metis prod_cases3)
  ultimately show ?thesis using assms(3) Stream_call
    by (auto simp: daemon_step_def serve_stream_def answering_def)
next
  case (Mode_tick prev)
  then show ?thesis using assms(2,3)
    by (auto simp: daemon_step_def watchTransportMode_tick_def Let_def split: prod.splits sum.splits if_splits)
next
  case (Size_tick prev)
  then show ?thesis using assms(2,3)
    by (auto simp: daemon_step_def watchChunkSize_tick_def split: prod.splits sum.splits option.splits if_splits)
next
  case (Background_job job)
  then show ?thesis using assms(2,3)
    by (auto simp: daemon_step_def dest: run_background_panic split: prod.splits)
qed (use assms(2,3) in \<open>auto simp: daemon_step_def processQueue_def network_check_def cleanupTransfers_pass_def
    split: prod.splits option.splits\<close>)


definition cara_daemon :: "(int \<times> queue_rows, transfer_rows) Daemon" where
  "cara_daemon = (blank_daemon ''/d'')\<lparr>identity := Some \<lparr>PublicKey = [1], PrivateKey = [2], Ed25519PublicKey = [], Ed25519PrivateKey = []\<rparr>,
     peers := fmap_of_list [(''bob'', Some \<lparr>pe_Nickname = ''Bob'', pe_Pubkey = ''bob''\<rparr>)]\<rparr>"


section \<open>The token\<close>

definition carries :: "string list option \<Rightarrow> bytes \<Rightarrow> bool" where
  "carries md token \<longleftrightarrow> (case md of Some (t # _) \<Rightarrow> length t = 64 \<and> bytes_of_string t = token | _ \<Rightarrow> False)"

lemma FullMethodName_GetIdentity: "strings_Contains (FullMethodName c) ''GetIdentity'' \<longleftrightarrow> c = GetIdentity_rpc"
  by (cases c) (simp_all add: FullMethodName_def strings_HasPrefix_def)

text \<open>
  (C14) Only callers that know the token reach the daemon: while a token is set, a sequence of unary
  calls none of which carries it, and none of which asks for the public identity, leaves the
  daemon, its files and the network untouched, and each of the calls is answered with an
  authentication error.
\<close>

theorem calls_need_token:
  assumes "authToken d = Some token" "\<forall>(md, c) \<in> set calls. c \<noteq> GetIdentity_rpc \<and> \<not> carries md token"
  shows "daemon_run env (map (\<lambda>(md, c). Unary_call md c) calls) d w = (Reply (), d, w)
    \<and> (\<forall>(md, c) \<in> set calls. \<exists>e. serve_unary env md c d w = (Fails (Status codes_Unauthenticated e), d, w))"
proof -
  have refused: "\<exists>e. serve_unary env md c d w = (Fails (Status codes_Unauthenticated e), d, w)"
    if "c \<noteq> GetIdentity_rpc" "\<not> carries md token" for md c
    using that assms(1)
    by (auto simp: serve_unary_def authInterceptor_def FullMethodName_GetIdentity carries_def authTokenLen_def split: option.splits list.splits)
  have "daemon_run env (map (\<lambda>(md, c). Unary_call md c) calls) d w = (Reply (), d, w)"
    using assms(2)
  proof (induction calls)
    case (Cons a calls)
    obtain md c where a: "a = (md, c)" by fastforce
    with Cons.prems have "c \<noteq> GetIdentity_rpc" "\<not> carries md token" by simp_all
    from refused [OF this] a Cons show ?case by (auto simp: daemon_step_def)
  qed simp
  then show ?thesis using refused assms(2) by fast
qed

theorem calls_need_token_witness:
  "daemon_run (quiet_env silent_exch silent_http (1, [], [])) [Unary_call None ListPeers_rpc, Unary_call (Some [''guess'']) (RemovePeer_rpc ''bob'')]
     (cara_daemon\<lparr>authToken := Some [1]\<rparr>) () = (Reply (), cara_daemon\<lparr>authToken := Some [1]\<rparr>, ())"
  using calls_need_token [where calls = "[(None, ListPeers_rpc), (Some [''guess''], RemovePeer_rpc ''bob'')]"
      and d = "cara_daemon\<lparr>authToken := Some [1]\<rparr>" and env = "quiet_env silent_exch silent_http (1, [], [])" and w = "()"]
  by (simp add: carries_def)

end
