(* ===== verification/Daemon_Restart.thy ===== *)
theory Daemon_Restart
  imports Daemon_Invariant
begin

text \<open>
  Starting the daemon again on the same directory: it has the same identity and token, and its
  invariant holds. What the start does when the identity file cannot be read.
\<close>

section \<open>The identity file\<close>

lemma LoadIdentity_cong: "fmlookup fs path = fmlookup fs' path \<Longrightarrow> LoadIdentity ops f path fs = LoadIdentity ops f path fs'"
  unfolding LoadIdentity_def os_ReadFile_def by presburger

lemma LoadIdentity_no_fault: "LoadIdentity ops f path fs = Inr kp \<Longrightarrow> LoadIdentity ops None path fs = Inr kp"
proof (cases f)
  case (Some e)
  then have "LoadIdentity ops f path fs = Inl (ReadFailed e)" by (simp add: LoadIdentity_def os_ReadFile_def)
  then show "LoadIdentity ops f path fs = Inr kp \<Longrightarrow> ?thesis" by simp
qed simp

lemma SaveIdentity_loaded:
  assumes "crypto_doc ops" "GenerateKeyPair ops rnd = Inr kp" "SaveIdentity wr path kp fs = Some (Inr u, fs')"
  shows "LoadIdentity ops None path fs' = Inr kp"
proof -
  from assms(3) obtain data where "identity_data kp = Some data" "fs' = fmupd path (bytes_of_string data) fs"
    by (cases wr) (auto simp: SaveIdentity_def os_WriteFile_def split: prod.splits option.splits)
  then show ?thesis using LoadIdentity_saved [OF assms(1) GenerateKeyPair_ok [OF assms(1,2)]] by simp
qed

lemma identity_reloaded:
  assumes "crypto_doc (env_crypto env)" "load_or_create_identity env path fs w = (Some (Inr kp), fs', w')"
  shows "LoadIdentity (env_crypto env) None path fs' = Inr kp"
  using assms(2) LoadIdentity_no_fault SaveIdentity_loaded [OF assms(1)]
  by (auto simp: load_or_create_identity_def split: prod.splits sum.splits option.splits)

lemma load_identity:
  assumes "fst (env_read env w) = None" "LoadIdentity (env_crypto env) None path fs = Inr kp"
  shows "\<exists>w'. load_or_create_identity env path fs w = (Some (Inr kp), fs, w')"
  using assms by (auto simp: load_or_create_identity_def split: prod.splits)

section \<open>The token file\<close>

lemma loadOrGenerateAuthToken_other:
  "loadOrGenerateAuthToken f rnd wr path fs = (r, fs') \<Longrightarrow> p \<noteq> path \<Longrightarrow> fmlookup fs' p = fmlookup fs p"
  by (auto simp: loadOrGenerateAuthToken_def new_auth_token_def Let_def os_WriteFile_def
      split: sum.splits if_splits write_result.splits prod.splits option.splits)

lemma token_reloaded:
  assumes "load_or_create_token env path fs w = (Inr token, fs', w')" "fst (env_read env2 w2) = None"
  shows "\<exists>w2'. load_or_create_token env2 path fs' w2 = (Inr token, fs', w2')"
  using assms auth_token_reloaded by (fastforce simp: load_or_create_token_def split: prod.splits)

lemma load_or_create_token_other:
  "load_or_create_token env path fs w = (r, fs', w') \<Longrightarrow> p \<noteq> path \<Longrightarrow> fmlookup fs' p = fmlookup fs p"
  by (auto simp: load_or_create_token_def dest: loadOrGenerateAuthToken_other split: prod.splits)

lemma identity_path_not_token: "filepath_Join [dir, ''identity.key''] \<noteq> filepath_Join [dir, ''auth_token'']"
  using path_base_Join [of "''identity.key''" dir] path_base_Join [of "''auth_token''" dir] by auto

section \<open>Loading the state\<close>

lemma load_state_keeps:
  assumes "load_state env d w = (d', w')"
  shows "identity d' = identity d" "authToken d' = authToken d" "disk d' = disk d"
  using assms by (auto simp: load_state_def loadPeers_def loadGroups_def loadProfile_def
      split: prod.splits sum.splits option.splits)

abbreviation identity_path :: "startup \<Rightarrow> string" where
  "identity_path su \<equiv> filepath_Join [su_dataDir su, ''identity.key'']"

abbreviation token_path :: "startup \<Rightarrow> string" where
  "token_path su \<equiv> filepath_Join [su_dataDir su, ''auth_token'']"

lemma new_daemon_fields [simp]:
  "identity (new_daemon su rs kp t q fs) = Some kp" "authToken (new_daemon su rs kp t q fs) = Some t"
  "disk (new_daemon su rs kp t q fs) = fs" "peers (new_daemon su rs kp t q fs) = fmempty"
  "dm_groups (new_daemon su rs kp t q fs) = fmempty" "dataDir (new_daemon su rs kp t q fs) = su_dataDir su"
  by (simp_all add: new_daemon_def)

lemma RunDaemon_started:
  assumes "RunDaemon env mk oq ot li su fs w = (Some (Inr d), fs', w')"
  obtains kp fs1 w1 token w2 where
    "load_or_create_identity env (identity_path su) fs w = (Some (Inr kp), fs1, w1)"
    "load_or_create_token env (token_path su) fs1 w1 = (Inr token, fs', w2)"
    "identity d = Some kp" "authToken d = Some token"
proof -
  from assms obtain kp fs1 w1 token fs2 w2 q d1 rs w3 where
    i: "load_or_create_identity env (identity_path su) fs w = (Some (Inr kp), fs1, w1)"
    and t: "load_or_create_token env (token_path su) fs1 w1 = (Inr token, fs2, w2)"
    and l: "load_state env (new_daemon su rs kp token q fs2) w3 = (d1, w')"
    and d: "d = d1\<lparr>transferStore := transferStore d\<rparr>" "fs' = disk d1"
    by (fastforce simp: RunDaemon_def Let_def split: option.splits sum.splits prod.splits)
  have "identity d = identity d1" "authToken d = authToken d1" by (subst d(1), simp)+
  with load_state_keeps [OF l] d(2) i t show ?thesis by (intro that [of kp fs1 w1 token w2]) simp_all
qed

lemma RunDaemon_starts:
  assumes "load_or_create_identity env (identity_path su) fs w = (Some (Inr kp), fs1, w1)"
    "load_or_create_token env (token_path su) fs1 w1 = (Inr token, fs2, w2)"
  shows "\<exists>d w'. RunDaemon env None (Inr q) ot None su fs w = (Some (Inr d), fs2, w') \<and> identity d = Some kp \<and> authToken d = Some token"
proof -
  obtain f w3 where f: "env_read env w2 = (f, w3)" by fastforce
  obtain d w4 where d: "load_state env (new_daemon su (merge_relays (loadRelaysFromConfig f (su_dataDir su) fs2) (su_relays su))
      kp token q fs2) w3 = (d, w4)" by fastforce
  from load_state_keeps [OF d] show ?thesis using assms f d by (simp add: RunDaemon_def Let_def)
qed

text \<open>
  (C13) A restart keeps who the user is: after the daemon has started once on a directory, in
  whatever state the directory was and whatever file accesses failed on the way, starting it
  again on the files it left, with reads that succeed, comes up with the same identity
  and the same token and changes no file.
\<close>

theorem restart_keeps_identity:
  assumes "crypto_doc (env_crypto env)" "env_crypto env' = env_crypto env" "\<And>w. fst (env_read env' w) = None"
    and "RunDaemon env mk oq ot li su fs w = (Some (Inr d), fs', w1)"
  shows "\<exists>d' w'. RunDaemon env' None (Inr q) ot' None su fs' w2 = (Some (Inr d'), fs', w')
    \<and> identity d' = identity d \<and> authToken d' = authToken d"
proof -
  obtain kp fsi wi token wt where started:
    "load_or_create_identity env (identity_path su) fs w = (Some (Inr kp), fsi, wi)"
    "load_or_create_token env (token_path su) fsi wi = (Inr token, fs', wt)"
    "identity d = Some kp" "authToken d = Some token"
    using assms(4) by (rule RunDaemon_started)
  have "LoadIdentity (env_crypto env') None (identity_path su) fs' = Inr kp"
    using identity_reloaded [OF assms(1) started(1)] assms(2)
      LoadIdentity_cong [OF load_or_create_token_other [OF started(2) identity_path_not_token]] by simp
  from load_identity [where env = env', OF assms(3) this]
  obtain wi' where i: "load_or_create_identity env' (identity_path su) fs' w2 = (Some (Inr kp), fs', wi')" by blast
  obtain wt' where t: "load_or_create_token env' (token_path su) fs' wi' = (Inr token, fs', wt')"
    using token_reloaded [OF started(2) assms(3)] by blast
  from RunDaemon_starts [OF i t] started(3,4) show ?thesis by fastforce
qed

lemma created_identity:
  assumes "crypto_doc (env_crypto env)" "env_read env w = (fault, w1)" "env_random env w1 = (Inr f, w2)" "env_write env w2 = (WriteOK, w3)"
    and "LoadIdentity (env_crypto env) fault path fs = Inl e"
  shows "\<exists>kp data. GenerateKeyPair (env_crypto env) (Inr f) = Inr kp
    \<and> load_or_create_identity env path fs w = (Some (Inr kp), fmupd path data fs, w3)"
proof -
  obtain kp where kp: "GenerateKeyPair (env_crypto env) (Inr f) = Inr kp"
    using GenerateKeyPair_total [OF assms(1), of f] by blast
  then obtain data where "identity_data kp = Some data"
    using GenerateKeyPair_ok [OF assms(1) kp] crypto_docD(1) [OF assms(1)]
    by (auto simp: identity_data_def keypair_ok_def crypto_lengths)
  with kp assms(2-) show ?thesis by (auto simp: load_or_create_identity_def SaveIdentity_def os_WriteFile_def)
qed

text \<open>
  (C38) A passing read error costs the user their identity: when the identity file exists but
  reading it fails once, the start takes this for a missing identity, generates a new key
  pair and overwrites the file with it, whatever the file held.
\<close>

theorem unreadable_identity_replaced:
  assumes "crypto_doc (env_crypto env)" "env_read env w = (Some e, w1)" "env_random env w1 = (Inr f, w2)" "env_write env w2 = (WriteOK, w3)"
  shows "\<exists>kp fs'. GenerateKeyPair (env_crypto env) (Inr f) = Inr kp
    \<and> load_or_create_identity env path fs w = (Some (Inr kp), fs', w3)
    \<and> LoadIdentity (env_crypto env) None path fs' = Inr kp"
proof -
  have "LoadIdentity (env_crypto env) (Some e) path fs = Inl (ReadFailed e)"
    by (simp add: LoadIdentity_def os_ReadFile_def)
  from created_identity [OF assms this] obtain kp data where
    "GenerateKeyPair (env_crypto env) (Inr f) = Inr kp" "load_or_create_identity env path fs w = (Some (Inr kp), fmupd path data fs, w3)"
    by blast
  moreover from this have "LoadIdentity (env_crypto env) None path (fmupd path data fs) = Inr kp"
    using identity_reloaded [OF assms(1)] by blast
  ultimately show ?thesis by blast
qed

definition faulty_env :: "(unit, int \<times> queue_rows, transfer_rows) env" where
  "faulty_env = (quiet_env silent_exch silent_http (1, [], []))\<lparr>env_read := \<lambda>w. (Some ''input/output error'', w)\<rparr>"

theorem unreadable_identity_replaced_witness:
  "\<exists>kp fs'. GenerateKeyPair plain_crypto (Inr (\<lambda>_. 7)) = Inr kp
    \<and> load_or_create_identity faulty_env ''identity.key'' (fmap_of_list [(''identity.key'', [1, 2])]) () = (Some (Inr kp), fs', ())
    \<and> LoadIdentity plain_crypto None ''identity.key'' fs' = Inr kp"
  using unreadable_identity_replaced [where env = faulty_env and w = "()" and ?w1.0 = "()" and ?w2.0 = "()" and ?w3.0 = "()"
      and f = "\<lambda>_. 7" and path = "''identity.key''" and fs = "fmap_of_list [(''identity.key'', [1, 2])]"] crypto_doc_plain
  by (simp add: faulty_env_def quiet_env_def)

definition first_start :: startup where
  "first_start = \<lparr>su_relays = [''r''], su_zone = ''z'', su_dataDir = ''/d'', su_forceBlackout = False, su_dnsResolver = ''8.8.8.8:53''\<rparr>"

lemma first_start_works:
  "\<exists>d fs w. RunDaemon (quiet_env silent_exch silent_http (1, [], [])) None (Inr (0, fmempty)) (Inl '''') None first_start fmempty ()
    = (Some (Inr d), fs, w)"
proof -
  define env where "env = quiet_env silent_exch silent_http (1, [], [])"
  have env: "crypto_doc (env_crypto env)" "env_read env () = (None, ())" "env_random env () = (Inr (\<lambda>_. 7), ())" "env_write env () = (WriteOK, ())"
    using crypto_doc_plain by (simp_all add: env_def quiet_env_def)
  have "LoadIdentity (env_crypto env) None (identity_path first_start) fmempty = Inl (ReadFailed ''no such file or directory'')"
    by (simp add: LoadIdentity_def os_ReadFile_def)
  from created_identity [OF env this] obtain kp data where
    i: "load_or_create_identity env (identity_path first_start) fmempty () = (Some (Inr kp), fmupd (identity_path first_start) data fmempty, ())"
    by blast
  obtain t fs where "load_or_create_token env (token_path first_start) (fmupd (identity_path first_start) data fmempty) () = (Inr t, fs, ())"
    using identity_path_not_token [of "su_dataDir first_start"] env
    by (simp add: load_or_create_token_def loadOrGenerateAuthToken_def os_ReadFile_def new_auth_token_def os_WriteFile_def Let_def)
  from RunDaemon_starts [OF i this] show ?thesis unfolding env_def by blast
qed

theorem restart_keeps_identity_witness:
  "\<exists>d fs w d' w'. RunDaemon (quiet_env silent_exch silent_http (1, [], [])) None (Inr (0, fmempty)) (Inl '''') None first_start fmempty ()
      = (Some (Inr d), fs, w)
    \<and> RunDaemon (quiet_env silent_exch silent_http (2, [], [])) None (Inr (0, fmempty)) (Inl '''') None first_start fs ()
      = (Some (Inr d'), fs, w')
    \<and> identity d' = identity d \<and> authToken d' = authToken d"
proof -
  obtain d fs w where r: "RunDaemon (quiet_env silent_exch silent_http (1, [], [])) None (Inr (0, fmempty)) (Inl '''') None first_start fmempty ()
    = (Some (Inr d), fs, w)" using first_start_works by blast
  have "\<exists>d' w'. RunDaemon (quiet_env silent_exch silent_http (2, [], [])) None (Inr (0, fmempty)) (Inl '''') None first_start fs ()
      = (Some (Inr d'), fs, w') \<and> identity d' = identity d \<and> authToken d' = authToken d"
    by (rule restart_keeps_identity [OF _ _ _ r]) (use crypto_doc_plain in \<open>simp_all add: quiet_env_def\<close>)
  with r show ?thesis by blast
qed

end
