(* ===== verification/Daemon_Delivery.thy ===== *)
theory Daemon_Delivery
  imports Daemon_Invariant
begin

text \<open>
  What two daemons make of each other's messages: a direct message that one accepts for sending is
  read by the other, with its sender and text; a profile update names the file it is written to.
\<close>

section \<open>Direct messages\<close>

lemma base64_not_empty: "bs \<noteq> [] \<Longrightarrow> base64_EncodeToString bs \<noteq> []"
proof
  assume bs: "bs \<noteq> []" "base64_EncodeToString bs = []"
  have "base64_EncodeToString [] = []" by code_simp
  then show False using bs b64.dec_enc [of bs] b64.dec_enc [of "[]"] by simp
qed

lemma sealed_opens:
  assumes "crypto_doc ops" "keypair_ok ops a" "keypair_ok ops b"
    and "peer_secret ops a (base64_EncodeToString (PublicKey b)) = Inr s" "EncryptMessage ops rnd s p = Inr (c, n)"
  shows "peer_secret ops b (base64_EncodeToString (PublicKey a)) = Inr s" "DecryptMessage ops s n c = Inr p" "length n = 24"
proof -
  obtain s' where s': "SharedSecret ops (PrivateKey a) (PublicKey b) = Inr s'"
    "SharedSecret ops (PrivateKey b) (PublicKey a) = Inr s'" "length s' = 32"
    using SharedSecret_agree [OF assms(1-3)] by blast
  then have s: "s' = s" using assms(4) by (simp add: peer_secret_def b64.dec_enc)
  show "peer_secret ops b (base64_EncodeToString (PublicKey a)) = Inr s"
    using s s'(2) by (simp add: peer_secret_def b64.dec_enc)
  have n: "length n = 24" "c = xchacha_Seal ops s n p"
    using assms(5) length_rand_Read [of 24 rnd n] by (auto simp: EncryptMessage_def crypto_lengths split: sum.splits if_splits)
  then show "length n = 24" "DecryptMessage ops s n c = Inr p"
    using s s'(3) by (simp_all add: DecryptMessage_iff [OF assms(1)])
qed

lemma signed_payload_opens:
  assumes "crypto_doc ops" "keypair_ok ops a" "BuildSignedPayload ops a m = Some p"
  shows "open_payload ops k p = Some (base64_EncodeToString (PublicKey a), m)"
proof -
  let ?x = "base64_EncodeToString (PublicKey a)" and ?e = "base64_EncodeToString (Ed25519PublicKey a)"
  obtain sig where "SignMessage ops a (bytes_of_string (?e @ [newline]) @ m) = Some sig"
    "ParseSignedPayload ops (bytes_of_string (?x @ newline # ?e @ newline #
        base64_EncodeToString sig @ newline # string_of_bytes m)) = Inr (?x, Ed25519PublicKey a, m, True)"
    using signed_payload_any_sender [OF assms(1,2) newline_notin_base64] by blast
  then have "ParseSignedPayload ops p = Inr (?x, Ed25519PublicKey a, m, True)"
    using assms(3) by (simp add: BuildSignedPayload_def Let_def)
  moreover have "?x \<noteq> []" using assms(2) by (intro base64_not_empty) (auto simp: keypair_ok_def)
  ultimately show "open_payload ops k p = Some (?x, m)" by (simp add: open_payload_def Let_def)
qed

text \<open>Nobody else's key opens the payload.\<close>

definition opened_only_by :: "crypto_ops \<Rightarrow> KeyPair \<Rightarrow> string \<Rightarrow> bytes \<Rightarrow> (string, PeerInfoEntry option) fmap \<Rightarrow> bool" where
  "opened_only_by ops kp peer raw ps \<longleftrightarrow> fmlookup ps peer \<noteq> None \<and>
     (\<forall>k s p. fmlookup ps k \<noteq> None \<longrightarrow> k \<noteq> peer \<longrightarrow> peer_secret ops kp k = Inr s \<longrightarrow>
        DecryptMessage ops s (take NonceLength raw) (drop NonceLength raw) \<noteq> Inr p)"

lemma try_peers_finds:
  assumes "peer_secret ops kp peer = Inr s" "DecryptMessage ops s n c = Inr p" "no_nil ps" "peer \<in> set ks"
    and "\<And>k s p. k \<in> set ks \<Longrightarrow> k \<noteq> peer \<Longrightarrow> peer_secret ops kp k = Inr s \<Longrightarrow> DecryptMessage ops s n c \<noteq> Inr p"
  shows "try_peers ops kp n c ps ks = Reply (open_payload ops peer p)"
  using assms(4,5)
proof (induction ks)
  case (Cons k ks)
  show ?case
  proof (cases "k = peer")
    case False
    have "try_peers ops kp n c ps (k # ks) = try_peers ops kp n c ps ks"
    proof (cases "peer_secret ops kp k")
      case (Inr s')
      then obtain e where "DecryptMessage ops s' n c = Inl e"
        using Cons.prems(2) [of k s'] False by (cases "DecryptMessage ops s' n c") auto
      then show ?thesis using Inr no_nil_lookup [OF assms(3)] by simp
    qed (simp add: no_nil_lookup [OF assms(3)])
    moreover have "try_peers ops kp n c ps ks = Reply (open_payload ops peer p)"
      using Cons.prems False by (intro Cons.IH) auto
    ultimately show ?thesis by simp
  qed (simp add: assms(1,2))
qed simp

lemma deliver_text:
  assumes "\<not> looks_like_json 10 m"
  shows "deliver env pm p m d w = (Reply (Some (received pm p m '''')), d, w)"
proof -
  have "\<not> looks_like_json 20 m" using assms by (auto simp: looks_like_json_def)
  then show ?thesis using assms
    by (simp add: deliver_def decode_group_key_def open_group_message_def decode_group_meta_def handle_typed_def)
qed

lemma poll_one_opened:
  assumes "range_ok env" "daemon_ok d" "Data pm = n @ c" "length n = 24"
    and "peer_secret (env_crypto env) kp peer = Inr s" "DecryptMessage (env_crypto env) s n c = Inr p"
    and "open_payload (env_crypto env) peer p = Some (sender, m)"
    and "opened_only_by (env_crypto env) kp peer (n @ c) (peers d)"
  shows "poll_one env kp pm d w = deliver env pm sender m d (snd (env_range env (fmdom (peers d)) w))"
proof -
  obtain ks w1 where ks: "env_range env (fmdom (peers d)) w = (ks, w1)" by fastforce
  have set_ks: "set ks = fset (fmdom (peers d))" using range_okD [OF assms(1) ks] by simp
  have "try_peers (env_crypto env) kp n c (peers d) ks = Reply (Some (sender, m))"
    unfolding assms(7) [symmetric]
  proof (rule try_peers_finds [OF assms(5,6)])
    show "no_nil (peers d)" using assms(2) by (simp add: daemon_ok_def)
    show "peer \<in> set ks" using assms(8) set_ks by (auto simp: opened_only_by_def fmlookup_dom_iff)
    fix k s p assume "k \<in> set ks" "k \<noteq> peer" "peer_secret (env_crypto env) kp k = Inr s"
    then show "DecryptMessage (env_crypto env) s n c \<noteq> Inr p"
      using assms(4,8) set_ks by (auto simp: opened_only_by_def fmlookup_dom_iff NonceLength_def)
  qed
  then show ?thesis using ks assms(3,4) by (simp add: poll_one_def Let_def NonceLength_def)
qed

lemma engine_send_cong: "engine d = engine d' \<Longrightarrow> engine_send env p r d w = engine_send env p r d' w"
  by (simp add: engine_send_def)

lemma send_direct_cases:
  assumes "send_direct_message env kp req d w = (Reply resp, d', w')"
  obtains s p rnd w1 c n mid where
    "peer_secret (env_crypto env) kp (sr_PeerPubkey req) = Inr s" "BuildSignedPayload (env_crypto env) kp (sr_Plaintext req) = Some p"
    "env_random env w = (rnd, w1)" "EncryptMessage (env_crypto env) rnd s p = Inr (c, n)"
    "(\<exists>k. \<not> sresp_Queued resp \<and> d' = d \<and> engine_send env (n @ c) (sr_PeerPubkey req) d w1 = (Some (mid, Inr k), w'))
     \<or> (\<exists>i q. sresp_Queued resp \<and> OfflineQueue_Enqueue (env_queue env) (sr_PeerPubkey req) (n @ c) (dm_queue d) = (Inr i, q)
          \<and> d' = d\<lparr>dm_queue := q\<rparr>)"
  using assms by (fastforce simp: send_direct_message_def Let_def split: sum.splits option.splits prod.splits)

text \<open>
  (C3) A direct message reaches its reader: when the daemon of one user reports a message as sent or
  queued, then its engine has accepted a payload, or a row with it is in the queue, and the
  daemon of the addressee, when it polls this payload, hands out exactly the text, with the
  key of the sender, provided that the sender is one of its peers, that no other peer's key
  opens the payload and that the text does not look like a JSON object, which the daemons
  use for their own messages.
\<close>

theorem direct_message_delivered:
  assumes "crypto_doc (env_crypto env)" "GenerateKeyPair (env_crypto env) ra = Inr ka" "GenerateKeyPair (env_crypto env) rb = Inr kb"
    and "queue_doc (env_queue env) view" "identity a = Some ka"
    and "sr_PeerPubkey req = base64_EncodeToString (PublicKey kb)" "sr_GroupId req = ''''" "\<not> looks_like_json 10 (sr_Plaintext req)"
    and "Daemon_SendMessage env req a w = (Reply resp, a', w')"
  shows "\<exists>payload.
     (if sresp_Queued resp then \<exists>i. fmlookup (view (dm_queue a')) i = Some (sr_PeerPubkey req, payload, 0)
      else \<exists>mid n w1. engine_send env payload (sr_PeerPubkey req) a w1 = (Some (mid, Inr n), w'))
   \<and> (\<forall>(env' :: ('v, 'r, 'u) env) b pm w2. env_crypto env' = env_crypto env \<longrightarrow> range_ok env' \<longrightarrow> daemon_ok b \<longrightarrow> Data pm = payload
        \<longrightarrow> opened_only_by (env_crypto env) kb (base64_EncodeToString (PublicKey ka)) payload (peers b)
        \<longrightarrow> (\<exists>w3. poll_one env' kb pm b w2 =
              (Reply (Some (received pm (base64_EncodeToString (PublicKey ka)) (sr_Plaintext req) '''')), b, w3)))"
proof -
  have ok: "keypair_ok (env_crypto env) ka" "keypair_ok (env_crypto env) kb" using assms(1-3) GenerateKeyPair_ok by blast+
  have "send_direct_message env ka req a w = (Reply resp, a', w')" using assms(5,7,9) by (simp add: Daemon_SendMessage_def)
  then obtain s p rnd w1 c n mid where sent:
    "peer_secret (env_crypto env) ka (sr_PeerPubkey req) = Inr s" "BuildSignedPayload (env_crypto env) ka (sr_Plaintext req) = Some p"
    "env_random env w = (rnd, w1)" "EncryptMessage (env_crypto env) rnd s p = Inr (c, n)"
    "(\<exists>k. \<not> sresp_Queued resp \<and> a' = a \<and> engine_send env (n @ c) (sr_PeerPubkey req) a w1 = (Some (mid, Inr k), w'))
     \<or> (\<exists>i q. sresp_Queued resp \<and> OfflineQueue_Enqueue (env_queue env) (sr_PeerPubkey req) (n @ c) (dm_queue a) = (Inr i, q)
          \<and> a' = a\<lparr>dm_queue := q\<rparr>)"
    by (rule send_direct_cases)
  note sealed = sealed_opens [OF assms(1) ok sent(1) [unfolded assms(6)] sent(4)]
  note opens = signed_payload_opens [OF assms(1) ok(1) sent(2)]
  note q = message_queue.enqueue_ok [OF queue_doc_message_queue [OF assms(4)]]
  show ?thesis
  proof (intro exI [of _ "n @ c"] conjI allI impI)
    show "if sresp_Queued resp then \<exists>i. fmlookup (view (dm_queue a')) i = Some (sr_PeerPubkey req, n @ c, 0)
      else \<exists>mid k w1. engine_send env (n @ c) (sr_PeerPubkey req) a w1 = (Some (mid, Inr k), w')"
      using sent(5) q [of "sr_PeerPubkey req" "n @ c" "dm_queue a"] by auto
  next
    fix env' :: "('v, 'r, 'u) env" and b :: "('r, 'u) Daemon" and pm :: PolledMessage and w2 :: 'v
    assume "env_crypto env' = env_crypto env" "range_ok env'" "daemon_ok b" "Data pm = n @ c"
      "opened_only_by (env_crypto env) kb (base64_EncodeToString (PublicKey ka)) (n @ c) (peers b)"
    then show "\<exists>w3. poll_one env' kb pm b w2 =
        (Reply (Some (received pm (base64_EncodeToString (PublicKey ka)) (sr_Plaintext req) '''')), b, w3)"
      using poll_one_opened [of env' b pm n c kb _ s p, OF _ _ _ sealed(3)] sealed(1,2) opens deliver_text [OF assms(8)] by metis
  qed
qed

lemma engine_send_no_relays:
  assumes "discoverActiveRelays (engine d) = []" "p \<noteq> []" "env_run env w = ((mid, evs, dones), w1)"
  shows "engine_send env p r d w = (Some (mid, Inl (AllRelaysFailed maxRetries)), w1)"
proof -
  have none: "GetRelays (engine d) = []" using assms(1) by (auto simp: discoverActiveRelays_def split: if_splits)
  obtain c cs where "ChunkMessage mid p (GetChunkSize (engine d)) r = c # cs"
    using assms(2) ChunkMessage_empty_iff [of mid p "GetChunkSize (engine d)" r]
    by (cases "ChunkMessage mid p (GetChunkSize (engine d)) r") auto
  then show ?thesis using assms
    by (simp add: engine_send_def SendMessage_def Let_def sendWithRetry_def retry_without_relays [OF none])
qed

abbreviation offline_env :: "(unit, int \<times> queue_rows, transfer_rows) env" where
  "offline_env \<equiv> quiet_env silent_exch silent_http (1, [], [])"

lemma blank_daemon_ok:
  assumes "GenerateKeyPair plain_crypto r = Inr kp" "no_nil ps"
  shows "daemon_ok ((blank_daemon dir)\<lparr>identity := Some kp, peers := ps\<rparr>)"
proof -
  have "keypair_ok plain_crypto kp" by (rule GenerateKeyPair_ok [OF crypto_doc_plain assms(1)])
  then have "length (Ed25519PrivateKey kp) = 64"
    using crypto_docD(1) [OF crypto_doc_plain] by (auto simp: keypair_ok_def)
  then show ?thesis using assms(2) by (simp add: daemon_ok_def identity_ok_def blank_daemon_def)
qed

lemma offline_send_queues:
  assumes "GenerateKeyPair plain_crypto ra = Inr ka" "GenerateKeyPair plain_crypto rb = Inr kb"
  shows "\<exists>resp a'. Daemon_SendMessage offline_env \<lparr>sr_PeerPubkey = base64_EncodeToString (PublicKey kb), sr_Plaintext = m, sr_GroupId = ''''\<rparr>
    ((blank_daemon dir)\<lparr>identity := Some ka\<rparr>) () = (Reply resp, a', ()) \<and> sresp_Queued resp"
proof -
  define a where "a = (blank_daemon dir)\<lparr>identity := Some ka\<rparr>"
  have ok: "keypair_ok plain_crypto ka" "keypair_ok plain_crypto kb" using assms GenerateKeyPair_ok crypto_doc_plain by blast+
  obtain s where s: "SharedSecret plain_crypto (PrivateKey ka) (PublicKey kb) = Inr s" "length s = 32"
    using SharedSecret_agree [OF crypto_doc_plain ok] by blast
  obtain p where p: "BuildSignedPayload plain_crypto ka m = Some p"
    using daemon_ok_signs [OF blank_daemon_ok [OF assms(1) no_nil_empty], where kp = ka and ops = plain_crypto and m = m] by auto
  obtain c n where e: "EncryptMessage plain_crypto (Inr (\<lambda>_. 7)) s p = Inr (c, n)" "n \<noteq> []"
    using s(2) by (simp add: EncryptMessage_def NonceLength_def)
  have "engine_send offline_env (n @ c) r a () = (Some (1, Inl (AllRelaysFailed maxRetries)), ())" for r
    by (rule engine_send_no_relays)
      (use e(2) in \<open>simp_all add: a_def blank_daemon_def discoverActiveRelays_def GetRelays_def NewDNSClientEngine_def quiet_env_def\<close>)
  moreover obtain i q where "OfflineQueue_Enqueue mem_sql (base64_EncodeToString (PublicKey kb)) (n @ c) (dm_queue a) = (Inr i, q)"
    by (simp add: OfflineQueue_Enqueue_def mem_sql_def split_def Let_def)
  moreover have "env_crypto offline_env = plain_crypto" "env_queue offline_env = mem_sql" "env_random offline_env () = (Inr (\<lambda>_. 7), ())"
    "identity a = Some ka" by (simp_all add: quiet_env_def a_def)
  ultimately show ?thesis using s p e
    unfolding a_def [symmetric] by (simp add: Daemon_SendMessage_def send_direct_message_def peer_secret_def b64.dec_enc Let_def)
qed

theorem direct_message_delivered_witness:
  "\<exists>ka kb resp a' payload i w3. GenerateKeyPair plain_crypto (Inr (\<lambda>_. 1)) = Inr ka \<and> GenerateKeyPair plain_crypto (Inr (\<lambda>_. 2)) = Inr kb
    \<and> Daemon_SendMessage offline_env \<lparr>sr_PeerPubkey = base64_EncodeToString (PublicKey kb), sr_Plaintext = [104, 105], sr_GroupId = ''''\<rparr>
        ((blank_daemon ''/a'')\<lparr>identity := Some ka\<rparr>) () = (Reply resp, a', ())
    \<and> fmlookup (snd (dm_queue a')) i = Some (base64_EncodeToString (PublicKey kb), payload, 0)
    \<and> (let x = base64_EncodeToString (PublicKey ka);
           b = (blank_daemon ''/b'')\<lparr>identity := Some kb, peers := fmupd x (Some \<lparr>pe_Nickname = ''Ann'', pe_Pubkey = x\<rparr>) fmempty\<rparr>;
           pm = \<lparr>pm_MsgID = 1, Data = payload, Timestamp = 0, Sequence = 0\<rparr>
       in poll_one offline_env kb pm b () = (Reply (Some (received pm x [104, 105] '''')), b, w3))"
proof -
  obtain ka kb where k: "GenerateKeyPair plain_crypto (Inr (\<lambda>_. 1)) = Inr ka" "GenerateKeyPair plain_crypto (Inr (\<lambda>_. 2)) = Inr kb"
    using GenerateKeyPair_total [OF crypto_doc_plain] by meson
  define x where "x = base64_EncodeToString (PublicKey ka)"
  define b where "b = (blank_daemon ''/b'')\<lparr>identity := Some kb, peers := fmupd x (Some \<lparr>pe_Nickname = ''Ann'', pe_Pubkey = x\<rparr>) fmempty\<rparr>"
  define req where "req = \<lparr>sr_PeerPubkey = base64_EncodeToString (PublicKey kb), sr_Plaintext = [104, 105], sr_GroupId = ''''\<rparr>"
  define a where "a = (blank_daemon ''/a'')\<lparr>identity := Some ka\<rparr>"
  obtain resp a' where send: "Daemon_SendMessage offline_env req a () = (Reply resp, a', ())" "sresp_Queued resp"
    using offline_send_queues [OF k, of "[104, 105]" "''/a''"] unfolding req_def [symmetric] a_def [symmetric] by blast
  have c: "env_crypto offline_env = plain_crypto" "env_queue offline_env = mem_sql" by (simp_all add: quiet_env_def)
  have pre: "crypto_doc (env_crypto offline_env)" "GenerateKeyPair (env_crypto offline_env) (Inr (\<lambda>_. 1)) = Inr ka"
    "GenerateKeyPair (env_crypto offline_env) (Inr (\<lambda>_. 2)) = Inr kb" "queue_doc (env_queue offline_env) snd" "identity a = Some ka"
    "sr_PeerPubkey req = base64_EncodeToString (PublicKey kb)" "sr_GroupId req = ''''" "\<not> looks_like_json 10 (sr_Plaintext req)"
    using k crypto_doc_plain queue_doc_mem by (simp_all add: c a_def req_def looks_like_json_def)
  obtain payload where row: "\<exists>i. fmlookup (snd (dm_queue a')) i = Some (sr_PeerPubkey req, payload, 0)"
    and poll: "\<And>(env' :: (unit, int \<times> queue_rows, transfer_rows) env) b pm w2.
      env_crypto env' = env_crypto offline_env \<Longrightarrow> range_ok env' \<Longrightarrow> daemon_ok b \<Longrightarrow> Data pm = payload \<Longrightarrow>
      opened_only_by (env_crypto offline_env) kb x payload (peers b) \<Longrightarrow>
      \<exists>w3. poll_one env' kb pm b w2 = (Reply (Some (received pm x (sr_Plaintext req) '''')), b, w3)"
    using direct_message_delivered [OF pre send(1), where 'v = unit and 'r = "int \<times> queue_rows" and 'u = transfer_rows] send(2)
    unfolding x_def by auto
  then obtain i where payload: "fmlookup (snd (dm_queue a')) i = Some (sr_PeerPubkey req, payload, 0)" by blast
  have "daemon_ok b" unfolding b_def by (rule blank_daemon_ok [OF k(2)]) simp
  moreover have "opened_only_by plain_crypto kb x payload (peers b)" by (simp add: opened_only_by_def b_def)
  ultimately have "\<exists>w3. poll_one offline_env kb \<lparr>pm_MsgID = 1, Data = payload, Timestamp = 0, Sequence = 0\<rparr> b () =
      (Reply (Some (received \<lparr>pm_MsgID = 1, Data = payload, Timestamp = 0, Sequence = 0\<rparr> x (sr_Plaintext req) '''')), b, w3)"
    using c range_ok_quiet by (intro poll) simp_all
  then obtain w3 where poll3: "poll_one offline_env kb \<lparr>pm_MsgID = 1, Data = payload, Timestamp = 0, Sequence = 0\<rparr> b () =
      (Reply (Some (received \<lparr>pm_MsgID = 1, Data = payload, Timestamp = 0, Sequence = 0\<rparr> x (sr_Plaintext req) '''')), b, w3)" ..
  show ?thesis
    unfolding Let_def
    by (rule exI [of _ ka], rule exI [of _ kb], rule exI [of _ resp], rule exI [of _ a'], rule exI [of _ payload], rule exI [of _ i], rule exI [of _ w3])
      (use k send(1) payload poll3 in \<open>simp add: a_def b_def x_def req_def\<close>)
qed

section \<open>Profile updates\<close>

text \<open>A profile update with a bio, and the file that the bio of a peer named \<^verbatim>\<open>../daemon_peers\<close> goes to.\<close>

definition update_text :: string where
  "update_text = profile_update_payload ''Ann'' ''hello''"

lemma update_members:
  "struct_members update_text = Some [(''type'', JStr ''profile_update''), (''nickname'', JStr ''Ann''), (''bio'', JStr ''hello'')]"
  by code_simp

lemma bio_path_escapes:
  "filepath_Join [filepath_Join [''/data'', ''peer_bios''], ''../daemon_peers'' @ ''.json''] = filepath_Join [''/data'', ''daemon_peers.json'']"
  by code_simp

lemma update_is_json: "looks_like_json 20 (bytes_of_string update_text)" "looks_like_json 10 (bytes_of_string update_text)"
  by code_simp+

lemma decode_update:
  "decode_profile_msg update_text =
     Some \<lparr>pm_Type = ''profile_update'', pm_Nickname = ''Ann'', pm_Bio = ''hello'', pm_FileID = '''', pm_FileKeyB64 = ''''\<rparr>"
  "decode_group_key (bytes_of_string update_text) = None" "decode_group_meta (bytes_of_string update_text) = None"
  by (simp_all add: decode_profile_msg_def decode_group_key_def decode_group_meta_def update_members update_is_json
      key_matches_field utf8_field field_char_def)

lemma deliver_update:
  assumes "sender \<noteq> ''''"
  shows "deliver env pm sender (bytes_of_string update_text) d w =
    (case apply_profile_update env sender
        \<lparr>pm_Type = ''profile_update'', pm_Nickname = ''Ann'', pm_Bio = ''hello'', pm_FileID = '''', pm_FileKeyB64 = ''''\<rparr> d w of
       (Reply _, d', w') \<Rightarrow> (Reply None, d', w')
     | (_, d', w') \<Rightarrow> (Panics, d', w'))"
  using assms by (simp add: deliver_def open_group_message_def handle_typed_def decode_update update_is_json Let_def)

lemma bio_file_no_peers: "decode_map (decode_pointer decode_peer) (json_Marshal (JObj [(''bio'', JStr ''hello'')])) = None"
proof -
  have "json_wf 10000 (JObj [(''bio'', JStr ''hello'')])" by (simp add: utf8_field field_char_def)
  from json_parse_Marshal [OF this] show ?thesis by (simp add: decode_map_def decode_pointer_def)
qed

lemma save_bio_overwrites:
  assumes "dataDir d = ''/data''" "peersPath d = filepath_Join [''/data'', ''daemon_peers.json'']"
    and "\<And>w. fst (env_write env w) = WriteOK" "pm_Bio m = ''hello''"
  shows "fmlookup (disk (fst (save_bio env ''../daemon_peers'' m d w))) (peersPath d)
      = Some (bytes_of_string (json_Marshal (JObj [(''bio'', JStr ''hello'')])))
    \<and> peersPath (fst (save_bio env ''../daemon_peers'' m d w)) = peersPath d"
  using assms bio_path_escapes
  by (simp add: save_bio_def savePeers_def daemon_WriteFile_def os_WriteFile_def split_def)

lemma apply_update_erases:
  assumes "dataDir d = ''/data''" "peersPath d = filepath_Join [''/data'', ''daemon_peers.json'']" "daemon_ok d"
    and "\<And>w. fst (env_write env w) = WriteOK" "\<And>w. fst (env_read env w) = None" "pm_Bio m = ''hello''"
    and "apply_profile_update env ''../daemon_peers'' m d w = (r, d', w')"
  shows "r = Reply () \<and> fst (loadPeers env (d'\<lparr>peers := fmempty\<rparr>) w'') = d'\<lparr>peers := fmempty\<rparr>"
proof -
  obtain d0 where d0: "dataDir d0 = ''/data''" "peersPath d0 = filepath_Join [''/data'', ''daemon_peers.json'']"
    "apply_profile_update env ''../daemon_peers'' m d w = (Reply (), save_bio env ''../daemon_peers'' m d0 w)"
  proof (cases "fmlookup (peers d) ''../daemon_peers''")
    case None
    then show ?thesis using assms(1,2) by (intro that [of d]) (simp_all add: apply_profile_update_def)
  next
    case (Some x)
    then obtain e where "fmlookup (peers d) ''../daemon_peers'' = Some (Some e)"
      using daemon_ok_peers [OF assms(3), of "''../daemon_peers''"] by (cases x) simp_all
    then show ?thesis using assms(1,2)
      by (intro that [of "if pm_Nickname m \<noteq> '''' then d\<lparr>peers := fmupd ''../daemon_peers'' (Some (e\<lparr>pe_Nickname := pm_Nickname m\<rparr>)) (peers d)\<rparr> else d"])
        (simp_all add: apply_profile_update_def)
  qed
  from save_bio_overwrites [OF d0(1,2) assms(4,6)] d0(3) assms(7)
  have "fmlookup (disk d') (peersPath d') = Some (bytes_of_string (json_Marshal (JObj [(''bio'', JStr ''hello'')])))"
    by (metis Pair_inject fst_conv)
  then show ?thesis using d0(3) assms(5,7) bio_file_no_peers
    by (simp add: loadPeers_def daemon_ReadFile_def os_ReadFile_def split_def)
qed

text \<open>
  (C39) Whoever can send a message can erase the contacts of the receiver: the sender line of a payload
  is free text that the signature does not cover, and it becomes the name of the file that a
  profile update is written to. With the sender \<^verbatim>\<open>../daemon_peers\<close> the file is the one that holds
  the peers, and after the update a restarted daemon finds no peer in it.
\<close>

theorem sender_name_erases_contacts:
  assumes "crypto_doc ops" "GenerateKeyPair ops rnd = Inr attacker"
    and "dataDir d = ''/data''" "peersPath d = filepath_Join [''/data'', ''daemon_peers.json'']" "daemon_ok d"
    and "\<And>w. fst (env_write env w) = WriteOK" "\<And>w. fst (env_read env w) = None"
  shows "(\<exists>payload. open_payload ops k payload = Some (''../daemon_peers'', bytes_of_string update_text))
    \<and> (case deliver env pm ''../daemon_peers'' (bytes_of_string update_text) d w of
         (r, d', w') \<Rightarrow> r = Reply None \<and> fst (loadPeers env (d'\<lparr>peers := fmempty\<rparr>) w') = d'\<lparr>peers := fmempty\<rparr>)"
proof
  let ?x = "''../daemon_peers''"
  obtain payload where "ParseSignedPayload ops payload = Inr (?x, Ed25519PublicKey attacker, bytes_of_string update_text, True)"
    using signed_payload_any_sender [OF assms(1) GenerateKeyPair_ok [OF assms(1,2)], of ?x "bytes_of_string update_text"] by fastforce
  then have "open_payload ops k payload = Some (?x, bytes_of_string update_text)" by (simp add: open_payload_def Let_def)
  then show "\<exists>payload. open_payload ops k payload = Some (?x, bytes_of_string update_text)" by blast
  define m where "m = \<lparr>pm_Type = ''profile_update'', pm_Nickname = ''Ann'', pm_Bio = ''hello'', pm_FileID = '''', pm_FileKeyB64 = ''''\<rparr>"
  obtain r d' w' where a: "apply_profile_update env ?x m d w = (r, d', w')" by (metis prod_cases3)
  from apply_update_erases [OF assms(3-7) _ a, of w'] deliver_update [of ?x env pm d w] a
  show "case deliver env pm ?x (bytes_of_string update_text) d w of
         (r, d', w') \<Rightarrow> r = Reply None \<and> fst (loadPeers env (d'\<lparr>peers := fmempty\<rparr>) w') = d'\<lparr>peers := fmempty\<rparr>"
    by (simp add: m_def)
qed

theorem sender_name_erases_contacts_witness:
  "let d = cara_daemon\<lparr>dataDir := ''/data'', peersPath := filepath_Join [''/data'', ''daemon_peers.json'']\<rparr>;
       pm = \<lparr>pm_MsgID = 1, Data = [], Timestamp = 0, Sequence = 0\<rparr> in
   (\<exists>payload. open_payload plain_crypto ''bob'' payload = Some (''../daemon_peers'', bytes_of_string update_text))
    \<and> (case deliver offline_env pm ''../daemon_peers'' (bytes_of_string update_text) d () of
         (r, d', w') \<Rightarrow> r = Reply None \<and> fst (loadPeers offline_env (d'\<lparr>peers := fmempty\<rparr>) w') = d'\<lparr>peers := fmempty\<rparr>)"
proof -
  obtain kp where "GenerateKeyPair plain_crypto (Inr (\<lambda>_. 1)) = Inr kp" using GenerateKeyPair_total [OF crypto_doc_plain] by blast
  moreover have "daemon_ok (cara_daemon\<lparr>dataDir := ''/data'', peersPath := filepath_Join [''/data'', ''daemon_peers.json'']\<rparr>)"
    by (simp add: daemon_ok_def cara_daemon_def blank_daemon_def identity_ok_def no_nil_def)
  ultimately show ?thesis
    unfolding Let_def by (intro sender_name_erases_contacts [OF crypto_doc_plain]) (simp_all add: quiet_env_def)
qed

end
