(* ===== verification/Media_Delivery.thy ===== *)
theory Media_Delivery
  imports Daemon_Delivery
begin

text \<open>
  A file on its way between two daemons: \<^verbatim>\<open>SendMedia\<close> uploads it encrypted and sends the metadata as a
  message; the daemon that polls this message reads the metadata, downloads the file, decrypts it
  and writes it beside a description.
\<close>

section \<open>The metadata message is read back\<close>

lemma json_wf_int: "json_wf D (json_int i)"
  by (simp add: json_int_def num_ok_nat_string)

lemma field_string_omitempty:
  "field_string f (omitempty k z v) s = (if \<not> z \<and> key_matches f k then field_string f [(k, v)] s else Some s)"
  "field_string f (omitempty k z v @ ms) s =
     (if \<not> z \<and> key_matches f k then field_string f ((k, v) # ms) s else field_string f ms s)"
  by (simp_all add: omitempty_def)

lemma field_uint64_omitempty:
  "field_uint64 f (omitempty k z v) u = (if \<not> z \<and> key_matches f k then field_uint64 f [(k, v)] u else Some u)"
  "field_uint64 f (omitempty k z v @ ms) u =
     (if \<not> z \<and> key_matches f k then field_uint64 f ((k, v) # ms) u else field_uint64 f ms u)"
  by (simp_all add: omitempty_def)

text \<open>The metadata as the transports build it: no thumbnail, and text that is valid UTF-8.\<close>

definition plain_media :: "MediaMessage \<Rightarrow> bool" where
  "plain_media m \<longleftrightarrow> Thumbnail m = None \<and> list_all utf8_valid
     [MessageID m, FileName m, MimeType m, FileKeyB64 m, Checksum m, FileID m]"

definition media_members :: "MediaMessage \<Rightarrow> (string \<times> json) list" where
  "media_members m =
     [(''message_id'', JStr (MessageID m)), (''timestamp'', json_int (MediaMessage.Timestamp m)),
      (''media_type'', JNum (nat_string (media_type_number (MediaType_of m))))]
     @ omitempty ''file_name'' (FileName m = []) (JStr (FileName m))
     @ omitempty ''mime_type'' (MimeType m = []) (JStr (MimeType m))
     @ omitempty ''file_size'' (FileSize m = 0) (json_int (FileSize m))
     @ omitempty ''file_key_b64'' (FileKeyB64 m = []) (JStr (FileKeyB64 m))
     @ omitempty ''checksum'' (Checksum m = []) (JStr (Checksum m))
     @ omitempty ''has_thumbnail'' (\<not> HasThumbnail m) (JBool True)
     @ omitempty ''file_id'' (FileID m = []) (JStr (FileID m))"

lemma media_json_members: "plain_media m \<Longrightarrow> MediaMessage_json m = JObj (media_members m)"
  by (simp add: plain_media_def MediaMessage_json_def media_members_def)

lemma media_json_wf: "plain_media m \<Longrightarrow> json_wf 10000 (JObj (media_members m))"
  by (simp add: plain_media_def media_members_def omitempty_def json_wf_int num_ok_nat_string utf8_field field_char_def)

lemmas media_fields = field_string_omitempty field_uint64_omitempty key_matches_field field_char_def

lemma media_field_values:
  "field_string ''file_key_b64'' (media_members m) [] = Some (FileKeyB64 m)"
  "field_string ''mime_type'' (media_members m) [] = Some (MimeType m)"
  "field_string ''file_name'' (media_members m) [] = Some (FileName m)"
  "field_string ''file_id'' (media_members m) [] = Some (FileID m)"
  by (simp_all add: media_members_def media_fields)

lemma media_field_absent:
  "field_string ''type'' (media_members m) [] = Some []" "field_string ''group_id'' (media_members m) [] = Some []"
  "field_string ''group_key_b64'' (media_members m) [] = Some []" "field_uint64 ''key_epoch'' (media_members m) 0 = Some 0"
  "field_string ''name'' (media_members m) [] = Some []" "field_string ''g'' (media_members m) [] = Some []"
  "field_string ''nickname'' (media_members m) [] = Some []" "field_string ''bio'' (media_members m) [] = Some []"
  "field_string ''transport'' (media_members m) [] = Some []" "field_string ''mime'' (media_members m) [] = Some []"
  by (simp_all add: media_members_def media_fields)

lemma plain_field_char:
  assumes "field_char c"
  shows "plain_char c"
proof -
  consider "c = CHR ''_''" | "97 \<le> code c" "code c \<le> 122" | "48 \<le> code c" "code c \<le> 57"
    using assms unfolding field_char_def by blast
  then show ?thesis by cases (simp_all add: plain_char_def, force+)
qed

lemma json_escape_field: "list_all field_char s \<Longrightarrow> json_escape s = s"
  by (rule json_escape_plain) (simp add: list_all_iff plain_field_char)

lemma media_looks_like_json:
  assumes "plain_media m"
  shows "looks_like_json 20 (MediaMessage_Marshal m)"
proof -
  have "json_escape ''message_id'' = ''message_id''" "json_escape ''timestamp'' = ''timestamp''"
    by (rule json_escape_field, simp add: field_char_def)+
  then have "20 < length (json_Marshal (MediaMessage_json m))"
    by (simp add: media_json_members [OF assms] media_members_def json_Marshal_def json_quoted_def)
  moreover obtain r where "json_Marshal (MediaMessage_json m) = CHR ''{'' # r"
    using hd_Marshal_object media_json_members [OF assms] by metis
  ultimately show ?thesis by (simp add: looks_like_json_def MediaMessage_Marshal_def bytes_of_string_def)
qed

lemma media_struct_members:
  "plain_media m \<Longrightarrow> struct_members (string_of_bytes (MediaMessage_Marshal m)) = Some (media_members m)"
  using struct_members_Marshal [OF media_json_wf] by (simp add: MediaMessage_Marshal_def media_json_members)

text \<open>The part of the metadata that the receiver decodes.\<close>

definition meta_of :: "MediaMessage \<Rightarrow> media_meta" where
  "meta_of m = \<lparr>mm_FileKeyB64 = FileKeyB64 m, mm_MimeType = MimeType m, mm_FileName = FileName m, mm_FileID = FileID m\<rparr>"

lemma deliver_media:
  assumes "plain_media m" "FileKeyB64 m \<noteq> []"
  shows "deliver env pm peer (MediaMessage_Marshal m) d w = (Reply None, save_media env pm peer (meta_of m) d w)"
proof -
  note ms = media_struct_members [OF assms(1)] and js = media_looks_like_json [OF assms(1)]
  have "decode_group_key (MediaMessage_Marshal m) = None" by (simp add: decode_group_key_def ms media_field_absent)
  moreover have "decode_group_meta (MediaMessage_Marshal m) = None"
    by (auto simp: decode_group_meta_def ms media_field_absent split: option.splits)
  moreover have "\<exists>x. decode_profile_msg (string_of_bytes (MediaMessage_Marshal m)) = Some x \<and> pm_Type x = []"
    by (simp add: decode_profile_msg_def ms media_field_absent media_field_values)
  moreover have "decode_media_meta (string_of_bytes (MediaMessage_Marshal m)) = Some (meta_of m)"
    by (simp add: decode_media_meta_def ms media_field_values meta_of_def)
  ultimately show ?thesis
    using js assms(2)
    by (auto simp: deliver_def open_group_message_def handle_typed_def handle_media_def Let_def meta_of_def)
qed

text \<open>A payload without line breaks carries no signature and counts as the text of the peer that sealed it.\<close>

lemma open_payload_unsigned:
  assumes "newline \<notin> set (string_of_bytes p)" "p \<noteq> []"
  shows "open_payload ops peer p = Some (peer, p)"
  using assms strings_SplitN_short [of newline "string_of_bytes p" 3]
  by (simp add: open_payload_def ParseSignedPayload_def Let_def numeral_eq_Suc)

lemma open_media:
  assumes "plain_media m"
  shows "open_payload ops peer (MediaMessage_Marshal m) = Some (peer, MediaMessage_Marshal m)"
proof (rule open_payload_unsigned)
  have "visible (json_Marshal (MediaMessage_json m))"
    by (rule visible_Marshal [of 10000]) (use media_json_wf [OF assms] media_json_members [OF assms] in \<open>simp del: json_wf.simps\<close>)
  from visible_no_newline [OF this] show "newline \<notin> set (string_of_bytes (MediaMessage_Marshal m))"
    by (simp add: MediaMessage_Marshal_def)
  show "MediaMessage_Marshal m \<noteq> []" using media_looks_like_json [OF assms] by (auto simp: looks_like_json_def)
qed

section \<open>The file is written\<close>

lemma fetch_media_ok:
  assumes "mm_FileID m \<noteq> []" "DownloadFile (env_http env) (NewTCPTransport relay (token_bytes d)) (mm_FileID m) w = (Inr enc, w1)"
    and "DecryptFile (base64_decoded (mm_FileKeyB64 m)) enc = Inr file" "file \<noteq> []"
  shows "fetch_media env relay m d w = (Some file, w1)"
  using assms by (simp add: fetch_media_def)

lemma save_media_writes:
  assumes "GetRelays (engine d) = relay # rs" "fetch_media env relay m d w = (Some file, w1)"
    and "\<And>w. fst (env_write env w) = WriteOK"
  shows "\<exists>d' w'. save_media env pm peer m d w = (d', w')
    \<and> fmlookup (disk d') (media_path d pm (mm_MimeType m)) = Some file
    \<and> fmlookup (disk d') (media_path d pm (mm_MimeType m) @ ''.meta'') = Some (bytes_of_string (json_Marshal (sidecar_json m peer pm True)))"
proof -
  have ok: "\<exists>v. env_write env u = (WriteOK, v)" for u using assms(3) [of u] by (cases "env_write env u") auto
  obtain w2 where w2: "env_write env w1 = (WriteOK, w2)" using ok by blast
  obtain w3 where w3: "env_write env w2 = (WriteOK, w3)" using ok by blast
  show ?thesis using assms(1,2)
    by (simp add: save_media_def daemon_WriteFile_def os_WriteFile_def w2 w3)
qed

section \<open>The file and the metadata are sent\<close>

text \<open>A relay has answered the upload of these bytes with this file id, in this world.\<close>

definition uploaded :: "('w, 'q, 't) env \<Rightarrow> TCPTransport \<Rightarrow> bytes \<Rightarrow> string \<Rightarrow> 'w \<Rightarrow> bool" where
  "uploaded env t enc fileID w' \<longleftrightarrow> (\<exists>w resp.
     env_http env ''POST'' (''http://'' @ relayAddr t @ ''/upload'') (token_header t) enc w = (Inr resp, w')
     \<and> StatusCode resp = 200 \<and> decode_upload_response (RespBody resp) = Some fileID)"

lemma upload_media_cases:
  assumes "upload_media env relay mid file name mime ty d w = (Inr meta, w')"
  obtains rk rn key enc now fid where
    "GenerateFileKey rk = Inr key" "EncryptFile rn key file = Inr enc"
    "uploaded env (NewTCPTransport relay (token_bytes d)) enc fid w'" "meta = metadata mid now ty name mime file key fid"
proof -
  obtain rk w1 rn w2 now w3 where
    "TCPTransport_SendChunks (env_http env) rk rn now (NewTCPTransport relay (token_bytes d)) mid file name mime ty w3 = (Inr meta, w')"
    using assms by (auto simp: upload_media_def split: prod.splits)
  then obtain key enc resp fid where "GenerateFileKey rk = Inr key" "EncryptFile rn key file = Inr enc"
    and http: "env_http env ''POST'' (''http://'' @ relayAddr (NewTCPTransport relay (token_bytes d)) @ ''/upload'')
      (token_header (NewTCPTransport relay (token_bytes d))) enc w3 = (Inr resp, w')" "StatusCode resp = 200"
      "decode_upload_response (RespBody resp) = Some fid"
    and "meta = metadata mid now ty name mime file key fid"
    unfolding TCPTransport_SendChunks_def
    by (auto split: if_splits sum.splits prod.splits http_failure.splits option.splits)
  moreover from http have "uploaded env (NewTCPTransport relay (token_bytes d)) enc fid w'"
    unfolding uploaded_def by blast
  ultimately show ?thesis using that by blast
qed

lemma change_transfer_keeps [simp]:
  "engine (change_transfer i f d) = engine d" "authToken (change_transfer i f d) = authToken d"
  by (simp_all add: change_transfer_def split: option.splits)

lemma send_media_metadata_cases:
  assumes "send_media_metadata env i req meta est d w = (Reply resp, d', w')" "identity d = Some kp"
  obtains now s rnd c n mid k where
    "peer_secret (env_crypto env) kp (smr_PeerPubkey req) = Inr s"
    "EncryptMessage (env_crypto env) rnd s (MediaMessage_Marshal (meta\<lparr>MediaMessage.Timestamp := now, MessageID := i\<rparr>)) = Inr (c, n)"
    "engine_send env (n @ c) (smr_PeerPubkey req) d (snd (env_random env (snd (env_now env w)))) = (Some (mid, Inr k), w')"
  using assms
  by (auto simp: send_media_metadata_def seal_metadata_def split: prod.splits sum.splits option.splits)

lemma Daemon_SendMedia_cases:
  assumes "Daemon_SendMedia env req d w = (Reply resp, d', w')" "identity d = Some kp"
  obtains relay rs rk rn key enc mid now i fid v ts s rnd c n mid' k where
    "GetRelays (engine d) = relay # rs" "GenerateFileKey rk = Inr key" "EncryptFile rn key (smr_MediaData req) = Inr enc"
    "uploaded env (NewTCPTransport relay (token_bytes d)) enc fid v"
    "peer_secret (env_crypto env) kp (smr_PeerPubkey req) = Inr s"
    "EncryptMessage (env_crypto env) rnd s (MediaMessage_Marshal
       ((metadata mid now MediaTypeFile (smr_Filename req) (smr_MimeType req) (smr_MediaData req) key fid)
         \<lparr>MediaMessage.Timestamp := ts, MessageID := int_hex i\<rparr>)) = Inr (c, n)"
    "engine_send env (n @ c) (smr_PeerPubkey req) d (snd (env_random env (snd (env_now env v)))) = (Some (mid', Inr k), w')"
proof -
  obtain t0 w1 where t0: "env_now env w = (t0, w1)" by fastforce
  obtain t1 w2 where t1: "env_now env w1 = (t1, w2)" by fastforce
  obtain rm w3 where rm: "env_random env w2 = (rm, w3)" by fastforce
  let ?i = "int_hex (unix_nano t0)"
  let ?d = "change_transfer ?i (\<lambda>t. t\<lparr>mt_Status := TransferSending, mt_Progress := 10\<rparr>)
    (d\<lparr>transfers := fmupd ?i (new_transfer t1) (transfers d)\<rparr>)"
  note send = assms(1) [unfolded Daemon_SendMedia_def Let_def t0 t1 rm prod.case]
  obtain relay rs where rl: "GetRelays (engine d) = relay # rs" using send by (cases "GetRelays (engine d)") auto
  obtain r w4 where up: "upload_media env relay (draw_id rm) (smr_MediaData req) (smr_Filename req) (smr_MimeType req) MediaTypeFile ?d w3 = (r, w4)"
    by fastforce
  obtain meta est where meta: "r = Inr meta"
    and m: "send_media_metadata env ?i req meta est (change_transfer ?i (\<lambda>t. t\<lparr>mt_Progress := 50\<rparr>) ?d) w4 = (Reply resp, d', w')"
    using send up rl by (cases r) auto
  obtain rk rn key enc now fid where u: "GenerateFileKey rk = Inr key" "EncryptFile rn key (smr_MediaData req) = Inr enc"
    "uploaded env (NewTCPTransport relay (token_bytes ?d)) enc fid w4"
    "meta = metadata (draw_id rm) now MediaTypeFile (smr_Filename req) (smr_MimeType req) (smr_MediaData req) key fid"
    by (rule upload_media_cases [OF up [unfolded meta]])
  have "identity (change_transfer ?i (\<lambda>t. t\<lparr>mt_Progress := 50\<rparr>) ?d) = Some kp" using assms(2) by simp
  then obtain ts s rnd c n mid k where s: "peer_secret (env_crypto env) kp (smr_PeerPubkey req) = Inr s"
    "EncryptMessage (env_crypto env) rnd s (MediaMessage_Marshal (meta\<lparr>MediaMessage.Timestamp := ts, MessageID := ?i\<rparr>)) = Inr (c, n)"
    "engine_send env (n @ c) (smr_PeerPubkey req) (change_transfer ?i (\<lambda>t. t\<lparr>mt_Progress := 50\<rparr>) ?d)
      (snd (env_random env (snd (env_now env w4)))) = (Some (mid, Inr k), w')"
    by (rule send_media_metadata_cases [OF m])
  have "engine_send env (n @ c) (smr_PeerPubkey req) d (snd (env_random env (snd (env_now env w4)))) = (Some (mid, Inr k), w')"
    using s(3) engine_send_cong [of "change_transfer ?i (\<lambda>t. t\<lparr>mt_Progress := 50\<rparr>) ?d" d env] by simp
  moreover have "token_bytes ?d = token_bytes d" by (simp add: token_bytes_def)
  ultimately show ?thesis using that [OF rl u(1,2) _ s(1) s(2) [unfolded u(4)]] u(3) by simp
qed

lemma utf8_int_hex: "utf8_valid (int_hex i)"
proof (rule utf8_valid_ascii)
  have "list_all (\<lambda>c. code c < 128) (nat_hex n)" for n
  proof (induction n rule: nat_hex.induct)
    case (1 n)
    have "code (hex_digit m) < 128" if "m < 16" for m
      using hex_digit_ok(1) [OF that] by (auto simp: is_hex_digit_def is_digit_def)
    then show ?case using 1 by (simp add: nat_hex.simps [of n])
  qed
  then show "list_all (\<lambda>c. code c < 128) (int_hex i)" by (simp add: int_hex_def)
qed

lemma sent_metadata_plain:
  assumes "utf8_valid name" "utf8_valid mime" "utf8_valid fid"
  shows "plain_media ((metadata mid now ty name mime data key fid)\<lparr>MediaMessage.Timestamp := ts, MessageID := int_hex i\<rparr>)"
proof -
  have "utf8_valid (''sha256:'' @ hex_EncodeToString h)" for h
    by (rule utf8_valid_plain) (use plain_hex [of h] in \<open>simp add: plain_char_def\<close>)
  then show ?thesis using assms by (simp add: plain_media_def metadata_def utf8_int_hex utf8_base64)
qed

text \<open>
  (C6) A file reaches its reader: when \<^verbatim>\<open>SendMedia\<close> reports success, then some encrypted bytes were
  uploaded to the first relay, which answered with a file id, and the engine has sent a payload to
  the addressee. When the daemon of the addressee polls this payload, and its download of that
  file id returns the uploaded bytes, then it shows no text message but writes two files: under
  the id of the message exactly the file that was sent, and beside it a description that names the
  file, its type and the sender and says that it is complete. The sender must be one of its peers and
  no other peer's key may open the payload; the file must not be empty, since an empty file
  cannot be told from a failed download.
\<close>

theorem media_message_delivered:
  assumes "crypto_doc (env_crypto env)" "GenerateKeyPair (env_crypto env) ra = Inr ka" "GenerateKeyPair (env_crypto env) rb = Inr kb"
    and "identity a = Some ka" "smr_PeerPubkey req = base64_EncodeToString (PublicKey kb)"
    and "utf8_valid (smr_Filename req)" "utf8_valid (smr_MimeType req)" "smr_MediaData req \<noteq> []"
    and "Daemon_SendMedia env req a w = (Reply resp, a', w')"
  shows "\<exists>payload enc fileID relay rs v.
     GetRelays (engine a) = relay # rs \<and> uploaded env (NewTCPTransport relay (token_bytes a)) enc fileID v
   \<and> (\<exists>mid n. engine_send env payload (smr_PeerPubkey req) a (snd (env_random env (snd (env_now env v)))) = (Some (mid, Inr n), w'))
   \<and> (\<forall>(env' :: ('v, 'r, 'u) env) b pm w2 relay' rs'.
        env_crypto env' = env_crypto env \<longrightarrow> range_ok env' \<longrightarrow> daemon_ok b \<longrightarrow> Data pm = payload
        \<longrightarrow> opened_only_by (env_crypto env) kb (base64_EncodeToString (PublicKey ka)) payload (peers b)
        \<longrightarrow> fileID \<noteq> '''' \<longrightarrow> utf8_valid fileID \<longrightarrow> GetRelays (engine b) = relay' # rs'
        \<longrightarrow> fst (DownloadFile (env_http env') (NewTCPTransport relay' (token_bytes b)) fileID
               (snd (env_range env' (fmdom (peers b)) w2))) = Inr enc
        \<longrightarrow> (\<forall>v. fst (env_write env' v) = WriteOK)
        \<longrightarrow> (\<exists>b' w3 key. poll_one env' kb pm b w2 = (Reply None, b', w3)
              \<and> fmlookup (disk b') (media_path b pm (smr_MimeType req)) = Some (smr_MediaData req)
              \<and> fmlookup (disk b') (media_path b pm (smr_MimeType req) @ ''.meta'') = Some (bytes_of_string (json_Marshal
                  (sidecar_json \<lparr>mm_FileKeyB64 = key, mm_MimeType = smr_MimeType req, mm_FileName = smr_Filename req, mm_FileID = fileID\<rparr>
                     (base64_EncodeToString (PublicKey ka)) pm True)))))"
proof -
  have ok: "keypair_ok (env_crypto env) ka" "keypair_ok (env_crypto env) kb" using assms(1-3) GenerateKeyPair_ok by blast+
  obtain relay rs rk rn key enc mid now i fid v ts s rnd c n mid' k where
    rl: "GetRelays (engine a) = relay # rs" and key: "GenerateFileKey rk = Inr key"
    and enc: "EncryptFile rn key (smr_MediaData req) = Inr enc"
    and up: "uploaded env (NewTCPTransport relay (token_bytes a)) enc fid v"
    and s: "peer_secret (env_crypto env) ka (smr_PeerPubkey req) = Inr s"
    and seal: "EncryptMessage (env_crypto env) rnd s (MediaMessage_Marshal
       ((metadata mid now MediaTypeFile (smr_Filename req) (smr_MimeType req) (smr_MediaData req) key fid)
         \<lparr>MediaMessage.Timestamp := ts, MessageID := int_hex i\<rparr>)) = Inr (c, n)"
    and snd: "engine_send env (n @ c) (smr_PeerPubkey req) a (snd (env_random env (snd (env_now env v)))) = (Some (mid', Inr k), w')"
    by (rule Daemon_SendMedia_cases [OF assms(9,4)])
  let ?m = "(metadata mid now MediaTypeFile (smr_Filename req) (smr_MimeType req) (smr_MediaData req) key fid)
         \<lparr>MediaMessage.Timestamp := ts, MessageID := int_hex i\<rparr>"
  note sealed = sealed_opens [OF assms(1) ok s [unfolded assms(5)] seal]
  have m: "meta_of ?m = \<lparr>mm_FileKeyB64 = base64_EncodeToString key, mm_MimeType = smr_MimeType req, mm_FileName = smr_Filename req, mm_FileID = fid\<rparr>"
    by (simp add: meta_of_def metadata_def)
  have k: "FileKeyB64 ?m \<noteq> []" using GenerateFileKey_ok [OF key] by (auto simp: metadata_def intro!: base64_not_empty)
  show ?thesis
  proof (rule exI [of _ "n @ c"], rule exI [of _ enc], rule exI [of _ fid], rule exI [of _ relay], rule exI [of _ rs], rule exI [of _ v],
      intro conjI rl up allI impI)
    show "\<exists>mid k. engine_send env (n @ c) (smr_PeerPubkey req) a (snd (env_random env (snd (env_now env v)))) = (Some (mid, Inr k), w')"
      using snd by blast
  next
    fix env' :: "('v, 'r, 'u) env" and b :: "('r, 'u) Daemon" and pm :: PolledMessage and w2 :: 'v and relay' rs'
    assume b: "env_crypto env' = env_crypto env" "range_ok env'" "daemon_ok b" "Data pm = n @ c"
      "opened_only_by (env_crypto env) kb (base64_EncodeToString (PublicKey ka)) (n @ c) (peers b)"
      and f: "fid \<noteq> ''''" "utf8_valid fid" "GetRelays (engine b) = relay' # rs'"
      and dl: "fst (DownloadFile (env_http env') (NewTCPTransport relay' (token_bytes b)) fid
        (snd (env_range env' (fmdom (peers b)) w2))) = Inr enc"
      and wr: "\<forall>v. fst (env_write env' v) = WriteOK"
    note plain = sent_metadata_plain [OF assms(6,7) f(2), where mid = mid and now = now and ty = MediaTypeFile and data = "smr_MediaData req" and key = key and ts = ts and i = i]
    let ?v = "snd (env_range env' (fmdom (peers b)) w2)"
    have v: "poll_one env' kb pm b w2 = deliver env' pm (base64_EncodeToString (PublicKey ka)) (MediaMessage_Marshal ?m) b ?v"
      using poll_one_opened [of env' b pm n c kb, OF b(2,3,4) sealed(3)] sealed(1,2) open_media [OF plain] b(1,5) by metis
    obtain v' where "DownloadFile (env_http env') (NewTCPTransport relay' (token_bytes b)) fid ?v = (Inr enc, v')"
      using dl by (metis prod.collapse)
    then have "fetch_media env' relay' (meta_of ?m) b ?v = (Some (smr_MediaData req), v')"
      using f(1) DecryptFile_EncryptFile [OF enc] assms(8) by (intro fetch_media_ok) (simp_all add: m base64_decoded_def b64.dec_enc)
    then obtain b' v2 where "save_media env' pm (base64_EncodeToString (PublicKey ka)) (meta_of ?m) b ?v = (b', v2)"
      and files: "fmlookup (disk b') (media_path b pm (mm_MimeType (meta_of ?m))) = Some (smr_MediaData req)"
        "fmlookup (disk b') (media_path b pm (mm_MimeType (meta_of ?m)) @ ''.meta'')
           = Some (bytes_of_string (json_Marshal (sidecar_json (meta_of ?m) (base64_EncodeToString (PublicKey ka)) pm True)))"
      using save_media_writes [OF f(3), of env' "meta_of ?m" ?v "smr_MediaData req" v'] wr by blast
    then have "poll_one env' kb pm b w2 = (Reply None, b', v2)" unfolding v deliver_media [OF plain k] by (simp only:)
    with files
    show "\<exists>b' w3 key. poll_one env' kb pm b w2 = (Reply None, b', w3)
        \<and> fmlookup (disk b') (media_path b pm (smr_MimeType req)) = Some (smr_MediaData req)
        \<and> fmlookup (disk b') (media_path b pm (smr_MimeType req) @ ''.meta'') = Some (bytes_of_string (json_Marshal
            (sidecar_json \<lparr>mm_FileKeyB64 = key, mm_MimeType = smr_MimeType req, mm_FileName = smr_Filename req, mm_FileID = fid\<rparr>
               (base64_EncodeToString (PublicKey ka)) pm True)))"
      unfolding m media_meta.simps by blast
  qed
qed

text \<open>A network that acknowledges everything, and the schedule in which every chunk is sent once to one relay.\<close>

definition ack_exch :: "'w exchange" where
  "ack_exch nt q addr w = (Inr \<lparr>Rcode = RcodeSuccess, Authoritative = True, Answer = []\<rparr>, w)"

definition each_once :: "nat \<Rightarrow> par_event list" where
  "each_once n = map (\<lambda>i. TaskRun i 0) [0..<n] @ [SelDone]"

lemma SendChunk_ack: "SendChunk fqdn ack_exch addr z c mode w = (Inr (), w)"
  by (cases mode) (simp_all add: SendChunk_def ack_exch_def check_rcode_def resp_ok_def Let_def)

lemma par_run_ack:
  assumes "k + m = n" "length ds = n" "\<forall>i < k. ds ! i"
  shows "\<exists>ds'. par_run fqdn ack_exch z mode cs [r] (map (\<lambda>i. TaskRun i 0) [k..<n] @ [SelDone])
      (\<lparr>par_pending = map (\<lambda>i. (i, 0)) [k..<n], chunkDelivered = ds, par_cancelled = False, par_phase = Monitoring\<rparr>, w)
    = Some (\<lparr>par_pending = [], chunkDelivered = ds', par_cancelled = False, par_phase = Returned (Inr ())\<rparr>, w)"
  using assms
proof (induction m arbitrary: k ds)
  case 0
  then have "undelivered ds = []" by (simp add: undelivered_nil)
  then show ?case using 0 by (simp add: par_step_def par_done_def Let_def)
next
  case (Suc m)
  have step: "par_step fqdn ack_exch z mode cs [r] (TaskRun k 0)
      (\<lparr>par_pending = map (\<lambda>i. (i, 0)) [k..<n], chunkDelivered = ds, par_cancelled = False, par_phase = Monitoring\<rparr>, w)
    = Some (\<lparr>par_pending = map (\<lambda>i. (i, 0)) [Suc k..<n], chunkDelivered = ds[k := True], par_cancelled = False, par_phase = Monitoring\<rparr>, w)"
    using Suc.prems by (simp add: par_step_def SendChunk_ack is_ok_def upt_rec [of k])
  have "\<forall>i < Suc k. ds[k := True] ! i" using Suc.prems by (auto simp: nth_list_update less_Suc_eq)
  from Suc.IH [of "Suc k" "ds[k := True]"] Suc.prems this step show ?case by (simp add: upt_rec [of k])
qed

lemma engine_send_ack:
  assumes "env_exch env = ack_exch" "env_run env w = ((mid, each_once (length (ChunkMessage mid p (GetChunkSize (engine d)) r)), []), w)"
    and "discoverActiveRelays (engine d) = [rl]" "p \<noteq> []"
  shows "\<exists>n. engine_send env p r d w = (Some (mid, Inr n), w)"
proof -
  let ?cs = "ChunkMessage mid p (GetChunkSize (engine d)) r"
  have ne: "?cs \<noteq> []" using assms(4) ChunkMessage_empty_iff [of mid p "GetChunkSize (engine d)" r] by simp
  have init: "par_init ?cs [rl] = \<lparr>par_pending = map (\<lambda>i. (i, 0)) [0..<length ?cs], chunkDelivered = replicate (length ?cs) False,
      par_cancelled = False, par_phase = Monitoring\<rparr>"
    by (simp add: par_init_def product_concat_map concat_map_singleton)
  have "\<exists>ds. par_run (env_fqdn env) ack_exch (zone (engine d)) (GetTransportMode (engine d)) ?cs [rl] (each_once (length ?cs))
      (par_init ?cs [rl], w) = Some (\<lparr>par_pending = [], chunkDelivered = ds, par_cancelled = False, par_phase = Returned (Inr ())\<rparr>, w)"
    unfolding init each_once_def by (rule par_run_ack) simp_all
  then obtain ds where "par_run (env_fqdn env) ack_exch (zone (engine d)) (GetTransportMode (engine d)) ?cs [rl] (each_once (length ?cs))
      (par_init ?cs [rl], w) = Some (\<lparr>par_pending = [], chunkDelivered = ds, par_cancelled = False, par_phase = Returned (Inr ())\<rparr>, w)" ..
  then show ?thesis using ne by (simp add: engine_send_def assms SendMessage_def sendParallel_def Let_def)
qed

lemma par_run_ack_world:
  "par_run fqdn ack_exch z mode cs rls evs s = Some s' \<Longrightarrow> snd s' = snd s"
proof (induction evs arbitrary: s)
  case (Cons ev evs)
  obtain st w where s: "s = (st, w)" by fastforce
  from Cons.prems obtain s1 where s1: "par_step fqdn ack_exch z mode cs rls ev s = Some s1" "par_run fqdn ack_exch z mode cs rls evs s1 = Some s'"
    by (auto split: option.splits)
  have "snd s1 = w"
    using s1(1) by (cases ev) (auto simp: par_step_def s SendChunk_ack Let_def split: if_splits)
  with Cons.IH [OF s1(2)] show ?case by (simp add: s)
qed simp

lemma engine_send_ack_world:
  assumes "env_exch env = ack_exch" "env_run env w = (run, w)" "discoverActiveRelays (engine d) \<noteq> []"
    and "engine_send env p r d w = (Some res, w')"
  shows "w' = w"
proof -
  obtain mid evs dones where run: "run = (mid, evs, dones)" by (cases run)
  have "w' = w" if "sendParallel (env_fqdn env) ack_exch (engine d) cs rls evs w = Some (r, w')" for cs rls r
    using that par_run_ack_world by (fastforce simp: sendParallel_def split: if_splits option.splits par_phase.splits)
  then show ?thesis using assms by (auto simp: engine_send_def SendMessage_def run Let_def split: option.splits sum.splits)
qed

lemma relay_http_uploaded:
  assumes "uploaded env t enc fid v" "env_http env = relay_http host now WriteOK" "relayAddr t = host @ '':9877''"
  shows "fid = hex_EncodeToString (sha256_Sum256 enc)" "fmlookup (media_files v) fid = Some (enc, now)"
proof -
  define j where "j = ''{\"file_id\":\"'' @ hex_EncodeToString (sha256_Sum256 enc) @ ''\"}''"
  let ?r = "\<lparr>Method = ''POST'', URL_Path = ''/upload'', X_Auth_Token = token_header t, Body = Inr enc\<rparr>"
  obtain w resp where post: "relay_http host now WriteOK ''POST'' (''http://'' @ relayAddr t @ ''/upload'') (token_header t) enc w = (Inr resp, v)"
    "StatusCode resp = 200" "decode_upload_response (RespBody resp) = Some fid"
    using assms(1) unfolding uploaded_def assms(2) by blast
  then have up: "http_reply_of (fst (upload now WriteOK ?r w)) = resp" "snd (upload now WriteOK ?r w) = v"
    unfolding relay_http_upload [OF assms(3)] by (cases "upload now WriteOK ?r w"; simp)+
  have "checkMediaAuth w ?r \<and> length enc \<le> maxUploadSize"
  proof (rule ccontr)
    assume "\<not> ?thesis"
    then have "StatusCode (http_reply_of (fst (upload now WriteOK ?r w))) \<noteq> 200"
      by (auto simp: upload_def read_limited_def http_reply_of_def)
    then show False using up(1) post(2) by simp
  qed
  then have "upload now WriteOK ?r w = (JsonOK j, w\<lparr>media_files := fmupd (hex_EncodeToString (sha256_Sum256 enc)) (enc, now) (media_files w)\<rparr>)"
    unfolding j_def by (intro upload_accepted) (auto simp: checkMediaAuth_def split: if_splits)
  with up have v: "v = w\<lparr>media_files := fmupd (hex_EncodeToString (sha256_Sum256 enc)) (enc, now) (media_files w)\<rparr>"
    and "RespBody resp = Inr (bytes_of_string j)" by (auto simp: http_reply_of_def)
  then show "fid = hex_EncodeToString (sha256_Sum256 enc)"
    using post(3) decode_upload_ok [of "sha256_Sum256 enc", folded j_def] by (simp only: option.inject)
  then show "fmlookup (media_files v) fid = Some (enc, now)" by (simp add: v)
qed

section \<open>Two daemons and a relay\<close>

definition media_env :: "nat \<Rightarrow> (media_server, int \<times> queue_rows, transfer_rows) env" where
  "media_env n = quiet_env ack_exch (relay_http ''9.9.9.9'' 0 WriteOK) (1, each_once n, [])"

definition media_daemon :: "string \<Rightarrow> KeyPair \<Rightarrow> (int \<times> queue_rows, transfer_rows) Daemon" where
  "media_daemon dir kp = (blank_daemon dir)\<lparr>identity := Some kp, engine := NewDNSClientEngine [''9.9.9.9:53''] ''z''\<rparr>"

definition picture :: "KeyPair \<Rightarrow> SendMediaRequest" where
  "picture kp = \<lparr>smr_PeerPubkey = base64_EncodeToString (PublicKey kp), smr_MediaData = [1, 2, 3], smr_Filename = ''f'', smr_MimeType = ''image/png''\<rparr>"

lemma media_relay_addr: "relayAddr (NewTCPTransport ''9.9.9.9:53'' tok) = ''9.9.9.9'' @ '':9877''"
  by (simp add: NewTCPTransport_def net_SplitHostPort_def last_index_def split_tail_def)

lemma media_daemon_simps:
  "GetRelays (engine (media_daemon dir kp)) = [''9.9.9.9:53'']" "discoverActiveRelays (engine (media_daemon dir kp)) = [''9.9.9.9:53'']"
  "identity (media_daemon dir kp) = Some kp" "token_bytes (media_daemon dir kp) = []"
  by (simp_all add: media_daemon_def blank_daemon_def discoverActiveRelays_def GetRelays_def NewDNSClientEngine_def token_bytes_def)

lemma media_env_simps:
  "env_crypto (media_env n) = plain_crypto" "env_http (media_env n) = relay_http ''9.9.9.9'' 0 WriteOK"
  "env_exch (media_env n) = ack_exch" "env_now (media_env n) w = (0, w)" "env_random (media_env n) w = (Inr (\<lambda>_. 7), w)"
  "env_write (media_env n) w = (WriteOK, w)" "env_run (media_env n) w = ((1, each_once n, []), w)"
  "snd (env_range (media_env n) S w) = w"
  by (simp_all add: media_env_def quiet_env_def)


lemma picture_sent:
  assumes "GenerateKeyPair plain_crypto ra = Inr ka" "GenerateKeyPair plain_crypto rb = Inr kb"
  shows "\<exists>n resp a' w'. Daemon_SendMedia (media_env n) (picture kb) (media_daemon ''/a'' ka) \<lparr>media_token = '''', media_files = fmempty\<rparr>
      = (Reply resp, a', w') \<and> media_token w' = ''''"
proof -
  let ?m = "\<lparr>media_token = '''', media_files = fmempty\<rparr>" and ?peer = "base64_EncodeToString (PublicKey kb)"
  have ok: "keypair_ok plain_crypto ka" "keypair_ok plain_crypto kb" using assms GenerateKeyPair_ok crypto_doc_plain by blast+
  obtain s where s: "SharedSecret plain_crypto (PrivateKey ka) (PublicKey kb) = Inr s" "length s = 32"
    using SharedSecret_agree [OF crypto_doc_plain ok] by blast
  then have sec: "peer_secret plain_crypto ka ?peer = Inr s" by (simp add: peer_secret_def b64.dec_enc)
  obtain key where key: "GenerateFileKey (Inr (\<lambda>_. 7)) = Inr key" using GenerateFileKey_total by blast
  obtain enc where enc: "EncryptFile (Inr (\<lambda>_. 7)) key [1, 2, 3] = Inr enc"
    using EncryptFile_total GenerateFileKey_ok [OF key] by blast
  let ?id = "hex_EncodeToString (sha256_Sum256 enc)"
  define mid where "mid = draw_id (Inr (\<lambda>_. 7))"
  define meta where "meta = metadata mid (sint (time_UnixMilli 0)) MediaTypeFile ''f'' ''image/png'' [1, 2, 3] key ?id"
  define m' where "m' = ?m\<lparr>media_files := fmupd ?id (enc, 0) (media_files ?m)\<rparr>"
  define i where "i = int_hex (unix_nano 0)"
  define body where "body = MediaMessage_Marshal (meta\<lparr>MediaMessage.Timestamp := sint (time_UnixMilli 0), MessageID := i\<rparr>)"
  obtain c nn where e: "EncryptMessage plain_crypto (Inr (\<lambda>_. 7)) s body = Inr (c, nn)" "nn \<noteq> []"
    using s(2) by (simp add: EncryptMessage_def NonceLength_def)
  define n where "n = length (ChunkMessage 1 (nn @ c) (GetChunkSize (NewDNSClientEngine [''9.9.9.9:53''] ''z'')) ?peer)"
  have up: "upload_media (media_env n) ''9.9.9.9:53'' mid [1, 2, 3] ''f'' ''image/png'' MediaTypeFile d ?m = (Inr meta, m')"
    if "token_bytes d = []" for d
    unfolding upload_media_def media_env_simps prod.case meta_def m'_def that
    by (rule tcp_send_accepted [OF media_relay_addr _ _ key enc]) (simp_all add: MediaMaxHardCap_def)
  have send: "\<exists>k. engine_send (media_env n) (nn @ c) ?peer d m' = (Some (1, Inr k), m')"
    if "engine d = NewDNSClientEngine [''9.9.9.9:53''] ''z''" for d
    by (rule engine_send_ack [where rl = "''9.9.9.9:53''"])
      (use e(2) that in \<open>simp_all add: media_env_simps n_def discoverActiveRelays_def NewDNSClientEngine_def\<close>)
  let ?t = "\<lambda>t. t\<lparr>mt_Status := TransferSending, mt_Progress := 10\<rparr>" and ?h = "\<lambda>t. t\<lparr>mt_Progress := 50\<rparr>"
  define d2 where "d2 = change_transfer i ?t ((media_daemon ''/a'' ka)\<lparr>transfers := fmupd i (new_transfer 0) (transfers (media_daemon ''/a'' ka))\<rparr>)"
  have d2: "token_bytes d2 = []" "engine (change_transfer i ?h d2) = NewDNSClientEngine [''9.9.9.9:53''] ''z''"
    "identity (change_transfer i ?h d2) = Some ka"
    by (simp_all add: d2_def token_bytes_def media_daemon_def blank_daemon_def)
  obtain k where k: "engine_send (media_env n) (nn @ c) ?peer (change_transfer i ?h d2) m' = (Some (1, Inr k), m')"
    using send [OF d2(2)] by blast
  have pk: "smr_PeerPubkey (picture kb) = ?peer" by (simp add: picture_def)
  have seal: "seal_metadata (media_env n) ka ?peer (meta\<lparr>MediaMessage.Timestamp := sint (time_UnixMilli 0), MessageID := i\<rparr>) m' = (Inr (nn, c), m')"
    unfolding seal_metadata_def media_env_simps sec sum.case prod.case e(1) [unfolded body_def] ..
  have "\<exists>resp a'. send_media_metadata (media_env n) i (picture kb) meta est (change_transfer i ?h d2) m' = (Reply resp, a', m')" for est
    unfolding send_media_metadata_def media_env_simps prod.case d2(3) option.case pk seal sum.case k by blast
  then obtain resp a' where m: "send_media_metadata (media_env n) i (picture kb) meta 5 (change_transfer i ?h d2) m' = (Reply resp, a', m')" by blast
  have "Daemon_SendMedia (media_env n) (picture kb) (media_daemon ''/a'' ka) ?m = (Reply resp, a', m')"
    using m up [OF d2(1)]
    by (simp add: Daemon_SendMedia_def Let_def media_env_simps media_daemon_simps picture_def d2_def i_def mid_def int32_def)
  moreover have "media_token m' = ''''" by (simp add: m'_def)
  ultimately show ?thesis by blast
qed

theorem media_message_delivered_witness:
  "\<exists>ka kb n resp a' w' payload b' w3. GenerateKeyPair plain_crypto (Inr (\<lambda>_. 1)) = Inr ka \<and> GenerateKeyPair plain_crypto (Inr (\<lambda>_. 2)) = Inr kb
    \<and> Daemon_SendMedia (media_env n) (picture kb) (media_daemon ''/a'' ka) \<lparr>media_token = '''', media_files = fmempty\<rparr> = (Reply resp, a', w')
    \<and> (let x = base64_EncodeToString (PublicKey ka);
           b = (media_daemon ''/b'' kb)\<lparr>peers := fmupd x (Some \<lparr>pe_Nickname = ''Ann'', pe_Pubkey = x\<rparr>) fmempty\<rparr>;
           pm = \<lparr>pm_MsgID = 1, Data = payload, Timestamp = 0, Sequence = 0\<rparr>
       in poll_one (media_env n) kb pm b w' = (Reply None, b', w3) \<and> fmlookup (disk b') (media_path b pm ''image/png'') = Some [1, 2, 3])"
proof -
  obtain ka kb where k: "GenerateKeyPair plain_crypto (Inr (\<lambda>_. 1)) = Inr ka" "GenerateKeyPair plain_crypto (Inr (\<lambda>_. 2)) = Inr kb"
    using GenerateKeyPair_total [OF crypto_doc_plain] by meson
  obtain n resp a' w' where send: "Daemon_SendMedia (media_env n) (picture kb) (media_daemon ''/a'' ka) \<lparr>media_token = '''', media_files = fmempty\<rparr>
      = (Reply resp, a', w')" "media_token w' = ''''"
    using picture_sent [OF k] by blast
  define x where "x = base64_EncodeToString (PublicKey ka)"
  define b where "b = (media_daemon ''/b'' kb)\<lparr>peers := fmupd x (Some \<lparr>pe_Nickname = ''Ann'', pe_Pubkey = x\<rparr>) fmempty\<rparr>"
  have pre: "crypto_doc (env_crypto (media_env n))" "GenerateKeyPair (env_crypto (media_env n)) (Inr (\<lambda>_. 1)) = Inr ka"
    "GenerateKeyPair (env_crypto (media_env n)) (Inr (\<lambda>_. 2)) = Inr kb" "identity (media_daemon ''/a'' ka) = Some ka"
    "smr_PeerPubkey (picture kb) = base64_EncodeToString (PublicKey kb)" "utf8_valid (smr_Filename (picture kb))"
    "utf8_valid (smr_MimeType (picture kb))" "smr_MediaData (picture kb) \<noteq> []"
    using k crypto_doc_plain by (auto simp: media_env_simps media_daemon_simps picture_def intro!: utf8_valid_ascii)
  obtain payload enc fileID relay rs v where rl: "GetRelays (engine (media_daemon ''/a'' ka)) = relay # rs"
    and up: "uploaded (media_env n) (NewTCPTransport relay (token_bytes (media_daemon ''/a'' ka))) enc fileID v"
    and es: "\<exists>mid k. engine_send (media_env n) payload (smr_PeerPubkey (picture kb)) (media_daemon ''/a'' ka)
        (snd (env_random (media_env n) (snd (env_now (media_env n) v)))) = (Some (mid, Inr k), w')"
    and poll: "\<And>(env' :: (media_server, int \<times> queue_rows, transfer_rows) env) b pm w2 relay' rs'.
        env_crypto env' = env_crypto (media_env n) \<Longrightarrow> range_ok env' \<Longrightarrow> daemon_ok b \<Longrightarrow> Data pm = payload
        \<Longrightarrow> opened_only_by (env_crypto (media_env n)) kb x payload (peers b)
        \<Longrightarrow> fileID \<noteq> '''' \<Longrightarrow> utf8_valid fileID \<Longrightarrow> GetRelays (engine b) = relay' # rs'
        \<Longrightarrow> fst (DownloadFile (env_http env') (NewTCPTransport relay' (token_bytes b)) fileID
               (snd (env_range env' (fmdom (peers b)) w2))) = Inr enc
        \<Longrightarrow> (\<forall>v. fst (env_write env' v) = WriteOK)
        \<Longrightarrow> \<exists>b' w3. poll_one env' kb pm b w2 = (Reply None, b', w3)
              \<and> fmlookup (disk b') (media_path b pm (smr_MimeType (picture kb))) = Some (smr_MediaData (picture kb))"
    using media_message_delivered [OF pre send(1), where 'v = media_server and 'r = "int \<times> queue_rows" and 'u = transfer_rows]
    unfolding x_def by blast
  have relay: "relay = ''9.9.9.9:53''" using rl by (simp add: media_daemon_simps)
  obtain res where es': "engine_send (media_env n) payload (smr_PeerPubkey (picture kb)) (media_daemon ''/a'' ka) v = (Some res, w')"
    using es by (auto simp: media_env_simps)
  have v: "v = w'" by (rule engine_send_ack_world [OF media_env_simps(3,7) _ es', symmetric]) (simp add: media_daemon_simps)
  note stored = relay_http_uploaded [OF up [unfolded relay] media_env_simps(2) media_relay_addr, unfolded v]
  let ?pm = "\<lparr>pm_MsgID = 1, Data = payload, Timestamp = 0, Sequence = 0\<rparr>"
  have bl: "GetRelays (engine b) = [''9.9.9.9:53'']" "token_bytes b = []" "daemon_ok b"
    using blank_daemon_ok [OF k(2), of "fmupd x (Some \<lparr>pe_Nickname = ''Ann'', pe_Pubkey = x\<rparr>) fmempty" "''/b''"]
    by (simp_all add: b_def media_daemon_def GetRelays_def NewDNSClientEngine_def token_bytes_def blank_daemon_def daemon_ok_def)
  have "\<exists>b' w3. poll_one (media_env n) kb ?pm b w' = (Reply None, b', w3)
      \<and> fmlookup (disk b') (media_path b ?pm (smr_MimeType (picture kb))) = Some (smr_MediaData (picture kb))"
  proof (rule poll [OF refl _ bl(3) _ _ _ _ bl(1)])
    show "range_ok (media_env n)" by (simp add: media_env_def range_ok_quiet)
    show "opened_only_by (env_crypto (media_env n)) kb x payload (peers b)" by (simp add: opened_only_by_def b_def)
    show "fileID \<noteq> ''''" unfolding stored(1) by (metis length_0_conv length_hex length_sha256 mult_is_0 zero_neq_numeral)
    show "utf8_valid fileID" unfolding stored(1) by (rule utf8_valid_plain [OF plain_hex])
    have "DownloadFile (relay_http ''9.9.9.9'' 0 WriteOK) (NewTCPTransport ''9.9.9.9:53'' (token_bytes b)) fileID w' = (Inr enc, w')"
      unfolding stored(1) by (rule tcp_download_stored [OF media_relay_addr]) (use send(2) stored in simp_all)
    then show "fst (DownloadFile (env_http (media_env n)) (NewTCPTransport ''9.9.9.9:53'' (token_bytes b)) fileID
        (snd (env_range (media_env n) (fmdom (peers b)) w'))) = Inr enc" by (simp add: media_env_simps)
  qed (simp_all add: media_env_simps)
  then obtain b' w3 where "poll_one (media_env n) kb ?pm b w' = (Reply None, b', w3)" "fmlookup (disk b') (media_path b ?pm ''image/png'') = Some [1, 2, 3]"
    by (auto simp: picture_def)
  then show ?thesis unfolding Let_def b_def x_def using k send(1) by blast
qed

end
