(* ===== verification/Daemon_Invitations.thy ===== *)
theory Daemon_Invitations
  imports Daemon_Delivery
begin

text \<open>
  How two daemons get to know each other: one generates an invite code, the other joins with it and
  sends a greeting, and the first reads the greeting when it polls.
\<close>

section \<open>The greeting\<close>

lemma plain_base64: "list_all plain_char (base64_EncodeToString b)"
proof -
  have "list_all plain_char (CHR ''='' # base64_alphabet)" by (simp add: base64_alphabet_def plain_char_def)
  then show ?thesis using set_base64 [of b] by (auto simp: list_all_iff)
qed

definition hello_members :: "string \<Rightarrow> string \<Rightarrow> (string \<times> json) list" where
  "hello_members pubkey nickname = [(''type'', JStr ''hello''), (''pubkey'', JStr pubkey), (''nickname'', JStr nickname)]"

text \<open>With a key and a nickname that need no escaping the greeting is the JSON text that is meant.\<close>

lemma hello_payload_json:
  assumes "list_all plain_char pubkey" "list_all plain_char nickname"
  shows "hello_payload pubkey nickname = json_Marshal (JObj (hello_members pubkey nickname))"
proof -
  have "json_escape ''type'' = ''type''" "json_escape ''hello'' = ''hello''" "json_escape ''pubkey'' = ''pubkey''"
    "json_escape ''nickname'' = ''nickname''"
    by (rule json_escape_plain, simp add: plain_char_def)+
  then show ?thesis using assms
    by (simp add: hello_payload_def json_Marshal_def hello_members_def json_quoted_def json_escape_plain)
qed

lemma hello_struct_members:
  assumes "list_all plain_char pubkey" "list_all plain_char nickname"
  shows "struct_members (hello_payload pubkey nickname) = Some (hello_members pubkey nickname)"
  unfolding hello_payload_json [OF assms]
  by (rule struct_members_Marshal) (use assms in \<open>simp add: hello_members_def utf8_field field_char_def utf8_valid_plain\<close>)

lemma decode_hello_payload:
  assumes "list_all plain_char pubkey" "list_all plain_char nickname"
  shows "decode_hello (hello_payload pubkey nickname) = Some (''hello'', pubkey, nickname)"
  by (simp add: decode_hello_def hello_struct_members [OF assms] hello_members_def key_matches_field field_char_def)

text \<open>A greeting is none of the daemons' own messages and is handed out as text.\<close>

lemma deliver_hello:
  assumes "list_all plain_char pubkey" "list_all plain_char nickname"
  defines "p \<equiv> bytes_of_string (hello_payload pubkey nickname)"
  shows "deliver env pm peer p d w = (Reply (Some (received pm peer p '''')), d, w)"
proof -
  have ms: "struct_members (string_of_bytes p) = Some (hello_members pubkey nickname)"
    using hello_struct_members [OF assms(1,2)] by (simp add: p_def)
  note fields = hello_members_def key_matches_field field_char_def
  have "decode_group_key p = None" by (simp add: decode_group_key_def ms fields)
  moreover have "decode_group_meta p = None" by (auto simp: decode_group_meta_def ms fields split: option.splits)
  moreover have "\<exists>x. decode_profile_msg (string_of_bytes p) = Some x \<and> pm_Type x = ''hello''"
    by (simp add: decode_profile_msg_def ms fields)
  moreover have "\<exists>x. decode_media_meta (string_of_bytes p) = Some x \<and> mm_FileKeyB64 x = ''''"
    by (simp add: decode_media_meta_def ms fields)
  ultimately show ?thesis
    by (auto simp: deliver_def open_group_message_def handle_typed_def handle_media_def Let_def)
qed

section \<open>Inviting and joining\<close>

lemma invite_cases:
  assumes "Daemon_GenerateInviteCode env nick a w = (Reply invite, a', w')" "identity a = Some ka"
  obtains rnd nickname nonce now where "GenerateInviteCode rnd (PublicKey ka) nickname = Inr (invite, nonce)"
    "nickname = (if nick = '''' then getMyNickname a else nick)"
    "a' = a\<lparr>pendingHellos := fmupd (hex_EncodeToString nonce)
       \<lparr>he_nonce = nonce, he_pubkey = base64_EncodeToString (PublicKey ka), he_nickname = nickname, he_createdAt = now\<rparr> (pendingHellos a)\<rparr>"
proof -
  have "getMyNickname a \<noteq> ''''" by (auto simp: getMyNickname_def split: option.splits)
  then show ?thesis using assms that
    by (auto simp: Daemon_GenerateInviteCode_def Let_def split: prod.splits sum.splits if_splits)
qed

lemma savePeers_keeps:
  "savePeers env d w = (d', w') \<Longrightarrow> peers d' = peers d \<and> engine d' = engine d \<and> dm_queue d' = dm_queue d
     \<and> identity d' = identity d \<and> pendingHellos d' = pendingHellos d"
  by (auto simp: savePeers_def daemon_WriteFile_def split: prod.splits)

lemma join_cases:
  assumes "Daemon_JoinViaCode env invite b v = (Reply (nickname, remote), b', v')" "identity b = Some kb"
    and "ParseInviteCode invite = Inr (pk, nonce, nick)"
  obtains rnd hello w where "nickname = nick" "remote = base64_EncodeToString pk"
    "EncryptHello (env_crypto env) rnd (DeriveHelloKey (env_crypto env) nonce)
       (bytes_of_string (hello_payload (base64_EncodeToString (PublicKey kb)) (getMyNickname b))) = Inr hello"
    "fmlookup (peers b') remote = Some (Some \<lparr>pe_Nickname = nick, pe_Pubkey = remote\<rparr>)"
    "(\<exists>mid n. engine_send env hello remote b w = (Some (mid, Inr n), v'))
     \<or> (\<exists>r. OfflineQueue_Enqueue (env_queue env) remote hello (dm_queue b) = (r, dm_queue b'))"
proof -
  let ?r = "base64_EncodeToString pk"
  obtain d1 w1 where d1: "savePeers env (b\<lparr>peers := fmupd ?r (Some \<lparr>pe_Nickname = nick, pe_Pubkey = ?r\<rparr>) (peers b)\<rparr>) v = (d1, w1)"
    by fastforce
  note k = savePeers_keeps [OF d1]
  obtain rnd w2 where rnd: "env_random env w1 = (rnd, w2)" by fastforce
  note join = assms(1) [unfolded Daemon_JoinViaCode_def assms(2,3) sum.case prod.case Let_def d1 option.case rnd]
  from join obtain hello where hello: "EncryptHello (env_crypto env) rnd (DeriveHelloKey (env_crypto env) nonce)
       (bytes_of_string (hello_payload (base64_EncodeToString (PublicKey kb)) (getMyNickname b))) = Inr hello"
    by (auto split: sum.splits)
  obtain r w3 where sent: "engine_send env hello ?r d1 w2 = (r, w3)" by fastforce
  have "engine b = engine d1" using k by simp
  then have sent': "engine_send env hello ?r b w2 = (r, w3)" by (simp only: engine_send_cong [of b d1] sent)
  have eq: "nickname = nick \<and> remote = ?r \<and> peers b' = peers d1 \<and> ((\<exists>mid n. r = Some (mid, Inr n) \<and> v' = w3)
      \<or> (\<exists>q. OfflineQueue_Enqueue (env_queue env) ?r hello (dm_queue d1) = (q, dm_queue b')))"
    using join by (auto simp: hello sent split: option.splits sum.splits prod.splits) (metis prod.collapse)+
  show ?thesis
  proof (rule that [of rnd hello w2])
    show "nickname = nick" "remote = ?r" using eq by blast+
    show "fmlookup (peers b') remote = Some (Some \<lparr>pe_Nickname = nick, pe_Pubkey = remote\<rparr>)" using eq k by simp
    show "(\<exists>mid n. engine_send env hello remote b w2 = (Some (mid, Inr n), v'))
     \<or> (\<exists>r. OfflineQueue_Enqueue (env_queue env) remote hello (dm_queue b) = (r, dm_queue b'))"
      using eq sent' k by auto
  qed (rule hello)
qed

section \<open>Reading the greeting\<close>

lemma try_peers_none:
  assumes "no_nil ps" "\<And>k s p. k \<in> set ks \<Longrightarrow> peer_secret ops kp k = Inr s \<Longrightarrow> DecryptMessage ops s n c \<noteq> Inr p"
  shows "try_peers ops kp n c ps ks = Reply None"
  using assms(2)
proof (induction ks)
  case (Cons k ks)
  have "try_peers ops kp n c ps ks = Reply None" using Cons.prems by (intro Cons.IH) auto
  moreover have "\<exists>e. DecryptMessage ops s n c = Inl e" if "peer_secret ops kp k = Inr s" for s
    using Cons.prems [of k s] that by (cases "DecryptMessage ops s n c") auto
  ultimately show ?case using no_nil_lookup [OF assms(1)] by (auto split: sum.splits)
qed simp

text \<open>An invitation opens a greeting when it is not too old and its key decrypts it.\<close>

definition opens_hello :: "crypto_ops \<Rightarrow> bytes \<Rightarrow> helloEntry \<Rightarrow> bool" where
  "opens_hello ops raw entry \<longleftrightarrow> (\<exists>p. DecryptHello ops (DeriveHelloKey ops (he_nonce entry)) raw = Inr p)"

lemma try_hellos_append:
  "try_hellos env raw (xs @ ys) found d w =
     (case try_hellos env raw xs found d w of (f, d', w') \<Rightarrow> try_hellos env raw ys f d' w')"
  by (induction xs arbitrary: found d w) (auto split: option.splits prod.splits sum.splits)

lemma try_hellos_others:
  assumes "\<And>k e. k \<in> set hs \<Longrightarrow> fmlookup (pendingHellos d) k = Some e \<Longrightarrow> \<not> opens_hello (env_crypto env) raw e"
  shows "\<exists>ph w'. try_hellos env raw hs found d w = (found, d\<lparr>pendingHellos := ph\<rparr>, w')
    \<and> (\<forall>k. k \<notin> set hs \<longrightarrow> fmlookup ph k = fmlookup (pendingHellos d) k)"
  using assms
proof (induction hs arbitrary: d w)
  case Nil
  then show ?case by (auto intro: exI [of _ "pendingHellos d"])
next
  case (Cons h hs)
  show ?case
  proof (cases "fmlookup (pendingHellos d) h")
    case None
    with Cons.IH [of d w] Cons.prems show ?thesis by fastforce
  next
    case (Some e)
    obtain now w1 where now: "env_now env w = (now, w1)" by fastforce
    obtain x where x: "DecryptHello (env_crypto env) (DeriveHelloKey (env_crypto env) (he_nonce e)) raw = Inl x"
      using Cons.prems [of h e] Some by (cases "DecryptHello (env_crypto env) (DeriveHelloKey (env_crypto env) (he_nonce e)) raw") (auto simp: opens_hello_def)
    let ?d = "d\<lparr>pendingHellos := fmdrop h (pendingHellos d)\<rparr>"
    have "\<not> opens_hello (env_crypto env) raw e" if "k \<in> set hs" "fmlookup (pendingHellos ?d) k = Some e" for k e
      using Cons.prems [of k e] that by (auto split: if_splits)
    then obtain ph w2 where old: "try_hellos env raw hs found ?d w1 = (found, d\<lparr>pendingHellos := ph\<rparr>, w2)"
      "\<forall>k. k \<notin> set hs \<longrightarrow> fmlookup ph k = fmlookup (pendingHellos ?d) k"
      using Cons.IH [of ?d w1] by auto
    obtain ph' w3 where new: "try_hellos env raw hs found d w1 = (found, d\<lparr>pendingHellos := ph'\<rparr>, w3)"
      "\<forall>k. k \<notin> set hs \<longrightarrow> fmlookup ph' k = fmlookup (pendingHellos d) k"
      using Cons.IH [of d w1] Cons.prems by auto
    show ?thesis
    proof (cases "time_Sub now (he_createdAt e) > hello_ttl")
      case True
      then have "try_hellos env raw (h # hs) found d w = (found, d\<lparr>pendingHellos := ph\<rparr>, w2)" using Some now old(1) by simp
      moreover have "\<forall>k. k \<notin> set (h # hs) \<longrightarrow> fmlookup ph k = fmlookup (pendingHellos d) k" using old(2) by simp
      ultimately show ?thesis by blast
    next
      case False
      then have "try_hellos env raw (h # hs) found d w = (found, d\<lparr>pendingHellos := ph'\<rparr>, w3)" using Some now x new(1) by simp
      moreover have "\<forall>k. k \<notin> set (h # hs) \<longrightarrow> fmlookup ph' k = fmlookup (pendingHellos d) k" using new(2) by simp
      ultimately show ?thesis by blast
    qed
  qed
qed

lemma try_hellos_accepts:
  assumes "distinct hs" "h \<in> set hs" "fmlookup (pendingHellos d) h = Some e"
    and "\<And>k e. k \<noteq> h \<Longrightarrow> fmlookup (pendingHellos d) k = Some e \<Longrightarrow> \<not> opens_hello (env_crypto env) raw e"
    and "\<And>v. time_Sub (fst (env_now env v)) (he_createdAt e) \<le> hello_ttl"
    and "DecryptHello (env_crypto env) (DeriveHelloKey (env_crypto env) (he_nonce e)) raw = Inr p"
    and "decode_hello (string_of_bytes p) = Some (''hello'', pubkey, nickname)" "pubkey \<noteq> ''''" "nickname \<noteq> ''''"
  shows "\<exists>d' w'. try_hellos env raw hs None d w = (Some (pubkey, p), d', w')
    \<and> fmlookup (peers d') pubkey = Some (Some \<lparr>pe_Nickname = nickname, pe_Pubkey = pubkey\<rparr>)
    \<and> fmlookup (pendingHellos d') h = None"
proof -
  obtain xs ys where hs: "hs = xs @ h # ys" "h \<notin> set xs" using split_list_first [OF assms(2)] by blast
  have ys: "h \<notin> set ys" "set xs \<inter> set ys = {}" using assms(1) hs(1) by auto
  have "\<not> opens_hello (env_crypto env) raw e" if "k \<in> set xs" "fmlookup (pendingHellos d) k = Some e" for k e
    using assms(4) [of k e] that hs(2) by blast
  then obtain ph w1 where xs: "try_hellos env raw xs None d w = (None, d\<lparr>pendingHellos := ph\<rparr>, w1)"
    and ph: "\<forall>k. k \<notin> set xs \<longrightarrow> fmlookup ph k = fmlookup (pendingHellos d) k"
    using try_hellos_others [of xs d env raw None w] by blast
  obtain now w2 where now: "env_now env w1 = (now, w2)" by fastforce
  have fresh: "\<not> time_Sub now (he_createdAt e) > hello_ttl" using assms(5) [of w1] now by simp
  obtain d1 w3 where save: "savePeers env (d\<lparr>pendingHellos := ph, peers := fmupd pubkey (Some \<lparr>pe_Nickname = nickname, pe_Pubkey = pubkey\<rparr>) (peers d)\<rparr>) w2 = (d1, w3)"
    by fastforce
  note k = savePeers_keeps [OF save]
  let ?d2 = "d1\<lparr>pendingHellos := fmdrop h (pendingHellos d1)\<rparr>"
  have mid: "try_hellos env raw (h # ys) None (d\<lparr>pendingHellos := ph\<rparr>) w1 = try_hellos env raw ys (Some (pubkey, p)) ?d2 w3"
    using ph hs(2) assms(3,6-9) now fresh save by (simp add: accept_hello_def)
  have "\<not> opens_hello (env_crypto env) raw e" if e: "k \<in> set ys" "fmlookup (pendingHellos ?d2) k = Some e" for k e
  proof -
    have "k \<noteq> h" "k \<notin> set xs" using e(1) ys by auto
    then show ?thesis using e(2) ph k assms(4) [of k e] by simp
  qed
  then obtain ph2 w4 where "try_hellos env raw ys (Some (pubkey, p)) ?d2 w3 = (Some (pubkey, p), ?d2\<lparr>pendingHellos := ph2\<rparr>, w4)"
    and "\<forall>k. k \<notin> set ys \<longrightarrow> fmlookup ph2 k = fmlookup (pendingHellos ?d2) k"
    using try_hellos_others [of ys ?d2 env raw "Some (pubkey, p)" w3] by blast
  then show ?thesis using xs mid ys(1) k by (simp add: hs(1) try_hellos_append)
qed

text \<open>No key shared with a peer opens the payload.\<close>

definition unopened :: "crypto_ops \<Rightarrow> KeyPair \<Rightarrow> bytes \<Rightarrow> (string, PeerInfoEntry option) fmap \<Rightarrow> bool" where
  "unopened ops kp raw ps \<longleftrightarrow> (\<forall>k s p. fmlookup ps k \<noteq> None \<longrightarrow> peer_secret ops kp k = Inr s \<longrightarrow>
     DecryptMessage ops s (take NonceLength raw) (drop NonceLength raw) \<noteq> Inr p)"

lemma poll_one_hello:
  assumes "range_ok env" "daemon_ok d" "Data pm = raw" "24 \<le> length raw" "unopened (env_crypto env) kp raw (peers d)"
    and "fmlookup (pendingHellos d) h = Some e"
    and "\<And>k e. k \<noteq> h \<Longrightarrow> fmlookup (pendingHellos d) k = Some e \<Longrightarrow> \<not> opens_hello (env_crypto env) raw e"
    and "\<And>v. time_Sub (fst (env_now env v)) (he_createdAt e) \<le> hello_ttl"
    and "DecryptHello (env_crypto env) (DeriveHelloKey (env_crypto env) (he_nonce e)) raw = Inr (bytes_of_string (hello_payload pubkey nickname))"
    and "list_all plain_char pubkey" "list_all plain_char nickname" "pubkey \<noteq> ''''" "nickname \<noteq> ''''"
  shows "\<exists>d' w'. poll_one env kp pm d w = (Reply (Some (received pm pubkey (bytes_of_string (hello_payload pubkey nickname)) '''')), d', w')
    \<and> fmlookup (peers d') pubkey = Some (Some \<lparr>pe_Nickname = nickname, pe_Pubkey = pubkey\<rparr>)
    \<and> fmlookup (pendingHellos d') h = None"
proof -
  obtain ks w1 where ks: "env_range env (fmdom (peers d)) w = (ks, w1)" by fastforce
  obtain hs w2 where hs: "env_range env (fmdom (pendingHellos d)) w1 = (hs, w2)" by fastforce
  have "try_peers (env_crypto env) kp (take NonceLength raw) (drop NonceLength raw) (peers d) ks = Reply None"
  proof (rule try_peers_none)
    show "no_nil (peers d)" using assms(2) by (simp add: daemon_ok_def)
    fix k s p assume "k \<in> set ks" "peer_secret (env_crypto env) kp k = Inr s"
    then show "DecryptMessage (env_crypto env) s (take NonceLength raw) (drop NonceLength raw) \<noteq> Inr p"
      using assms(5) range_okD(1) [OF assms(1) ks] by (auto simp: unopened_def fmlookup_dom_iff)
  qed
  moreover have "\<exists>d' w'. try_hellos env raw hs None d w2 = (Some (pubkey, bytes_of_string (hello_payload pubkey nickname)), d', w')
    \<and> fmlookup (peers d') pubkey = Some (Some \<lparr>pe_Nickname = nickname, pe_Pubkey = pubkey\<rparr>) \<and> fmlookup (pendingHellos d') h = None"
  proof (rule try_hellos_accepts [OF range_okD(2) [OF assms(1) hs] _ assms(6) _ assms(8,9) _ assms(12,13)])
    show "h \<in> set hs" using range_okD(1) [OF assms(1) hs] assms(6) by (auto simp: fmlookup_dom_iff)
    show "decode_hello (string_of_bytes (bytes_of_string (hello_payload pubkey nickname))) = Some (''hello'', pubkey, nickname)"
      by (simp add: decode_hello_payload [OF assms(10,11)])
  qed (rule assms(7))
  ultimately show ?thesis
    using ks hs assms(3,4) by (auto simp: poll_one_def Let_def NonceLength_def deliver_hello [OF assms(10,11)])
qed

section \<open>Properties\<close>

text \<open>
  (C12) An invitation connects two users: when one daemon hands out an invite code and another joins
  with it, the second has the first as a peer, under the nickname of the code, and has sent or
  queued a greeting; and when the first daemon polls this greeting within a day, it has the
  second as a peer under the second's nickname, hands the greeting out as the first message of the new
  peer and forgets the invitation. No peer's key and no other open invitation may open the greeting,
  and the nickname must consist of characters that need no escaping in JSON.
\<close>

theorem invitation_connects:
  assumes "crypto_doc (env_crypto env)" "GenerateKeyPair (env_crypto env) ra = Inr ka" "GenerateKeyPair (env_crypto env) rb = Inr kb"
    and "identity a = Some ka" "identity b = Some kb" "env_crypto env' = env_crypto env"
    and "Daemon_GenerateInviteCode env nick a w = (Reply invite, a', w')"
    and "Daemon_JoinViaCode env' invite b v = (Reply (nickname, remote), b', v')"
    and "list_all plain_char (getMyNickname b)"
  shows "\<exists>h entry greeting.
     nickname = (if nick = '''' then getMyNickname a else nick) \<and> remote = base64_EncodeToString (PublicKey ka)
   \<and> pendingHellos a' = fmupd h entry (pendingHellos a)
   \<and> fmlookup (peers b') remote = Some (Some \<lparr>pe_Nickname = nickname, pe_Pubkey = remote\<rparr>)
   \<and> ((\<exists>mid n v1. engine_send env' greeting remote b v1 = (Some (mid, Inr n), v'))
      \<or> (\<exists>r. OfflineQueue_Enqueue (env_queue env') remote greeting (dm_queue b) = (r, dm_queue b')))
   \<and> (\<forall>(env2 :: ('v, 'r, 'u) env) a2 pm w2. env_crypto env2 = env_crypto env \<longrightarrow> range_ok env2 \<longrightarrow> daemon_ok a2 \<longrightarrow> Data pm = greeting
        \<longrightarrow> unopened (env_crypto env) ka greeting (peers a2) \<longrightarrow> fmlookup (pendingHellos a2) h = Some entry
        \<longrightarrow> (\<forall>k e. k \<noteq> h \<longrightarrow> fmlookup (pendingHellos a2) k = Some e \<longrightarrow> \<not> opens_hello (env_crypto env) greeting e)
        \<longrightarrow> (\<forall>u. time_Sub (fst (env_now env2 u)) (he_createdAt entry) \<le> hello_ttl)
        \<longrightarrow> (let x = base64_EncodeToString (PublicKey kb) in \<exists>a3 w3.
              poll_one env2 ka pm a2 w2 = (Reply (Some (received pm x (bytes_of_string (hello_payload x (getMyNickname b))) '''')), a3, w3)
              \<and> fmlookup (peers a3) x = Some (Some \<lparr>pe_Nickname = getMyNickname b, pe_Pubkey = x\<rparr>)
              \<and> fmlookup (pendingHellos a3) h = None))"
proof -
  let ?x = "base64_EncodeToString (PublicKey kb)" and ?n = "getMyNickname b"
  have kb: "keypair_ok (env_crypto env) kb" using assms(1,3) GenerateKeyPair_ok by blast
  obtain rnd nonce now where code: "GenerateInviteCode rnd (PublicKey ka) (if nick = '''' then getMyNickname a else nick) = Inr (invite, nonce)"
    and a': "a' = a\<lparr>pendingHellos := fmupd (hex_EncodeToString nonce) \<lparr>he_nonce = nonce, he_pubkey = base64_EncodeToString (PublicKey ka),
       he_nickname = (if nick = '''' then getMyNickname a else nick), he_createdAt = now\<rparr> (pendingHellos a)\<rparr>"
    by (rule invite_cases [OF assms(7,4)]) blast
  have parse: "ParseInviteCode invite = Inr (PublicKey ka, nonce, if nick = '''' then getMyNickname a else nick)"
    using invite_roundtrip [OF assms(1) code] by blast
  obtain rnd' hello v1 where join: "nickname = (if nick = '''' then getMyNickname a else nick)" "remote = base64_EncodeToString (PublicKey ka)"
    and enc: "EncryptHello (env_crypto env) rnd' (DeriveHelloKey (env_crypto env) nonce) (bytes_of_string (hello_payload ?x ?n)) = Inr hello"
    and peer: "fmlookup (peers b') remote = Some (Some \<lparr>pe_Nickname = if nick = '''' then getMyNickname a else nick, pe_Pubkey = remote\<rparr>)"
    and sent: "(\<exists>mid n. engine_send env' hello remote b v1 = (Some (mid, Inr n), v'))
      \<or> (\<exists>r. OfflineQueue_Enqueue (env_queue env') remote hello (dm_queue b) = (r, dm_queue b'))"
    using join_cases [OF assms(8,5) parse, unfolded assms(6)] by blast
  have dec: "DecryptHello (env_crypto env) (DeriveHelloKey (env_crypto env) nonce) hello = Inr (bytes_of_string (hello_payload ?x ?n))"
    using DecryptGroup_Encrypt [OF assms(1)] enc by (simp add: DecryptHello_group EncryptHello_group)
  have len: "24 \<le> length hello" using dec by (auto simp: DecryptHello_def split: if_splits)
  have ne: "?x \<noteq> ''''" "?n \<noteq> ''''"
    using kb by (auto simp: keypair_ok_def getMyNickname_def intro!: base64_not_empty split: option.splits)
  define entry where "entry = \<lparr>he_nonce = nonce, he_pubkey = base64_EncodeToString (PublicKey ka),
    he_nickname = (if nick = '''' then getMyNickname a else nick), he_createdAt = now\<rparr>"
  have dec': "DecryptHello (env_crypto env) (DeriveHelloKey (env_crypto env) (he_nonce entry)) hello = Inr (bytes_of_string (hello_payload ?x ?n))"
    using dec by (simp add: entry_def)
  show ?thesis
  proof (rule exI [of _ "hex_EncodeToString nonce"], rule exI [of _ entry], rule exI [of _ hello], intro conjI allI impI)
    show "pendingHellos a' = fmupd (hex_EncodeToString nonce) entry (pendingHellos a)" by (simp add: a' entry_def)
    show "fmlookup (peers b') remote = Some (Some \<lparr>pe_Nickname = nickname, pe_Pubkey = remote\<rparr>)" using peer join(1) by simp
    show "(\<exists>mid n v1. engine_send env' hello remote b v1 = (Some (mid, Inr n), v'))
      \<or> (\<exists>r. OfflineQueue_Enqueue (env_queue env') remote hello (dm_queue b) = (r, dm_queue b'))" using sent by blast
    fix env2 :: "('v, 'r, 'u) env" and a2 :: "('r, 'u) Daemon" and pm :: PolledMessage and w2 :: 'v
    assume e: "env_crypto env2 = env_crypto env" and a2: "range_ok env2" "daemon_ok a2" "Data pm = hello"
      "unopened (env_crypto env) ka hello (peers a2)" "fmlookup (pendingHellos a2) (hex_EncodeToString nonce) = Some entry"
      "\<forall>k e. k \<noteq> hex_EncodeToString nonce \<longrightarrow> fmlookup (pendingHellos a2) k = Some e \<longrightarrow> \<not> opens_hello (env_crypto env) hello e"
      "\<forall>u. time_Sub (fst (env_now env2 u)) (he_createdAt entry) \<le> hello_ttl"
    show "let x = ?x in \<exists>a3 w3. poll_one env2 ka pm a2 w2 = (Reply (Some (received pm x (bytes_of_string (hello_payload x ?n)) '''')), a3, w3)
        \<and> fmlookup (peers a3) x = Some (Some \<lparr>pe_Nickname = ?n, pe_Pubkey = x\<rparr>) \<and> fmlookup (pendingHellos a3) (hex_EncodeToString nonce) = None"
      unfolding Let_def
      by (rule poll_one_hello [where e = entry, OF a2(1-3) len _ a2(5) _ _ _ plain_base64 assms(9) ne])
        (use a2(4,6,7) dec' e in \<open>simp_all\<close>)
  qed (rule join)+
qed

lemma offline_invite:
  assumes "GenerateKeyPair plain_crypto ra = Inr ka"
  shows "\<exists>invite a' nonce h e. Daemon_GenerateInviteCode offline_env ''Ann'' ((blank_daemon dir)\<lparr>identity := Some ka\<rparr>) () = (Reply invite, a', ())
    \<and> ParseInviteCode invite = Inr (PublicKey ka, nonce, ''Ann'')
    \<and> a' = (blank_daemon dir)\<lparr>identity := Some ka, pendingHellos := fmupd h e fmempty\<rparr> \<and> he_createdAt e = 0"
proof -
  have "length (PublicKey ka) = 32" using GenerateKeyPair_ok [OF crypto_doc_plain assms] by (simp add: keypair_ok_def)
  then obtain invite nonce where g: "GenerateInviteCode (Inr (\<lambda>_. 7)) (PublicKey ka) ''Ann'' = Inr (invite, nonce)"
    by (simp add: GenerateInviteCode_def)
  define e where "e = \<lparr>he_nonce = nonce, he_pubkey = base64_EncodeToString (PublicKey ka), he_nickname = ''Ann'', he_createdAt = 0\<rparr>"
  have "Daemon_GenerateInviteCode offline_env ''Ann'' ((blank_daemon dir)\<lparr>identity := Some ka\<rparr>) () =
      (Reply invite, (blank_daemon dir)\<lparr>identity := Some ka, pendingHellos := fmupd (hex_EncodeToString nonce) e fmempty\<rparr>, ())"
    by (simp add: Daemon_GenerateInviteCode_def quiet_env_def g Let_def blank_daemon_def e_def)
  moreover have "ParseInviteCode invite = Inr (PublicKey ka, nonce, ''Ann'')"
    using invite_roundtrip [OF crypto_doc_plain g] by blast
  moreover have "he_createdAt e = 0" by (simp add: e_def)
  ultimately show ?thesis by blast
qed

lemma offline_join:
  assumes "GenerateKeyPair plain_crypto rb = Inr kb" "ParseInviteCode invite = Inr (pk, nonce, nick)"
  shows "\<exists>b'. Daemon_JoinViaCode offline_env invite ((blank_daemon dir)\<lparr>identity := Some kb\<rparr>) () = (Reply (nick, base64_EncodeToString pk), b', ())"
proof -
  let ?r = "base64_EncodeToString pk" and ?b = "(blank_daemon dir)\<lparr>identity := Some kb\<rparr>"
  let ?p = "bytes_of_string (hello_payload (base64_EncodeToString (PublicKey kb)) (getMyNickname ?b))"
  obtain d1 where d1: "savePeers offline_env (?b\<lparr>peers := fmupd ?r (Some \<lparr>pe_Nickname = nick, pe_Pubkey = ?r\<rparr>) (peers ?b)\<rparr>) () = (d1, ())"
    by (cases "savePeers offline_env (?b\<lparr>peers := fmupd ?r (Some \<lparr>pe_Nickname = nick, pe_Pubkey = ?r\<rparr>) (peers ?b)\<rparr>) ()") simp
  have "length (DeriveHelloKey plain_crypto nonce) = 32" by (simp add: DeriveHelloKey_def plain_crypto_def)
  then obtain hello where hello: "EncryptHello plain_crypto (Inr (\<lambda>_. 7)) (DeriveHelloKey plain_crypto nonce) ?p = Inr hello" "hello \<noteq> []"
    by (simp add: EncryptHello_def)
  have "engine d1 = engine ?b" using savePeers_keeps [OF d1] by simp
  then have "discoverActiveRelays (engine d1) = []"
    by (simp add: blank_daemon_def discoverActiveRelays_def GetRelays_def NewDNSClientEngine_def)
  then have "engine_send offline_env hello ?r d1 () = (Some (1, Inl (AllRelaysFailed maxRetries)), ())"
    by (rule engine_send_no_relays) (use hello(2) in \<open>simp_all add: quiet_env_def\<close>)
  then show ?thesis
    using d1 hello(1) by (simp add: Daemon_JoinViaCode_def assms(2) Let_def) (simp add: quiet_env_def)
qed

theorem invitation_connects_witness:
  "\<exists>ka kb invite a' b' greeting a3 w3. GenerateKeyPair plain_crypto (Inr (\<lambda>_. 1)) = Inr ka \<and> GenerateKeyPair plain_crypto (Inr (\<lambda>_. 2)) = Inr kb
    \<and> Daemon_GenerateInviteCode offline_env ''Ann'' ((blank_daemon ''/a'')\<lparr>identity := Some ka\<rparr>) () = (Reply invite, a', ())
    \<and> Daemon_JoinViaCode offline_env invite ((blank_daemon ''/b'')\<lparr>identity := Some kb\<rparr>) () = (Reply (''Ann'', base64_EncodeToString (PublicKey ka)), b', ())
    \<and> (let pm = \<lparr>pm_MsgID = 1, Data = greeting, Timestamp = 0, Sequence = 0\<rparr>; x = base64_EncodeToString (PublicKey kb)
       in poll_one offline_env ka pm a' () = (Reply (Some (received pm x (bytes_of_string (hello_payload x ''Me'')) '''')), a3, w3)
        \<and> fmlookup (peers a3) x = Some (Some \<lparr>pe_Nickname = ''Me'', pe_Pubkey = x\<rparr>))"
proof -
  obtain ka kb where k: "GenerateKeyPair plain_crypto (Inr (\<lambda>_. 1)) = Inr ka" "GenerateKeyPair plain_crypto (Inr (\<lambda>_. 2)) = Inr kb"
    using GenerateKeyPair_total [OF crypto_doc_plain] by meson
  define a b where "a = (blank_daemon ''/a'')\<lparr>identity := Some ka\<rparr>" and "b = (blank_daemon ''/b'')\<lparr>identity := Some kb\<rparr>"
  obtain invite a' nonce h0 e0 where inv: "Daemon_GenerateInviteCode offline_env ''Ann'' a () = (Reply invite, a', ())"
    and parse: "ParseInviteCode invite = Inr (PublicKey ka, nonce, ''Ann'')"
    and a': "a' = (blank_daemon ''/a'')\<lparr>identity := Some ka, pendingHellos := fmupd h0 e0 fmempty\<rparr>" "he_createdAt e0 = 0"
    using offline_invite [OF k(1), of "''/a''"] unfolding a_def by blast
  have id: "identity a = Some ka" "identity b = Some kb" "getMyNickname b = ''Me''"
    by (simp_all add: a_def b_def getMyNickname_def blank_daemon_def)
  have c: "env_crypto offline_env = plain_crypto" by (simp add: quiet_env_def)
  obtain b' where join: "Daemon_JoinViaCode offline_env invite b () = (Reply (''Ann'', base64_EncodeToString (PublicKey ka)), b', ())"
    using offline_join [OF k(2) parse] unfolding b_def by blast
  have pre: "crypto_doc (env_crypto offline_env)" "GenerateKeyPair (env_crypto offline_env) (Inr (\<lambda>_. 1)) = Inr ka"
    "GenerateKeyPair (env_crypto offline_env) (Inr (\<lambda>_. 2)) = Inr kb" using k crypto_doc_plain by (simp_all add: c)
  have plain: "list_all plain_char (getMyNickname b)" by (simp add: id plain_char_def)
  let ?x = "base64_EncodeToString (PublicKey kb)"
  obtain h entry greeting where ph: "pendingHellos a' = fmupd h entry (pendingHellos a)"
    and poll: "\<forall>(env2 :: (unit, int \<times> queue_rows, transfer_rows) env) a2 pm w2.
        env_crypto env2 = env_crypto offline_env \<longrightarrow> range_ok env2 \<longrightarrow> daemon_ok a2 \<longrightarrow> Data pm = greeting
        \<longrightarrow> unopened (env_crypto offline_env) ka greeting (peers a2) \<longrightarrow> fmlookup (pendingHellos a2) h = Some entry
        \<longrightarrow> (\<forall>k e. k \<noteq> h \<longrightarrow> fmlookup (pendingHellos a2) k = Some e \<longrightarrow> \<not> opens_hello (env_crypto offline_env) greeting e)
        \<longrightarrow> (\<forall>u. time_Sub (fst (env_now env2 u)) (he_createdAt entry) \<le> hello_ttl)
        \<longrightarrow> (\<exists>a3 w3. poll_one env2 ka pm a2 w2 = (Reply (Some (received pm ?x (bytes_of_string (hello_payload ?x (getMyNickname b))) '''')), a3, w3)
              \<and> fmlookup (peers a3) ?x = Some (Some \<lparr>pe_Nickname = getMyNickname b, pe_Pubkey = ?x\<rparr>)
              \<and> fmlookup (pendingHellos a3) h = None)"
    using invitation_connects [OF pre id(1,2) refl inv join plain, where 'v = unit and 'r = "int \<times> queue_rows" and 'u = transfer_rows]
    unfolding Let_def by (elim exE conjE) (rule that)
  have "fmlookup (pendingHellos a') h = Some entry" by (simp add: ph)
  then have one: "h0 = h" "e0 = entry" by (auto simp: a'(1) split: if_splits)
  have ok: "daemon_ok a'"
    using blank_daemon_ok [OF k(1) no_nil_empty, of "''/a''"] by (simp add: a'(1) daemon_ok_def blank_daemon_def)
  let ?pm = "\<lparr>pm_MsgID = 1, Data = greeting, Timestamp = 0, Sequence = 0\<rparr>"
  have "\<exists>a3 w3. poll_one offline_env ka ?pm a' () = (Reply (Some (received ?pm ?x (bytes_of_string (hello_payload ?x (getMyNickname b))) '''')), a3, w3)
      \<and> fmlookup (peers a3) ?x = Some (Some \<lparr>pe_Nickname = getMyNickname b, pe_Pubkey = ?x\<rparr>) \<and> fmlookup (pendingHellos a3) h = None"
  proof (rule poll [rule_format, OF refl range_ok_quiet ok])
    show "unopened (env_crypto offline_env) ka greeting (peers a')" by (simp add: unopened_def a'(1) blank_daemon_def)
    show "fmlookup (pendingHellos a') h = Some entry" by (simp add: ph)
    show "\<not> opens_hello (env_crypto offline_env) greeting e" if "k \<noteq> h" "fmlookup (pendingHellos a') k = Some e" for k e
      using that by (simp add: a'(1) one)
    show "time_Sub (fst (env_now offline_env u)) (he_createdAt entry) \<le> hello_ttl" for u
      using a'(2) by (simp add: one quiet_env_def hello_ttl_def time_Sub_def)
  qed simp
  then obtain a3 w3 where "poll_one offline_env ka ?pm a' () = (Reply (Some (received ?pm ?x (bytes_of_string (hello_payload ?x ''Me'')) '''')), a3, w3)"
    "fmlookup (peers a3) ?x = Some (Some \<lparr>pe_Nickname = ''Me'', pe_Pubkey = ?x\<rparr>)" unfolding id(3) by blast
  then show ?thesis unfolding Let_def using k inv join unfolding a_def b_def by blast
qed

end
