(* ===== verification/Group_Delivery.thy ===== *)
theory Group_Delivery
  imports Daemon_Invitations
begin

text \<open>
  What becomes of the messages of a group: the daemon of a member drops them when they arrive, and a
  member who was removed can still compute the key of the group.
\<close>

section \<open>Payloads that nothing opens\<close>

lemma poll_one_dropped:
  assumes "range_ok env" "daemon_ok d" "unopened (env_crypto env) kp (Data pm) (peers d)"
    and "\<And>k e. fmlookup (pendingHellos d) k = Some e \<Longrightarrow> \<not> opens_hello (env_crypto env) (Data pm) e"
  shows "\<exists>ph w'. poll_one env kp pm d w = (Reply None, d\<lparr>pendingHellos := ph\<rparr>, w')"
proof (cases "length (Data pm) < NonceLength")
  case True
  then have "poll_one env kp pm d w = (Reply None, d\<lparr>pendingHellos := pendingHellos d\<rparr>, w)" by (simp add: poll_one_def)
  then show ?thesis by blast
next
  case False
  obtain ks w1 where ks: "env_range env (fmdom (peers d)) w = (ks, w1)" by fastforce
  obtain hs w2 where hs: "env_range env (fmdom (pendingHellos d)) w1 = (hs, w2)" by fastforce
  have "try_peers (env_crypto env) kp (take NonceLength (Data pm)) (drop NonceLength (Data pm)) (peers d) ks = Reply None"
  proof (rule try_peers_none)
    show "no_nil (peers d)" using assms(2) by (simp add: daemon_ok_def)
    fix k s p assume "k \<in> set ks" "peer_secret (env_crypto env) kp k = Inr s"
    then show "DecryptMessage (env_crypto env) s (take NonceLength (Data pm)) (drop NonceLength (Data pm)) \<noteq> Inr p"
      using assms(3) range_okD(1) [OF assms(1) ks] by (auto simp: unopened_def fmlookup_dom_iff)
  qed
  moreover obtain ph w' where "try_hellos env (Data pm) hs None d w2 = (None, d\<lparr>pendingHellos := ph\<rparr>, w')"
    using try_hellos_others [of hs d env "Data pm" None w2] assms(4) by blast
  ultimately show ?thesis using False ks hs by (auto simp: poll_one_def Let_def)
qed

section \<open>Properties\<close>

text \<open>
  A group message is not read by the members: what \<^verbatim>\<open>SendMessage\<close> sends to each of them is the bare
  envelope, and a daemon that polls it, although it may have the group and its key, drops it, unless
  by accident the key of a peer or of an invitation opens the envelope.
\<close>

theorem group_message_unread:
  assumes "identity a = Some ka" "sr_GroupId req \<noteq> ''''" "Daemon_SendMessage env req a w = (Reply resp, a', w')"
  shows "\<exists>grp ct w1. fmlookup (dm_groups a) (sr_GroupId req) = Some (Some grp)
    \<and> send_to_members env (bytes_of_string (group_envelope (sr_GroupId req) (KeyEpoch grp) ct)) (base64_EncodeToString (PublicKey ka)) grp a w1
        = (Reply (), w')
    \<and> (\<forall>(env' :: ('v, 'r, 'u) env) kb b pm w2. range_ok env' \<longrightarrow> daemon_ok b
        \<longrightarrow> Data pm = bytes_of_string (group_envelope (sr_GroupId req) (KeyEpoch grp) ct)
        \<longrightarrow> unopened (env_crypto env') kb (Data pm) (peers b)
        \<longrightarrow> (\<forall>k e. fmlookup (pendingHellos b) k = Some e \<longrightarrow> \<not> opens_hello (env_crypto env') (Data pm) e)
        \<longrightarrow> (\<exists>ph w3. poll_one env' kb pm b w2 = (Reply None, b\<lparr>pendingHellos := ph\<rparr>, w3)))"
proof -
  have "send_group_message env ka req a w = (Reply resp, a', w')" using assms by (simp add: Daemon_SendMessage_def)
  then obtain grp ct w1 where "fmlookup (dm_groups a) (sr_GroupId req) = Some (Some grp)"
    "send_to_members env (bytes_of_string (group_envelope (sr_GroupId req) (KeyEpoch grp) ct)) (base64_EncodeToString (PublicKey ka)) grp a w1
        = (Reply (), w')"
    by (auto simp: send_group_message_def split: option.splits prod.splits sum.splits reply.splits)
  then show ?thesis by (intro exI [of _ grp] exI [of _ ct] exI [of _ w1] conjI allI impI poll_one_dropped) blast+
qed

text \<open>
  (C40) Removing a member does not lock them out: after an administrator removed a member, every message
  that is encrypted under the new key of the group is decrypted by a key that the removed member
  computes from the old key, without any secret they do not have.
\<close>

theorem removed_member_reads:
  assumes "crypto_doc ops" "fmlookup (dm_groups d) g = Some (Some grp)"
    and "Daemon_RemoveGroupMember env g member d w = (Reply r, d', w')"
  shows "\<exists>grp'. fmlookup (dm_groups d') g = Some (Some grp') \<and> fmlookup (Members grp') member = None \<and> KeyEpoch grp' = KeyEpoch grp + 1
    \<and> (\<forall>rnd p ct. EncryptGroupMessage ops rnd (GroupKey grp') p = Inr ct \<longrightarrow> DecryptGroupMessage ops (RotateGroupKey (GroupKey grp)) ct = Inr p)"
proof -
  obtain kp where kp: "identity d = Some kp" using assms(2,3) by (cases "identity d") (auto simp: Daemon_RemoveGroupMember_def)
  define g1 where "g1 = grp\<lparr>Members := fmdrop member (Members grp), GroupKey := RotateGroupKey (GroupKey grp), KeyEpoch := KeyEpoch grp + 1\<rparr>"
  obtain d1 w1 where s: "saveGroups env (d\<lparr>dm_groups := fmupd g (Some g1) (dm_groups d)\<rparr>) w = (d1, w1)" by fastforce
  have "d' = d1" using assms(2,3) kp s
    by (auto simp: Daemon_RemoveGroupMember_def g1_def [symmetric] Let_def split: if_splits prod.splits)
  moreover have "dm_groups d1 = fmupd g (Some g1) (dm_groups d)"
    using s by (auto simp: saveGroups_def daemon_WriteFile_def split: prod.splits)
  ultimately show ?thesis using DecryptGroup_Encrypt [OF assms(1)] by (simp add: g1_def)
qed

theorem removed_member_reads_witness:
  "\<exists>kp d' w'. GenerateKeyPair plain_crypto (Inr (\<lambda>_. 1)) = Inr kp
    \<and> (let x = base64_EncodeToString (PublicKey kp);
           grp = \<lparr>GroupID = ''g'', gr_Name = ''n'', AdminPubkey = x,
                  Members = fmupd ''m'' (Some \<lparr>gm_Pubkey = ''m'', gm_Nickname = '''', gm_Role = ''member''\<rparr>) fmempty,
                  GroupKey = replicate 32 5, KeyEpoch = 1\<rparr>;
           d = (blank_daemon ''/a'')\<lparr>identity := Some kp, dm_groups := fmupd ''g'' (Some grp) fmempty\<rparr>
       in Daemon_RemoveGroupMember offline_env ''g'' ''m'' d () = (Reply (), d', w')
        \<and> (\<exists>grp' ct. fmlookup (dm_groups d') ''g'' = Some (Some grp')
            \<and> EncryptGroupMessage plain_crypto (Inr (\<lambda>_. 0)) (GroupKey grp') [104, 105] = Inr ct
            \<and> DecryptGroupMessage plain_crypto (RotateGroupKey (replicate 32 5)) ct = Inr [104, 105]))"
proof -
  obtain kp where k: "GenerateKeyPair plain_crypto (Inr (\<lambda>_. 1)) = Inr kp" using GenerateKeyPair_total [OF crypto_doc_plain] by blast
  define grp where "grp = \<lparr>GroupID = ''g'', gr_Name = ''n'', AdminPubkey = base64_EncodeToString (PublicKey kp),
    Members = fmupd ''m'' (Some \<lparr>gm_Pubkey = ''m'', gm_Nickname = '''', gm_Role = ''member''\<rparr>) fmempty, GroupKey = replicate 32 5, KeyEpoch = 1\<rparr>"
  define d where "d = (blank_daemon ''/a'')\<lparr>identity := Some kp, dm_groups := fmupd ''g'' (Some grp) fmempty\<rparr>"
  have drop: "fmdrop ''m'' (fmupd ''m'' v fmempty) = fmempty" for v :: "GroupMember option" by (rule fmap_ext) simp
  obtain d' w' where rm: "Daemon_RemoveGroupMember offline_env ''g'' ''m'' d () = (Reply (), d', w')" "length (GroupKey (the (the (fmlookup (dm_groups d') ''g'')))) = 32"
    by (simp add: Daemon_RemoveGroupMember_def d_def grp_def saveGroups_def daemon_WriteFile_def quiet_env_def os_WriteFile_def
        distributeGroupKey_def RotateGroupKey_def Let_def drop sorted_list_of_fset.rep_eq)
  obtain grp' where grp': "fmlookup (dm_groups d') ''g'' = Some (Some grp')"
    "\<forall>rnd p ct. EncryptGroupMessage plain_crypto rnd (GroupKey grp') p = Inr ct \<longrightarrow> DecryptGroupMessage plain_crypto (RotateGroupKey (GroupKey grp)) ct = Inr p"
    using removed_member_reads [OF crypto_doc_plain _ rm(1), of grp] by (auto simp: d_def)
  then obtain ct where "EncryptGroupMessage plain_crypto (Inr (\<lambda>_. 0)) (GroupKey grp') [104, 105] = Inr ct"
    using rm(2) by (auto simp: EncryptGroupMessage_def)
  with grp' rm(1) k show ?thesis unfolding d_def Let_def by (auto simp: grp_def)
qed

end
