(* ===== verification/Delivery.thy ===== *)
theory Delivery
  imports Client_Engine Relay_Server
begin

text \<open>
  The client engine against the relays: a network of relays, each behind its own lossy
  link, as the exchange of the client. The theory connects the two sides: what a
  successful send leaves in the relays, what a poll reports, and that the recipient gets
  the message that was sent.
\<close>

section \<open>A network of relays\<close>

type_synonym 'd world = "(string, 'd relay_net) fmap"

definition relays_exchange ::
  "'d bolt_ops \<Rightarrow> (string \<Rightarrow> string) \<Rightarrow> string \<Rightarrow> net_addr \<Rightarrow> 'd world exchange" where
  "relays_exchange ops fqdn z remote nt q addr w =
     (case fmlookup w addr of
        None \<Rightarrow> (Inl ''no such host'', w)
      | Some rn \<Rightarrow>
          (case relay_exchange ops fqdn z remote nt q addr rn of
             (r, rn') \<Rightarrow> (r, fmupd addr rn' w)))"

text \<open>The store of a relay, and whether it holds a chunk.\<close>

definition store_of :: "'d world \<Rightarrow> string \<Rightarrow> 'd ChunkStore option" where
  "store_of w a = map_option (\<lambda>rn. relay_store (snd rn)) (fmlookup w a)"

definition holds :: "string \<Rightarrow> Chunk \<Rightarrow> 'd world \<Rightarrow> bool" where
  "holds a c w \<longleftrightarrow>
     (\<exists>st. store_of w a = Some st \<and> GetChunk (MsgID c) (ChunkIdx c) st = Some c)"

definition valid_chunk :: "Chunk \<Rightarrow> bool" where
  "valid_chunk c \<longleftrightarrow> length (RecipientHash c) \<in> {0, 32} \<and> TotalChunks c \<noteq> 0"

definition world_ok :: "'d bolt_ops \<Rightarrow> 'd world \<Rightarrow> bool" where
  "world_ok ops w \<longleftrightarrow> (\<forall>a rn. fmlookup w a = Some rn \<longrightarrow> relay_ok ops (snd rn))"

section \<open>Exchanges\<close>

lemma SendChunk_preserves:
  assumes "\<And>nt w r w'. P w \<Longrightarrow> exch nt (chunk_query fqdn c z (Some (4096, True))) addr w = (r, w') \<Longrightarrow> P w'"
    and "P w" "SendChunk fqdn exch addr z c mode w = (res, w')"
  shows "P w'"
proof -
  let ?m = "chunk_query fqdn c z (Some (4096, True))"
  have step: "P (snd (exch nt ?m addr w))" if "P w" for nt w using assms(1) [OF that] by (metis prod.collapse)
  have "P (snd (SendChunk fqdn exch addr z c mode w))"
    using assms(2) by (auto simp: SendChunk_def Let_def split_beta step split: TransportMode.split sum.split)
  then show ?thesis using assms(3) by simp
qed

lemma QueryChunk_preserves:
  assumes "\<And>nt w r w'. P w \<Longrightarrow> exch nt (chunk_query fqdn (NewChunk m i 0 []) z None) addr w = (r, w') \<Longrightarrow> P w'"
    and "P w" "QueryChunk fqdn exch addr z m i mode w = (res, w')"
  shows "P w'"
proof -
  let ?m = "chunk_query fqdn (NewChunk m i 0 []) z None"
  have step: "P (snd (exch nt ?m addr w))" if "P w" for nt w using assms(1) [OF that] by (metis prod.collapse)
  have "P (snd (QueryChunk fqdn exch addr z m i mode w))"
    using assms(2) by (auto simp: QueryChunk_def Let_def split_beta step split: TransportMode.split option.split)
  then show ?thesis using assms(3) by simp
qed

lemma query_once_txt: "query_once err z r = Inr c \<Longrightarrow> \<exists>txt. txt_answer r = Some txt \<and> decode_answer z txt = Inr c"
  by (auto simp: query_once_def txt_answer_def split: sum.splits if_splits rr.splits)

lemma query_final_txt: "query_final z r = Inr c \<Longrightarrow> \<exists>txt. txt_answer r = Some txt \<and> decode_answer z txt = Inr c"
  by (auto simp: query_final_def txt_answer_def split: sum.splits if_splits rr.splits)

lemma QueryChunk_answer:
  assumes "\<And>nt w r w'. P w \<Longrightarrow> exch nt (chunk_query fqdn (NewChunk m i 0 []) z None) addr w = (r, w') \<Longrightarrow> P w'"
    and "P w" "QueryChunk fqdn exch addr z m i mode w = (Inr c, w')"
  shows "\<exists>nt w0 r w1 txt. P w0 \<and> exch nt (chunk_query fqdn (NewChunk m i 0 []) z None) addr w0 = (r, w1)
    \<and> txt_answer r = Some txt \<and> decode_answer z txt = Inr c"
proof -
  let ?m = "chunk_query fqdn (NewChunk m i 0 []) z None"
  have once: "\<exists>nt w0 r w1 txt. P w0 \<and> exch nt ?m addr w0 = (r, w1) \<and> txt_answer r = Some txt \<and> decode_answer z txt = Inr c"
    if "map_prod f (\<lambda>w. w) (exch nt ?m addr w0) = (Inr c, w')" "P w0"
      "\<And>r. f r = Inr c \<Longrightarrow> \<exists>txt. txt_answer r = Some txt \<and> decode_answer z txt = Inr c" for f nt w0
    using that by (cases "exch nt ?m addr w0") fastforce
  show ?thesis
  proof (cases mode)
    case TransportAuto
    obtain r1 w1 where r1: "exch TCP ?m addr w = (r1, w1)" by fastforce
    obtain r2 w2 where r2: "exch UDP ?m addr w1 = (r2, w2)" by fastforce
    have P: "P w1" "P w2" using assms(1) [OF assms(2) r1] assms(1) r2 by blast+
    show ?thesis
    proof (cases "txt_answer r1")
      case (Some ts)
      then show ?thesis using assms(2,3) r1 TransportAuto by (fastforce simp: QueryChunk_def Let_def)
    next
      case None
      note r1None = this
      show ?thesis
      proof (cases "txt_answer r2")
        case (Some ts)
        then show ?thesis using assms(3) r1 r2 r1None P TransportAuto by (fastforce simp: QueryChunk_def Let_def)
      next
        case None
        then have "map_prod (query_final z) (\<lambda>w. w) (exch TCP ?m addr w2) = (Inr c, w')"
          using assms(3) r1 r2 r1None TransportAuto by (simp add: QueryChunk_def Let_def)
        then show ?thesis using once P query_final_txt by blast
      qed
    qed
  next
    case TransportTCP
    then have "map_prod (query_once TcpFailed z) (\<lambda>w. w) (exch TCP ?m addr w) = (Inr c, w')"
      using assms(3) by (simp add: QueryChunk_def Let_def)
    then show ?thesis using once assms(2) query_once_txt by blast
  next
    case TransportUDP
    then have "map_prod (query_once UdpFailed z) (\<lambda>w. w) (exch UDP ?m addr w) = (Inr c, w')"
      using assms(3) by (simp add: QueryChunk_def Let_def)
    then show ?thesis using once assms(2) query_once_txt by blast
  qed
qed

section \<open>What one exchange does to a relay\<close>

text \<open>The store after an exchange is the one before or the one that the handler left.\<close>

lemma relay_exchange_store:
  assumes "relay_exchange ops fqdn z remote nt q addr rn = (r, rn')"
  shows "relay_store (snd rn') = relay_store (snd rn)
    \<or> (\<exists>sc resp. relay_handle ops fqdn z sc remote q (snd rn) = Some (resp, snd rn'))"
  using assms by (auto simp: relay_exchange_def split: prod.splits list.splits fate.splits option.splits)

lemma relay_exchange_answer:
  assumes "relay_exchange ops fqdn z remote nt q addr rn = (Inr resp, rn')"
  shows "\<exists>sc. relay_handle ops fqdn z sc remote q (snd rn) = Some (resp, snd rn')"
  using assms by (auto simp: relay_exchange_def split: prod.splits list.splits fate.splits option.splits)

lemma relay_handle_chunk_store:
  assumes "fqdn_doc fqdn" "zone_ok z" "length (RecipientHash c) \<in> {0, 32}"
    and "relay_handle ops fqdn z sc remote (chunk_query fqdn c z e) s = Some (resp, s')"
  shows "relay_store s' = relay_store s
    \<or> (TotalChunks c \<noteq> 0 \<and> relay_put ops (t_store sc) c (relay_store s) = Some (relay_store s'))"
  using relay_handle_chunk [OF assms]
  by (auto simp: relay_answer_chunk [OF assms(3)] split: if_splits option.splits)

lemma GetChunk_exchange:
  assumes "fqdn_doc fqdn" "zone_ok z" "length (RecipientHash c) \<in> {0, 32}"
    and "relays_exchange ops fqdn z remote nt (chunk_query fqdn c z e) addr w = (r, w')"
    and "store_of w b = Some st"
  shows "\<exists>st'. store_of w' b = Some st' \<and>
    (\<forall>m i. GetChunk m i st' = GetChunk m i st
       \<or> (TotalChunks c \<noteq> 0 \<and> m = MsgID c \<and> i = ChunkIdx c \<and> GetChunk m i st' = Some c))"
proof (cases "fmlookup w addr")
  case None
  then show ?thesis using assms(4,5) by (auto simp: relays_exchange_def)
next
  case (Some rn)
  obtain rn' where rn': "relay_exchange ops fqdn z remote nt (chunk_query fqdn c z e) addr rn = (r, rn')"
    and w': "w' = fmupd addr rn' w"
    using assms(4) Some by (auto simp: relays_exchange_def split: prod.splits)
  consider "relay_store (snd rn') = relay_store (snd rn)"
    | t where "TotalChunks c \<noteq> 0" "relay_put ops t c (relay_store (snd rn)) = Some (relay_store (snd rn'))"
    using relay_exchange_store [OF rn'] relay_handle_chunk_store [OF assms(1-3)] by blast
  then show ?thesis
  proof cases
    case 1
    then show ?thesis using assms(5) Some by (cases "b = addr") (auto simp: store_of_def w')
  next
    case 2
    then show ?thesis using assms(5) Some
      by (cases "b = addr") (auto simp: store_of_def w' GetChunk_relay_put [OF 2(2)])
  qed
qed

section \<open>The network as the client's transport\<close>

lemma holds_exchange:
  assumes "fqdn_doc fqdn" "zone_ok z" "length (RecipientHash c) \<in> {0, 32}"
    and "relays_exchange ops fqdn z remote nt (chunk_query fqdn c z e) addr w = (r, w')"
    and "holds b d w" "TotalChunks c = 0 \<or> MsgID c \<noteq> MsgID d \<or> ChunkIdx c \<noteq> ChunkIdx d \<or> c = d"
  shows "holds b d w'"
proof -
  obtain st where st: "store_of w b = Some st" "GetChunk (MsgID d) (ChunkIdx d) st = Some d"
    using assms(5) by (auto simp: holds_def)
  obtain st' where st': "store_of w' b = Some st'"
    and "GetChunk (MsgID d) (ChunkIdx d) st' = GetChunk (MsgID d) (ChunkIdx d) st
      \<or> (TotalChunks c \<noteq> 0 \<and> MsgID d = MsgID c \<and> ChunkIdx d = ChunkIdx c
          \<and> GetChunk (MsgID d) (ChunkIdx d) st' = Some c)"
    using GetChunk_exchange [OF assms(1-4) st(1)] by blast
  then have "GetChunk (MsgID d) (ChunkIdx d) st' = Some d" using assms(6) st(2) by auto
  then show ?thesis using st' by (simp add: holds_def)
qed

lemma SendChunk_holds:
  assumes "fqdn_doc fqdn" "zone_ok z" "valid_chunk c"
    and "SendChunk fqdn (relays_exchange ops fqdn z remote) a z c mode w = (Inr (), w')"
  shows "holds a c w'"
proof -
  obtain nt r w0 where e: "relays_exchange ops fqdn z remote nt (chunk_query fqdn c z (Some (4096, True))) a w0 = (r, w')"
    and ok: "resp_ok r"
    using SendChunk_last [OF assms(4)] by blast
  from e ok obtain rn rn' where ex: "relay_exchange ops fqdn z remote nt (chunk_query fqdn c z (Some (4096, True))) a rn = (r, rn')"
    and w': "w' = fmupd a rn' w0"
    by (auto simp: relays_exchange_def resp_ok_def split: option.splits prod.splits)
  have "GetChunk (MsgID c) (ChunkIdx c) (relay_store (snd rn')) = Some c"
    using relay_exchange_ack [OF assms(1,2) _ _ ex ok] assms(3) by (simp add: valid_chunk_def)
  then show ?thesis by (simp add: holds_def store_of_def w')
qed

lemma relays_chunk_transport:
  assumes "fqdn_doc fqdn" "zone_ok z"
  shows "chunk_transport fqdn (relays_exchange ops fqdn z remote) z holds valid_chunk"
proof
  show "holds a c w'" if "valid_chunk c"
    "SendChunk fqdn (relays_exchange ops fqdn z remote) a z c mode w = (Inr (), w')" for a c mode w w'
    using SendChunk_holds [OF assms that] .
  show "holds b d w'" if c: "valid_chunk c" "ChunkIdx c \<noteq> ChunkIdx d \<or> c = d"
    and s: "SendChunk fqdn (relays_exchange ops fqdn z remote) a z c mode w = (r, w')" "holds b d w"
    for a b c d mode w w' r
  proof (rule SendChunk_preserves [where P = "holds b d", OF _ s(2,1)])
    fix nt w1 r1 w2
    assume h: "holds b d w1"
      and ex: "relays_exchange ops fqdn z remote nt (chunk_query fqdn c z (Some (4096, True))) a w1 = (r1, w2)"
    show "holds b d w2" using holds_exchange [OF assms _ ex h] c by (auto simp: valid_chunk_def)
  qed
qed

text \<open>The zone that both sides use by default.\<close>

definition default_zone :: string where
  "default_zone = ''msg.local-domain''"

lemma zone_ok_default: "zone_ok default_zone"
  by (simp add: zone_ok_def default_zone_def strings_HasSuffix_def)

interpretation net: chunk_transport plain_fqdn "relays_exchange ops plain_fqdn default_zone remote"
    default_zone holds valid_chunk for ops remote
  by (rule relays_chunk_transport [OF fqdn_doc_plain zone_ok_default])

section \<open>The network as the source of a fetch\<close>

lemma NewChunk_simps [simp]:
  "MsgID (NewChunk m i n p) = m" "ChunkIdx (NewChunk m i n p) = i" "TotalChunks (NewChunk m i n p) = n"
  "RecipientHash (NewChunk m i n p) = []"
  by (simp_all add: NewChunk_def)

lemma query_exchange_answer:
  assumes "fqdn_doc fqdn" "zone_ok z"
    and "relays_exchange ops fqdn z remote nt (chunk_query fqdn (NewChunk m i 0 []) z e) a w = (r, w')"
    and "store_of w a = Some st" "txt_answer r = Some ts"
  shows "\<exists>d. GetChunk m i st = Some d \<and> ts = butlast (EncodeToLabels d z)"
proof -
  have v: "length (RecipientHash (NewChunk m i 0 [])) \<in> {0, 32}" by simp
  from assms(5) obtain resp where r: "r = Inr resp" by (cases r) (auto simp: txt_answer_def)
  obtain rn rn' where rn: "fmlookup w a = Some rn" "st = relay_store (snd rn)"
    and "relay_exchange ops fqdn z remote nt (chunk_query fqdn (NewChunk m i 0 []) z e) a rn = (Inr resp, rn')"
    using assms(3,4) r by (auto simp: relays_exchange_def store_of_def split: option.splits prod.splits)
  then obtain sc where "relay_handle ops fqdn z sc remote (chunk_query fqdn (NewChunk m i 0 []) z e) (snd rn) = Some (resp, snd rn')"
    using relay_exchange_answer by blast
  from relay_handle_chunk [OF assms(1,2) v this] show ?thesis
    using assms(5) rn(2)
    by (auto simp: relay_answer_chunk [OF v] r txt_answer_def reply_def rcode_defs split: option.splits)
qed

text \<open>The store of the relay does not change while chunks are fetched from it.\<close>

definition serves :: "'d bolt_ops \<Rightarrow> string \<Rightarrow> (msg_id \<Rightarrow> uint16 \<Rightarrow> Chunk option) \<Rightarrow> 'd world \<Rightarrow> bool" where
  "serves ops a g w \<longleftrightarrow>
     (\<exists>st. store_of w a = Some st \<and> (\<forall>m i. GetChunk m i st = g m i)
        \<and> (\<forall>m i c. g m i = Some c \<longrightarrow> length (RecipientHash c) \<in> {0, 32}))"

lemma serves_exchange:
  assumes "fqdn_doc fqdn" "zone_ok z"
    and "relays_exchange ops fqdn z remote nt (chunk_query fqdn (NewChunk m i 0 []) z e) a w = (r, w')"
    and "serves ops b g w"
  shows "serves ops b g w'"
proof -
  have v: "length (RecipientHash (NewChunk m i 0 [])) \<in> {0, 32}" "TotalChunks (NewChunk m i 0 []) = 0"
    by simp_all
  obtain st where "store_of w b = Some st" using assms(4) by (auto simp: serves_def)
  from GetChunk_exchange [OF assms(1,2) v(1) assms(3) this] show ?thesis
    using assms(4) \<open>store_of w b = Some st\<close> v(2) by (auto simp: serves_def)
qed

lemma relays_chunk_source:
  assumes "fqdn_doc fqdn" "zone_ok z"
  shows "chunk_source fqdn (relays_exchange ops fqdn z remote) a z mid mode (g mid) (serves ops a g)"
proof
  fix w i r w'
  let ?m = "chunk_query fqdn (NewChunk mid i 0 []) z None"
  have keep: "\<And>nt w r w'. serves ops a g w \<Longrightarrow> relays_exchange ops fqdn z remote nt ?m a w = (r, w') \<Longrightarrow> serves ops a g w'"
    using serves_exchange [OF assms] by blast
  show "serves ops a g w'"
    if "serves ops a g w" "QueryChunk fqdn (relays_exchange ops fqdn z remote) a z mid i mode w = (r, w')"
    by (rule QueryChunk_preserves [where P = "serves ops a g", OF keep that])
  show "g mid i = Some c"
    if q: "serves ops a g w" "QueryChunk fqdn (relays_exchange ops fqdn z remote) a z mid i mode w = (Inr c, w')" for c
  proof -
    obtain nt w0 r w1 ts where x: "serves ops a g w0" "relays_exchange ops fqdn z remote nt ?m a w0 = (r, w1)"
      "txt_answer r = Some ts" "decode_answer z ts = Inr c"
      using QueryChunk_answer [where P = "serves ops a g", OF _ q] keep by blast
    then obtain st where st: "store_of w0 a = Some st" "\<forall>m i. GetChunk m i st = g m i"
      "\<forall>m i c. g m i = Some c \<longrightarrow> length (RecipientHash c) \<in> {0, 32}" by (auto simp: serves_def)
    obtain d where d: "GetChunk mid i st = Some d" "ts = butlast (EncodeToLabels d z)"
      using query_exchange_answer [OF assms x(2) st(1) x(3)] by blast
    then have "g mid i = Some d" "length (RecipientHash d) \<in> {0, 32}" using st(2,3) by auto
    then show ?thesis using x(4) d(2) decode_butlast [of d z] by (simp add: decode_answer_def)
  qed
qed

interpretation src: chunk_source plain_fqdn "relays_exchange ops plain_fqdn default_zone remote" a default_zone
    mid mode "g mid" "serves ops a g" for ops remote a mid mode g
  by (rule relays_chunk_source [OF fqdn_doc_plain zone_ok_default])

section \<open>Sending and fetching\<close>

lemma ChunkMessage_valid:
  assumes "length (ChunkMessage mid p n r) \<le> 65535" "c \<in> set (ChunkMessage mid p n r)"
  shows "valid_chunk c"
proof -
  let ?cs = "ChunkMessage mid p n r"
  have "?cs \<noteq> []" using assms(2) by auto
  moreover have "unat (word_of_nat (length ?cs) :: uint16) = length ?cs"
    using assms(1) by (simp add: unat_of_nat)
  ultimately have "(word_of_nat (length ?cs) :: uint16) \<noteq> 0" by (metis length_0_conv unat_0)
  then show ?thesis using ChunkMessage_fields [OF assms(2)] by (auto simp: valid_chunk_def)
qed

lemma SendMessage_parallel:
  assumes "SendMessage fqdn exch mid evs dones p r e w = Some (Inr res, w')" "discoverActiveRelays e \<noteq> []"
  shows "sendParallel fqdn exch e (ChunkMessage mid p (GetChunkSize e) r) (discoverActiveRelays e) evs w
    = Some (Inr (), w')"
proof -
  obtain s w1 where "sendParallel fqdn exch e (ChunkMessage mid p (GetChunkSize e) r) (discoverActiveRelays e) evs w
      = Some (s, w1)" "map_sum (\<lambda>err. err) (\<lambda>_. (mid, length (ChunkMessage mid p (GetChunkSize e) r))) s = Inr res" "w1 = w'"
    using assms by (auto simp: SendMessage_def Let_def)
  then show ?thesis by (cases s) auto
qed

lemma sent_chunk_held:
  assumes "fqdn_doc fqdn" "zone_ok (zone e)" "discoverActiveRelays e \<noteq> []"
    and "length (ChunkMessage mid p (GetChunkSize e) r) \<le> 65535"
    and "SendMessage fqdn (relays_exchange ops fqdn (zone e) remote) mid evs dones p r e w = Some (Inr res, w')"
    and "c \<in> set (ChunkMessage mid p (GetChunkSize e) r)"
  shows "\<exists>a \<in> set (discoverActiveRelays e). holds a c w'"
proof (rule chunk_transport.sendParallel_delivers [OF relays_chunk_transport [OF assms(1,2)]
      SendMessage_parallel [OF assms(5,3)] refl assms(3) _ _ assms(6)])
  show "distinct (map ChunkIdx (ChunkMessage mid p (GetChunkSize e) r))"
    using ChunkMessage_indexed [of mid p "GetChunkSize e" r] assms(4)
      indexed_distinct [of "ChunkMessage mid p (GetChunkSize e) r"] by simp
  show "\<forall>c \<in> set (ChunkMessage mid p (GetChunkSize e) r). valid_chunk c"
    using ChunkMessage_valid [OF assms(4)] by blast
qed

lemma fetch_held_message:
  assumes "fqdn_doc fqdn" "zone_ok z" "world_ok ops w" "p \<noteq> []" "length (ChunkMessage mid p n r) \<le> 65535"
    and "\<forall>c \<in> set (ChunkMessage mid p n r). holds a c w"
    and "fetchAndReassemble fqdn (relays_exchange ops fqdn z remote) a z mid mode w = (Inr d, w')"
  shows "d = p"
proof -
  obtain c where "c \<in> set (ChunkMessage mid p n r)"
    using assms(4) ChunkMessage_empty_iff [of mid p n r] by (meson last_in_set)
  then obtain st where st: "store_of w a = Some st" using assms(6) by (auto simp: holds_def)
  let ?g = "\<lambda>m i. GetChunk m i st"
  have "serves ops a ?g w"
    using st assms(3) by (auto simp: serves_def store_of_def world_ok_def relay_ok_def)
  moreover have "\<forall>c \<in> set (ChunkMessage mid p n r). ?g mid (ChunkIdx c) = Some c"
    using assms(6) st ChunkMessage_fields by (fastforce simp: holds_def)
  ultimately show ?thesis
    using chunk_source.fetch_message [OF relays_chunk_source [OF assms(1,2)] _ assms(7,4,5), of ?g] by blast
qed

section \<open>Polling a relay\<close>

lemma peer_hash_chars:
  "CHR ''.'' \<notin> set (peer_hash r)" "CHR 0x5C \<notin> set (peer_hash r)" "CHR '':'' \<notin> set (peer_hash r)"
  using set_base32hex [of "sha256_Sum256 (bytes_of_string r)"]
  by (auto simp: peer_hash_def base32hex_alphabet_def)

lemma relay_handle_poll:
  assumes "fqdn_doc fqdn" "zone_ok z"
    and "relay_handle ops fqdn z sc remote (poll_query fqdn (peer_hash r) z) s = Some (resp, s')"
  shows "relay_store s' = relay_store s \<and> (resp = reply RcodeRefused [] \<or>
    (\<exists>q. resp = reply RcodeSuccess [TXT q 60
       (map (poll_entry (relay_store s)) (ListPeerMessages (owner_order sc) (peer_hash r) (relay_store s)))]))"
proof -
  have "query_labels fqdn z (fqdn (strings_Join ([''POLL'', peer_hash r] @ [z]) ''.'')) = Some [''POLL'', peer_hash r]"
    using peer_hash_chars [of r] by (intro query_labels_Join [OF assms(1,2)]) auto
  then show ?thesis using assms(3) zone_clean [OF assms(1,2)]
    by (auto simp: relay_handle_def poll_query_def relay_answer_def Let_def split_beta split: if_splits)
qed

text \<open>A record that the relay writes is read back by the client.\<close>

lemma colon_not_encoded: "CHR '':'' \<notin> set (base32hex_EncodeToString bs)"
  using set_base32hex [of bs] by (auto simp: base32hex_alphabet_def)

lemma meta_field_be64 [simp]: "meta_field (base32hex_EncodeToString (be64 n)) = n"
  by (simp add: meta_field_def base32hex_decode_encode)

lemma SplitN_three:
  assumes "CHR '':'' \<notin> set a" "CHR '':'' \<notin> set b"
  shows "strings_SplitN 3 (CHR '':'') (a @ '':'' @ b @ '':'' @ c) = [a, b, c]"
proof -
  have "strings_SplitN (Suc (length [a, b])) (CHR '':'') (strings_Join ([a, b] @ [c]) '':'') = [a, b] @ [c]"
    using assms by (intro strings_SplitN_Join) auto
  then show ?thesis by (simp add: numeral_3_eq_3)
qed

lemma SplitN_one: "CHR '':'' \<notin> set a \<Longrightarrow> strings_SplitN 3 (CHR '':'') a = [a]"
  using strings_SplitN_short [of "CHR '':''" a 2] by (simp add: numeral_3_eq_3 del: strings_SplitN.simps)

definition poll_meta :: "'d ChunkStore \<Rightarrow> msg_id \<Rightarrow> PolledMessage" where
  "poll_meta st mid =
     (case GetMessageMeta mid st of
        (ts, seq, ok) \<Rightarrow>
          if ok \<and> sint ts > 0
          then \<lparr>pm_MsgID = mid, Data = [], Timestamp = ts, Sequence = seq\<rparr>
          else \<lparr>pm_MsgID = mid, Data = [], Timestamp = 0, Sequence = 0\<rparr>)"

lemma parse_poll_entry: "parsePollRecord (poll_entry st mid) = Some (poll_meta st mid)"
proof (cases "GetMessageMeta mid st")
  case (fields ts seq ok)
  show ?thesis
  proof (cases "ok \<and> sint ts > 0")
    case True
    then have "poll_entry st mid = base32hex_EncodeToString (be64 mid) @ '':''
        @ base32hex_EncodeToString (be64 ts) @ '':'' @ base32hex_EncodeToString (be64 seq)"
      by (simp add: poll_entry_def fields)
    then have "strings_SplitN 3 (CHR '':'') (poll_entry st mid)
        = [base32hex_EncodeToString (be64 mid), base32hex_EncodeToString (be64 ts), base32hex_EncodeToString (be64 seq)]"
      using SplitN_three [OF colon_not_encoded colon_not_encoded] by simp
    then show ?thesis using True
      by (simp add: parsePollRecord_def poll_meta_def fields base32hex_decode_encode Let_def)
  next
    case False
    then have "poll_entry st mid = base32hex_EncodeToString (be64 mid)"
      by (auto simp: poll_entry_def fields)
    then have "strings_SplitN 3 (CHR '':'') (poll_entry st mid) = [base32hex_EncodeToString (be64 mid)]"
      using SplitN_one [OF colon_not_encoded] by simp
    then show ?thesis using False
      by (auto simp: parsePollRecord_def poll_meta_def fields base32hex_decode_encode Let_def)
  qed
qed

lemma map_filter_Some: "(\<And>x. x \<in> set xs \<Longrightarrow> f (g x) = Some (h x)) \<Longrightarrow> List.map_filter f (map g xs) = map h xs"
  by (induction xs) auto

lemma parse_poll_response:
  "parsePollResponseWithMeta (reply RcodeSuccess [TXT q n (map (poll_entry st) mids)]) = map (poll_meta st) mids"
  by (simp add: parsePollResponseWithMeta_def txt_strings_def reply_def map_filter_Some parse_poll_entry)

lemma pm_MsgID_poll_meta [simp]: "pm_MsgID (poll_meta st mid) = mid"
  by (auto simp: poll_meta_def split: prod.split)

lemma pollRelay_answer:
  assumes "\<And>nt w r w'. P w \<Longrightarrow> exch nt (poll_query fqdn peer (zone e)) a w = (r, w') \<Longrightarrow> P w'"
    and "P w" "net_SplitHostPort a = Inr (h, pt)" "net_ParseIP h"
    and "pollRelayWithMeta fqdn exch a peer e w = (Inr ms, w')"
  shows "\<exists>nt w0 resp w1. P w0 \<and> exch nt (poll_query fqdn peer (zone e)) a w0 = (Inr resp, w1)
    \<and> Rcode resp = RcodeSuccess \<and> ms = parsePollResponseWithMeta resp"
proof -
  let ?m = "poll_query fqdn peer (zone e)"
  have res: "\<exists>resp. r = Inr resp \<and> Rcode resp = RcodeSuccess \<and> ms = parsePollResponseWithMeta resp"
    if "poll_result r = Inr ms" for r
    using that by (auto simp: poll_result_def split: sum.splits if_splits)
  have once: ?thesis if "map_prod poll_result (\<lambda>w. w) (exch nt ?m a w0) = (Inr ms, w')" "P w0" for nt w0
    using that res by (cases "exch nt ?m a w0") fastforce
  have rs: "resolveAddr fqdn exch a e w = (Inr a, w)" using assms(3,4) by (simp add: resolveAddr_def)
  show ?thesis
  proof (cases "GetTransportMode e")
    case TransportAuto
    obtain r1 w1 where r1: "exch TCP ?m a w = (r1, w1)" by fastforce
    obtain r2 w2 where r2: "exch UDP ?m a w1 = (r2, w2)" by fastforce
    have P: "P w1" "P w2" using assms(1) [OF assms(2) r1] assms(1) r2 by blast+
    consider "poll_result r1 = Inr ms" | "poll_result r2 = Inr ms"
      | "map_prod poll_result (\<lambda>w. w) (exch TCP ?m a w2) = (Inr ms, w')"
      using assms(5) r1 r2 TransportAuto by (auto simp: pollRelayWithMeta_def rs Let_def split: if_splits)
    then show ?thesis
      by cases (use res r1 r2 P assms(2) once in blast)+
  qed (use assms(2,5) once in \<open>auto simp: pollRelayWithMeta_def rs Let_def\<close>)
qed

text \<open>A relay whose link orders the owner map as Go may.\<close>

definition polls_ok :: "string \<Rightarrow> 'd ChunkStore \<Rightarrow> 'd world \<Rightarrow> bool" where
  "polls_ok a st w \<longleftrightarrow>
     (\<exists>fs s. fmlookup w a = Some (fs, s) \<and> relay_store s = st
        \<and> (\<forall>sc. Delivered sc \<in> set fs \<longrightarrow> enumerates (owner_order sc) (messageOwner st)))"

lemma relay_exchange_fates:
  "relay_exchange ops fqdn z remote nt q addr (fs, s) = (r, (fs', s')) \<Longrightarrow> set fs' \<subseteq> set fs"
  by (cases fs; cases "hd fs") (auto simp: relay_exchange_def split: option.splits)

lemma polls_ok_exchange:
  assumes "fqdn_doc fqdn" "zone_ok z" "polls_ok a st w"
    and "relays_exchange ops fqdn z remote nt (poll_query fqdn (peer_hash r) z) a w = (res, w')"
  shows "polls_ok a st w'"
proof -
  obtain fs s where s: "fmlookup w a = Some (fs, s)" "relay_store s = st"
    "\<forall>sc. Delivered sc \<in> set fs \<longrightarrow> enumerates (owner_order sc) (messageOwner st)"
    using assms(3) by (auto simp: polls_ok_def)
  obtain fs' s' where ex: "relay_exchange ops fqdn z remote nt (poll_query fqdn (peer_hash r) z) a (fs, s) = (res, (fs', s'))"
    and w': "w' = fmupd a (fs', s') w"
    using assms(4) s(1) by (auto simp: relays_exchange_def split: prod.splits)
  have "relay_store s' = st"
    using relay_exchange_store [OF ex] s(2) by (auto dest: relay_handle_poll [OF assms(1,2)])
  then show ?thesis using s(3) relay_exchange_fates [OF ex] by (auto simp: polls_ok_def w')
qed

lemma polls_ok_answer:
  assumes "fqdn_doc fqdn" "zone_ok z" "polls_ok a st w"
    and "relays_exchange ops fqdn z remote nt (poll_query fqdn (peer_hash r) z) a w = (Inr resp, w')"
    and "Rcode resp = RcodeSuccess"
  shows "\<exists>mids q. resp = reply RcodeSuccess [TXT q 60 (map (poll_entry st) mids)]
    \<and> distinct mids \<and> set mids = owned st (peer_hash r)"
proof -
  obtain fs s where s: "fmlookup w a = Some (fs, s)" "relay_store s = st"
    "\<forall>sc. Delivered sc \<in> set fs \<longrightarrow> enumerates (owner_order sc) (messageOwner st)"
    using assms(3) by (auto simp: polls_ok_def)
  obtain sc s' where sc: "Delivered sc \<in> set fs"
    and h: "relay_handle ops fqdn z sc remote (poll_query fqdn (peer_hash r) z) s = Some (resp, s')"
    using assms(4) s(1)
    by (auto simp: relays_exchange_def relay_exchange_def split: prod.splits list.splits fate.splits option.splits)
  have en: "enumerates (owner_order sc) (messageOwner st)" using s(3) sc by blast
  let ?mids = "ListPeerMessages (owner_order sc) (peer_hash r) st"
  have "distinct ?mids" "set ?mids = owned st (peer_hash r)"
    using en enumerates_in [OF en] by (auto simp: ListPeerMessages_def enumerates_def owned_def)
  then show ?thesis
    using relay_handle_poll [OF assms(1,2) h] assms(5) s(2) by (auto simp: reply_def rcode_defs)
qed

text \<open>A relay that misses a chunk which the others announce cannot serve the message.\<close>

lemma incomplete_unreadable:
  assumes "fqdn_doc fqdn" "zone_ok z" "store_of w a = Some st"
    and "\<And>m i c. GetChunk m i st = Some c \<Longrightarrow> length (RecipientHash c) \<in> {0, 32} \<and> unat k < unat (TotalChunks c)"
    and "GetChunk mid k st = None"
  shows "fetchAndReassemble fqdn (relays_exchange ops fqdn z remote) a z mid mode w \<noteq> (Inr d, w')"
proof
  assume f: "fetchAndReassemble fqdn (relays_exchange ops fqdn z remote) a z mid mode w = (Inr d, w')"
  let ?g = "\<lambda>m i. GetChunk m i st"
  have s: "serves ops a ?g w" using assms(3,4) by (auto simp: serves_def)
  obtain cs where cs: "cs \<noteq> []" "length cs = unat (TotalChunks (hd cs))"
    "map (\<lambda>i. ?g mid (word_of_nat i)) [0..<length cs] = map Some cs"
    using chunk_source.fetch_src [OF relays_chunk_source [OF assms(1,2)] s f] by metis
  have got: "?g mid (word_of_nat i) = Some (cs ! i)" if "i < length cs" for i
    using arg_cong [OF cs(3), of "\<lambda>xs. xs ! i"] that by simp
  have "0 < length cs" using cs(1) by simp
  from got [OF this] have "?g mid 0 = Some (hd cs)" using cs(1) by (simp add: hd_conv_nth)
  then have "unat k < length cs" using assms(4) [of mid 0 "hd cs"] cs(2) by simp
  then show False using got [of "unat k"] assms(5) by simp
qed

section \<open>A relay that lets the client through\<close>

lemma relay_handle_allowed:
  assumes "fqdn_doc fqdn" "zone_ok z" "Question q = [n]" "query_labels fqdn z n = Some ls"
    and "IPRateLimiter_Allow (t_bucket sc) (t_check sc) (extractIP remote) (limiter s) = (True, rl)"
  shows "relay_handle ops fqdn z sc remote q s =
    map_option (\<lambda>(resp, st). (resp, s\<lparr>limiter := rl, relay_store := st\<rparr>))
      (relay_answer ops fqdn z sc n ls (relay_store s))"
  using assms zone_clean [OF assms(1,2)]
  by (auto simp: relay_handle_def Let_def split: option.split)

lemma relay_handle_allowed_chunk:
  assumes "fqdn_doc fqdn" "zone_ok z" "length (RecipientHash c) \<in> {0, 32}"
    and "IPRateLimiter_Allow (t_bucket sc) (t_check sc) (extractIP remote) (limiter s) = (True, rl)"
  shows "\<exists>n. relay_handle ops fqdn z sc remote (chunk_query fqdn c z e) s =
    map_option (\<lambda>(resp, st). (resp, s\<lparr>limiter := rl, relay_store := st\<rparr>))
      (relay_answer ops fqdn z sc n (butlast (EncodeToLabels c z)) (relay_store s))"
  using relay_handle_allowed [OF assms(1,2) _ query_labels_chunk [OF assms(1-3)] assms(4), of "chunk_query fqdn c z e"]
  by (auto simp: chunk_query_def)

text \<open>Over UDP, a delivered query for a stored chunk returns it.\<close>

lemma QueryChunk_delivered:
  assumes "fqdn_doc fqdn" "zone_ok z" "fmlookup w a = Some (Delivered sc # fs, s)"
    and "IPRateLimiter_Allow (t_bucket sc) (t_check sc) (extractIP remote) (limiter s) = (True, rl)"
    and "GetChunk m i (relay_store s) = Some c" "length (RecipientHash c) \<in> {0, 32}"
  shows "QueryChunk fqdn (relays_exchange ops fqdn z remote) a z m i TransportUDP w
    = (Inr c, fmupd a (fs, s\<lparr>limiter := rl\<rparr>) w)"
proof -
  have v: "length (RecipientHash (NewChunk m i 0 [])) \<in> {0, 32}" by simp
  obtain n where "relay_handle ops fqdn z sc remote (chunk_query fqdn (NewChunk m i 0 []) z None) s
      = Some (reply RcodeSuccess [TXT n 300 (butlast (EncodeToLabels c z))], s\<lparr>limiter := rl\<rparr>)"
    using relay_handle_allowed_chunk [OF assms(1,2) v assms(4)] assms(5)
    by (auto simp: relay_answer_chunk [OF v])
  then show ?thesis
    using assms(3) decode_butlast [OF assms(6), of z]
    by (simp add: QueryChunk_def relays_exchange_def relay_exchange_def query_once_def decode_answer_def
        reply_def Let_def)
qed

lemma SendChunk_delivered:
  assumes "fqdn_doc fqdn" "zone_ok z" "fmlookup w a = Some (Delivered sc # fs, s)" "valid_chunk c"
    and "IPRateLimiter_Allow (t_bucket sc) (t_check sc) (extractIP remote) (limiter s) = (True, rl)"
    and "relay_put ops (t_store sc) c (relay_store s) = Some st"
  shows "SendChunk fqdn (relays_exchange ops fqdn z remote) a z c TransportUDP w
    = (Inr (), fmupd a (fs, s\<lparr>limiter := rl, relay_store := st\<rparr>) w)"
proof -
  have v: "length (RecipientHash c) \<in> {0, 32}" "TotalChunks c \<noteq> 0" using assms(4) by (simp_all add: valid_chunk_def)
  obtain resp where "relay_handle ops fqdn z sc remote (chunk_query fqdn c z (Some (4096, True))) s
      = Some (resp, s\<lparr>limiter := rl, relay_store := st\<rparr>)" "Rcode resp = RcodeSuccess"
    using relay_handle_allowed_chunk [OF assms(1,2) v(1) assms(5), of ops "Some (4096, True)"] assms(6) v(2)
    by (auto simp: relay_answer_chunk [OF v(1)] reply_def)
  then show ?thesis
    using assms(3) by (simp add: SendChunk_def relays_exchange_def relay_exchange_def check_rcode_def Let_def)
qed

lemma SendChunk_lost:
  assumes "fmlookup w a = Some (LostQuery # fs, s)"
  shows "SendChunk fqdn (relays_exchange ops fqdn z remote) a z c TransportUDP w
    = (Inl (UdpFailed ''timeout''), fmupd a (fs, s) w)"
  using assms by (simp add: SendChunk_def relays_exchange_def relay_exchange_def check_rcode_def Let_def)

text \<open>A one-chunk message, a client and a world for the witnesses.\<close>

definition client0 :: "string list \<Rightarrow> DNSClientEngine" where
  "client0 rs = SetTransportMode TransportUDP (NewDNSClientEngine rs ''z'')"

lemma client0_simps [simp]:
  "zone (client0 rs) = ''z''" "GetTransportMode (client0 rs) = TransportUDP"
  "discoverActiveRelays (client0 rs) = rs" "GetChunkSize (client0 rs) = 75"
  by (simp_all add: client0_def NewDNSClientEngine_def SetTransportMode_def GetTransportMode_def
      discoverActiveRelays_def GetRelays_def GetChunkSize_def defaultChunkSize_def)

lemma relay0_put:
  obtains st where "relay_put mem_bolt t c (relay_store relay0) = Some st" "store_ok mem_bolt st"
  using relay_put_ok [OF mem.bolt_bucket_axioms, of "relay_store relay0"] relay0_ok
  by (metis relay_ok_def)

lemma relay0_two_calls:
  obtains rl rl' where "IPRateLimiter_Allow 0 0 ip (limiter relay0) = (True, rl)"
    "IPRateLimiter_Allow 0 0 ip rl = (True, rl')"
  by (simp add: relay0_def NewIPRateLimiter_def IPRateLimiter_Allow_def TokenBucket_Allow_def
      TokenBucket_AllowN_def NewTokenBucket_def Let_def)

section \<open>Properties\<close>

text \<open>
  (C11) A poll tells the truth: when a relay answers, over whichever transport and after
  whatever losses, the client gets every message that the relay holds for the recipient
  exactly once, each with the relay's time stamp and sequence number, and nothing else.
\<close>

theorem poll_lists_messages:
  assumes "fqdn_doc fqdn" "zone_ok (zone e)" "net_SplitHostPort a = Inr (h, pt)" "net_ParseIP h"
    and "polls_ok a st w"
    and "pollRelayWithMeta fqdn (relays_exchange ops fqdn (zone e) remote) a (peer_hash r) e w = (Inr ms, w')"
  shows "distinct (map pm_MsgID ms) \<and> set ms = poll_meta st ` owned st (peer_hash r)"
proof -
  obtain nt w0 resp w1 where x: "polls_ok a st w0"
    "relays_exchange ops fqdn (zone e) remote nt (poll_query fqdn (peer_hash r) (zone e)) a w0 = (Inr resp, w1)"
    "Rcode resp = RcodeSuccess" "ms = parsePollResponseWithMeta resp"
    using pollRelay_answer [where P = "polls_ok a st", OF _ assms(5,3,4,6)] polls_ok_exchange [OF assms(1,2)]
    by blast
  from polls_ok_answer [OF assms(1,2) x(1-3)] obtain mids q
    where "resp = reply RcodeSuccess [TXT q 60 (map (poll_entry st) mids)]" "distinct mids"
      "set mids = owned st (peer_hash r)" by blast
  then show ?thesis by (simp add: x(4) parse_poll_response comp_def)
qed

theorem poll_lists_messages_witness:
  "\<exists>ms w'. pollRelayWithMeta plain_fqdn (relays_exchange mem_bolt plain_fqdn ''z'' (UDPAddr ''9.9.9.9'' 53))
      ''1.2.3.4:53'' (peer_hash ''k'') (client0 [''1.2.3.4:53''])
      (fmupd ''1.2.3.4:53'' ([Delivered sched0], relay0) fmempty) = (Inr ms, w')
    \<and> distinct (map pm_MsgID ms)
    \<and> set ms = poll_meta (relay_store relay0) ` owned (relay_store relay0) (peer_hash ''k'')"
proof -
  let ?a = "''1.2.3.4:53''" and ?w = "fmupd ''1.2.3.4:53'' ([Delivered sched0], relay0) fmempty"
  let ?net = "relays_exchange mem_bolt plain_fqdn ''z'' (UDPAddr ''9.9.9.9'' 53)"
  have a: "net_SplitHostPort ?a = Inr (''1.2.3.4'', ''53'')" "net_ParseIP ''1.2.3.4''"
    by code_simp+
  obtain rl where rl: "IPRateLimiter_Allow (t_bucket sched0) (t_check sched0) (extractIP (UDPAddr ''9.9.9.9'' 53)) (limiter relay0) = (True, rl)"
    using relay0_two_calls by (auto simp: sched0_def)
  have ls: "query_labels plain_fqdn ''z'' (plain_fqdn (strings_Join ([''POLL'', peer_hash ''k''] @ [''z'']) ''.'')) = Some [''POLL'', peer_hash ''k'']"
    using peer_hash_chars by (intro query_labels_Join [OF fqdn_doc_plain zone_z]) auto
  obtain resp where h: "relay_handle mem_bolt plain_fqdn ''z'' sched0 (UDPAddr ''9.9.9.9'' 53)
      (poll_query plain_fqdn (peer_hash ''k'') ''z'') relay0 = Some (resp, relay0\<lparr>limiter := rl\<rparr>)" "Rcode resp = RcodeSuccess"
    using relay_handle_allowed [OF fqdn_doc_plain zone_z _ ls rl, of "poll_query plain_fqdn (peer_hash ''k'') ''z''" mem_bolt]
    by (simp add: poll_query_def relay_answer_def reply_def)
  have rs: "resolveAddr plain_fqdn ?net ?a (client0 [?a]) ?w = (Inr ?a, ?w)" using a by (simp add: resolveAddr_def)
  obtain ms w' where "pollRelayWithMeta plain_fqdn ?net ?a (peer_hash ''k'') (client0 [?a]) ?w = (Inr ms, w')"
    using h unfolding pollRelayWithMeta_def rs
    by (simp add: relays_exchange_def relay_exchange_def poll_result_def Let_def)
  moreover have "polls_ok ?a (relay_store relay0) ?w"
    by (auto simp: polls_ok_def sched0_def relay0_def NewChunkStore_def enumerates_def)
  ultimately show ?thesis
    using poll_lists_messages [OF fqdn_doc_plain _ a, of "client0 [?a]" "relay_store relay0" ?w mem_bolt
        "UDPAddr ''9.9.9.9'' 53" "''k''"] zone_z
    by auto
qed

text \<open>
  (C2) End to end: with one relay, if sending a message reports success then, whatever the
  network lost on the way, a later fetch of it by its identifier, by anyone and over any
  transport, either fails or returns exactly the message that was sent. Between the two
  the relay may do anything that does not drop the chunks it holds.
\<close>

theorem message_arrives_intact:
  assumes "fqdn_doc fqdn" "zone_ok (zone e)" "discoverActiveRelays e = [a]"
    and "p \<noteq> []" "length (ChunkMessage mid p (GetChunkSize e) r) \<le> 65535"
    and "SendMessage fqdn (relays_exchange ops fqdn (zone e) remote) mid evs dones p r e w = Some (Inr res, w1)"
    and "\<And>c. holds a c w1 \<Longrightarrow> holds a c w2" "world_ok ops w2"
    and "fetchAndReassemble fqdn (relays_exchange ops fqdn (zone e) remote') a (zone e) mid mode w2 = (Inr d, w3)"
  shows "d = p"
proof -
  have "\<forall>c \<in> set (ChunkMessage mid p (GetChunkSize e) r). holds a c w2"
    using sent_chunk_held [OF assms(1,2) _ assms(5,6)] assms(3,7) by auto
  then show ?thesis using fetch_held_message [OF assms(1,2,8,4,5) _ assms(9)] by blast
qed

theorem message_arrives_intact_witness:
  "\<exists>w1 w3 d.
     SendMessage plain_fqdn (relays_exchange mem_bolt plain_fqdn ''z'' (UDPAddr ''9.9.9.9'' 53)) 1
       [TaskRun 0 0, SelDone] [] [7] '''' (client0 [''r''])
       (fmupd ''r'' ([Delivered sched0, Delivered sched0], relay0) fmempty) = Some (Inr (1, 1), w1)
   \<and> fetchAndReassemble plain_fqdn (relays_exchange mem_bolt plain_fqdn ''z'' (UDPAddr ''9.9.9.9'' 53)) ''r'' ''z'' 1
       TransportUDP w1 = (Inr d, w3) \<and> d = [7]"
proof -
  let ?net = "relays_exchange mem_bolt plain_fqdn ''z'' (UDPAddr ''9.9.9.9'' 53)"
  let ?w = "fmupd ''r'' ([Delivered sched0, Delivered sched0], relay0) fmempty" and ?c = "NewChunk 1 0 1 [7]"
  have cs: "ChunkMessage 1 [7] 75 '''' = [?c]"
    by (simp add: ChunkMessage_def NewChunk_def chunk_size_def)
  obtain st where st: "relay_put mem_bolt (t_store sched0) ?c (relay_store relay0) = Some st" "store_ok mem_bolt st"
    by (rule relay0_put)
  obtain rl rl' where rl: "IPRateLimiter_Allow (t_bucket sched0) (t_check sched0) (extractIP (UDPAddr ''9.9.9.9'' 53)) (limiter relay0) = (True, rl)"
    "IPRateLimiter_Allow (t_bucket sched0) (t_check sched0) (extractIP (UDPAddr ''9.9.9.9'' 53)) rl = (True, rl')"
    using relay0_two_calls by (auto simp: sched0_def)
  let ?s = "relay0\<lparr>limiter := rl, relay_store := st\<rparr>"
  let ?w1 = "fmupd ''r'' ([Delivered sched0], ?s) ?w"
  have send: "SendChunk plain_fqdn ?net ''r'' ''z'' ?c TransportUDP ?w = (Inr (), ?w1)"
    by (rule SendChunk_delivered [OF fqdn_doc_plain zone_z _ _ rl(1) st(1)]) (simp_all add: valid_chunk_def)
  have sm: "SendMessage plain_fqdn ?net 1 [TaskRun 0 0, SelDone] [] [7] '''' (client0 [''r'']) ?w = Some (Inr (1, 1), ?w1)"
    by (simp add: SendMessage_def sendParallel_def cs par_init_def par_step_def send par_done_def undelivered_def Let_def)
  have g: "GetChunk m i st = (if m = 1 \<and> i = 0 then Some ?c else None)" for m i
    using GetChunk_relay_put [OF st(1), of m i] by (simp add: relay0_def GetChunk_def NewChunkStore_def)
  have "QueryChunk plain_fqdn ?net ''r'' ''z'' 1 0 TransportUDP ?w1 = (Inr ?c, fmupd ''r'' ([], ?s\<lparr>limiter := rl'\<rparr>) ?w1)"
    by (rule QueryChunk_delivered [OF fqdn_doc_plain zone_z, where sc = sched0]) (simp_all add: g rl(2))
  then obtain d w3 where f: "fetchAndReassemble plain_fqdn ?net ''r'' ''z'' 1 TransportUDP ?w1 = (Inr d, w3)"
    by (simp add: fetchAndReassemble_def ReassembleMessage_def NewChunk_def)
  have "world_ok mem_bolt ?w1" using st(2) by (auto simp: world_ok_def relay_ok_def g)
  then have "d = [7]"
    using message_arrives_intact [OF fqdn_doc_plain _ _ _ _ _ _ _ , of "client0 [''r'']" "''r''" "[7]" 1 "''''"
        mem_bolt "UDPAddr ''9.9.9.9'' 53" "[TaskRun 0 0, SelDone]" "[]" ?w "(1, 1)" ?w1 ?w1
        "UDPAddr ''9.9.9.9'' 53" TransportUDP d w3] sm f zone_z cs by simp
  then show ?thesis using sm f by blast
qed


end
