(* ===== verification/Conversation.thy ===== *)
theory Conversation
  imports Daemon_Delivery Delivery
begin

text \<open>
  The whole path of a message: the daemon of the sender, its engine, the relay, the engine of the
  addressee and their daemon.
\<close>

section \<open>Polling through a relay\<close>

lemma fetch_rest_preserves:
  assumes "\<And>i w r w'. P w \<Longrightarrow> QueryChunk fqdn exch a z mid i mode w = (r, w') \<Longrightarrow> P w'"
    and "P w" "fetch_rest fqdn exch a z mid mode is acc w = (r, w')"
  shows "P w'"
  using assms(2,3)
proof (induction "is" arbitrary: acc w)
  case (Cons i "is")
  obtain x w1 where x: "QueryChunk fqdn exch a z mid (word_of_nat i) mode w = (x, w1)" by fastforce
  from assms(1) [OF Cons.prems(1) x] have "P w1" .
  then show ?case using Cons.IH [of w1] Cons.prems(2) x by (cases x) auto
qed simp

lemma fetchAndReassemble_preserves:
  assumes "\<And>i w r w'. P w \<Longrightarrow> QueryChunk fqdn exch a z mid i mode w = (r, w') \<Longrightarrow> P w'"
    and "P w" "fetchAndReassemble fqdn exch a z mid mode w = (r, w')"
  shows "P w'"
proof -
  obtain x w1 where x: "QueryChunk fqdn exch a z mid 0 mode w = (x, w1)" by fastforce
  have P1: "P w1" by (rule assms(1) [OF assms(2) x])
  show ?thesis
  proof (cases x)
    case (Inr c)
    obtain y w2 where y: "fetch_rest fqdn exch a z mid mode [1..<unat (TotalChunks c)] [c] w1 = (y, w2)" by fastforce
    have "P w2" by (rule fetch_rest_preserves [where P = P, OF assms(1) P1 y])
    then show ?thesis using assms(3) x y P1 Inr by (auto simp: fetchAndReassemble_def split: if_splits sum.splits)
  qed (use assms(3) x P1 in \<open>simp add: fetchAndReassemble_def\<close>)
qed

text \<open>What is polled from one relay was fetched from it while it was in a given state.\<close>

lemma fetch_all_data:
  assumes "\<And>mid i w r w'. P w \<Longrightarrow> QueryChunk fqdn exch a z mid i mode w = (r, w') \<Longrightarrow> P w'"
    and "\<And>mid w d w'. P w \<Longrightarrow> fetchAndReassemble fqdn exch a z mid mode w = (Inr d, w') \<Longrightarrow> Q mid d"
    and "P w" "fetch_all fqdn exch [a] pms e w = (Inr ms, e', w')" "zone e = z" "GetTransportMode e = mode" "pm \<in> set ms"
  shows "Q (pm_MsgID pm) (Data pm)"
  using assms(3-7)
proof (induction pms arbitrary: e w ms e' w')
  case (Cons m pms)
  show ?case
  proof (cases "pm_MsgID m \<in> fetched e")
    case True
    then show ?thesis using Cons.IH [OF Cons.prems(1) _ Cons.prems(3-5)] Cons.prems(2) by simp
  next
    case False
    obtain r w1 where r: "fetchAndReassemble fqdn exch a z (pm_MsgID m) mode w = (r, w1)" by fastforce
    have P1: "P w1" by (rule fetchAndReassemble_preserves [where P = P, OF assms(1) Cons.prems(1) r])
    note step = Cons.prems(2) [unfolded fetch_all.simps, simplified False if_False]
    show ?thesis
    proof (cases r)
      case (Inl err)
      then have "fetch_all fqdn exch [a] pms e w1 = (Inr ms, e', w')"
        using step r Cons.prems(3,4) by (cases err) auto
      then show ?thesis using Cons.IH [OF P1 _ Cons.prems(3-5)] by blast
    next
      case (Inr d)
      let ?e = "e\<lparr>fetched := insert (pm_MsgID m) (fetched e)\<rparr>"
      obtain ms' where ms': "fetch_all fqdn exch [a] pms ?e w1 = (Inr ms', e', w')" "ms = m\<lparr>Data := d\<rparr> # ms'"
        using step r Inr Cons.prems(3,4) by (auto split: prod.splits sum.splits)
      show ?thesis
      proof (cases "pm \<in> set ms'")
        case True
        then show ?thesis using Cons.IH [OF P1 ms'(1)] Cons.prems(3,4) by (simp add: GetTransportMode_def)
      next
        case False
        then have "pm = m\<lparr>Data := d\<rparr>" using Cons.prems(5) ms'(2) by simp
        then show ?thesis using assms(2) [OF Cons.prems(1) r [unfolded Inr]] by simp
      qed
    qed
  qed
qed simp

lemma serves_poll_exchange:
  assumes "fqdn_doc fqdn" "zone_ok z" "serves ops b g w"
    and "relays_exchange ops fqdn z remote nt (poll_query fqdn (peer_hash r) z) a w = (res, w')"
  shows "serves ops b g w'"
proof (cases "fmlookup w a")
  case None
  then show ?thesis using assms(3,4) by (simp add: relays_exchange_def)
next
  case (Some rn)
  obtain fs s where rn: "rn = (fs, s)" by fastforce
  obtain fs' s' where ex: "relay_exchange ops fqdn z remote nt (poll_query fqdn (peer_hash r) z) a (fs, s) = (res, (fs', s'))"
    and w': "w' = fmupd a (fs', s') w"
    using assms(4) Some rn by (auto simp: relays_exchange_def split: prod.splits)
  have "relay_store s' = relay_store s"
    using relay_exchange_store [OF ex] by (auto dest: relay_handle_poll [OF assms(1,2)])
  then have "store_of w' b = store_of w b" using Some rn by (auto simp: store_of_def w')
  then show ?thesis using assms(3) by (simp add: serves_def)
qed

lemma pollRelay_preserves:
  assumes "\<And>nt w r w'. P w \<Longrightarrow> exch nt (poll_query fqdn peer (zone e)) a w = (r, w') \<Longrightarrow> P w'"
    and "net_SplitHostPort a = Inr (h, pt)" "net_ParseIP h" "P w" "pollRelayWithMeta fqdn exch a peer e w = (res, w')"
  shows "P w'"
proof -
  let ?m = "poll_query fqdn peer (zone e)"
  have step: "P (snd (exch nt ?m a w))" if "P w" for nt w using assms(1) [OF that] by (metis prod.collapse)
  have rs: "resolveAddr fqdn exch a e w = (Inr a, w)" using assms(2,3) by (simp add: resolveAddr_def)
  have "P (snd (pollRelayWithMeta fqdn exch a peer e w))"
    using assms(4) by (auto simp: pollRelayWithMeta_def rs Let_def split_beta step split: TransportMode.split)
  then show ?thesis using assms(5) by simp
qed

lemma PollRelays_serves:
  assumes "fqdn_doc fqdn" "zone_ok (zone e)" "discoverActiveRelays e = [a]" "net_SplitHostPort a = Inr (h, pt)" "net_ParseIP h"
    and "serves ops b g w" "PollRelays fqdn (relays_exchange ops fqdn (zone e) remote) r e w = (ms, w')"
  shows "serves ops b g w'"
proof -
  let ?net = "relays_exchange ops fqdn (zone e) remote"
  obtain x w1 where x: "pollRelayWithMeta fqdn ?net a (peer_hash r) e w = (x, w1)" by fastforce
  have "serves ops b g w1"
    by (rule pollRelay_preserves [where P = "serves ops b g", OF _ assms(4,5,6) x]) (rule serves_poll_exchange [OF assms(1,2)])
  then show ?thesis using assms(3,6,7) x by (auto simp: PollRelays_def split: if_splits sum.splits)
qed

lemma polled_message_intact:
  assumes "fqdn_doc fqdn" "zone_ok (zone e)" "discoverActiveRelays e = [a]" "net_SplitHostPort a = Inr (h, pt)" "net_ParseIP h"
    and "world_ok ops w" "p \<noteq> []" "length (ChunkMessage mid p n r) \<le> 65535" "\<forall>c \<in> set (ChunkMessage mid p n r). holds a c w"
    and "PollMessages fqdn (relays_exchange ops fqdn (zone e) remote) peer e w = (Inr ms, e', w')" "pm \<in> set ms" "pm_MsgID pm = mid"
  shows "Data pm = p"
proof -
  let ?net = "relays_exchange ops fqdn (zone e) remote"
  obtain c where "c \<in> set (ChunkMessage mid p n r)"
    using assms(7) ChunkMessage_empty_iff [of mid p n r] by (meson last_in_set)
  then obtain st where st: "store_of w a = Some st" using assms(9) by (auto simp: holds_def)
  define g where "g m i = GetChunk m i st" for m i
  have serves: "serves ops a g w" using st assms(6) by (auto simp: serves_def store_of_def world_ok_def relay_ok_def g_def)
  have held: "\<forall>c \<in> set (ChunkMessage mid p n r). g mid (ChunkIdx c) = Some c"
    using assms(9) st ChunkMessage_fields by (fastforce simp: holds_def g_def)
  obtain metas w1 where metas: "PollRelays fqdn ?net peer e w = (metas, w1)" by fastforce
  have s1: "serves ops a g w1" by (rule PollRelays_serves [OF assms(1-5) serves metas])
  have all: "fetch_all fqdn ?net [a] metas e w1 = (Inr ms, e', w')"
    using assms(3,10,11) metas by (auto simp: PollMessages_def split: if_splits)
  have "pm_MsgID pm = mid \<longrightarrow> Data pm = p"
  proof (rule fetch_all_data [where P = "serves ops a g" and Q = "\<lambda>m d. m = mid \<longrightarrow> d = p", OF _ _ s1 all refl refl assms(11)])
    fix m i v x v' assume "serves ops a g v" "QueryChunk fqdn ?net a (zone e) m i (GetTransportMode e) v = (x, v')"
    then show "serves ops a g v'" by (rule chunk_source.query_good [OF relays_chunk_source [OF assms(1,2)]])
  next
    fix m v d v' assume f: "serves ops a g v" "fetchAndReassemble fqdn ?net a (zone e) m (GetTransportMode e) v = (Inr d, v')"
    show "m = mid \<longrightarrow> d = p"
      using chunk_source.fetch_message [OF relays_chunk_source [OF assms(1,2)] f(1) _ assms(7,8)] f(2) held by blast
  qed
  then show ?thesis using assms(12) by simp
qed

text \<open>A message reported as sent was accepted by the engine, and its id is the one that is reported.\<close>

lemma sent_direct_cases:
  assumes "send_direct_message env kp req d w = (Reply resp, d', w')" "\<not> sresp_Queued resp"
  obtains s p rnd v c n mid k where
    "peer_secret (env_crypto env) kp (sr_PeerPubkey req) = Inr s" "BuildSignedPayload (env_crypto env) kp (sr_Plaintext req) = Some p"
    "EncryptMessage (env_crypto env) rnd s p = Inr (c, n)"
    "engine_send env (n @ c) (sr_PeerPubkey req) d v = (Some (mid, Inr k), w')"
    "sresp_MessageId resp = base64_EncodeToString (be64 mid)"
  using assms by (fastforce simp: send_direct_message_def Let_def split: sum.splits option.splits prod.splits)

section \<open>Properties\<close>

text \<open>
  (C1) From user to user: let the daemon of one user report a direct message as sent through a relay, which
  may lose queries and answers, and let the relay do anything from then on that does not drop the
  chunks it holds. When the engine of the addressee polls that relay and brings back a message under the
  reported id, over whichever transport, then the daemon of the addressee makes of it exactly the text,
  with the key of the sender. As for a direct message, the sender must be a peer of the addressee,
  no other peer's key may open the payload, and the text must not look like a JSON object.
\<close>

theorem message_read_end_to_end:
  assumes "crypto_doc (env_crypto env)" "GenerateKeyPair (env_crypto env) ra = Inr ka" "GenerateKeyPair (env_crypto env) rb = Inr kb"
    and "identity a = Some ka" "sr_PeerPubkey req = base64_EncodeToString (PublicKey kb)" "sr_GroupId req = ''''"
    and "\<not> looks_like_json 10 (sr_Plaintext req)"
    and "fqdn_doc (env_fqdn env)" "zone_ok (zone (engine a))" "discoverActiveRelays (engine a) = [r]"
    and "net_SplitHostPort r = Inr (h, pt)" "net_ParseIP h"
    and "env_exch env = relays_exchange ops (env_fqdn env) (zone (engine a)) remote"
    and "Daemon_SendMessage env req a w = (Reply resp, a', w1)" "\<not> sresp_Queued resp"
  shows "\<exists>mid s p rnd c n payload. sresp_MessageId resp = base64_EncodeToString (be64 mid)
   \<and> BuildSignedPayload (env_crypto env) ka (sr_Plaintext req) = Some p
   \<and> EncryptMessage (env_crypto env) rnd s p = Inr (c, n) \<and> payload = n @ c
   \<and> (\<forall>(env' :: ('v, 'r, 'u) env) b w2 remote' polled e' w3 pm w4.
        length (ChunkMessage mid payload (GetChunkSize (engine a)) (sr_PeerPubkey req)) \<le> 65535
        \<longrightarrow> (\<forall>c. holds r c w1 \<longrightarrow> holds r c w2) \<longrightarrow> world_ok ops w2
        \<longrightarrow> env_crypto env' = env_crypto env \<longrightarrow> range_ok env' \<longrightarrow> daemon_ok b
        \<longrightarrow> zone (engine b) = zone (engine a) \<longrightarrow> discoverActiveRelays (engine b) = [r]
        \<longrightarrow> PollMessages (env_fqdn env) (relays_exchange ops (env_fqdn env) (zone (engine b)) remote')
              (base64_EncodeToString (PublicKey kb)) (engine b) w2 = (Inr polled, e', w3)
        \<longrightarrow> pm \<in> set polled \<longrightarrow> pm_MsgID pm = mid
        \<longrightarrow> opened_only_by (env_crypto env) kb (base64_EncodeToString (PublicKey ka)) payload (peers b)
        \<longrightarrow> (\<exists>w5. poll_one env' kb pm b w4 =
              (Reply (Some (received pm (base64_EncodeToString (PublicKey ka)) (sr_Plaintext req) '''')), b, w5)))"
proof -
  let ?x = "base64_EncodeToString (PublicKey ka)"
  have ok: "keypair_ok (env_crypto env) ka" "keypair_ok (env_crypto env) kb" using assms(1-3) GenerateKeyPair_ok by blast+
  have "send_direct_message env ka req a w = (Reply resp, a', w1)" using assms(4,6,14) by (simp add: Daemon_SendMessage_def)
  then obtain s p rnd v c n mid k where s: "peer_secret (env_crypto env) ka (sr_PeerPubkey req) = Inr s"
    and p: "BuildSignedPayload (env_crypto env) ka (sr_Plaintext req) = Some p" "EncryptMessage (env_crypto env) rnd s p = Inr (c, n)"
    and sent: "engine_send env (n @ c) (sr_PeerPubkey req) a v = (Some (mid, Inr k), w1)"
    and id: "sresp_MessageId resp = base64_EncodeToString (be64 mid)"
    by (rule sent_direct_cases [OF _ assms(15)])
  note sealed = sealed_opens [OF assms(1) ok s [unfolded assms(5)] p(2)]
  note opens = signed_payload_opens [OF assms(1) ok(1) p(1)]
  have ne: "n @ c \<noteq> []" using sealed(3) by auto
  obtain evs dones v1 res where sm: "SendMessage (env_fqdn env) (relays_exchange ops (env_fqdn env) (zone (engine a)) remote)
      mid evs dones (n @ c) (sr_PeerPubkey req) (engine a) v1 = Some (Inr res, w1)"
    using sent by (auto simp: engine_send_def assms(13) split: prod.splits option.splits sum.splits)
  show ?thesis
  proof (rule exI [of _ mid], rule exI [of _ s], rule exI [of _ p], rule exI [of _ rnd], rule exI [of _ c], rule exI [of _ n],
      rule exI [of _ "n @ c"], intro conjI id p refl allI impI)
    fix env' :: "('v, 'r, 'u) env" and b :: "('r, 'u) Daemon" and w2 remote' polled e' w3 pm and w4 :: 'v
    assume len: "length (ChunkMessage mid (n @ c) (GetChunkSize (engine a)) (sr_PeerPubkey req)) \<le> 65535"
      and keep: "\<forall>c. holds r c w1 \<longrightarrow> holds r c w2" and w2: "world_ok ops w2"
      and e: "env_crypto env' = env_crypto env" "range_ok env'" "daemon_ok b"
      and z: "zone (engine b) = zone (engine a)" "discoverActiveRelays (engine b) = [r]"
      and poll: "PollMessages (env_fqdn env) (relays_exchange ops (env_fqdn env) (zone (engine b)) remote')
              (base64_EncodeToString (PublicKey kb)) (engine b) w2 = (Inr polled, e', w3)" "pm \<in> set polled" "pm_MsgID pm = mid"
      and o: "opened_only_by (env_crypto env) kb ?x (n @ c) (peers b)"
    have "\<forall>ch \<in> set (ChunkMessage mid (n @ c) (GetChunkSize (engine a)) (sr_PeerPubkey req)). holds r ch w2"
      using sent_chunk_held [OF assms(8,9) _ len sm] assms(10) keep by auto
    then have "Data pm = n @ c"
      using assms(9) z by (intro polled_message_intact [OF assms(8) _ z(2) assms(11,12) w2 ne len _ poll]) simp_all
    from poll_one_opened [OF e(2,3) this sealed(3)] e(1) sealed(1,2) opens o deliver_text [OF assms(7)]
    show "\<exists>w5. poll_one env' kb pm b w4 = (Reply (Some (received pm ?x (sr_Plaintext req) '''')), b, w5)" by metis
  qed
qed

text \<open>Two daemons and a relay that lets three calls through: the sending, the poll and the fetch.\<close>

definition talk_addr :: string where "talk_addr = ''1.2.3.4:53''"

definition talk_net :: "(bytes, bytes) fmap world exchange" where
  "talk_net = relays_exchange mem_bolt plain_fqdn ''z'' (UDPAddr ''9.9.9.9'' 53)"

definition talk_world :: "(bytes, bytes) fmap world" where
  "talk_world = fmupd talk_addr ([Delivered sched0, Delivered (sched0\<lparr>owner_order := [1]\<rparr>), Delivered sched0], relay0) fmempty"

definition talk_env :: "((bytes, bytes) fmap world, int \<times> queue_rows, transfer_rows) env" where
  "talk_env = (quiet_env talk_net (\<lambda>m u t b w. (Inl (DoFailed ''refused''), w)) (1, [TaskRun 0 0, SelDone], []))\<lparr>env_fqdn := plain_fqdn\<rparr>"

definition talker :: "int \<Rightarrow> string \<Rightarrow> KeyPair \<Rightarrow> (int \<times> queue_rows, transfer_rows) Daemon" where
  "talker n dir kp = (blank_daemon dir)\<lparr>identity := Some kp, engine := (client0 [talk_addr])\<lparr>chunkSize := n\<rparr>\<rparr>"

lemma talk_simps:
  "env_crypto talk_env = plain_crypto" "env_fqdn talk_env = plain_fqdn" "env_exch talk_env = talk_net"
  "env_random talk_env w = (Inr (\<lambda>_. 7), w)" "env_run talk_env w = ((1, [TaskRun 0 0, SelDone], []), w)" "range_ok talk_env"
  using range_ok_quiet by (simp_all add: talk_env_def quiet_env_def range_ok_def)

lemma talker_simps:
  "identity (talker n dir kp) = Some kp" "zone (engine (talker n dir kp)) = ''z''"
  "discoverActiveRelays (engine (talker n dir kp)) = [talk_addr]" "GetTransportMode (engine (talker n dir kp)) = TransportUDP"
  "GetChunkSize (engine (talker n dir kp)) = n" "fetched (engine (talker n dir kp)) = {}"
  by (simp_all add: talker_def client0_def NewDNSClientEngine_def SetTransportMode_def GetTransportMode_def
      discoverActiveRelays_def GetRelays_def GetChunkSize_def)

lemma relay0_three_calls:
  obtains rl rl' rl'' where "IPRateLimiter_Allow 0 0 ip (limiter relay0) = (True, rl)"
    "IPRateLimiter_Allow 0 0 ip rl = (True, rl')" "IPRateLimiter_Allow 0 0 ip rl' = (True, rl'')"
  by (simp add: relay0_def NewIPRateLimiter_def IPRateLimiter_Allow_def TokenBucket_Allow_def
      TokenBucket_AllowN_def NewTokenBucket_def Let_def)

definition whole_chunk :: "bytes \<Rightarrow> string \<Rightarrow> Chunk" where
  "whole_chunk p r = (NewChunk 1 0 1 p)\<lparr>RecipientHash := sha256_Sum256 (bytes_of_string r)\<rparr>"

lemma one_slice: "0 < k \<Longrightarrow> (k + k - Suc 0) div k = 1"
  by (intro div_nat_eqI) auto

lemma whole_chunk_length: "0 < length p \<Longrightarrow> length (ChunkMessage mid p (int (length p)) r) = 1"
  using one_slice [of "length p"] by (simp add: ChunkMessage_def chunk_size_def Let_def)

lemma one_chunk:
  assumes "p \<noteq> []" "r \<noteq> []"
  shows "ChunkMessage 1 p (int (length p)) r = [whole_chunk p r]"
  using one_slice [of "length p"] assms by (simp add: ChunkMessage_def chunk_size_def Let_def whole_chunk_def)

lemma whole_chunk_simps:
  "valid_chunk (whole_chunk p r)" "MsgID (whole_chunk p r) = 1" "ChunkIdx (whole_chunk p r) = 0" "TotalChunks (whole_chunk p r) = 1"
  "RecipientHash (whole_chunk p r) = sha256_Sum256 (bytes_of_string r)" "length (RecipientHash (whole_chunk p r)) \<in> {0, 32}"
  by (simp_all add: whole_chunk_def valid_chunk_def)

lemma talk_send:
  assumes "p \<noteq> []" "r \<noteq> []" "IPRateLimiter_Allow 0 0 ''9.9.9.9'' (limiter relay0) = (True, rl)"
    and "relay_put mem_bolt (t_store sched0) (whole_chunk p r) (relay_store relay0) = Some st"
  shows "engine_send talk_env p r (talker (int (length p)) dir kp) talk_world = (Some (1, Inr 1),
    fmupd talk_addr ([Delivered (sched0\<lparr>owner_order := [1]\<rparr>), Delivered sched0], relay0\<lparr>limiter := rl, relay_store := st\<rparr>) talk_world)"
proof -
  have "SendChunk plain_fqdn talk_net talk_addr ''z'' (whole_chunk p r) TransportUDP talk_world = (Inr (),
      fmupd talk_addr ([Delivered (sched0\<lparr>owner_order := [1]\<rparr>), Delivered sched0], relay0\<lparr>limiter := rl, relay_store := st\<rparr>) talk_world)"
    unfolding talk_net_def
    by (rule SendChunk_delivered [OF fqdn_doc_plain zone_z _ _ _ assms(4)])
      (use assms(3) in \<open>simp_all add: talk_world_def whole_chunk_simps sched0_def extractIP_def\<close>)
  then show ?thesis
    by (simp add: engine_send_def talk_simps talker_simps SendMessage_def sendParallel_def one_chunk [OF assms(1,2)] par_init_def par_step_def
        par_done_def undelivered_def Let_def)
qed

lemma talk_poll:
  assumes "p \<noteq> []" "r \<noteq> []" "IPRateLimiter_Allow 0 0 ''9.9.9.9'' rl = (True, rl')" "IPRateLimiter_Allow 0 0 ''9.9.9.9'' rl' = (True, rl'')"
    and "relay_put mem_bolt (t_store sched0) (whole_chunk p r) (relay_store relay0) = Some st"
  shows "\<exists>pm e' w'. PollMessages plain_fqdn talk_net r (engine (talker n dir kp))
      (fmupd talk_addr ([Delivered (sched0\<lparr>owner_order := [1]\<rparr>), Delivered sched0], relay0\<lparr>limiter := rl, relay_store := st\<rparr>) talk_world)
    = (Inr [pm], e', w') \<and> pm_MsgID pm = 1"
proof -
  let ?e = "engine (talker n dir kp)" and ?a = talk_addr and ?s = "relay0\<lparr>limiter := rl, relay_store := st\<rparr>" and ?c = "whole_chunk p r"
  let ?sc = "sched0\<lparr>owner_order := [1]\<rparr>" and ?ip = "UDPAddr ''9.9.9.9'' 53"
  let ?w = "fmupd ?a ([Delivered ?sc, Delivered sched0], ?s) talk_world"
  have a: "net_SplitHostPort ?a = Inr (''1.2.3.4'', ''53'')" "net_ParseIP ''1.2.3.4''" unfolding talk_addr_def by code_simp+
  have ls: "query_labels plain_fqdn ''z'' (plain_fqdn (strings_Join ([''POLL'', peer_hash r] @ [''z'']) ''.'')) = Some [''POLL'', peer_hash r]"
    using peer_hash_chars by (intro query_labels_Join [OF fqdn_doc_plain zone_z]) auto
  have "sha256_Sum256 (bytes_of_string r) \<noteq> []" using length_sha256 [of "bytes_of_string r"] by (metis length_0_conv zero_neq_numeral)
  then have "fmlookup (messageOwner st) 1 = Some (peer_hash r)"
    using relay_put_owner [OF assms(5)] by (simp add: whole_chunk_simps relay0_def NewChunkStore_def peer_hash_def)
  then have own: "ListPeerMessages [1] (peer_hash r) st = [1]" by (simp add: ListPeerMessages_def)
  have al: "IPRateLimiter_Allow (t_bucket ?sc) (t_check ?sc) (extractIP ?ip) (limiter ?s) = (True, rl')"
    using assms(3) by (simp add: sched0_def extractIP_def)
  obtain q where h: "relay_handle mem_bolt plain_fqdn ''z'' ?sc ?ip (poll_query plain_fqdn (peer_hash r) ''z'') ?s
      = Some (reply RcodeSuccess [TXT q 60 (map (poll_entry st) [1])], ?s\<lparr>limiter := rl'\<rparr>)"
    using relay_handle_allowed [OF fqdn_doc_plain zone_z _ ls al, of "poll_query plain_fqdn (peer_hash r) ''z''" mem_bolt]
    by (simp add: poll_query_def relay_answer_def own)
  let ?w1 = "fmupd ?a ([Delivered sched0], ?s\<lparr>limiter := rl'\<rparr>) ?w"
  have rs: "resolveAddr plain_fqdn talk_net ?a ?e ?w = (Inr ?a, ?w)" using a by (simp add: resolveAddr_def)
  have "pollRelayWithMeta plain_fqdn talk_net ?a (peer_hash r) ?e ?w = (Inr [poll_meta st 1], ?w1)"
    using h parse_poll_response [of q 60 st "[1]"] unfolding pollRelayWithMeta_def rs
    by (simp add: talker_simps talk_net_def relays_exchange_def relay_exchange_def poll_result_def reply_def Let_def)
  then have poll: "PollRelays plain_fqdn talk_net r ?e ?w = ([poll_meta st 1], ?w1)"
    using assms(2) by (simp add: PollRelays_def talker_simps)
  have g: "GetChunk 1 0 st = Some ?c" using GetChunk_relay_put [OF assms(5), of 1 0] by (simp add: whole_chunk_simps)
  have "QueryChunk plain_fqdn talk_net ?a ''z'' 1 0 TransportUDP ?w1 = (Inr ?c, fmupd ?a ([], ?s\<lparr>limiter := rl''\<rparr>) ?w1)"
    using QueryChunk_delivered [OF fqdn_doc_plain zone_z, of ?w1 ?a sched0 "[]" "?s\<lparr>limiter := rl'\<rparr>" ?ip rl'' 1 0 ?c mem_bolt] assms(4) g
    by (simp add: whole_chunk_simps talk_net_def sched0_def extractIP_def)
  then obtain d where "fetchAndReassemble plain_fqdn talk_net ?a ''z'' 1 TransportUDP ?w1 = (Inr d, fmupd ?a ([], ?s\<lparr>limiter := rl''\<rparr>) ?w1)"
    by (simp add: fetchAndReassemble_def ReassembleMessage_def whole_chunk_def NewChunk_def)
  then show ?thesis by (simp add: PollMessages_def poll talker_simps)
qed


text \<open>The greeting is sent, and the addressee's engine finds it.\<close>

lemma talk_through:
  assumes "GenerateKeyPair plain_crypto ra = Inr ka" "GenerateKeyPair plain_crypto rb = Inr kb"
  obtains p resp w1 pm e' w3 where "BuildSignedPayload plain_crypto ka m = Some p"
    and "Daemon_SendMessage talk_env \<lparr>sr_PeerPubkey = base64_EncodeToString (PublicKey kb), sr_Plaintext = m, sr_GroupId = ''''\<rparr>
        (talker (int (24 + length p)) dir ka) talk_world = (Reply resp, talker (int (24 + length p)) dir ka, w1)"
    "\<not> sresp_Queued resp" "sresp_MessageId resp = base64_EncodeToString (be64 1)" "world_ok mem_bolt w1"
    and "PollMessages plain_fqdn talk_net (base64_EncodeToString (PublicKey kb)) (engine (talker (int (24 + length p)) dir' kb)) w1 = (Inr [pm], e', w3)"
    "pm_MsgID pm = 1"
proof -
  define y where "y = base64_EncodeToString (PublicKey kb)"
  have ok: "keypair_ok plain_crypto ka" "keypair_ok plain_crypto kb" using assms GenerateKeyPair_ok crypto_doc_plain by blast+
  obtain s where s: "SharedSecret plain_crypto (PrivateKey ka) (PublicKey kb) = Inr s" "length s = 32"
    using SharedSecret_agree [OF crypto_doc_plain ok] by blast
  obtain p where p: "BuildSignedPayload plain_crypto ka m = Some p"
    using daemon_ok_signs [OF blank_daemon_ok [OF assms(1) no_nil_empty], where kp = ka and ops = plain_crypto and m = m] by auto
  define load where "load = replicate 24 7 @ p"
  define size where "size = int (24 + length p)"
  have e: "EncryptMessage plain_crypto (Inr (\<lambda>_. 7)) s p = Inr (p, replicate 24 7)"
    using s(2) by (simp add: EncryptMessage_def NonceLength_def rand_Read_def plain_crypto_def map_replicate_trivial)
  have "length (PublicKey kb) = 32" using ok(2) by (simp add: keypair_ok_def)
  moreover have "base64_EncodeToString [] = ''''" by code_simp
  ultimately have ne: "load \<noteq> []" "y \<noteq> []" "int (length load) = size"
    using b64.dec_enc [of "PublicKey kb"] b64.dec_enc [of "[]"] by (auto simp: load_def y_def size_def)
  obtain rl rl' rl'' where rl: "IPRateLimiter_Allow 0 0 ''9.9.9.9'' (limiter relay0) = (True, rl)"
    "IPRateLimiter_Allow 0 0 ''9.9.9.9'' rl = (True, rl')" "IPRateLimiter_Allow 0 0 ''9.9.9.9'' rl' = (True, rl'')"
    using relay0_three_calls by metis
  obtain st where st: "relay_put mem_bolt (t_store sched0) (whole_chunk load y) (relay_store relay0) = Some st" "store_ok mem_bolt st"
    by (rule relay0_put)
  define w1 where "w1 = fmupd talk_addr ([Delivered (sched0\<lparr>owner_order := [1]\<rparr>), Delivered sched0], relay0\<lparr>limiter := rl, relay_store := st\<rparr>) talk_world"
  define a where "a = talker size dir ka"
  have "engine_send talk_env load y a talk_world = (Some (1, Inr 1), w1)"
    using talk_send [OF ne(1,2) rl(1) st(1)] ne(3) by (simp add: a_def w1_def)
  then obtain resp where send: "Daemon_SendMessage talk_env \<lparr>sr_PeerPubkey = y, sr_Plaintext = m, sr_GroupId = ''''\<rparr> a talk_world = (Reply resp, a, w1)" "\<not> sresp_Queued resp"
      "sresp_MessageId resp = base64_EncodeToString (be64 1)"
    using s p e by (simp add: Daemon_SendMessage_def send_direct_message_def peer_secret_def b64.dec_enc Let_def
        y_def a_def load_def talk_simps talker_simps)
  obtain pm e' w3 where poll: "PollMessages plain_fqdn talk_net y (engine (talker size dir' kb)) w1 = (Inr [pm], e', w3)" "pm_MsgID pm = 1"
    using talk_poll [OF ne(1,2) rl(2,3) st(1), of size dir' kb] by (auto simp: w1_def)
  have "world_ok mem_bolt w1"
    using st relay0_ok GetChunk_relay_put [OF st(1)] whole_chunk_simps(6) [of load y]
    by (auto simp: world_ok_def w1_def talk_world_def relay_ok_def split: if_splits)
  with that p send poll show ?thesis unfolding y_def a_def size_def by blast
qed

theorem message_read_end_to_end_witness:
  "\<exists>ka kb size resp a' w1 polled e' w3 pm w5. GenerateKeyPair plain_crypto (Inr (\<lambda>_. 1)) = Inr ka \<and> GenerateKeyPair plain_crypto (Inr (\<lambda>_. 2)) = Inr kb
    \<and> Daemon_SendMessage talk_env \<lparr>sr_PeerPubkey = base64_EncodeToString (PublicKey kb), sr_Plaintext = [104, 105], sr_GroupId = ''''\<rparr>
        (talker size ''/a'' ka) talk_world = (Reply resp, a', w1) \<and> \<not> sresp_Queued resp
    \<and> (let x = base64_EncodeToString (PublicKey ka); b = (talker size ''/b'' kb)\<lparr>peers := fmupd x (Some \<lparr>pe_Nickname = ''Ann'', pe_Pubkey = x\<rparr>) fmempty\<rparr>
       in PollMessages plain_fqdn talk_net (base64_EncodeToString (PublicKey kb)) (engine b) w1 = (Inr polled, e', w3)
        \<and> pm \<in> set polled \<and> sresp_MessageId resp = base64_EncodeToString (be64 (pm_MsgID pm))
        \<and> poll_one talk_env kb pm b w3 = (Reply (Some (received pm x [104, 105] '''')), b, w5))"
proof -
  obtain ka kb where k: "GenerateKeyPair plain_crypto (Inr (\<lambda>_. 1)) = Inr ka" "GenerateKeyPair plain_crypto (Inr (\<lambda>_. 2)) = Inr kb"
    using GenerateKeyPair_total [OF crypto_doc_plain] by meson
  define x where "x = base64_EncodeToString (PublicKey ka)"
  define y where "y = base64_EncodeToString (PublicKey kb)"
  define req where "req = \<lparr>sr_PeerPubkey = y, sr_Plaintext = [104, 105], sr_GroupId = ''''\<rparr>"
  obtain p resp w1 pm e' w3 where p: "BuildSignedPayload plain_crypto ka [104, 105] = Some p"
    and t: "Daemon_SendMessage talk_env \<lparr>sr_PeerPubkey = base64_EncodeToString (PublicKey kb), sr_Plaintext = [104, 105], sr_GroupId = ''''\<rparr>
        (talker (int (24 + length p)) ''/a'' ka) talk_world = (Reply resp, talker (int (24 + length p)) ''/a'' ka, w1)"
    "\<not> sresp_Queued resp" "sresp_MessageId resp = base64_EncodeToString (be64 1)" and ok1: "world_ok mem_bolt w1"
    and q: "PollMessages plain_fqdn talk_net (base64_EncodeToString (PublicKey kb)) (engine (talker (int (24 + length p)) ''/b'' kb)) w1 = (Inr [pm], e', w3)"
    "pm_MsgID pm = 1"
    by (rule talk_through [OF k, where m = "[104, 105]" and dir = "''/a''" and dir' = "''/b''"])
  define size where "size = int (24 + length p)"
  define a where "a = talker size ''/a'' ka"
  define b where "b = (talker size ''/b'' kb)\<lparr>peers := fmupd x (Some \<lparr>pe_Nickname = ''Ann'', pe_Pubkey = x\<rparr>) fmempty\<rparr>"
  have send: "Daemon_SendMessage talk_env req a talk_world = (Reply resp, a, w1)" using t(1) by (simp add: req_def a_def size_def y_def)
  have poll: "PollMessages plain_fqdn talk_net y (engine b) w1 = (Inr [pm], e', w3)" using q(1) by (simp add: b_def size_def y_def)
  have okb: "daemon_ok b"
    using blank_daemon_ok [OF k(2), of "peers b" "''/b''"] by (simp add: b_def talker_def daemon_ok_def)
  have a: "net_SplitHostPort talk_addr = Inr (''1.2.3.4'', ''53'')" "net_ParseIP ''1.2.3.4''" unfolding talk_addr_def by code_simp+
  have pre: "crypto_doc (env_crypto talk_env)" "GenerateKeyPair (env_crypto talk_env) (Inr (\<lambda>_. 1)) = Inr ka"
    "GenerateKeyPair (env_crypto talk_env) (Inr (\<lambda>_. 2)) = Inr kb" "identity a = Some ka"
    "sr_PeerPubkey req = base64_EncodeToString (PublicKey kb)" "sr_GroupId req = ''''" "\<not> looks_like_json 10 (sr_Plaintext req)"
    "fqdn_doc (env_fqdn talk_env)" "zone_ok (zone (engine a))" "discoverActiveRelays (engine a) = [talk_addr]"
    using k crypto_doc_plain fqdn_doc_plain zone_z
    by (simp_all add: talk_simps a_def talker_simps req_def y_def looks_like_json_def)
  have net: "env_exch talk_env = relays_exchange mem_bolt (env_fqdn talk_env) (zone (engine a)) (UDPAddr ''9.9.9.9'' 53)"
    by (simp add: talk_simps a_def talker_simps talk_net_def)
  obtain mid s1 p1 rnd c n where m: "sresp_MessageId resp = base64_EncodeToString (be64 mid)" "BuildSignedPayload plain_crypto ka [104, 105] = Some p1"
    "EncryptMessage plain_crypto rnd s1 p1 = Inr (c, n)"
    and main: "\<forall>(env' :: ((bytes, bytes) fmap world, int \<times> queue_rows, transfer_rows) env) b w2 remote' polled e' w3 pm w4.
        length (ChunkMessage mid (n @ c) (GetChunkSize (engine a)) (sr_PeerPubkey req)) \<le> 65535
        \<longrightarrow> (\<forall>c. holds talk_addr c w1 \<longrightarrow> holds talk_addr c w2) \<longrightarrow> world_ok mem_bolt w2
        \<longrightarrow> env_crypto env' = env_crypto talk_env \<longrightarrow> range_ok env' \<longrightarrow> daemon_ok b
        \<longrightarrow> zone (engine b) = zone (engine a) \<longrightarrow> discoverActiveRelays (engine b) = [talk_addr]
        \<longrightarrow> PollMessages (env_fqdn talk_env) (relays_exchange mem_bolt (env_fqdn talk_env) (zone (engine b)) remote')
              (base64_EncodeToString (PublicKey kb)) (engine b) w2 = (Inr polled, e', w3)
        \<longrightarrow> pm \<in> set polled \<longrightarrow> pm_MsgID pm = mid
        \<longrightarrow> opened_only_by (env_crypto talk_env) kb (base64_EncodeToString (PublicKey ka)) (n @ c) (peers b)
        \<longrightarrow> (\<exists>w5. poll_one env' kb pm b w4 =
              (Reply (Some (received pm (base64_EncodeToString (PublicKey ka)) (sr_Plaintext req) '''')), b, w5))"
    using message_read_end_to_end [OF pre a net send t(2), where 'v = "(bytes, bytes) fmap world" and 'r = "int \<times> queue_rows" and 'u = transfer_rows]
    unfolding req_def talk_simps by (elim exE conjE) (simp add: that)
  have "mid = 1" using m(1) t(3) b64.dec_enc be64_inject by (metis option.inject)
  moreover have "length (n @ c) = 24 + length p"
    using m(2,3) p length_rand_Read [of 24 rnd n]
    by (auto simp: EncryptMessage_def NonceLength_def plain_crypto_def split: sum.splits if_splits)
  then have "length (ChunkMessage mid (n @ c) (GetChunkSize (engine a)) (sr_PeerPubkey req)) \<le> 65535"
    using whole_chunk_length [of "n @ c"] by (simp add: a_def talker_simps size_def)
  ultimately obtain w5 where "poll_one talk_env kb pm b w3 = (Reply (Some (received pm x (sr_Plaintext req) '''')), b, w5)"
    using main [THEN spec, of talk_env, THEN spec, of b, THEN spec, of w1, THEN spec, of "UDPAddr ''9.9.9.9'' 53", THEN spec, of "[pm]",
        THEN spec, of e', THEN spec, of w3, THEN spec, of pm, THEN spec, of w3] ok1 okb poll q(2)
    by (auto simp: talk_simps talk_net_def a_def b_def x_def y_def talker_simps opened_only_by_def)
  then have one: "poll_one talk_env kb pm b w3 = (Reply (Some (received pm x [104, 105] '''')), b, w5)" by (simp add: req_def)
  show ?thesis
    unfolding Let_def
    by (rule exI [of _ ka], rule exI [of _ kb],
        rule exI [of _ size], rule exI [of _ resp], rule exI [of _ a], rule exI [of _ w1],
        rule exI [of _ "[pm]"], rule exI [of _ e'], rule exI [of _ w3], rule exI [of _ pm], rule exI [of _ w5],
        use k send t poll q one in \<open>simp add: a_def b_def x_def y_def req_def\<close>)
qed

end
