(* ===== verification/Relay_Refinement.thy ===== *)
theory Relay_Refinement
  imports Relay_Server
begin

text \<open>
  What a relay is for, without its buffers, counters, timestamps and limiter: a board on which chunks
  are put and from which they are read, with an owner for each message. Every execution of
  the relay is an execution of the board, with the same replies.
\<close>

section \<open>The board\<close>

record board =
  bd_chunk :: "msg_id \<Rightarrow> uint16 \<Rightarrow> Chunk option"
  bd_owner :: "msg_id \<Rightarrow> string option"

definition empty_board :: board where
  "empty_board = \<lparr>bd_chunk = \<lambda>_ _. None, bd_owner = \<lambda>_. None\<rparr>"

definition board_put :: "Chunk \<Rightarrow> board \<Rightarrow> board" where
  "board_put c b = \<lparr>bd_chunk = (bd_chunk b)(MsgID c := (bd_chunk b (MsgID c))(ChunkIdx c \<mapsto> c)),
     bd_owner = (if RecipientHash c \<noteq> [] \<and> bd_owner b (MsgID c) = None
       then (bd_owner b)(MsgID c \<mapsto> base32hex_EncodeToString (RecipientHash c)) else bd_owner b)\<rparr>"

definition board_drop :: "msg_id set \<Rightarrow> board \<Rightarrow> board" where
  "board_drop D b = \<lparr>bd_chunk = (\<lambda>m i. if m \<in> D then None else bd_chunk b m i),
     bd_owner = (\<lambda>m. if m \<in> D then None else bd_owner b m)\<rparr>"

text \<open>What a query asks for.\<close>

datatype request = Unknown | Malformed | ListFor string string | Fetch string msg_id uint16 | Put string Chunk

definition request_of :: "(string \<Rightarrow> string) \<Rightarrow> string \<Rightarrow> dns_query \<Rightarrow> request" where
  "request_of fqdn zone q =
     (case Question q of
        [] \<Rightarrow> Malformed
      | qname # _ \<Rightarrow>
          (case query_labels fqdn zone qname of
             None \<Rightarrow> Unknown
           | Some ls \<Rightarrow>
               if ls ! 0 = ''POLL'' then (if length ls < 2 then Malformed else ListFor qname (ls ! 1))
               else (case DecodeChunkFromLabels (ls @ [zone]) zone of
                       Inl _ \<Rightarrow> Malformed
                     | Inr c \<Rightarrow> if TotalChunks c = 0 then Fetch qname (MsgID c) (ChunkIdx c) else Put qname c)))"

definition ack :: "string \<Rightarrow> Chunk \<Rightarrow> dns_resp" where
  "ack qname c = reply RcodeSuccess [TXT qname 60 [base32hex_EncodeToString (be64 (MsgID c)),
     base32hex_EncodeToString [ucast (drop_bit 8 (ChunkIdx c)), ucast (ChunkIdx c)], ''OK'']]"

text \<open>
  The board may refuse any query, which is how the limiter shows, and may drop messages at any time.
  A listing names the messages of the owner, in any order; what follows a name is left open.
\<close>

inductive board_step :: "string \<Rightarrow> board \<Rightarrow> request option \<Rightarrow> dns_resp option \<Rightarrow> board \<Rightarrow> bool" for zone where
  board_refuses: "board_step zone b (Some rq) (Some (reply RcodeRefused [])) b"
| board_malformed: "board_step zone b (Some Malformed) (Some (reply RcodeFormatError [])) b"
| board_lists: "distinct ids \<Longrightarrow> set ids = {m. bd_owner b m = Some p} \<Longrightarrow>
    board_step zone b (Some (ListFor qname p))
      (Some (reply RcodeSuccess [TXT qname 60 (map (\<lambda>m. base32hex_EncodeToString (be64 m) @ info m) ids)])) b"
| board_misses: "bd_chunk b m i = None \<Longrightarrow> board_step zone b (Some (Fetch qname m i)) (Some (reply RcodeNameError [])) b"
| board_fetches: "bd_chunk b m i = Some c \<Longrightarrow>
    board_step zone b (Some (Fetch qname m i)) (Some (reply RcodeSuccess [TXT qname 300 (butlast (EncodeToLabels c zone))])) b"
| board_puts: "board_step zone b (Some (Put qname c)) (Some (ack qname c)) (board_put c b)"
| board_drops: "board_step zone b None None (board_drop D b)"

inductive board_exec :: "string \<Rightarrow> board \<Rightarrow> (request option \<times> dns_resp option) list \<Rightarrow> board \<Rightarrow> bool" for zone where
  board_exec_nil: "board_exec zone b [] b"
| board_exec_step: "board_step zone b rq resp b' \<Longrightarrow> board_exec zone b' tr b'' \<Longrightarrow> board_exec zone b ((rq, resp) # tr) b''"

section \<open>The relay\<close>

definition board_of :: "'d relay \<Rightarrow> board" where
  "board_of s = \<lparr>bd_chunk = (\<lambda>m i. GetChunk m i (relay_store s)), bd_owner = fmlookup (messageOwner (relay_store s))\<rparr>"

inductive relay_step ::
  "'d bolt_ops \<Rightarrow> (string \<Rightarrow> string) \<Rightarrow> string \<Rightarrow> 'd relay \<Rightarrow> relay_event \<Rightarrow> dns_resp option \<Rightarrow> 'd relay \<Rightarrow> bool" for ops fqdn zone where
  relay_queried: "enumerates (owner_order sc) (messageOwner (relay_store s)) \<Longrightarrow>
    relay_handle ops fqdn zone sc remote q s = Some (resp, s') \<Longrightarrow> relay_step ops fqdn zone s (RQuery sc remote q) (Some resp) s'"
| relay_collected: "enumerates ks (messages (relay_store s)) \<Longrightarrow>
    relay_step ops fqdn zone s (RGC now ks) None (s\<lparr>relay_store := ChunkStore_gc now ks (relay_store s)\<rparr>)"

inductive relay_exec ::
  "'d bolt_ops \<Rightarrow> (string \<Rightarrow> string) \<Rightarrow> string \<Rightarrow> 'd relay \<Rightarrow> (relay_event \<times> dns_resp option) list \<Rightarrow> 'd relay \<Rightarrow> bool" for ops fqdn zone where
  relay_exec_nil: "relay_exec ops fqdn zone s [] s"
| relay_exec_step: "relay_step ops fqdn zone s e resp s' \<Longrightarrow> relay_exec ops fqdn zone s' tr s'' \<Longrightarrow>
    relay_exec ops fqdn zone s ((e, resp) # tr) s''"

fun event_request :: "(string \<Rightarrow> string) \<Rightarrow> string \<Rightarrow> relay_event \<Rightarrow> request option" where
  "event_request fqdn zone (RQuery sc remote q) = Some (request_of fqdn (strings_TrimSuffix (fqdn zone) ''.'') q)"
| "event_request fqdn zone (RGC now ks) = None"

section \<open>Simulation\<close>

lemma board_of_put:
  assumes "relay_put ops now c (relay_store s) = Some st'"
  shows "board_of (s1\<lparr>relay_store := st'\<rparr>) = board_put c (board_of s)"
proof -
  have "fmlookup (messageOwner st') m = bd_owner (board_put c (board_of s)) m" for m
    using assms
    by (auto simp: relay_put_def board_put_def board_of_def SetMessageOwner_def dest!: ChunkStore_Store_frame split: option.splits)
  then show ?thesis
    using GetChunk_relay_put [OF assms] by (auto simp: board_of_def board_put_def fun_eq_iff)
qed

lemma board_of_limiter [simp]: "board_of (s\<lparr>limiter := rl\<rparr>) = board_of s"
  by (simp add: board_of_def)

lemma board_of_gc:
  assumes "enumerates ks (messages (relay_store s))"
  shows "board_of (s\<lparr>relay_store := ChunkStore_gc now ks (relay_store s)\<rparr>) = board_drop {m. expired now (relay_store s) m} (board_of s)"
proof -
  have "expired now (relay_store s) m \<Longrightarrow> m \<in> set ks" for m
    using enumerates_in [OF assms] by (auto simp: expired_def split: option.splits)
  then show ?thesis by (auto simp: board_of_def board_drop_def GetChunk_def gc_messages gc_owner fun_eq_iff)
qed

lemma poll_entry_name: "\<exists>info. \<forall>m. poll_entry st m = base32hex_EncodeToString (be64 m) @ info m"
proof (intro exI allI)
  fix m
  show "poll_entry st m = base32hex_EncodeToString (be64 m) @
     (case GetMessageMeta m st of (ts, seq, ok) \<Rightarrow>
        if ok \<and> sint ts > 0 then '':'' @ base32hex_EncodeToString (be64 ts) @ '':'' @ base32hex_EncodeToString (be64 seq) else [])"
    by (simp add: poll_entry_def split: prod.split)
qed

lemma same_board: "board_of (s1\<lparr>relay_store := relay_store s\<rparr>) = board_of s"
  by (simp add: board_of_def)

lemma relay_answer_step:
  assumes "enumerates (owner_order sc) (messageOwner (relay_store s))" "Question q = qname # qs"
    and "query_labels fqdn z qname = Some ls" "relay_answer ops fqdn z sc qname ls (relay_store s) = Some (resp, st')"
  shows "board_step z (board_of s) (Some (request_of fqdn z q)) (Some resp) (board_of (s1\<lparr>relay_store := st'\<rparr>))"
proof (cases "ls ! 0 = ''POLL''")
  case True
  obtain info where info: "\<And>m. poll_entry (relay_store s) m = base32hex_EncodeToString (be64 m) @ info m"
    using poll_entry_name by blast
  define ids where "ids = ListPeerMessages (owner_order sc) (ls ! 1) (relay_store s)"
  have "distinct ids" "set ids = {m. bd_owner (board_of s) m = Some (ls ! 1)}"
    using assms(1) enumerates_in [OF assms(1)] by (auto simp: ids_def ListPeerMessages_def enumerates_def board_of_def)
  note listed = board_lists [OF this, where info = info and zone = z and qname = qname]
  have "poll_entry (relay_store s) = (\<lambda>m. base32hex_EncodeToString (be64 m) @ info m)" by (rule ext) (rule info)
  then show ?thesis using True assms(2-4) listed board_malformed [of z "board_of s"]
    by (auto simp: relay_answer_def request_of_def ids_def same_board split: if_splits)
next
  case False
  show ?thesis
  proof (cases "DecodeChunkFromLabels (ls @ [z]) z")
    case (Inl e)
    then show ?thesis using False assms(2-4) board_malformed [of z "board_of s"]
      by (auto simp: relay_answer_def request_of_def same_board)
  next
    case (Inr c)
    show ?thesis
    proof (cases "TotalChunks c = 0")
      case True
      have at: "bd_chunk (board_of s) (MsgID c) (ChunkIdx c) = GetChunk (MsgID c) (ChunkIdx c) (relay_store s)"
        by (simp add: board_of_def)
      show ?thesis
      proof (cases "GetChunk (MsgID c) (ChunkIdx c) (relay_store s)")
        case None
        then show ?thesis using True False Inr assms(2-4) board_misses [OF at [unfolded None], of z qname]
          by (auto simp: relay_answer_def request_of_def same_board)
      next
        case (Some d)
        then show ?thesis using True False Inr assms(2-4) board_fetches [OF at [unfolded Some], of z qname]
          by (auto simp: relay_answer_def request_of_def same_board)
      qed
    next
      case put: False
      then show ?thesis using False Inr assms(2-4) board_puts [of z "board_of s" qname c]
        by (auto simp: relay_answer_def request_of_def ack_def board_of_put split: option.splits)
    qed
  qed
qed

lemma relay_step_simulated:
  assumes "relay_step ops fqdn zone s e resp s'"
  shows "board_step (strings_TrimSuffix (fqdn zone) ''.'') (board_of s) (event_request fqdn zone e) resp (board_of s')"
  using assms
proof cases
  case (relay_queried sc remote q r)
  obtain ok rl where allow: "IPRateLimiter_Allow (t_bucket sc) (t_check sc) (extractIP remote) (limiter s) = (ok, rl)" by fastforce
  show ?thesis
  proof (cases "\<exists>qname qs ls. ok \<and> Question q = qname # qs \<and> query_labels fqdn (strings_TrimSuffix (fqdn zone) ''.'') qname = Some ls")
    case True
    then show ?thesis using relay_queried allow relay_answer_step [OF relay_queried(3)]
      by (auto simp: relay_handle_def Let_def split: option.splits)
  next
    case False
    then show ?thesis using relay_queried allow board_refuses board_malformed
      by (auto simp: relay_handle_def Let_def request_of_def split: if_splits list.splits option.splits)
  qed
next
  case (relay_collected ks now)
  then show ?thesis using board_drops by (simp add: board_of_gc)
qed

lemma relay_exec_simulated:
  "relay_exec ops fqdn zone s tr s' \<Longrightarrow>
   board_exec (strings_TrimSuffix (fqdn zone) ''.'') (board_of s) (map (\<lambda>(e, r). (event_request fqdn zone e, r)) tr) (board_of s')"
  by (induction rule: relay_exec.induct) (auto intro: board_exec.intros relay_step_simulated)

end
