(* ===== verification/Go_Flag.thy ===== *)
theory Go_Flag
  imports Go_Codecs
begin

text \<open>
  The part of Go's \<^verbatim>\<open>flag\<close> and \<^verbatim>\<open>strconv\<close> that the command line uses: the flags at the front of the
  arguments are applied in order, and the values of integer and boolean flags are parsed.
\<close>

section \<open>Values\<close>

definition strconv_ParseBool :: "string \<Rightarrow> bool option" where
  "strconv_ParseBool s =
     (if s \<in> {''1'', ''t'', ''T'', ''TRUE'', ''true'', ''True''} then Some True
      else if s \<in> {''0'', ''f'', ''F'', ''FALSE'', ''false'', ''False''} then Some False
      else None)"

definition digit_value :: "char \<Rightarrow> nat option" where
  "digit_value c =
     (case index_of ''0123456789abcdefghijklmnopqrstuvwxyz'' c of
        Some v \<Rightarrow> Some v
      | None \<Rightarrow> index_of ''0123456789ABCDEFGHIJKLMNOPQRSTUVWXYZ'' c)"

text \<open>The base that base zero selects, and the digits after its prefix.\<close>

definition base_prefix :: "string \<Rightarrow> nat \<times> string" where
  "base_prefix s =
     (case s of
        CHR ''0'' # c # x # r \<Rightarrow>
          if c \<in> {CHR ''b'', CHR ''B''} then (2, x # r)
          else if c \<in> {CHR ''o'', CHR ''O''} then (8, x # r)
          else if c \<in> {CHR ''x'', CHR ''X''} then (16, x # r)
          else (8, c # x # r)
      | CHR ''0'' # r \<Rightarrow> (8, r)
      | _ \<Rightarrow> (10, s))"

fun digits_value :: "nat \<Rightarrow> nat \<Rightarrow> string \<Rightarrow> nat option" where
  "digits_value b n [] = Some n"
| "digits_value b n (c # cs) =
     (if c = CHR ''_'' then digits_value b n cs
      else case digit_value c of
             None \<Rightarrow> None
           | Some v \<Rightarrow> if v < b then digits_value b (n * b + v) cs else None)"

text \<open>An underscore stands between two digits or between the prefix and a digit.\<close>

datatype seen = AtStart | AtDigit | AtUnderscore | AtOther

fun underscores_between :: "bool \<Rightarrow> seen \<Rightarrow> string \<Rightarrow> bool" where
  "underscores_between hex i [] = (i \<noteq> AtUnderscore)"
| "underscores_between hex i (c # cs) =
     (if (case digit_value c of None \<Rightarrow> False | Some v \<Rightarrow> v < (if hex then 16 else 10))
      then underscores_between hex AtDigit cs
      else if c = CHR ''_'' then i = AtDigit \<and> underscores_between hex AtUnderscore cs
      else i \<noteq> AtUnderscore \<and> underscores_between hex AtOther cs)"

definition underscoreOK :: "string \<Rightarrow> bool" where
  "underscoreOK s =
     (case s of
        CHR ''0'' # c # r \<Rightarrow>
          if c \<in> {CHR ''b'', CHR ''B'', CHR ''o'', CHR ''O'', CHR ''x'', CHR ''X''}
          then underscores_between (c \<in> {CHR ''x'', CHR ''X''}) AtDigit r
          else underscores_between False AtStart s
      | _ \<Rightarrow> underscores_between False AtStart s)"

definition strconv_ParseInt0 :: "string \<Rightarrow> int option" where
  "strconv_ParseInt0 s =
     (let neg = (s \<noteq> [] \<and> hd s = CHR ''-'');
          u = (if s \<noteq> [] \<and> (hd s = CHR ''-'' \<or> hd s = CHR ''+'') then tl s else s)
      in if u = [] then None
         else case base_prefix u of
                (b, ds) \<Rightarrow>
                  (case digits_value b 0 ds of
                     None \<Rightarrow> None
                   | Some n \<Rightarrow>
                       if CHR ''_'' \<in> set ds \<and> \<not> underscoreOK u then None
                       else if neg then (if int n \<le> 2 ^ 63 then Some (- int n) else None)
                       else (if int n < 2 ^ 63 then Some (int n) else None)))"

section \<open>Flags\<close>

text \<open>A flag set: for each name, whether the flag is boolean, and what setting it does.\<close>

type_synonym 's flag_set = "string \<Rightarrow> (bool \<times> (string \<Rightarrow> 's \<Rightarrow> 's option)) option"

datatype flag_error = FlagError | ErrHelp

datatype flag_arg = NoFlag | BadSyntax | FlagArg string "string option"

text \<open>The name ends at the first equals sign that is not its first character.\<close>

definition split_value :: "string \<Rightarrow> string \<times> string option" where
  "split_value nm =
     (let front = takeWhile (\<lambda>c. c \<noteq> CHR ''='') (tl nm); rest = dropWhile (\<lambda>c. c \<noteq> CHR ''='') (tl nm)
      in (hd nm # front, if rest = [] then None else Some (tl rest)))"

definition flag_arg :: "string \<Rightarrow> flag_arg" where
  "flag_arg s =
     (if length s < 2 \<or> hd s \<noteq> CHR ''-'' \<or> s = ''--'' then NoFlag
      else let nm = (if s ! 1 = CHR ''-'' then drop 2 s else drop 1 s)
           in if nm = [] \<or> hd nm = CHR ''-'' \<or> hd nm = CHR ''='' then BadSyntax
              else case split_value nm of (n, v) \<Rightarrow> FlagArg n v)"

definition set_flag :: "(string \<Rightarrow> 's \<Rightarrow> 's option) \<Rightarrow> string \<Rightarrow> 's \<Rightarrow> flag_error + 's" where
  "set_flag f v s = (case f v s of None \<Rightarrow> Inl FlagError | Some s' \<Rightarrow> Inr s')"

fun flag_Parse :: "'s flag_set \<Rightarrow> string list \<Rightarrow> 's \<Rightarrow> flag_error + 's" where
  "flag_Parse fl [] s = Inr s"
| "flag_Parse fl (a # args) s =
     (case flag_arg a of
        NoFlag \<Rightarrow> Inr s
      | BadSyntax \<Rightarrow> Inl FlagError
      | FlagArg n v \<Rightarrow>
          (case fl n of
             None \<Rightarrow> Inl (if n = ''help'' \<or> n = ''h'' then ErrHelp else FlagError)
           | Some (True, f) \<Rightarrow>
               (case set_flag f (case v of None \<Rightarrow> ''true'' | Some x \<Rightarrow> x) s of
                  Inl e \<Rightarrow> Inl e
                | Inr s' \<Rightarrow> flag_Parse fl args s')
           | Some (False, f) \<Rightarrow>
               (case v of
                  Some x \<Rightarrow> (case set_flag f x s of Inl e \<Rightarrow> Inl e | Inr s' \<Rightarrow> flag_Parse fl args s')
                | None \<Rightarrow>
                    (case args of
                       [] \<Rightarrow> Inl FlagError
                     | x # args' \<Rightarrow>
                         (case set_flag f x s of Inl e \<Rightarrow> Inl e | Inr s' \<Rightarrow> flag_Parse fl args' s')))))"

text \<open>The status with which a set created with \<^verbatim>\<open>ExitOnError\<close> ends the process.\<close>

definition exit_status :: "flag_error \<Rightarrow> nat" where
  "exit_status e = (case e of FlagError \<Rightarrow> 2 | ErrHelp \<Rightarrow> 0)"

text \<open>Repeating a flag applies it to every value, in order.\<close>

lemma flag_Parse_repeated:
  assumes "flag_arg a = FlagArg n None" "fl n = Some (False, f)" "\<And>v s. f v s = Some (g v s)"
  shows "flag_Parse fl (concat (map (\<lambda>v. [a, v]) vs) @ args) s = flag_Parse fl args (fold g vs s)"
  by (induction vs arbitrary: s) (simp_all add: assms set_flag_def)

end
