(* ===== verification/Programs.thy ===== *)
theory Programs
  imports Daemon_Restart Media_Delivery Group_Delivery Conversation Relay_Refinement Go_Flag
begin

text \<open>
  The programs around the components: \<^verbatim>\<open>cmd/relayd\<close>, which starts a relay or a client daemon from
  its command line, and the three bridges that start a daemon inside a mobile application.
\<close>

section \<open>Command line\<close>

record server_flags =
  sf_addr :: string
  sf_zone :: string
  sf_db :: string
  sf_mediaPort :: string

record client_flags =
  cf_grpc :: int
  cf_zone :: string
  cf_dataDir :: string
  cf_forceBlackout :: bool
  cf_dnsResolver :: string
  cf_relays :: "string list"

definition server_defaults :: server_flags where
  "server_defaults = \<lparr>sf_addr = '':53'', sf_zone = ''msg.local-domain'', sf_db = ''/var/lib/relayd'', sf_mediaPort = ''9877''\<rparr>"

definition client_defaults :: client_flags where
  "client_defaults = \<lparr>cf_grpc = 9876, cf_zone = ''msg.local-domain'', cf_dataDir = '''', cf_forceBlackout = False,
     cf_dnsResolver = ''8.8.8.8:53'', cf_relays = []\<rparr>"

definition serverCmd :: "server_flags flag_set" where
  "serverCmd n =
     (if n = ''addr'' then Some (False, \<lambda>v s. Some (s\<lparr>sf_addr := v\<rparr>))
      else if n = ''zone'' then Some (False, \<lambda>v s. Some (s\<lparr>sf_zone := v\<rparr>))
      else if n = ''db'' then Some (False, \<lambda>v s. Some (s\<lparr>sf_db := v\<rparr>))
      else if n = ''media-port'' then Some (False, \<lambda>v s. Some (s\<lparr>sf_mediaPort := v\<rparr>))
      else None)"

definition relayList_Set :: "string \<Rightarrow> string list \<Rightarrow> string list" where
  "relayList_Set v r = r @ [v]"

definition clientCmd :: "client_flags flag_set" where
  "clientCmd n =
     (if n = ''grpc-port'' then Some (False, \<lambda>v s. map_option (\<lambda>i. s\<lparr>cf_grpc := i\<rparr>) (strconv_ParseInt0 v))
      else if n = ''zone'' then Some (False, \<lambda>v s. Some (s\<lparr>cf_zone := v\<rparr>))
      else if n = ''data-dir'' then Some (False, \<lambda>v s. Some (s\<lparr>cf_dataDir := v\<rparr>))
      else if n = ''force-blackout'' then Some (True, \<lambda>v s. map_option (\<lambda>b. s\<lparr>cf_forceBlackout := b\<rparr>) (strconv_ParseBool v))
      else if n = ''dns-resolver'' then Some (False, \<lambda>v s. Some (s\<lparr>cf_dnsResolver := v\<rparr>))
      else if n = ''relay'' then Some (False, \<lambda>v s. Some (s\<lparr>cf_relays := relayList_Set v (cf_relays s)\<rparr>))
      else None)"

datatype program = Exits nat | RunsServer server_flags | RunsClient client_flags

definition relayd_main :: "string list \<Rightarrow> program" where
  "relayd_main args =
     (case args of
        _ # mode # rest \<Rightarrow>
          if mode = ''server'' then
            (case flag_Parse serverCmd rest server_defaults of Inl e \<Rightarrow> Exits (exit_status e) | Inr s \<Rightarrow> RunsServer s)
          else if mode = ''client'' then
            (case flag_Parse clientCmd rest client_defaults of Inl e \<Rightarrow> Exits (exit_status e) | Inr s \<Rightarrow> RunsClient s)
          else Exits 1
      | _ \<Rightarrow> Exits 1)"

section \<open>The relay program\<close>

definition DefaultChunkTTL :: duration where
  "DefaultChunkTTL = 7 * 24 * 3600 * 1000000000"

text \<open>
  The outcomes of creating the directory and of opening the database with its bucket are arguments.
  \<open>None\<close> is the end of the process with status one.
\<close>

definition runServer :: "string option \<Rightarrow> string + 'd \<Rightarrow> ('d \<Rightarrow> string + 'd) \<Rightarrow> 'd relay option" where
  "runServer mkdir opened create_bucket =
     (case mkdir of
        Some _ \<Rightarrow> None
      | None \<Rightarrow>
          (let s = NewChunkStore (60 * 1000000000) DefaultChunkTTL in
           Some \<lparr>relay_store =
                   (case NewSequenceCounter opened create_bucket of
                      Inl _ \<Rightarrow> s
                    | Inr db \<Rightarrow> SetSequenceCounter (Some db) s),
                 limiter = NewIPRateLimiter 10 20\<rparr>))"

text \<open>The process serves when \<^verbatim>\<open>RunServer\<close> does; otherwise it ends with status one.\<close>

definition relayd_server ::
  "(string \<Rightarrow> string) \<Rightarrow> string option \<Rightarrow> string + 'd \<Rightarrow> ('d \<Rightarrow> string + 'd) \<Rightarrow> (listener \<Rightarrow> string option)
   \<Rightarrow> (string \<Rightarrow> media_server option) \<Rightarrow> server_flags \<Rightarrow> ('d relay \<times> serving) option" where
  "relayd_server fqdn mkdir opened create_bucket listen start_media sf =
     (case runServer mkdir opened create_bucket of
        None \<Rightarrow> None
      | Some s \<Rightarrow>
          (case RunServer fqdn (sf_addr sf) (sf_zone sf) (sf_mediaPort sf) listen start_media of
             Inl _ \<Rightarrow> None
           | Inr sv \<Rightarrow> Some (s, sv)))"

section \<open>The client program and the bridges\<close>

definition client_startup :: "string option \<Rightarrow> client_flags \<Rightarrow> startup option" where
  "client_startup home cf =
     map_option (\<lambda>dir. \<lparr>su_relays = cf_relays cf, su_zone = cf_zone cf, su_dataDir = dir,
                        su_forceBlackout = cf_forceBlackout cf, su_dnsResolver = cf_dnsResolver cf\<rparr>)
       (if cf_dataDir cf = '''' then map_option (\<lambda>h. h @ ''/.config/relayd'') home else Some (cf_dataDir cf))"

text \<open>\<^verbatim>\<open>runClient\<close>: a failed start ends the process with status one, a panic ends it with status two.\<close>

definition runClient ::
  "('w, 'q, 't) env \<Rightarrow> string option \<Rightarrow> string option \<Rightarrow> string + 'q \<Rightarrow> string + 't \<Rightarrow> string option
   \<Rightarrow> client_flags \<Rightarrow> files \<Rightarrow> 'w \<Rightarrow> (nat + ('q, 't) Daemon) \<times> files \<times> 'w" where
  "runClient env home mkdir open_queue open_transfers listen cf fs w =
     (case client_startup home cf of
        None \<Rightarrow> (Inl 1, fs, w)
      | Some su \<Rightarrow>
          (case RunDaemon env mkdir open_queue open_transfers listen su fs w of
             (None, r) \<Rightarrow> (Inl 2, r)
           | (Some (Inl _), r) \<Rightarrow> (Inl 1, r)
           | (Some (Inr d), r) \<Rightarrow> (Inr d, r)))"

definition embedded_startup :: "string \<Rightarrow> string \<Rightarrow> string \<Rightarrow> string \<Rightarrow> string \<Rightarrow> startup" where
  "embedded_startup given zn force dir resolver =
     \<lparr>su_relays = (if given = '''' then [] else strings_Split (CHR '','') given), su_zone = zn,
      su_dataDir = dir, su_forceBlackout = (force = ''true''), su_dnsResolver = resolver\<rparr>"

definition mobile_startup :: "string \<Rightarrow> string \<Rightarrow> string \<Rightarrow> string \<Rightarrow> string \<Rightarrow> startup" where
  "mobile_startup given zn force dir resolver =
     \<lparr>su_relays = (if given = '''' then []
                   else filter (\<lambda>r. r \<noteq> '''') (map strings_TrimSpace (strings_Split (CHR '','') given))),
      su_zone = zn, su_dataDir = dir, su_forceBlackout = (force = ''true''), su_dnsResolver = resolver\<rparr>"

text \<open>
  The bridge for the shared library takes its strings from Java: a null reference, and a string whose
  characters the virtual machine does not hand out, become the empty string. The port of the
  peer-to-peer network and its bootstrap addresses are not passed on.
\<close>

definition jstringToCString :: "('j \<Rightarrow> string option) \<Rightarrow> 'j option \<Rightarrow> string" where
  "jstringToCString getStringUTFChars js =
     (case js of
        None \<Rightarrow> ''''
      | Some j \<Rightarrow> (case getStringUTFChars j of None \<Rightarrow> '''' | Some c \<Rightarrow> c))"

definition GoBridge_startDaemon ::
  "('j \<Rightarrow> string option) \<Rightarrow> 'j option \<Rightarrow> 'j option \<Rightarrow> 'j option \<Rightarrow> 'j option \<Rightarrow> int \<Rightarrow> 'j option \<Rightarrow> 'j option \<Rightarrow> startup" where
  "GoBridge_startDaemon chars given zn force dir p2pPort bootstrapAddrs resolver =
     mobile_startup (jstringToCString chars given) (jstringToCString chars zn) (jstringToCString chars force)
       (jstringToCString chars dir) (jstringToCString chars resolver)"

text \<open>\<^verbatim>\<open>StartDaemon\<close> recovers from a panic of the start and reports an error: either way the application goes on without a daemon.\<close>

definition StartDaemon ::
  "('w, 'q, 't) env \<Rightarrow> string option \<Rightarrow> string + 'q \<Rightarrow> string + 't \<Rightarrow> string option \<Rightarrow> startup \<Rightarrow> files \<Rightarrow> 'w
   \<Rightarrow> ('q, 't) Daemon option \<times> files \<times> 'w" where
  "StartDaemon env mkdir open_queue open_transfers listen su fs w =
     (case RunDaemon env mkdir open_queue open_transfers listen su fs w of
        (None, r) \<Rightarrow> (None, r)
      | (Some (Inl _), r) \<Rightarrow> (None, r)
      | (Some (Inr d), r) \<Rightarrow> (Some d, r))"

text \<open>\<^verbatim>\<open>StopGRPCServer\<close> has an empty body.\<close>

definition StopGRPCServer :: "('q, 't) Daemon \<Rightarrow> ('q, 't) Daemon" where
  "StopGRPCServer d = d"

section \<open>What the programs start\<close>

lemma relayd_client_relays:
  "relayd_main (''relayd'' # ''client'' # concat (map (\<lambda>r. [''--relay'', r]) rs)) =
   RunsClient (client_defaults\<lparr>cf_relays := rs\<rparr>)"
proof -
  have parse: "flag_Parse clientCmd (concat (map (\<lambda>r. [''--relay'', r]) rs) @ []) s =
      flag_Parse clientCmd [] (fold (\<lambda>v s. s\<lparr>cf_relays := relayList_Set v (cf_relays s)\<rparr>) rs s)" for s
    by (rule flag_Parse_repeated [where n = "''relay''"])
      (simp_all add: flag_arg_def split_value_def clientCmd_def)
  moreover have "fold (\<lambda>v s. s\<lparr>cf_relays := relayList_Set v (cf_relays s)\<rparr>) rs s =
      (s :: client_flags)\<lparr>cf_relays := cf_relays s @ rs\<rparr>" for s
    by (induction rs arbitrary: s) (simp_all add: relayList_Set_def)
  ultimately show ?thesis by (simp add: relayd_main_def client_defaults_def)
qed

lemma load_state_queue:
  assumes "load_state env d w = (d', w')"
  shows "dm_queue d' = dm_queue d"
  using assms by (auto simp: load_state_def loadPeers_def loadGroups_def loadProfile_def split: prod.splits sum.splits option.splits)

text \<open>
  A message in the queue outlives the daemon: a daemon that is started on the database that another one
  left has the same rows in its queue.
\<close>

theorem restart_keeps_queue:
  assumes "RunDaemon env mk (NewOfflineQueue (Inr (dm_queue d0)) set_timeout create_table) open_transfers listen su fs w = (Some (Inr d), fs', w')"
    and "keeps_rows view set_timeout" "keeps_rows view create_table"
  shows "view (dm_queue d) = view (dm_queue d0)"
proof -
  obtain q kp token fs2 rs w3 d1 where q: "NewOfflineQueue (Inr (dm_queue d0)) set_timeout create_table = Inr q"
    and l: "load_state env (new_daemon su rs kp token q fs2) w3 = (d1, w')" and d: "d = d1\<lparr>transferStore := transferStore d\<rparr>"
    using assms(1) by (fastforce simp: RunDaemon_def Let_def split: option.splits sum.splits prod.splits)
  have "dm_queue d = dm_queue d1" by (subst d) simp
  also have "\<dots> = q" using load_state_queue [OF l] by (simp add: new_daemon_def)
  finally show ?thesis using NewOfflineQueue_rows [OF q assms(2,3)] by simp
qed

lemma runServer_empty: "runServer mk opened create_bucket = Some s \<Longrightarrow> board_of s = empty_board"
  by (auto simp: runServer_def Let_def board_of_def empty_board_def GetChunk_def NewChunkStore_def SetSequenceCounter_def
      split: option.splits sum.splits)

text \<open>
  (C4) The relay is a message board: whatever queries arrive at a relay that was just started and
  whenever its collector runs, its replies are those of a board that starts empty, puts every
  chunk it acknowledges, gives a message to the first recipient named, lists for a recipient
  exactly the messages it owns, answers a fetch with the chunk last put there or with
  no such name, and otherwise only refuses queries and drops messages.
\<close>

theorem relay_refines_board:
  assumes "runServer mk opened create_bucket = Some s" "relay_exec ops fqdn zn s tr s'"
  shows "board_exec (strings_TrimSuffix (fqdn zn) ''.'') empty_board
    (map (\<lambda>(e, r). (event_request fqdn zn e, r)) tr) (board_of s')"
  using relay_exec_simulated [OF assms(2)] runServer_empty [OF assms(1)] by simp

theorem relay_refines_board_witness:
  "\<exists>s resp (s' :: (bytes, bytes) fmap relay). runServer None (Inl ''locked'' :: string + (bytes, bytes) fmap) Inr = Some s
    \<and> Rcode resp = RcodeSuccess
    \<and> board_exec ''z'' empty_board
        [(Some (request_of plain_fqdn ''z'' (chunk_query plain_fqdn (NewChunk 1 0 1 [7]) ''z'' None)), Some resp)] (board_of s')"
proof -
  obtain s where s: "runServer None (Inl ''locked'' :: string + (bytes, bytes) fmap) Inr = Some s"
    "s = \<lparr>relay_store = NewChunkStore (60 * 1000000000) DefaultChunkTTL, limiter = NewIPRateLimiter 10 20\<rparr>"
    by (simp add: runServer_def NewSequenceCounter_def)
  have ok: "relay_ok mem_bolt s"
    using store_ok_New [of mem_bolt "60 * 1000000000" DefaultChunkTTL] s(2) by (simp add: relay_ok_def GetChunk_def NewChunkStore_def)
  have allow: "fst (IPRateLimiter_Allow (t_bucket sched0) (t_check sched0) (extractIP (UDPAddr ''1.2.3.4'' 53)) (limiter s))"
    by (simp add: s(2) sched0_def NewIPRateLimiter_def IPRateLimiter_Allow_def TokenBucket_Allow_def TokenBucket_AllowN_def NewTokenBucket_def Let_def)
  have c: "length (RecipientHash (NewChunk 1 0 1 [7])) \<in> {0, 32}" "TotalChunks (NewChunk 1 0 1 [7]) \<noteq> 0"
    by (simp_all add: NewChunk_def)
  obtain resp s' where h: "relay_handle mem_bolt plain_fqdn ''z'' sched0 (UDPAddr ''1.2.3.4'' 53)
      (chunk_query plain_fqdn (NewChunk 1 0 1 [7]) ''z'' None) s = Some (resp, s')" "Rcode resp = RcodeSuccess"
    using relay_accepts [OF mem.bolt_bucket_axioms ok fqdn_doc_plain zone_z c allow] by metis
  have "enumerates (owner_order sched0) (messageOwner (relay_store s))"
    by (simp add: s(2) sched0_def NewChunkStore_def enumerates_def)
  then have "relay_exec mem_bolt plain_fqdn ''z'' s
      [(RQuery sched0 (UDPAddr ''1.2.3.4'' 53) (chunk_query plain_fqdn (NewChunk 1 0 1 [7]) ''z'' None), Some resp)] s'"
    using h(1) by (blast intro: relay_exec.intros relay_step.intros)
  from relay_refines_board [OF s(1) this] show ?thesis
    using s(1) h(2) zone_clean [OF fqdn_doc_plain zone_z] by auto
qed

end
