(* ===== verification/Spec2Isabelle.thy ===== *)
theory Spec2Isabelle
  imports Programs
begin

text \<open>
  VRGram: verification of the Go core of a messenger that carries encrypted messages in DNS queries.

  \<^bold>\<open>The program.\<close> A client daemon (\<^verbatim>\<open>src/go/internal/client\<close>) serves a user interface over gRPC. It signs
  and encrypts messages (\<^verbatim>\<open>internal/crypto\<close>), cuts them into chunks that are DNS names
  (\<^verbatim>\<open>internal/encoding\<close>), and sends these to relays (\<^verbatim>\<open>internal/dns\<close>). A relay (\<^verbatim>\<open>internal/relay\<close>) limits the rate
  of each address (\<^verbatim>\<open>internal/ratelimit\<close>), stores the chunks and numbers the messages (\<^verbatim>\<open>internal/store\<close>), and
  answers queries that list and fetch them. Files go to the HTTP media server of a relay
  (\<^verbatim>\<open>internal/media\<close>). What cannot be sent waits in a queue on disk. The programs that start these parts are in
  \<^verbatim>\<open>cmd/relayd\<close>, \<^verbatim>\<open>cmd/gomobile\<close> and \<^verbatim>\<open>mobile\<close>.

  \<^bold>\<open>Conventions.\<close> A byte is an \<^verbatim>\<open>8 word\<close>, \<^verbatim>\<open>uint16\<close> and \<^verbatim>\<open>uint64\<close> are words of their width, and a Go string is a
  list of characters. A time is an integer number of nanoseconds. A Go map is a finite map, and the order of a
  \<^verbatim>\<open>range\<close> over it is chosen by the environment. An error is a value of a sum type; a panic is \<open>None\<close> or
  \<open>Panics\<close>, and a \<^verbatim>\<open>nil\<close> pointer in a map is the entry \<open>None\<close>. Clock readings, random bytes, outcomes of file
  accesses and the network are arguments: either a value per call or a world that is passed through. One call of a
  handler and one round of a loop is one step; the locks of the source make the sections of a step
  atomic, and interleavings of whole steps are arbitrary sequences.

  \<^bold>\<open>Go's library\<close> is modelled where the source uses it. \<^verbatim>\<open>Go_Prelude\<close>: strings, bytes, words, times, ranges over maps.
  \<^verbatim>\<open>Go_Codecs\<close>: base32hex, base64 and hexadecimal. \<^verbatim>\<open>Go_SHA256\<close>, \<^verbatim>\<open>Go_SHA512\<close>, \<^verbatim>\<open>Go_AES_GCM\<close>: executable hashes and the
  file cipher. \<^verbatim>\<open>Go_OS\<close>: files, random bytes and paths. \<^verbatim>\<open>Go_Net\<close>: addresses. \<^verbatim>\<open>Go_JSON\<close>: a parser and a printer
  with their round trip. \<^verbatim>\<open>Go_Flag\<close>: command line flags.

  \<^bold>\<open>Transport.\<close> \<^verbatim>\<open>Chunk_Encoding\<close> models \<^verbatim>\<open>encoding.go\<close>: chunking, reassembly, the label codec and the checksum, with
  both round trips as equivalences and the detection of corrupted chunks. \<^verbatim>\<open>Rate_Limit\<close> (\<^verbatim>\<open>ratelimit.go\<close>, exact
  rationals in place of floating point), \<^verbatim>\<open>Sequence_Counter\<close> (\<^verbatim>\<open>sequence.go\<close>) and \<^verbatim>\<open>Chunk_Store\<close> (\<^verbatim>\<open>store.go\<close>) are the
  parts of the relay, each with its invariant; the store also has a step relation for whole
  histories. \<^verbatim>\<open>DNS_Wire\<close> (\<^verbatim>\<open>dns.go\<close>) sends and queries one chunk over an abstract exchange. \<^verbatim>\<open>Relay_Server\<close>
  (\<^verbatim>\<open>server.go\<close>) is the whole handler, a lossy network in front of it, the media server, and the start of both. \<^verbatim>\<open>Relay_Refinement\<close>
  gives the relay its abstract specification, a message board, and the simulation.
  \<^verbatim>\<open>Client_Engine\<close> (\<^verbatim>\<open>dns_engine.go\<close>) polls, fetches and sends; the parallel send is a transition system whose
  events are the goroutines' results. \<^verbatim>\<open>Delivery\<close> composes client and relay: what was sent and is
  fetched is the message that was sent.

  \<^bold>\<open>Users.\<close> \<^verbatim>\<open>Crypto_Layer\<close> (\<^verbatim>\<open>crypto.go\<close>, \<^verbatim>\<open>group.go\<close>, \<^verbatim>\<open>invite.go\<close>) takes X25519, Ed25519, XChaCha20-Poly1305 and HKDF
  as parameters with their documented laws. \<^verbatim>\<open>Media_Transport\<close> (\<^verbatim>\<open>types.go\<close>, \<^verbatim>\<open>dns_transport.go\<close>) encrypts, uploads and
  downloads files. \<^verbatim>\<open>Offline_Queue\<close> (\<^verbatim>\<open>queue.go\<close>, \<^verbatim>\<open>detector.go\<close>) and \<^verbatim>\<open>Transfer_Store\<close> (\<^verbatim>\<open>transfer.go\<close>) are tables over
  abstract SQL statements; opening them again keeps their rows.

  \<^bold>\<open>The daemon\<close> (\<^verbatim>\<open>daemon.go\<close>, \<^verbatim>\<open>daemon_state.go\<close>, \<^verbatim>\<open>daemon_groups.go\<close>) is a record with one field per field of the
  source's struct. \<^verbatim>\<open>Daemon_State\<close>: the state, its files, the token, the settings. \<^verbatim>\<open>Daemon_Files\<close>: what is
  saved is loaded again. \<^verbatim>\<open>Daemon_Messages\<close>: sending, polling with all kinds of messages, invitations, profiles.
  \<^verbatim>\<open>Daemon_Groups\<close>: groups. \<^verbatim>\<open>Daemon_Media\<close>: transfers, and the clean-up as a filter. \<^verbatim>\<open>Daemon_Service\<close>: the calls by name,
  the interceptor, the loops, the start, and \<open>daemon_step\<close>, which gathers everything that changes a running
  daemon. \<^verbatim>\<open>Daemon_Invariant\<close>: every step keeps the state well formed and does not panic, with the one exception
  that the property names; calls without the token do nothing. \<^verbatim>\<open>Daemon_Restart\<close>: identity and token
  survive a restart. \<^verbatim>\<open>Programs\<close>: the command line, the bridges, and the relay as it is started.

  \<^bold>\<open>Two users.\<close> The last theories put two daemons together. \<^verbatim>\<open>Daemon_Delivery\<close>: a payload that one sends is read by the
  other. \<^verbatim>\<open>Media_Delivery\<close>: a file that one uploads and announces is written to the other's directory with its description.
  \<^verbatim>\<open>Daemon_Invitations\<close>: an invite code makes two daemons peers of each other. \<^verbatim>\<open>Group_Delivery\<close>: what happens to the messages of a
  group and to its key when a member is removed. \<^verbatim>\<open>Conversation\<close> joins \<^verbatim>\<open>Daemon_Delivery\<close> with \<^verbatim>\<open>Delivery\<close>: from the call of
  the sender, through the chunks, the lossy network and the store of the relay, to the text that the addressee reads.

  \<^bold>\<open>Interfaces.\<close> The codecs, the authenticated ciphers, the bucket of the counter, the chunk handler behind a DNS server,
  the two sides of the engine's exchange with a relay, the limiter, the sequence numbers, the message queue and the table
  of transfers are locales, interpreted on the model's definitions.

  \<^bold>\<open>Parameters and their laws.\<close> \<open>fqdn_doc\<close>: the DNS library's \<^verbatim>\<open>Fqdn\<close>. \<open>bolt_bucket\<close>: a bucket of the key-value store.
  \<open>queue_doc\<close>, \<open>transfer_doc\<close>: the SQL statements. \<open>crypto_doc\<close>: the cryptographic primitives. \<open>range_ok\<close>: a
  range visits each key once. Each has an instance in the theories (\<open>plain_fqdn\<close>, \<open>mem_bolt\<close>, \<open>mem_sql\<close>, \<open>mem_transfers\<close>,
  \<open>plain_crypto\<close>, \<open>quiet_env\<close>), with which the witnesses are built.

  \<^bold>\<open>Bounds and fuel.\<close> The JSON parser has fuel \<^verbatim>\<open>2 * length + 1\<close>; by \<open>json_fuel_enough\<close> more fuel changes no result, on any input, and the
  nesting limit of 10000 is the library's. All other functions terminate without fuel.
  The parallel send runs a given list of events; the property about it shows that from each reachable
  state some events lead to its end.

  \<^bold>\<open>Not modelled.\<close> Logging, the debug log and \<^verbatim>\<open>startup.log\<close>. Sleeps and jitter. Sockets, TLS-less HTTP framing, DNS packing
  and gRPC serialisation, which the libraries do; of the generated stubs only the table of methods and the passage
  through the interceptor are modelled. The outcomes of opening databases and listeners are passed in; closing them is left out. Floating point rounding of
  the limiter. Data races: a step is atomic. \<^verbatim>\<open>UnmarshalMediaMessage\<close> and \<^verbatim>\<open>NewDNSTransport\<close> with its adapter, which the
  program does not call. The memory of the strings that \<^verbatim>\<open>mobileso\<close> copies from Java. The Flutter application, which
  is a user interface over the gRPC service.
\<close>

end
